(* ===== verification/Prelude.thy ===== *)
theory Prelude
  imports Main "HOL-Library.Word" "HOL-Library.Finite_Map" "HOL-Library.Sublist"
    "HOL-Library.Char_ord" "HOL-Library.List_Lexorder"
begin

text \<open>
  The shared vocabulary of the development: machine integers with Rust's checked and
  saturating arithmetic, UUIDs, Rust strings (UTF-8 byte sequences) and Unix paths, the
  \<open>Result\<close> type with its \<open>?\<close> operator, the state-and-error type of a method that takes
  \<open>&mut self\<close> and returns a \<open>Result\<close>, and the view of a \<open>BTreeMap\<close> as a finite map that is
  iterated in key order.
\<close>

unbundle bit_operations_syntax

named_theorems result_simps
  \<open>equations that compute with results and with state-and-error steps\<close>

section \<open>Machine integers\<close>

type_synonym u16 = "16 word"
type_synonym u32 = "32 word"
type_synonym u64 = "64 word"

text \<open>\<open>checked_add\<close> is \<open>None\<close> exactly when the sum does not fit the width.\<close>

definition checked_add :: "'a::len word \<Rightarrow> 'a word \<Rightarrow> 'a word option" where
  "checked_add a b = (if a + b < a then None else Some (a + b))"

definition saturating_add :: "'a::len word \<Rightarrow> 'a word \<Rightarrow> 'a word" where
  "saturating_add a b = (if a + b < a then - 1 else a + b)"

definition saturating_sub :: "'a::len word \<Rightarrow> 'a word \<Rightarrow> 'a word" where
  "saturating_sub a b = (if a < b then 0 else a - b)"

lemma checked_add_unat:
  fixes a b :: "'a::len word"
  shows "checked_add a b = (if unat a + unat b < 2 ^ LENGTH('a) then Some (a + b) else None)"
  unfolding checked_add_def by (metis no_olen_add_nat not_less)

lemma checked_add_SomeD:
  fixes a b c :: "'a::len word"
  assumes "checked_add a b = Some c"
  shows "c = a + b" and "unat c = unat a + unat b"
  using assms by (auto simp: checked_add_unat unat_word_ariths split: if_splits)

lemma checked_add_le: "checked_add a b = Some c \<Longrightarrow> a \<le> c"
  by (auto simp: checked_add_def split: if_splits)

lemma checked_add_1_less: "checked_add a 1 = Some c \<Longrightarrow> a < c"
  using checked_add_SomeD(2)[of a 1 c] by (simp add: word_less_nat_alt)

lemma checked_add_1_eq: "checked_add a 1 = Some c \<Longrightarrow> c = a + 1"
  by (rule checked_add_SomeD)

lemma checked_add_1_pos: "checked_add a 1 = Some c \<Longrightarrow> c \<noteq> 0"
  using checked_add_1_less[of a c] by auto

lemma checked_add_inj:
  assumes "checked_add a c = Some x" and "checked_add b c = Some x"
  shows "a = b"
proof -
  have "unat a = unat b"
    using assms[THEN checked_add_SomeD(2)] by simp
  then show ?thesis by (rule unsigned_word_eqI)
qed

lemma unat_saturating_sub: "unat (saturating_sub a b) = unat a - unat b"
  by (auto simp: saturating_sub_def unat_sub word_less_nat_alt word_le_nat_alt not_less)

lemma saturating_sub_mono: "a \<le> b \<Longrightarrow> saturating_sub a c \<le> saturating_sub b c"
  by (simp add: word_le_nat_alt unat_saturating_sub diff_le_mono)

lemma saturating_sub_le: "saturating_sub a b \<le> a"
  by (simp add: word_le_nat_alt unat_saturating_sub)

lemma le_saturating_add: "a \<le> saturating_add a b"
  by (simp add: saturating_add_def not_less)

lemma unat_saturating_add_le:
  fixes a b :: "'a::len word"
  shows "unat (saturating_add a b) \<le> unat a + unat b"
proof (cases "a + b < a")
  case True
  then have "2 ^ LENGTH('a) \<le> unat a + unat b"
    by (metis no_olen_add_nat not_less)
  moreover have "unat (saturating_add a b) < 2 ^ LENGTH('a)"
    by (rule unsigned_less)
  ultimately show ?thesis by linarith
next
  case False
  then show ?thesis
    by (simp add: saturating_add_def unat_word_ariths)
qed

text \<open>Lengths and totals are \<open>usize\<close>; a \<open>checked_add\<close> of two of them fails past 64 bits.\<close>

definition usize_limit :: int where
  "usize_limit = 18446744073709551616"

definition usize_checked_add :: "int \<Rightarrow> int \<Rightarrow> int option" where
  "usize_checked_add a b = (if a + b < usize_limit then Some (a + b) else None)"

definition usize_checked_sub :: "int \<Rightarrow> int \<Rightarrow> int option" where
  "usize_checked_sub a b = (if b \<le> a then Some (a - b) else None)"

definition vec_len :: "'a list \<Rightarrow> int" where
  "vec_len xs = int (length xs)"

section \<open>Identifiers\<close>

text \<open>
  A UUID is 128 bits; the order of \<open>Uuid\<close> compares its bytes from the most significant
  one, which is the order of the word. \<open>DeviceId\<close> wraps a UUID and inherits its order.
\<close>

type_synonym uuid = "128 word"

definition uuid_nil :: uuid where
  "uuid_nil = 0"

definition uuid_is_nil :: "uuid \<Rightarrow> bool" where
  "uuid_is_nil u \<longleftrightarrow> u = uuid_nil"

datatype device_id = DeviceId (device_uuid: uuid)

instantiation device_id :: linorder
begin

definition less_eq_device_id :: "device_id \<Rightarrow> device_id \<Rightarrow> bool" where
  "a \<le> b \<longleftrightarrow> device_uuid a \<le> device_uuid b"

definition less_device_id :: "device_id \<Rightarrow> device_id \<Rightarrow> bool" where
  "a < b \<longleftrightarrow> device_uuid a < device_uuid b"

instance
  by standard (auto simp: less_eq_device_id_def less_device_id_def intro: device_id.expand)

end

definition device_nil :: device_id where
  "device_nil = DeviceId uuid_nil"

section \<open>Strings and bytes\<close>

text \<open>
  A Rust \<open>str\<close> is a UTF-8 byte sequence and \<open>len\<close> counts its bytes, so strings and byte
  buffers are both lists of 8-bit characters. \<open>chars\<close> decodes the scalar values.
\<close>

type_synonym bytes = "char list"

definition byte_val :: "char \<Rightarrow> int" where
  "byte_val c = of_char c"

text \<open>Continuation bytes carry six bits.\<close>

definition cont_bits :: "char \<Rightarrow> int" where
  "cont_bits c = byte_val c mod 64"

fun utf8_chars :: "string \<Rightarrow> int list" where
  "utf8_chars [] = []"
| "utf8_chars [a] = [byte_val a]"
| "utf8_chars [a, b] =
     (if byte_val a < 128 then byte_val a # utf8_chars [b]
      else [(byte_val a mod 32) * 64 + cont_bits b])"
| "utf8_chars [a, b, c] =
     (if byte_val a < 128 then byte_val a # utf8_chars [b, c]
      else if byte_val a < 224 then ((byte_val a mod 32) * 64 + cont_bits b) # utf8_chars [c]
      else [(byte_val a mod 16) * 4096 + cont_bits b * 64 + cont_bits c])"
| "utf8_chars (a # b # c # d # cs) =
     (if byte_val a < 128 then byte_val a # utf8_chars (b # c # d # cs)
      else if byte_val a < 224
        then ((byte_val a mod 32) * 64 + cont_bits b) # utf8_chars (c # d # cs)
      else if byte_val a < 240
        then ((byte_val a mod 16) * 4096 + cont_bits b * 64 + cont_bits c) # utf8_chars (d # cs)
      else ((byte_val a mod 8) * 262144 + cont_bits b * 4096 + cont_bits c * 64 + cont_bits d)
             # utf8_chars cs)"

text \<open>\<open>str::from_utf8\<close>: no overlong forms, no surrogates, nothing above U+10FFFF.\<close>

definition is_cont :: "char \<Rightarrow> bool" where
  "is_cont c \<longleftrightarrow> 128 \<le> byte_val c \<and> byte_val c \<le> 191"

definition second_byte_ok :: "char \<Rightarrow> char \<Rightarrow> bool" where
  "second_byte_ok a b \<longleftrightarrow>
     is_cont b
     \<and> (byte_val a = 224 \<longrightarrow> 160 \<le> byte_val b)
     \<and> (byte_val a = 237 \<longrightarrow> byte_val b \<le> 159)
     \<and> (byte_val a = 240 \<longrightarrow> 144 \<le> byte_val b)
     \<and> (byte_val a = 244 \<longrightarrow> byte_val b \<le> 143)"

fun utf8_ok :: "bytes \<Rightarrow> bool" where
  "utf8_ok [] = True"
| "utf8_ok (a # cs) =
     (if byte_val a < 128 then utf8_ok cs
      else if 194 \<le> byte_val a \<and> byte_val a \<le> 223
        then (case cs of b # ds \<Rightarrow> is_cont b \<and> utf8_ok ds | _ \<Rightarrow> False)
      else if 224 \<le> byte_val a \<and> byte_val a \<le> 239
        then (case cs of b # c # ds \<Rightarrow> second_byte_ok a b \<and> is_cont c \<and> utf8_ok ds | _ \<Rightarrow> False)
      else if 240 \<le> byte_val a \<and> byte_val a \<le> 244
        then (case cs of b # c # d # ds \<Rightarrow>
                second_byte_ok a b \<and> is_cont c \<and> is_cont d \<and> utf8_ok ds | _ \<Rightarrow> False)
      else False)"

text \<open>\<open>char::is_control\<close> is the Unicode category Cc, \<open>char::is_whitespace\<close> is White_Space.\<close>

definition char_is_control :: "int \<Rightarrow> bool" where
  "char_is_control c \<longleftrightarrow> c < 32 \<or> (127 \<le> c \<and> c \<le> 159)"

definition char_is_whitespace :: "int \<Rightarrow> bool" where
  "char_is_whitespace c \<longleftrightarrow>
     (9 \<le> c \<and> c \<le> 13) \<or> c = 32 \<or> c = 133 \<or> c = 160 \<or> c = 5760 \<or> (8192 \<le> c \<and> c \<le> 8202)
     \<or> c = 8232 \<or> c = 8233 \<or> c = 8239 \<or> c = 8287 \<or> c = 12288"

definition str_has_control :: "string \<Rightarrow> bool" where
  "str_has_control s \<longleftrightarrow> list_ex char_is_control (utf8_chars s)"

text \<open>\<open>s.trim().is_empty()\<close>.\<close>

definition str_blank :: "string \<Rightarrow> bool" where
  "str_blank s \<longleftrightarrow> list_all char_is_whitespace (utf8_chars s)"

definition is_ascii_digit :: "char \<Rightarrow> bool" where
  "is_ascii_digit c \<longleftrightarrow> 48 \<le> byte_val c \<and> byte_val c \<le> 57"

definition is_ascii_uppercase :: "char \<Rightarrow> bool" where
  "is_ascii_uppercase c \<longleftrightarrow> 65 \<le> byte_val c \<and> byte_val c \<le> 90"

definition is_ascii_hexdigit :: "char \<Rightarrow> bool" where
  "is_ascii_hexdigit c \<longleftrightarrow>
     is_ascii_digit c \<or> (65 \<le> byte_val c \<and> byte_val c \<le> 70) \<or> (97 \<le> byte_val c \<and> byte_val c \<le> 102)"

text \<open>\<open>u64::to_be_bytes\<close>.\<close>

definition u64_be_bytes :: "u64 \<Rightarrow> bytes" where
  "u64_be_bytes w = map (\<lambda>i. char_of (uint (drop_bit (8 * i) w) mod 256)) (rev [0..<8])"

lemma length_u64_be_bytes [simp]: "length (u64_be_bytes w) = 8"
  by (simp add: u64_be_bytes_def)

lemma u64_be_bytes_inj:
  assumes "u64_be_bytes v = u64_be_bytes w"
  shows "v = w"
proof (rule bit_word_eqI)
  fix n assume "n < LENGTH(64)"
  then have n: "n div 8 < 8" by simp
  have byte: "uint (drop_bit (8 * i) v) mod 256 = uint (drop_bit (8 * i) w) mod 256"
    if "i < 8" for i
  proof -
    have "(char_of (uint (drop_bit (8 * i) v) mod 256) :: char)
        = char_of (uint (drop_bit (8 * i) w) mod 256)"
      using assms that by (auto simp: u64_be_bytes_def)
    then have "(of_char (char_of (uint (drop_bit (8 * i) v) mod 256)) :: int)
        = of_char (char_of (uint (drop_bit (8 * i) w) mod 256))"
      by simp
    then show ?thesis by simp
  qed
  have bits: "bit u n = bit (uint (drop_bit (8 * (n div 8)) u) mod 256) (n mod 8)" for u :: u64
  proof -
    have "uint (drop_bit (8 * (n div 8)) u) mod 256
        = take_bit 8 (uint (drop_bit (8 * (n div 8)) u))"
      by (simp add: take_bit_eq_mod)
    moreover have "n mod 8 < 8" by simp
    then have "n mod 8 < 64" by linarith
    ultimately show ?thesis
      by (simp add: bit_take_bit_iff bit_uint_iff bit_drop_bit_eq)
  qed
  show "bit v n = bit w n"
    unfolding bits by (simp only: byte[OF n])
qed

text \<open>\<open>split\<close> at a separator: one more piece than there are separators.\<close>

fun split_at :: "char \<Rightarrow> string \<Rightarrow> string list" where
  "split_at sep [] = [[]]"
| "split_at sep (c # cs) =
     (if c = sep then [] # split_at sep cs
      else (case split_at sep cs of [] \<Rightarrow> [[c]] | p # ps \<Rightarrow> (c # p) # ps))"

text \<open>\<open>strip_prefix\<close>.\<close>

definition str_strip_prefix :: "string \<Rightarrow> string \<Rightarrow> string option" where
  "str_strip_prefix p s = (if prefix p s then Some (drop (length p) s) else None)"

section \<open>Unix paths\<close>

text \<open>
  A path is its bytes; \<open>std::path\<close> compares and prefixes paths by components, which drop
  repeated separators and every \<open>.\<close> but a leading one.
\<close>

type_synonym path = bytes

datatype path_component = RootDir | CurDir | ParentDir | Normal string

fun segment_components :: "string list \<Rightarrow> path_component list" where
  "segment_components [] = []"
| "segment_components (p # ps) =
     (if p = [] \<or> p = ''.'' then segment_components ps
      else (if p = ''..'' then ParentDir else Normal p) # segment_components ps)"

definition path_is_absolute :: "path \<Rightarrow> bool" where
  "path_is_absolute p \<longleftrightarrow> prefix ''/'' p"

definition path_components :: "path \<Rightarrow> path_component list" where
  "path_components p =
     (let segments = split_at (CHR ''/'') p in
      (if path_is_absolute p then [RootDir]
       else if hd segments = ''.'' then [CurDir] else []) @ segment_components segments)"

definition path_eq :: "path \<Rightarrow> path \<Rightarrow> bool" where
  "path_eq p q \<longleftrightarrow> path_components p = path_components q"

definition path_starts_with :: "path \<Rightarrow> path \<Rightarrow> bool" where
  "path_starts_with p base \<longleftrightarrow> prefix (path_components base) (path_components p)"

text \<open>\<open>Path::parent\<close> is \<open>None\<close> for the empty path and for the root.\<close>

definition path_has_parent :: "path \<Rightarrow> bool" where
  "path_has_parent p \<longleftrightarrow> path_components p \<noteq> [] \<and> last (path_components p) \<noteq> RootDir"

lemma path_eq_refl [simp]: "path_eq p p"
  by (simp add: path_eq_def)

lemma path_eq_sym: "path_eq p q \<longleftrightarrow> path_eq q p"
  by (auto simp: path_eq_def)

lemma path_eq_trans: "path_eq p q \<Longrightarrow> path_eq q r \<Longrightarrow> path_eq p r"
  by (simp add: path_eq_def)

lemma path_eq_starts_with: "path_eq p q \<Longrightarrow> path_starts_with p q"
  by (simp add: path_eq_def path_starts_with_def)

section \<open>Results\<close>

text \<open>
  \<open>Inl\<close> is \<open>Err\<close> and \<open>Inr\<close> is \<open>Ok\<close>. \<open>rbind\<close> is the \<open>?\<close> operator followed by the rest of
  the body; \<open>fail_if\<close> is a guard with an early return.
\<close>

definition rbind :: "'e + 'a \<Rightarrow> ('a \<Rightarrow> 'e + 'b) \<Rightarrow> 'e + 'b" where
  "rbind r f = (case r of Inl e \<Rightarrow> Inl e | Inr x \<Rightarrow> f x)"

definition fail_if :: "bool \<Rightarrow> 'e \<Rightarrow> 'e + unit" where
  "fail_if bad e = (if bad then Inl e else Inr ())"

definition ok_or :: "'a option \<Rightarrow> 'e \<Rightarrow> 'e + 'a" where
  "ok_or x e = (case x of None \<Rightarrow> Inl e | Some v \<Rightarrow> Inr v)"

definition map_err :: "('e \<Rightarrow> 'f) \<Rightarrow> 'e + 'a \<Rightarrow> 'f + 'a" where
  "map_err f r = (case r of Inl e \<Rightarrow> Inl (f e) | Inr x \<Rightarrow> Inr x)"

definition is_ok :: "'e + 'a \<Rightarrow> bool" where
  "is_ok r = (case r of Inl _ \<Rightarrow> False | Inr _ \<Rightarrow> True)"

text \<open>A \<open>for\<close> loop with \<open>?\<close> in its body, threading the loop's local state.\<close>

fun rfold :: "('a \<Rightarrow> 's \<Rightarrow> 'e + 's) \<Rightarrow> 'a list \<Rightarrow> 's \<Rightarrow> 'e + 's" where
  "rfold f [] s = Inr s"
| "rfold f (x # xs) s = rbind (f x s) (rfold f xs)"

text \<open>A \<open>for\<close> loop that only checks.\<close>

fun rcheck :: "('a \<Rightarrow> 'e + unit) \<Rightarrow> 'a list \<Rightarrow> 'e + unit" where
  "rcheck f [] = Inr ()"
| "rcheck f (x # xs) = rbind (f x) (\<lambda>_. rcheck f xs)"

text \<open>A loop that keeps the elements a fallible test accepts.\<close>

fun rfilter :: "('a \<Rightarrow> 'e + bool) \<Rightarrow> 'a list \<Rightarrow> 'e + 'a list" where
  "rfilter f [] = Inr []"
| "rfilter f (x # xs) =
     rbind (f x) (\<lambda>keep. rbind (rfilter f xs) (\<lambda>ys. Inr (if keep then x # ys else ys)))"

text \<open>\<open>collect\<close> into a \<open>Result\<close> of a vector.\<close>

fun rmap :: "('a \<Rightarrow> 'e + 'b) \<Rightarrow> 'a list \<Rightarrow> 'e + 'b list" where
  "rmap f [] = Inr []"
| "rmap f (x # xs) = rbind (f x) (\<lambda>y. rbind (rmap f xs) (\<lambda>ys. Inr (y # ys)))"

lemma rbind_simps [simp, result_simps]:
  "rbind (Inl e) f = Inl e" "rbind (Inr x) f = f x"
  by (simp_all add: rbind_def)

lemma rbind_Inr_iff [simp, result_simps]:
  "rbind r f = Inr y \<longleftrightarrow> (\<exists>x. r = Inr x \<and> f x = Inr y)"
  by (cases r) auto

lemma rbindE:
  assumes "rbind r f = Inr y" obtains x where "r = Inr x" "f x = Inr y"
  using assms by auto

lemma fail_if_simps [simp, result_simps]:
  "fail_if True e = Inl e" "fail_if False e = Inr ()"
  "fail_if b e = Inr u \<longleftrightarrow> \<not> b" "fail_if b e = Inl e' \<longleftrightarrow> b \<and> e' = e"
  by (auto simp: fail_if_def)

lemma rbind_fail_if [result_simps]:
  "rbind (fail_if b e) f = (if b then Inl e else f ())"
  by (simp add: fail_if_def)

lemma rguardE:
  assumes "rbind (fail_if P e) f = Inr y" obtains "\<not> P" "f () = Inr y"
  using assms by (auto simp: fail_if_def split: if_splits)

lemma ok_or_simps [simp, result_simps]:
  "ok_or None e = Inl e" "ok_or (Some x) e = Inr x"
  "ok_or v e = Inr y \<longleftrightarrow> v = Some y" "ok_or v e = Inl e' \<longleftrightarrow> v = None \<and> e' = e"
  by (auto simp: ok_or_def split: option.splits)

lemma map_err_simps [simp, result_simps]:
  "map_err f (Inl e) = Inl (f e)" "map_err f (Inr x) = Inr x"
  "map_err f r = Inr y \<longleftrightarrow> r = Inr y"
  by (auto simp: map_err_def split: sum.splits)

lemma is_ok_simps [simp, result_simps]: "is_ok (Inl e) = False" "is_ok (Inr x) = True"
  by (simp_all add: is_ok_def)

lemma is_ok_iff: "is_ok r \<longleftrightarrow> (\<exists>x. r = Inr x)"
  by (cases r) auto

lemma rcheck_Inr_iff [simp, result_simps]:
  "rcheck f xs = Inr u \<longleftrightarrow> (\<forall>x \<in> set xs. f x = Inr ())"
  by (induction xs) auto

lemma rfilter_InrD:
  assumes "rfilter f xs = Inr ys"
  shows "ys = filter (\<lambda>x. f x = Inr True) xs"
  using assms
proof (induction xs arbitrary: ys)
  case (Cons x xs)
  then obtain keep zs where "f x = Inr keep" "rfilter f xs = Inr zs"
    and "ys = (if keep then x # zs else zs)"
    by auto
  with Cons.IH show ?case by simp
qed simp

lemma rmap_InrD:
  assumes "rmap f xs = Inr ys"
  shows "list_all2 (\<lambda>x y. f x = Inr y) xs ys"
  using assms
proof (induction xs arbitrary: ys)
  case (Cons x xs)
  then obtain y zs where "f x = Inr y" "rmap f xs = Inr zs" "ys = y # zs"
    by auto
  with Cons.IH show ?case by simp
qed simp

lemma rfold_append: "rfold f (xs @ ys) s = rbind (rfold f xs s) (rfold f ys)"
  by (induction xs arbitrary: s) (auto simp: rbind_def split: sum.splits)

text \<open>An invariant of a loop with early return.\<close>

lemma rfold_invariant:
  assumes "rfold f xs s = Inr t" and "P s"
    and "\<And>x s' t'. x \<in> set xs \<Longrightarrow> f x s' = Inr t' \<Longrightarrow> P s' \<Longrightarrow> P t'"
  shows "P t"
  using assms
proof (induction xs arbitrary: s)
  case (Cons x xs)
  then obtain s' where "f x s = Inr s'" and "rfold f xs s' = Inr t"
    by auto
  then show ?case
    using Cons.IH[of s'] Cons.prems(2,3) by auto
qed simp

section \<open>Searching a vector\<close>

fun position :: "('a \<Rightarrow> bool) \<Rightarrow> 'a list \<Rightarrow> nat option" where
  "position P [] = None"
| "position P (x # xs) = (if P x then Some 0 else map_option Suc (position P xs))"

fun find_map :: "('a \<Rightarrow> 'b option) \<Rightarrow> 'a list \<Rightarrow> 'b option" where
  "find_map f [] = None"
| "find_map f (x # xs) = (case f x of None \<Rightarrow> find_map f xs | Some y \<Rightarrow> Some y)"

definition option_list :: "'a option list \<Rightarrow> 'a list" where
  "option_list xs = concat (map (\<lambda>x. case x of None \<Rightarrow> [] | Some v \<Rightarrow> [v]) xs)"

definition opt_any :: "('a \<Rightarrow> bool) \<Rightarrow> 'a option \<Rightarrow> bool" where
  "opt_any P x = (case x of None \<Rightarrow> False | Some v \<Rightarrow> P v)"

lemma opt_any_simps [simp]: "opt_any P None = False" "opt_any P (Some v) = P v"
  by (simp_all add: opt_any_def)

lemma opt_any_iff: "opt_any P x \<longleftrightarrow> (\<exists>v. x = Some v \<and> P v)"
  by (cases x) auto

lemma position_SomeD: "position P xs = Some i \<Longrightarrow> i < length xs \<and> P (xs ! i)"
  by (induction xs arbitrary: i) (auto split: if_splits)

lemma position_None_iff: "position P xs = None \<longleftrightarrow> (\<forall>x \<in> set xs. \<not> P x)"
  by (induction xs) auto

section \<open>Methods on \<open>&mut self\<close> that return a result\<close>

text \<open>
  Such a method may have changed the state before it returns an error, so a step always
  returns the state it leaves behind.
\<close>

type_synonym ('s, 'e, 'a) step = "'s \<Rightarrow> ('e + 'a) \<times> 's"

definition sret :: "'a \<Rightarrow> ('s, 'e, 'a) step" where
  "sret x = (\<lambda>s. (Inr x, s))"

definition sfail :: "'e \<Rightarrow> ('s, 'e, 'a) step" where
  "sfail e = (\<lambda>s. (Inl e, s))"

definition slift :: "'e + 'a \<Rightarrow> ('s, 'e, 'a) step" where
  "slift r = (\<lambda>s. (r, s))"

definition sget :: "('s \<Rightarrow> 'a) \<Rightarrow> ('s, 'e, 'a) step" where
  "sget f = (\<lambda>s. (Inr (f s), s))"

definition smodify :: "('s \<Rightarrow> 's) \<Rightarrow> ('s, 'e, unit) step" where
  "smodify f s = (Inr (), f s)"

definition sbind :: "('s, 'e, 'a) step \<Rightarrow> ('a \<Rightarrow> ('s, 'e, 'b) step) \<Rightarrow> ('s, 'e, 'b) step" where
  "sbind m f = (\<lambda>s. case m s of (Inl e, t) \<Rightarrow> (Inl e, t) | (Inr x, t) \<Rightarrow> f x t)"

text \<open>\<open>son_err\<close> is the clean-up of a value that is dropped on an early return.\<close>

definition son_err :: "('s, 'e, 'a) step \<Rightarrow> ('s \<Rightarrow> 's) \<Rightarrow> ('s, 'e, 'a) step" where
  "son_err m f = (\<lambda>s. case m s of (Inl e, t) \<Rightarrow> (Inl e, f t) | (Inr x, t) \<Rightarrow> (Inr x, t))"

text \<open>\<open>swp m Q s\<close>: started in \<open>s\<close>, the step \<open>m\<close> ends with a result and a state in \<open>Q\<close>.\<close>

definition swp :: "('s, 'e, 'a) step \<Rightarrow> ('e + 'a \<Rightarrow> 's \<Rightarrow> bool) \<Rightarrow> 's \<Rightarrow> bool" where
  "swp m Q s = (case m s of (r, t) \<Rightarrow> Q r t)"

lemma swp_simps [simp, result_simps]:
  "swp (sret x) Q s = Q (Inr x) s"
  "swp (sfail e) Q s = Q (Inl e) s"
  "swp (slift r) Q s = Q r s"
  "swp (sget g) Q s = Q (Inr (g s)) s"
  by (simp_all add: swp_def sret_def sfail_def slift_def sget_def)

lemma swp_smodify [simp, result_simps]: "swp (smodify f) Q s = Q (Inr ()) (f s)"
  by (simp add: swp_def smodify_def)

lemma swp_son_err [simp, result_simps]:
  "swp (son_err m f) Q s =
     swp m (\<lambda>r t. case r of Inl e \<Rightarrow> Q (Inl e) (f t) | Inr x \<Rightarrow> Q (Inr x) t) s"
  by (auto simp: swp_def son_err_def split: prod.splits sum.splits)

lemma swp_sbind:
  "swp (sbind m f) Q s =
     swp m (\<lambda>r t. case r of Inl e \<Rightarrow> Q (Inl e) t | Inr x \<Rightarrow> swp (f x) Q t) s"
  by (auto simp: swp_def sbind_def split: prod.splits sum.splits)

text \<open>One step of a body at a time: every early return leaves a goal of its own.\<close>

lemma swp_bind_slift:
  assumes "\<And>e. r = Inl e \<Longrightarrow> Q (Inl e) s" and "\<And>x. r = Inr x \<Longrightarrow> swp (f x) Q s"
  shows "swp (sbind (slift r) f) Q s"
  using assms by (cases r) (simp_all add: swp_sbind)

lemma swp_bind_sget: "swp (f (g s)) Q s \<Longrightarrow> swp (sbind (sget g) f) Q s"
  by (simp add: swp_sbind)

lemma swp_bind_smodify: "swp (f ()) Q (h s) \<Longrightarrow> swp (sbind (smodify h) f) Q s"
  by (simp add: swp_sbind)

lemmas swp_intros = swp_bind_slift swp_bind_sget swp_bind_smodify

lemma swp_bind_step:
  assumes "swp m P s"
    and "\<And>e t. P (Inl e) t \<Longrightarrow> Q (Inl e) t"
    and "\<And>x t. P (Inr x) t \<Longrightarrow> swp (f x) Q t"
  shows "swp (sbind m f) Q s"
proof -
  obtain r t where m: "m s = (r, t)" by (cases "m s")
  with assms(1) have "P r t" by (simp add: swp_def)
  with assms(2,3) m show ?thesis
    by (cases r) (simp_all add: swp_def sbind_def)
qed

lemma swpI: "(\<And>r t. m s = (r, t) \<Longrightarrow> Q r t) \<Longrightarrow> swp m Q s"
  by (simp add: swp_def split: prod.splits)

lemma swpD: "swp m Q s \<Longrightarrow> m s = (r, t) \<Longrightarrow> Q r t"
  by (simp add: swp_def)

lemma swp_mono:
  assumes "swp m P s" and "\<And>r t. m s = (r, t) \<Longrightarrow> P r t \<Longrightarrow> Q r t"
  shows "swp m Q s"
  using assms by (simp add: swp_def split: prod.splits)

lemma swp_conj: "swp m (\<lambda>r t. P r t \<and> Q r t) s \<longleftrightarrow> swp m P s \<and> swp m Q s"
  by (simp add: swp_def split: prod.splits)

lemma sbind_steps:
  "sbind (sret x) f = f x" "sbind (sfail e) f = sfail e"
  "sbind (slift (Inr x)) f = f x" "sbind (slift (Inl e)) f = sfail e"
  "sbind (sget g) f s = f (g s) s"
  by (simp_all add: sbind_def sret_def sfail_def slift_def sget_def fun_eq_iff)

lemma step_simps:
  "sret x s = (Inr x, s)" "slift r s = (r, s)" "sget g s = (Inr (g s), s)"
  by (simp_all add: sret_def slift_def sget_def)

text \<open>A loop whose body is a step and may return early with an error.\<close>

fun sfold :: "('a \<Rightarrow> 'b \<Rightarrow> ('s, 'e, 'b) step) \<Rightarrow> 'a list \<Rightarrow> 'b \<Rightarrow> ('s, 'e, 'b) step" where
  "sfold f [] b = sret b"
| "sfold f (x # xs) b = sbind (f x b) (sfold f xs)"

lemma swp_sfold:
  assumes "\<And>x b s. x \<in> set xs \<Longrightarrow> I b s
      \<Longrightarrow> swp (f x b) (\<lambda>r t. case r of Inl e \<Rightarrow> Q (Inl e) t | Inr b' \<Rightarrow> I b' t) s"
    and "\<And>b s. I b s \<Longrightarrow> Q (Inr b) s" and "I b s"
  shows "swp (sfold f xs b) Q s"
  using assms(1,3)
proof (induction xs arbitrary: b s)
  case Nil
  then show ?case by (simp add: assms(2))
next
  case (Cons x xs)
  have "swp (f x b) (\<lambda>r t. case r of Inl e \<Rightarrow> Q (Inl e) t | Inr b' \<Rightarrow> I b' t) s"
    using Cons.prems by simp
  then have "swp (f x b) (\<lambda>r t. case r of Inl e \<Rightarrow> Q (Inl e) t
      | Inr b' \<Rightarrow> swp (sfold f xs b') Q t) s"
    by (rule swp_mono) (auto split: sum.splits intro!: Cons.IH Cons.prems(1))
  then show ?case by (simp add: swp_sbind)
qed

text \<open>
  A step that starts where the view of the state is \<open>v\<close> ends, whether it returns or fails, at a
  view related to \<open>v\<close>.
\<close>

definition keeps_at :: "('s \<Rightarrow> 'v) \<Rightarrow> ('v \<Rightarrow> 'v \<Rightarrow> bool) \<Rightarrow> 'v \<Rightarrow> ('s, 'e, 'a) step \<Rightarrow> bool" where
  "keeps_at view rel v m \<longleftrightarrow> (\<forall>s. view s = v \<longrightarrow> swp m (\<lambda>_ t. rel v (view t)) s)"

definition keeps :: "('s \<Rightarrow> 'v) \<Rightarrow> ('v \<Rightarrow> 'v \<Rightarrow> bool) \<Rightarrow> ('s, 'e, 'a) step \<Rightarrow> bool" where
  "keeps view rel m \<longleftrightarrow> (\<forall>v. keeps_at view rel v m)"

lemma keepsI: "(\<And>v. keeps_at view rel v m) \<Longrightarrow> keeps view rel m"
  by (simp add: keeps_def)

lemma keepsD: "keeps view rel m \<Longrightarrow> keeps_at view rel v m"
  by (simp add: keeps_def)

lemma keeps_run: "keeps view rel m \<Longrightarrow> m s = (r, t) \<Longrightarrow> rel (view s) (view t)"
  unfolding keeps_def keeps_at_def by (blast dest: swpD)

text \<open>A step that leaves the view alone.\<close>

abbreviation frames :: "('s \<Rightarrow> 'v) \<Rightarrow> ('s, 'e, 'a) step \<Rightarrow> bool" where
  "frames view \<equiv> keeps view (=)"

text \<open>
  The contract of a relation along which the view of a state may move: bodies are composed of
  steps that move along it, and each early return is covered by the rules.
\<close>

locale tracked =
  fixes view :: "'s \<Rightarrow> 'v" and rel :: "'v \<Rightarrow> 'v \<Rightarrow> bool"
  assumes rel_refl: "rel v v"
    and rel_trans: "rel u v \<Longrightarrow> rel v w \<Longrightarrow> rel u w"
begin

lemma keeps_sret: "keeps_at view rel v (sret x)"
  by (simp add: keeps_at_def rel_refl)

lemma keeps_sfail: "keeps_at view rel v (sfail e)"
  by (simp add: keeps_at_def rel_refl)

lemma keeps_slift: "keeps_at view rel v (slift r)"
  by (simp add: keeps_at_def rel_refl)

lemma keeps_sget: "keeps_at view rel v (sget g)"
  by (simp add: keeps_at_def rel_refl)

lemma keeps_frame: "frames view m \<Longrightarrow> keeps_at view rel v m"
  unfolding keeps_def keeps_at_def
proof (intro allI impI)
  fix s assume "\<forall>v s. view s = v \<longrightarrow> swp m (\<lambda>_ t. v = view t) s" "view s = v"
  then have "swp m (\<lambda>_ t. v = view t) s" by blast
  then show "swp m (\<lambda>_ t. rel v (view t)) s" by (rule swp_mono) (simp add: rel_refl)
qed

lemma keeps_bind_slift:
  "(\<And>x. r = Inr x \<Longrightarrow> keeps_at view rel v (f x)) \<Longrightarrow> keeps_at view rel v (sbind (slift r) f)"
  by (auto simp: keeps_at_def rel_refl intro!: swp_bind_slift)

lemma keeps_bind_sget:
  "(\<And>s. view s = v \<Longrightarrow> keeps_at view rel v (f (g s))) \<Longrightarrow> keeps_at view rel v (sbind (sget g) f)"
  by (auto simp: keeps_at_def intro!: swp_bind_sget)

lemma keeps_bind_frame:
  assumes "frames view m" and "\<And>x. keeps_at view rel v (f x)"
  shows "keeps_at view rel v (sbind m f)"
  using assms unfolding keeps_at_def keeps_def
  by (auto simp: rel_refl intro!: swp_bind_step[where P = "\<lambda>_ t. v = view t"])

lemma keeps_bind:
  assumes "keeps_at view rel v m" and "\<And>x. keeps view rel (f x)"
  shows "keeps_at view rel v (sbind m f)"
  unfolding keeps_at_def
proof (intro allI impI)
  fix s assume "view s = v"
  with assms(1) have "swp m (\<lambda>_ t. rel v (view t)) s" by (simp add: keeps_at_def)
  then show "swp (sbind m f) (\<lambda>_ t. rel v (view t)) s"
  proof (rule swp_bind_step)
    fix x t assume "rel v (view t)"
    moreover have "swp (f x) (\<lambda>_ u. rel (view t) (view u)) t"
      using assms(2) by (simp add: keeps_def keeps_at_def)
    ultimately show "swp (f x) (\<lambda>_ u. rel v (view u)) t"
      by (auto elim!: swp_mono intro: rel_trans)
  qed
qed

lemma keeps_sfold:
  assumes "\<And>x b. x \<in> set xs \<Longrightarrow> keeps view rel (f x b)"
  shows "keeps view rel (sfold f xs b)"
  using assms
proof (induction xs arbitrary: b)
  case Nil
  then show ?case by (simp add: keepsI keeps_sret)
next
  case (Cons x xs)
  then show ?case
    by (intro keepsI) (simp add: keeps_bind keepsD)
qed

lemma keeps_if:
  "(b \<Longrightarrow> keeps_at view rel v m) \<Longrightarrow> (\<not> b \<Longrightarrow> keeps_at view rel v m') \<Longrightarrow>
   keeps_at view rel v (if b then m else m')"
  by simp

lemma keeps_case_option:
  "(x = None \<Longrightarrow> keeps_at view rel v m) \<Longrightarrow> (\<And>y. x = Some y \<Longrightarrow> keeps_at view rel v (f y)) \<Longrightarrow>
   keeps_at view rel v (case x of None \<Rightarrow> m | Some y \<Rightarrow> f y)"
  by (cases x) simp_all

lemma keeps_case_prod:
  "(\<And>a b. x = (a, b) \<Longrightarrow> keeps_at view rel v (f a b)) \<Longrightarrow>
   keeps_at view rel v (case x of (a, b) \<Rightarrow> f a b)"
  by (cases x) simp_all

lemma keeps_let: "keeps_at view rel v (f x) \<Longrightarrow> keeps_at view rel v (Let x f)"
  by simp

lemmas keeps_rules = keeps_sret keeps_sfail keeps_slift keeps_bind_slift keeps_bind_sget
  keeps_if keeps_case_option keeps_case_prod keeps_let

end

text \<open>A sequence of calls on one object, whatever each of them returns.\<close>

primrec srun :: "('s, 'e, 'a) step list \<Rightarrow> 's \<Rightarrow> 's" where
  "srun [] s = s"
| "srun (m # ms) s = srun ms (snd (m s))"

text \<open>
  The contract of an object whose operations only move it forward in an order: whatever
  sequence of calls a client makes, the last state is above the first.
\<close>

locale forward_object =
  fixes below :: "'s \<Rightarrow> 's \<Rightarrow> bool"
    and operation :: "('s, 'e, 'a) step \<Rightarrow> bool"
  assumes below_refl: "below s s"
    and below_trans: "below s t \<Longrightarrow> below t u \<Longrightarrow> below s u"
    and operation_forward: "operation m \<Longrightarrow> swp m (\<lambda>_. below s) s"
begin

lemma srun_forward:
  assumes "\<And>m. m \<in> set ms \<Longrightarrow> operation m"
  shows "below s (srun ms s)"
  using assms
proof (induction ms arbitrary: s)
  case (Cons m ms)
  have "below s (snd (m s))"
    using operation_forward[of m s] Cons.prems by (simp add: swp_def split: prod.splits)
  moreover have "below (snd (m s)) (srun ms (snd (m s)))"
    using Cons by simp
  ultimately show ?case by (auto intro: below_trans)
qed (simp add: below_refl)

end

section \<open>Ordered maps\<close>

text \<open>
  A \<open>BTreeMap\<close> is a finite map; iteration follows the key order, which is
  \<^const>\<open>sorted_list_of_fmap\<close>. \<open>retain\<close> filters by key and value, \<open>entry().or_insert()\<close>
  keeps an existing value, and a loop over \<open>values_mut\<close> maps the values.
\<close>

type_synonym ('k, 'v) btree_map = "('k, 'v) fmap"

definition bt_retain :: "('k \<Rightarrow> 'v \<Rightarrow> bool) \<Rightarrow> ('k, 'v) fmap \<Rightarrow> ('k, 'v) fmap" where
  "bt_retain P m = fmfilter (\<lambda>k. case fmlookup m k of None \<Rightarrow> False | Some v \<Rightarrow> P k v) m"

definition bt_or_insert :: "'k \<Rightarrow> 'v \<Rightarrow> ('k, 'v) fmap \<Rightarrow> ('k, 'v) fmap" where
  "bt_or_insert k v m = (case fmlookup m k of None \<Rightarrow> fmupd k v m | Some _ \<Rightarrow> m)"

definition bt_len :: "('k::linorder, 'v) fmap \<Rightarrow> nat" where
  "bt_len m = length (sorted_list_of_fmap m)"

text \<open>A \<open>for (k, v) in &mut m\<close> loop whose body may return early with an error.\<close>

definition bt_try_map ::
    "('k \<Rightarrow> 'v \<Rightarrow> 'e + 'v) \<Rightarrow> ('k::linorder, 'v) fmap \<Rightarrow> 'e + ('k, 'v) fmap" where
  "bt_try_map f m =
     rfold (\<lambda>(k, v) acc. rbind (f k v) (\<lambda>v'. Inr (fmupd k v' acc))) (sorted_list_of_fmap m) m"

lemma fmlookup_bt_retain [simp]:
  "fmlookup (bt_retain P m) k =
     (case fmlookup m k of None \<Rightarrow> None | Some v \<Rightarrow> if P k v then Some v else None)"
  by (simp add: bt_retain_def split: option.splits)

lemma fmlookup_bt_or_insert [simp]:
  "fmlookup (bt_or_insert k v m) k' =
     (if k' = k then (case fmlookup m k of None \<Rightarrow> Some v | Some w \<Rightarrow> Some w) else fmlookup m k')"
  by (auto simp: bt_or_insert_def split: option.splits)

lemma sorted_list_of_fmap_code [code]:
  "sorted_list_of_fmap (fmap_of_list xs) =
     map (\<lambda>k. (k, the (map_of xs k))) (sort (remdups (map fst xs)))"
  by (simp add: sorted_list_of_fmap_def fmlookup_of_list sorted_list_of_fset.rep_eq
      sorted_list_of_set_sort_remdups[symmetric] fmdom.rep_eq dom_map_of_conv_image_fst
      fset_of_list.rep_eq)

lemma set_sorted_list_of_fmap:
  "(k, v) \<in> set (sorted_list_of_fmap m) \<longleftrightarrow> fmlookup m k = Some v"
  by (auto simp: sorted_list_of_fmap_def image_iff fmlookup_dom_iff)

lemma distinct_sorted_list_of_fmap: "distinct (map fst (sorted_list_of_fmap m))"
  by (simp add: sorted_list_of_fmap_def comp_def sorted_list_of_fset.rep_eq)

text \<open>What a successful loop over the entries leaves at each key.\<close>

lemma rfold_fmupd_lookup:
  assumes "rfold (\<lambda>(k, v) acc. rbind (f k v) (\<lambda>v'. Inr (fmupd k v' acc))) xs acc = Inr m'"
    and "distinct (map fst xs)"
  shows "fmlookup m' k =
    (case map_of xs k of None \<Rightarrow> fmlookup acc k
     | Some v \<Rightarrow> (case f k v of Inl _ \<Rightarrow> None | Inr v' \<Rightarrow> Some v'))"
  using assms
proof (induction xs arbitrary: acc)
  case (Cons x xs)
  obtain a v where x: "x = (a, v)" by (cases x)
  with Cons.prems obtain v' where v': "f a v = Inr v'"
    and rest: "rfold (\<lambda>(k, v) acc. rbind (f k v) (\<lambda>v'. Inr (fmupd k v' acc))) xs
      (fmupd a v' acc) = Inr m'"
    by auto
  from Cons.prems(2) x have "map_of xs a = None"
    by (auto simp: map_of_eq_None_iff)
  with Cons.IH[OF rest] Cons.prems(2) x v' show ?case
    by (auto split: option.splits)
qed simp

lemma map_of_sorted_list_of_fmap: "map_of (sorted_list_of_fmap m) = fmlookup m"
proof
  fix k
  show "map_of (sorted_list_of_fmap m) k = fmlookup m k"
  proof (cases "fmlookup m k")
    case None
    then have "k \<notin> fst ` set (sorted_list_of_fmap m)"
      by (auto simp: set_sorted_list_of_fmap)
    with None show ?thesis by (simp add: map_of_eq_None_iff)
  next
    case (Some v)
    then show ?thesis
      by (simp add: map_of_eq_Some_iff distinct_sorted_list_of_fmap set_sorted_list_of_fmap)
  qed
qed

lemma fmlookup_bt_try_map:
  assumes "bt_try_map f m = Inr m'"
  shows "fmlookup m' k =
    (case fmlookup m k of None \<Rightarrow> None
     | Some v \<Rightarrow> (case f k v of Inl _ \<Rightarrow> None | Inr v' \<Rightarrow> Some v'))"
  using rfold_fmupd_lookup[OF assms[unfolded bt_try_map_def] distinct_sorted_list_of_fmap, of k]
  by (simp add: map_of_sorted_list_of_fmap split: option.splits)

lemma bt_try_map_ok:
  assumes "bt_try_map f m = Inr m'" and "fmlookup m k = Some v"
  shows "\<exists>v'. f k v = Inr v' \<and> fmlookup m' k = Some v'"
proof -
  define g where "g = (\<lambda>(k, v) acc. rbind (f k v) (\<lambda>v'. Inr (fmupd k v' acc)))"
  have "(k, v) \<in> set (sorted_list_of_fmap m)"
    using assms(2) by (simp add: set_sorted_list_of_fmap)
  then obtain ys zs where "sorted_list_of_fmap m = ys @ (k, v) # zs"
    by (meson split_list)
  with assms(1) obtain acc where "g (k, v) acc = Inr (the (Some (fmupd k
      (case f k v of Inl _ \<Rightarrow> undefined | Inr v' \<Rightarrow> v') acc)))"
    unfolding bt_try_map_def g_def[symmetric] by (auto simp: rfold_append g_def)
  then obtain v' where "f k v = Inr v'"
    by (auto simp: g_def)
  with fmlookup_bt_try_map[OF assms(1), of k] assms(2) show ?thesis
    by simp
qed

end
