(* ===== verification/Net.thy ===== *)
theory Net
  imports Prelude
begin

text \<open>
  Socket addresses as the standard library has them: the parsed form, its predicates, and
  the textual form that \<open>SocketAddr::from_str\<close> reads and \<open>Display\<close> writes. The program only
  accepts an address whose textual form is the canonical one.
\<close>

section \<open>Addresses\<close>

datatype ip_addr = IpV4 "int list" | IpV6 "u16 list"
  \<comment> \<open>four octets; eight segments\<close>

datatype socket_addr = SocketAddrV4 (sock_octets: "int list") (sock_port4: u16)
  | SocketAddrV6 (sock_segments: "u16 list") (sock_port6: u16)
      (sock_flowinfo: u32) (sock_scope_id: u32)

fun sock_ip :: "socket_addr \<Rightarrow> ip_addr" where
  "sock_ip (SocketAddrV4 os p) = IpV4 os"
| "sock_ip (SocketAddrV6 ss p f s) = IpV6 ss"

fun sock_port :: "socket_addr \<Rightarrow> u16" where
  "sock_port (SocketAddrV4 os p) = p"
| "sock_port (SocketAddrV6 ss p f s) = p"

fun sock_is_ipv4 :: "socket_addr \<Rightarrow> bool" where
  "sock_is_ipv4 (SocketAddrV4 os p) = True"
| "sock_is_ipv4 (SocketAddrV6 ss p f s) = False"

fun ip_is_unspecified :: "ip_addr \<Rightarrow> bool" where
  "ip_is_unspecified (IpV4 os) = (os = [0, 0, 0, 0])"
| "ip_is_unspecified (IpV6 ss) = (ss = replicate 8 0)"

fun ip_is_multicast :: "ip_addr \<Rightarrow> bool" where
  "ip_is_multicast (IpV4 os) = (case os of [] \<Rightarrow> False | a # _ \<Rightarrow> 224 \<le> a \<and> a \<le> 239)"
| "ip_is_multicast (IpV6 ss) = (case ss of [] \<Rightarrow> False | a # _ \<Rightarrow> a AND 0xFF00 = 0xFF00)"

fun ip_is_broadcast :: "ip_addr \<Rightarrow> bool" where
  "ip_is_broadcast (IpV4 os) = (os = [255, 255, 255, 255])"
| "ip_is_broadcast (IpV6 ss) = False"

fun ip_is_link_local_v6 :: "ip_addr \<Rightarrow> bool" where
  "ip_is_link_local_v6 (IpV4 os) = False"
| "ip_is_link_local_v6 (IpV6 ss) = (case ss of [] \<Rightarrow> False | a # _ \<Rightarrow> a AND 0xFFC0 = 0xFE80)"

fun sock_has_scope :: "socket_addr \<Rightarrow> bool" where
  "sock_has_scope (SocketAddrV4 os p) = False"
| "sock_has_scope (SocketAddrV6 ss p f s) = (s \<noteq> 0 \<or> f \<noteq> 0)"

section \<open>Display\<close>

definition digit_char :: "int \<Rightarrow> char" where
  "digit_char d = char_of (if d < 10 then 48 + d else 87 + d)"

text \<open>Ten digits are enough for every number below two to the thirty-second.\<close>

fun show_radix :: "nat \<Rightarrow> int \<Rightarrow> int \<Rightarrow> string" where
  "show_radix 0 r n = []"
| "show_radix (Suc k) r n =
     (if n < r then [digit_char n] else show_radix k r (n div r) @ [digit_char (n mod r)])"

definition show_dec :: "int \<Rightarrow> string" where
  "show_dec n = show_radix 10 10 n"

definition show_hex :: "int \<Rightarrow> string" where
  "show_hex n = show_radix 10 16 n"

fun join_with :: "string \<Rightarrow> string list \<Rightarrow> string" where
  "join_with sep [] = []"
| "join_with sep [s] = s"
| "join_with sep (s # ss) = s @ sep @ join_with sep ss"

definition show_ipv4 :: "int list \<Rightarrow> string" where
  "show_ipv4 os = join_with ''.'' (map show_dec os)"

text \<open>The first longest run of zero segments, as start and length.\<close>

fun zero_run :: "u16 list \<Rightarrow> nat" where
  "zero_run [] = 0"
| "zero_run (s # ss) = (if s = 0 then Suc (zero_run ss) else 0)"

fun longest_zero_run :: "nat \<Rightarrow> u16 list \<Rightarrow> nat \<times> nat" where
  "longest_zero_run i [] = (i, 0)"
| "longest_zero_run i (s # ss) =
     (let here = zero_run (s # ss); rest = longest_zero_run (Suc i) ss
      in if snd rest \<le> here then (i, here) else rest)"

definition show_segments :: "u16 list \<Rightarrow> string" where
  "show_segments ss = join_with '':'' (map (\<lambda>s. show_hex (uint s)) ss)"

definition show_ipv6 :: "u16 list \<Rightarrow> string" where
  "show_ipv6 ss =
     (if take 6 ss = [0, 0, 0, 0, 0, 0xFFFF]
      then ''::ffff:'' @ show_ipv4 (concat (map (\<lambda>s. [uint s div 256, uint s mod 256]) (drop 6 ss)))
      else (case longest_zero_run 0 ss of (start, len) \<Rightarrow>
        if len > 1 then show_segments (take start ss) @ ''::'' @ show_segments (drop (start + len) ss)
        else show_segments ss))"

fun show_socket :: "socket_addr \<Rightarrow> string" where
  "show_socket (SocketAddrV4 os p) = show_ipv4 os @ '':'' @ show_dec (uint p)"
| "show_socket (SocketAddrV6 ss p f s) =
     (if s = 0 then ''['' @ show_ipv6 ss @ '']:'' @ show_dec (uint p)
      else ''['' @ show_ipv6 ss @ ''%'' @ show_dec (uint s) @ '']:'' @ show_dec (uint p))"

section \<open>Parsing\<close>

definition digit_val :: "int \<Rightarrow> char \<Rightarrow> int option" where
  "digit_val r c =
     (let b = byte_val c;
          v = (if 48 \<le> b \<and> b \<le> 57 then b - 48
               else if 97 \<le> b \<and> b \<le> 122 then b - 87
               else if 65 \<le> b \<and> b \<le> 90 then b - 55 else 99)
      in if v < r then Some v else None)"

fun read_digits :: "int \<Rightarrow> string \<Rightarrow> int list \<times> string" where
  "read_digits r [] = ([], [])"
| "read_digits r (c # cs) =
     (case digit_val r c of None \<Rightarrow> ([], c # cs)
      | Some d \<Rightarrow> (case read_digits r cs of (ds, rest) \<Rightarrow> (d # ds, rest)))"

text \<open>\<open>read_number\<close>: at most \<open>max_digits\<close> digits when bounded, below \<open>limit\<close>.\<close>

definition read_number ::
    "int \<Rightarrow> nat option \<Rightarrow> bool \<Rightarrow> int \<Rightarrow> string \<Rightarrow> (int \<times> string) option" where
  "read_number r max_digits allow_zero_prefix limit s =
     (case read_digits r s of (ds, rest) \<Rightarrow>
        let n = foldl (\<lambda>acc d. acc * r + d) 0 ds in
        if ds = [] then None
        else if (case max_digits of None \<Rightarrow> False | Some m \<Rightarrow> m < length ds) then None
        else if \<not> allow_zero_prefix \<and> hd ds = 0 \<and> 1 < length ds then None
        else if limit \<le> n then None
        else Some (n, rest))"

definition read_given_char :: "char \<Rightarrow> string \<Rightarrow> string option" where
  "read_given_char c s = (case s of [] \<Rightarrow> None | d # ds \<Rightarrow> if d = c then Some ds else None)"

text \<open>\<open>read_separator\<close>: the separator precedes every element but the first.\<close>

definition read_separator :: "char \<Rightarrow> nat \<Rightarrow> string \<Rightarrow> string option" where
  "read_separator c i s = (if i = 0 then Some s else read_given_char c s)"

fun read_octets :: "nat \<Rightarrow> nat \<Rightarrow> string \<Rightarrow> (int list \<times> string) option" where
  "read_octets i 0 s = Some ([], s)"
| "read_octets i (Suc n) s =
     Option.bind (read_separator (CHR ''.'') i s) (\<lambda>s1.
     Option.bind (read_number 10 (Some 3) False 256 s1) (\<lambda>(o1, s2).
     map_option (\<lambda>(os, s3). (o1 # os, s3)) (read_octets (Suc i) n s2)))"

definition read_ipv4 :: "string \<Rightarrow> (int list \<times> string) option" where
  "read_ipv4 s = read_octets 0 4 s"

definition octet_segments :: "int list \<Rightarrow> u16 list" where
  "octet_segments os =
     (case os of [a, b, c, d] \<Rightarrow> [word_of_int (a * 256 + b), word_of_int (c * 256 + d)] | _ \<Rightarrow> [])"

text \<open>Up to \<open>n\<close> more groups, the first of them at position \<open>i\<close>.\<close>

fun read_groups :: "nat \<Rightarrow> nat \<Rightarrow> string \<Rightarrow> u16 list \<times> bool \<times> string" where
  "read_groups i 0 s = ([], False, s)"
| "read_groups i (Suc n) s =
     (case (if n = 0 then None else Option.bind (read_separator (CHR '':'') i s) read_ipv4) of
        Some (os, rest) \<Rightarrow> (octet_segments os, True, rest)
      | None \<Rightarrow>
        (case Option.bind (read_separator (CHR '':'') i s) (read_number 16 (Some 4) True 65536) of
           None \<Rightarrow> ([], False, s)
         | Some (g, rest) \<Rightarrow>
             (case read_groups (Suc i) n rest of (gs, v4, rest') \<Rightarrow>
                (word_of_int g # gs, v4, rest'))))"

definition read_ipv6 :: "string \<Rightarrow> (u16 list \<times> string) option" where
  "read_ipv6 s =
     (case read_groups 0 8 s of (head, head_ipv4, s1) \<Rightarrow>
        if length head = 8 then Some (head, s1)
        else if head_ipv4 then None
        else Option.bind (read_given_char (CHR '':'') s1) (\<lambda>s2.
             Option.bind (read_given_char (CHR '':'') s2) (\<lambda>s3.
             case read_groups 0 (8 - (length head + 1)) s3 of (tail, _, s4) \<Rightarrow>
               Some (head @ replicate (8 - length head - length tail) 0 @ tail, s4))))"

definition read_port :: "string \<Rightarrow> (u16 \<times> string) option" where
  "read_port s =
     Option.bind (read_given_char (CHR '':'') s) (\<lambda>s1.
     map_option (\<lambda>(n, rest). (word_of_int n, rest)) (read_number 10 None True 65536 s1))"

definition read_scope_id :: "string \<Rightarrow> u32 \<times> string" where
  "read_scope_id s =
     (case Option.bind (read_given_char (CHR ''%'') s) (read_number 10 None True 4294967296) of
        None \<Rightarrow> (0, s) | Some (n, rest) \<Rightarrow> (word_of_int n, rest))"

definition read_socket_v4 :: "string \<Rightarrow> (socket_addr \<times> string) option" where
  "read_socket_v4 s =
     Option.bind (read_ipv4 s) (\<lambda>(os, s1).
     map_option (\<lambda>(p, rest). (SocketAddrV4 os p, rest)) (read_port s1))"

definition read_socket_v6 :: "string \<Rightarrow> (socket_addr \<times> string) option" where
  "read_socket_v6 s =
     Option.bind (read_given_char (CHR ''['') s) (\<lambda>s1.
     Option.bind (read_ipv6 s1) (\<lambda>(ss, s2).
     case read_scope_id s2 of (scope, s3) \<Rightarrow>
     Option.bind (read_given_char (CHR '']'') s3) (\<lambda>s4.
     map_option (\<lambda>(p, rest). (SocketAddrV6 ss p 0 scope, rest)) (read_port s4))))"

definition parse_socket :: "string \<Rightarrow> socket_addr option" where
  "parse_socket s =
     (case (case read_socket_v4 s of None \<Rightarrow> read_socket_v6 s | Some r \<Rightarrow> Some r) of
        Some (a, []) \<Rightarrow> Some a
      | _ \<Rightarrow> None)"

end
