(* ===== verification/Protocol.thy ===== *)
theory Protocol
  imports Net
begin

text \<open>
  The records of \<open>covalent-protocol\<close> that folder sharing exchanges: transport pins, peer
  grants, the public binding of a sync engine with its Luhn-checked identity, and the signed
  offer, acceptance and commit. Third-party codecs and primitives are the fields of \<open>ext\<close>.
\<close>

section \<open>Third-party functions\<close>

text \<open>
  \<open>base64\<close> (URL-safe without padding, and standard), \<open>blake3\<close> with its lowercase hex form,
  and \<open>ed25519-dalek\<close>: the public half of a signing key, which bytes are a verification key,
  signing, and verification of signature bytes (false for malformed ones).
\<close>

record ext =
  b64url_encode :: "bytes \<Rightarrow> string"
  b64url_decode :: "string \<Rightarrow> bytes option"
  b64std_encode :: "bytes \<Rightarrow> string"
  b64std_decode :: "string \<Rightarrow> bytes option"
  blake3_hex :: "bytes \<Rightarrow> string"
  ed_public :: "bytes \<Rightarrow> bytes"
  ed_key_ok :: "bytes \<Rightarrow> bool"
  ed_sign :: "bytes \<Rightarrow> bytes \<Rightarrow> bytes"
  ed_verify :: "bytes \<Rightarrow> bytes \<Rightarrow> bytes \<Rightarrow> bool"

section \<open>Peers\<close>

record transport_binding =
  tb_peer_id :: device_id
  tb_display_name :: string
  tb_address :: string
  tb_certificate_der :: string
  tb_certificate_fingerprint :: string

datatype peer_role = StorageProvider | BackupReader | BackupWriter

record peer_grant =
  pg_peer_device_id :: device_id
  pg_public_key :: string
  pg_display_name :: string
  pg_roles :: "peer_role list"
  pg_confirmed_at_unix_ms :: u64
  pg_revoked :: bool

section \<open>Engine identities\<close>

definition FOLDER_SHARE_SCHEMA_VERSION :: u16 where
  "FOLDER_SHARE_SCHEMA_VERSION = 1"

definition FOLDER_LINK_SCHEMA_VERSION :: u16 where
  "FOLDER_LINK_SCHEMA_VERSION = 2"

definition MAX_FOLDER_SHARE_LABEL_BYTES :: nat where
  "MAX_FOLDER_SHARE_LABEL_BYTES = 256"

definition MAX_FOLDER_SHARE_PAIRING_ID_BYTES :: nat where
  "MAX_FOLDER_SHARE_PAIRING_ID_BYTES = 128"

definition ENGINE_LUHN_ALPHABET :: string where
  "ENGINE_LUHN_ALPHABET = ''ABCDEFGHIJKLMNOPQRSTUVWXYZ234567''"

datatype sync_engine_binding_error =
    InvalidDeviceId
  | MissingSshPublicKey
  | InvalidSshPublicKey
  | InvalidEndpoint
  | InvalidOwner
  | UnsupportedSchema

datatype sync_engine_device_id = SyncEngineDeviceId (engine_id_str: string)

fun char_position :: "int \<Rightarrow> char \<Rightarrow> string \<Rightarrow> int option" where
  "char_position i c [] = None"
| "char_position i c (d # ds) = (if d = c then Some i else char_position (i + 1) c ds)"

text \<open>The loop of \<open>engine_luhn32\<close>, carrying \<open>factor\<close> and \<open>sum\<close>.\<close>

fun luhn_sum :: "int \<Rightarrow> int \<Rightarrow> string \<Rightarrow> int option" where
  "luhn_sum factor acc [] = Some acc"
| "luhn_sum factor acc (c # cs) =
     (case char_position 0 c ENGINE_LUHN_ALPHABET of
        None \<Rightarrow> None
      | Some codepoint \<Rightarrow>
          let addend = factor * codepoint in
          luhn_sum (if factor = 2 then 1 else 2) (acc + (addend div 32 + addend mod 32)) cs)"

definition engine_luhn32 :: "string \<Rightarrow> char option" where
  "engine_luhn32 value =
     map_option (\<lambda>s. ENGINE_LUHN_ALPHABET ! nat ((32 - s mod 32) mod 32)) (luhn_sum 1 0 value)"

text \<open>\<open>chunks_exact\<close>: a shorter remainder is dropped.\<close>

function chunks_exact :: "nat \<Rightarrow> 'a list \<Rightarrow> 'a list list" where
  "chunks_exact n xs =
     (if n = 0 \<or> length xs < n then [] else take n xs # chunks_exact n (drop n xs))"
  by pat_completeness auto
termination
  by (relation "measure (\<lambda>(n, xs). length xs)") auto

declare chunks_exact.simps [simp del]

definition luhn_block_ok :: "string \<Rightarrow> bool" where
  "luhn_block_ok block \<longleftrightarrow> engine_luhn32 (take 13 block) = Some (block ! 13)"

definition parse_engine_device_id :: "string \<Rightarrow> sync_engine_binding_error + sync_engine_device_id" where
  "parse_engine_device_id value =
     (let unchunked = filter (\<lambda>c. c \<noteq> CHR ''-'') value;
          blocks = chunks_exact 14 unchunked;
          payload = concat (map (take 13) blocks)
      in if length value \<noteq> 56 + 8 - 1
            \<or> list_ex (\<lambda>chunk. length chunk \<noteq> 7) (split_at (CHR ''-'') value)
         then Inl InvalidDeviceId
         else if list_ex (\<lambda>c. c \<notin> set ENGINE_LUHN_ALPHABET) unchunked then Inl InvalidDeviceId
         else if length unchunked \<noteq> 56 \<or> list_ex (\<lambda>b. \<not> luhn_block_ok b) blocks
         then Inl InvalidDeviceId
         else if list_all (\<lambda>c. c = CHR ''A'') payload
            \<or> \<not> (payload \<noteq> [] \<and> (last payload = CHR ''A'' \<or> last payload = CHR ''Q''))
         then Inl InvalidDeviceId
         else Inr (SyncEngineDeviceId value))"

section \<open>Engine bindings\<close>

record sync_engine_binding =
  seb_schema_version :: u16
  seb_covalent_device_id :: device_id
  seb_engine_device_id :: sync_engine_device_id
  seb_ssh_public_key :: "string option"
  seb_direct_address :: string

definition ssh_ed25519_prefix :: bytes where
  "ssh_ed25519_prefix =
     [CHR 0x00, CHR 0x00, CHR 0x00, CHR 0x0B] @ ''ssh-ed25519'' @
     [CHR 0x00, CHR 0x00, CHR 0x00, CHR 0x20]"

definition validate_ssh_ed25519_wire ::
    "'z ext_scheme \<Rightarrow> string \<Rightarrow> sync_engine_binding_error + unit" where
  "validate_ssh_ed25519_wire X value =
     (case b64std_decode X value of
        None \<Rightarrow> Inl InvalidSshPublicKey
      | Some decoded \<Rightarrow>
          fail_if (length decoded \<noteq> length ssh_ed25519_prefix + 32
              \<or> \<not> prefix ssh_ed25519_prefix decoded
              \<or> b64std_encode X decoded \<noteq> value) InvalidSshPublicKey)"

definition unsafe_endpoint :: "socket_addr \<Rightarrow> bool" where
  "unsafe_endpoint address =
     (if sock_is_ipv4 address
      then ip_is_unspecified (sock_ip address) \<or> ip_is_multicast (sock_ip address)
        \<or> ip_is_broadcast (sock_ip address)
      else ip_is_unspecified (sock_ip address) \<or> ip_is_multicast (sock_ip address)
        \<or> ip_is_link_local_v6 (sock_ip address) \<or> sock_has_scope address)"

definition validate_sync_engine_endpoint :: "string \<Rightarrow> sync_engine_binding_error + socket_addr" where
  "validate_sync_engine_endpoint value =
     rbind (fail_if (value = [] \<or> length value > 96 \<or> str_has_control value) InvalidEndpoint) (\<lambda>_.
     rbind (ok_or (parse_socket value) InvalidEndpoint) (\<lambda>address.
     rbind (fail_if (show_socket address \<noteq> value \<or> sock_port address = 0) InvalidEndpoint) (\<lambda>_.
     rbind (fail_if (unsafe_endpoint address) InvalidEndpoint) (\<lambda>_.
     Inr address))))"

definition binding_new ::
    "device_id \<Rightarrow> string \<Rightarrow> string \<Rightarrow> sync_engine_binding_error + sync_engine_binding" where
  "binding_new covalent engine address =
     rbind (fail_if (covalent = device_nil) InvalidOwner) (\<lambda>_.
     rbind (parse_engine_device_id engine) (\<lambda>engine_id.
     rbind (validate_sync_engine_endpoint address) (\<lambda>_.
     Inr \<lparr>seb_schema_version = FOLDER_SHARE_SCHEMA_VERSION,
          seb_covalent_device_id = covalent,
          seb_engine_device_id = engine_id,
          seb_ssh_public_key = None,
          seb_direct_address = address\<rparr>)))"

definition binding_new_authenticated ::
    "'z ext_scheme \<Rightarrow> device_id \<Rightarrow> string \<Rightarrow> string \<Rightarrow> string
      \<Rightarrow> sync_engine_binding_error + sync_engine_binding" where
  "binding_new_authenticated X covalent engine ssh address =
     rbind (binding_new covalent engine address) (\<lambda>binding.
     rbind (validate_ssh_ed25519_wire X ssh) (\<lambda>_.
     Inr (binding\<lparr>seb_ssh_public_key := Some ssh\<rparr>)))"

definition binding_validate ::
    "'z ext_scheme \<Rightarrow> sync_engine_binding \<Rightarrow> sync_engine_binding_error + socket_addr" where
  "binding_validate X b =
     rbind (fail_if (seb_schema_version b \<noteq> FOLDER_SHARE_SCHEMA_VERSION) UnsupportedSchema) (\<lambda>_.
     rbind (fail_if (seb_covalent_device_id b = device_nil) InvalidOwner) (\<lambda>_.
     rbind (parse_engine_device_id (engine_id_str (seb_engine_device_id b))) (\<lambda>_.
     rbind (case seb_ssh_public_key b of None \<Rightarrow> Inr ()
            | Some key \<Rightarrow> validate_ssh_ed25519_wire X key) (\<lambda>_.
     validate_sync_engine_endpoint (seb_direct_address b)))))"

definition require_ssh_public_key ::
    "'z ext_scheme \<Rightarrow> sync_engine_binding \<Rightarrow> sync_engine_binding_error + string" where
  "require_ssh_public_key X b =
     rbind (ok_or (seb_ssh_public_key b) MissingSshPublicKey) (\<lambda>key.
     rbind (validate_ssh_ed25519_wire X key) (\<lambda>_. Inr key))"

section \<open>Folder sharing records\<close>

record folder_link_policy =
  propagate_source_deletions :: bool
  restore_local_deletions :: bool

definition default_link_policy :: folder_link_policy where
  "default_link_policy = \<lparr>propagate_source_deletions = False, restore_local_deletions = False\<rparr>"

record folder_share_offer =
  offer_schema_version :: u16
  offer_offer_id :: uuid
  offer_folder_id :: uuid
  offer_label :: string
  offer_source_device_id :: device_id
  offer_target_device_id :: device_id
  offer_source_engine :: sync_engine_binding
  offer_link_policy :: "folder_link_policy option"
  offer_pairing_id :: "string option"
  offer_issued_at_unix_ms :: u64
  offer_expires_at_unix_ms :: u64
  offer_nonce :: string
  offer_signature :: string

record folder_share_acceptance =
  acc_schema_version :: u16
  acc_offer_digest :: string
  acc_target_device_id :: device_id
  acc_target_engine :: sync_engine_binding
  acc_accepted_at_unix_ms :: u64
  acc_signature :: string

record folder_share_commit =
  com_schema_version :: u16
  com_source_device_id :: device_id
  com_offer_digest :: string
  com_acceptance_digest :: string
  com_signature :: string

section \<open>Bindings that validate\<close>

lemma endpoint_canonical:
  assumes "validate_sync_engine_endpoint value = Inr a"
  shows "parse_socket value = Some a" and "show_socket a = value" and "sock_port a \<noteq> 0"
    and "\<not> unsafe_endpoint a" and "length value \<le> 96"
  using assms by (auto simp: validate_sync_engine_endpoint_def)

text \<open>A freshly built binding is one that validation accepts.\<close>

lemma parse_engine_device_id_str:
  "parse_engine_device_id v = Inr i \<Longrightarrow> engine_id_str i = v"
  by (auto simp: parse_engine_device_id_def Let_def split: if_splits)

lemma binding_new_authenticated_validates:
  assumes "binding_new_authenticated X c e k a = Inr b"
  shows "binding_validate X b = validate_sync_engine_endpoint a"
    and "is_ok (binding_validate X b)"
    and "seb_covalent_device_id b = c" and "require_ssh_public_key X b = Inr k"
  using assms
  by (auto simp: binding_new_authenticated_def binding_new_def binding_validate_def
      require_ssh_public_key_def parse_engine_device_id_str)

end
