(* ===== verification/Core_Error.thy ===== *)
theory Core_Error
  imports Prelude
begin

text \<open>
  The errors of the shared crates: \<open>ContractError\<close> of \<open>covalent-protocol/src/lib.rs\<close> and
  \<open>CoreError\<close> of \<open>covalent-core/src/lib.rs\<close>. Of an I/O error
  the operation is kept; its path and the error of the operating system are left out. A variant
  whose name another error type has carries a prefix.
\<close>

datatype contract_error =
    InvalidRelativePath string
  | InvalidDeviceName
  | InvalidBackupName
  | ContractSettingsTooLarge
  | DuplicateRememberedBackup
  | UnsupportedSettingsSchema u16
  | UnsupportedProtocol u16
  | ManifestTooLarge
  | ManifestEntriesNotSorted
  | InvalidManifestEntry
  | InvalidChunkReference
  | UnselectedProviderAcknowledgement
  | InvalidProviderAcknowledgement

datatype core_error =
    InvalidAuthorizedRoot path
  | SymlinkTraversal path
  | NonDirectoryAncestor path
  | EscapedAuthorizedRoot path
  | SettingsTooLarge
  | AuthenticationFailed
  | InvalidKeyMaterial
  | CoreEntropyUnavailable
  | UnsupportedCipherSuite string
  | CoreInvalidState string
  | MissingChunk string
  | CorruptChunk string
  | InvalidLocator
  | SourceChanged path
  | UnsupportedSourceEntry path
  | SourcePermissionDenied path
  | InvitationUnavailable
  | PairingNotConfirmed
  | SettingsImportNotConfirmed
  | IdentityMismatch
  | PeerRevoked
  | UnselectedProvider
  | ProtocolNegotiationFailed
  | ResourceLimit string
  | JobPaused
  | JobConflict
  | JobCancelled
  | RestorePlanMismatch
  | RestoreConflict path
  | ProvidersExhausted string
  | Synchronization
  | StateLocked
  | KeyProtectionLocked
  | KeyVersionUnavailable u32
  | CoreIo string
  | Contract contract_error
  | CoreJson

end
