(* ===== verification/Identity.thy ===== *)
theory Identity
  imports Protocol Core_Error
begin

text \<open>
  Device identities of \<open>covalent-core\<close>: the public identity with its key fingerprint, the
  signing identity, and domain-separated signatures. The curve operations are \<open>ext\<close> fields.
\<close>

record public_identity =
  pi_device_id :: device_id
  pi_public_key :: string
  pi_fingerprint :: string

record device_identity =
  di_device_id :: device_id
  di_signing_key :: bytes

definition public_fingerprint :: "'z ext_scheme \<Rightarrow> bytes \<Rightarrow> string" where
  "public_fingerprint X key = take 20 (blake3_hex X key)"

definition signing_message :: "bytes \<Rightarrow> bytes \<Rightarrow> bytes" where
  "signing_message domain message =
     ''covalent/signature/v1'' @ [CHR 0x00] @ u64_be_bytes (of_nat (length domain))
       @ domain @ message"

text \<open>Decoding the key bytes, shared by the two constructors of a verification key.\<close>

definition decode_verifying_key :: "'z ext_scheme \<Rightarrow> string \<Rightarrow> core_error + bytes" where
  "decode_verifying_key X public_key =
     rbind (ok_or (b64url_decode X public_key) InvalidKeyMaterial) (\<lambda>key.
     rbind (fail_if (length key \<noteq> 32) InvalidKeyMaterial) (\<lambda>_.
     rbind (fail_if (\<not> ed_key_ok X key) InvalidKeyMaterial) (\<lambda>_. Inr key)))"

definition identity_from_encoded ::
    "'z ext_scheme \<Rightarrow> device_id \<Rightarrow> string \<Rightarrow> core_error + public_identity" where
  "identity_from_encoded X device public_key =
     rbind (decode_verifying_key X public_key) (\<lambda>key.
     Inr \<lparr>pi_device_id = device, pi_public_key = public_key,
          pi_fingerprint = public_fingerprint X key\<rparr>)"

definition verifying_key :: "'z ext_scheme \<Rightarrow> public_identity \<Rightarrow> core_error + bytes" where
  "verifying_key X identity =
     rbind (decode_verifying_key X (pi_public_key identity)) (\<lambda>key.
     rbind (fail_if (public_fingerprint X key \<noteq> pi_fingerprint identity) IdentityMismatch)
       (\<lambda>_. Inr key))"

definition identity_verify ::
    "'z ext_scheme \<Rightarrow> public_identity \<Rightarrow> bytes \<Rightarrow> bytes \<Rightarrow> string \<Rightarrow> core_error + unit" where
  "identity_verify X identity domain message signature =
     rbind (verifying_key X identity) (\<lambda>key.
     rbind (ok_or (b64url_decode X signature) AuthenticationFailed) (\<lambda>sig.
     rbind (fail_if (length sig \<noteq> 64) AuthenticationFailed) (\<lambda>_.
     fail_if (\<not> ed_verify X key (signing_message domain message) sig) AuthenticationFailed)))"

definition device_public_identity :: "'z ext_scheme \<Rightarrow> device_identity \<Rightarrow> public_identity" where
  "device_public_identity X identity =
     (let key = ed_public X (di_signing_key identity) in
      \<lparr>pi_device_id = di_device_id identity, pi_public_key = b64url_encode X key,
       pi_fingerprint = public_fingerprint X key\<rparr>)"

definition device_sign :: "'z ext_scheme \<Rightarrow> device_identity \<Rightarrow> bytes \<Rightarrow> bytes \<Rightarrow> string" where
  "device_sign X identity domain message =
     b64url_encode X (ed_sign X (di_signing_key identity) (signing_message domain message))"

definition verify_own ::
    "'z ext_scheme \<Rightarrow> device_identity \<Rightarrow> bytes \<Rightarrow> bytes \<Rightarrow> string \<Rightarrow> core_error + unit" where
  "verify_own X identity domain message signature =
     identity_verify X (device_public_identity X identity) domain message signature"

section \<open>What the primitives promise\<close>

text \<open>
  The documented behaviour of the codecs and of Ed25519: decoding inverts encoding, a public
  key is 32 bytes the verifier accepts, a signature is 64 bytes, and a signature verifies
  under its own key on the message it was made for.
\<close>

definition ext_ok :: "'z ext_scheme \<Rightarrow> bool" where
  "ext_ok X \<longleftrightarrow>
     (\<forall>bs. b64url_decode X (b64url_encode X bs) = Some bs)
     \<and> (\<forall>bs. length bs \<le> 64 \<longrightarrow> length (b64url_encode X bs) \<le> 128)
     \<and> (\<forall>sk. length (ed_public X sk) = 32 \<and> ed_key_ok X (ed_public X sk))
     \<and> (\<forall>sk m. length (ed_sign X sk m) = 64)
     \<and> (\<forall>sk m. ed_verify X (ed_public X sk) m (ed_sign X sk m))"

lemma verify_own_signature:
  assumes "ext_ok X"
  shows "identity_verify X (device_public_identity X d) domain message
           (device_sign X d domain message) = Inr ()"
  using assms
  by (simp add: identity_verify_def verifying_key_def decode_verifying_key_def
      device_public_identity_def device_sign_def ext_ok_def Let_def)

lemma device_public_identity_id [simp]: "pi_device_id (device_public_identity X d) = di_device_id d"
  by (simp add: device_public_identity_def Let_def)

end
