(* ===== verification/Folder_Sharing.thy ===== *)
theory Folder_Sharing
  imports Identity
begin

text \<open>
  The signed records of \<open>covalent-core/src/folder_sharing.rs\<close>: a source offer, a target
  acceptance bound to the offer's digest and a source commit bound to both, each with its
  shape checks, signature domain and freshness window. JSON encoding is \<open>serde_json\<close>, given
  by the fields of \<open>sharing_ext\<close>.
\<close>

section \<open>Signed fields\<close>

record offer_signing_fields =
  osf_schema_version :: u16
  osf_offer_id :: uuid
  osf_folder_id :: uuid
  osf_label :: string
  osf_source_device_id :: device_id
  osf_target_device_id :: device_id
  osf_source_engine :: sync_engine_binding
  osf_link_policy :: "folder_link_policy option"
  osf_pairing_id :: "string option"
  osf_issued_at_unix_ms :: u64
  osf_expires_at_unix_ms :: u64
  osf_nonce :: string

record acceptance_signing_fields =
  asf_schema_version :: u16
  asf_offer_digest :: string
  asf_target_device_id :: device_id
  asf_target_engine :: sync_engine_binding
  asf_accepted_at_unix_ms :: u64

record commit_signing_fields =
  csf_schema_version :: u16
  csf_source_device_id :: device_id
  csf_offer_digest :: string
  csf_acceptance_digest :: string

text \<open>\<open>serde_json::to_vec\<close> at the five types this file encodes.\<close>

record sharing_ext = ext +
  json_offer_fields :: "offer_signing_fields \<Rightarrow> bytes option"
  json_acceptance_fields :: "acceptance_signing_fields \<Rightarrow> bytes option"
  json_commit_fields :: "commit_signing_fields \<Rightarrow> bytes option"
  json_offer :: "folder_share_offer \<Rightarrow> bytes option"
  json_acceptance :: "folder_share_acceptance \<Rightarrow> bytes option"

datatype folder_sharing_error =
    InvalidRecord
  | InvalidEngineBinding
  | WrongPeer
  | InvalidSignature
  | NotFresh
  | EntropyUnavailable
  | EncodingFailed

definition OFFER_SIGNATURE_DOMAIN :: bytes where
  "OFFER_SIGNATURE_DOMAIN = ''covalent/folder-share-offer/v1''"

definition ACCEPTANCE_SIGNATURE_DOMAIN :: bytes where
  "ACCEPTANCE_SIGNATURE_DOMAIN = ''covalent/folder-share-acceptance/v1''"

definition COMMIT_SIGNATURE_DOMAIN :: bytes where
  "COMMIT_SIGNATURE_DOMAIN = ''covalent/folder-share-commit/v1''"

definition OFFER_DIGEST_DOMAIN :: bytes where
  "OFFER_DIGEST_DOMAIN = ''covalent/folder-share-offer-digest/v1'' @ [CHR 0x00]"

definition ACCEPTANCE_DIGEST_DOMAIN :: bytes where
  "ACCEPTANCE_DIGEST_DOMAIN = ''covalent/folder-share-acceptance-digest/v1'' @ [CHR 0x00]"

definition MAX_CLOCK_SKEW_MS :: u64 where
  "MAX_CLOCK_SKEW_MS = 300000"

definition MAX_FOLDER_SHARE_LIFETIME_MS :: u64 where
  "MAX_FOLDER_SHARE_LIFETIME_MS = 900000"

definition offer_signing_bytes ::
    "'z sharing_ext_scheme \<Rightarrow> folder_share_offer \<Rightarrow> folder_sharing_error + bytes" where
  "offer_signing_bytes X offer =
     ok_or (json_offer_fields X
       \<lparr>osf_schema_version = offer_schema_version offer,
        osf_offer_id = offer_offer_id offer,
        osf_folder_id = offer_folder_id offer,
        osf_label = offer_label offer,
        osf_source_device_id = offer_source_device_id offer,
        osf_target_device_id = offer_target_device_id offer,
        osf_source_engine = offer_source_engine offer,
        osf_link_policy = offer_link_policy offer,
        osf_pairing_id = offer_pairing_id offer,
        osf_issued_at_unix_ms = offer_issued_at_unix_ms offer,
        osf_expires_at_unix_ms = offer_expires_at_unix_ms offer,
        osf_nonce = offer_nonce offer\<rparr>) EncodingFailed"

definition acceptance_signing_bytes ::
    "'z sharing_ext_scheme \<Rightarrow> folder_share_acceptance \<Rightarrow> folder_sharing_error + bytes" where
  "acceptance_signing_bytes X acceptance =
     ok_or (json_acceptance_fields X
       \<lparr>asf_schema_version = acc_schema_version acceptance,
        asf_offer_digest = acc_offer_digest acceptance,
        asf_target_device_id = acc_target_device_id acceptance,
        asf_target_engine = acc_target_engine acceptance,
        asf_accepted_at_unix_ms = acc_accepted_at_unix_ms acceptance\<rparr>) EncodingFailed"

definition commit_signing_bytes ::
    "'z sharing_ext_scheme \<Rightarrow> folder_share_commit \<Rightarrow> folder_sharing_error + bytes" where
  "commit_signing_bytes X commit =
     ok_or (json_commit_fields X
       \<lparr>csf_schema_version = com_schema_version commit,
        csf_source_device_id = com_source_device_id commit,
        csf_offer_digest = com_offer_digest commit,
        csf_acceptance_digest = com_acceptance_digest commit\<rparr>) EncodingFailed"

section \<open>Shape checks\<close>

definition is_lower_hex_digest :: "string \<Rightarrow> bool" where
  "is_lower_hex_digest value \<longleftrightarrow>
     length value = 32 * 2
     \<and> list_all (\<lambda>b. is_ascii_hexdigit b \<and> \<not> is_ascii_uppercase b) value"

definition is_canonical_base64 :: "'z ext_scheme \<Rightarrow> string \<Rightarrow> nat \<Rightarrow> bool \<Rightarrow> bool" where
  "is_canonical_base64 X value decoded_len nonzero \<longleftrightarrow>
     \<not> length value > 128
     \<and> (case b64url_decode X value of None \<Rightarrow> False
        | Some decoded \<Rightarrow>
            length decoded = decoded_len
            \<and> (\<not> nonzero \<or> list_ex (\<lambda>b. b \<noteq> CHR 0x00) decoded)
            \<and> b64url_encode X decoded = value)"

definition is_nil_device_id :: "device_id \<Rightarrow> bool" where
  "is_nil_device_id v \<longleftrightarrow> v = device_nil"

definition validate_label :: "string \<Rightarrow> folder_sharing_error + unit" where
  "validate_label value =
     fail_if (str_blank value \<or> length value > MAX_FOLDER_SHARE_LABEL_BYTES
       \<or> str_has_control value) InvalidRecord"

definition validate_pairing_id ::
    "'z ext_scheme \<Rightarrow> string option \<Rightarrow> folder_sharing_error + unit" where
  "validate_pairing_id X pairing =
     (case pairing of None \<Rightarrow> Inr ()
      | Some value \<Rightarrow>
          fail_if (value = [] \<or> length value > MAX_FOLDER_SHARE_PAIRING_ID_BYTES
            \<or> \<not> is_canonical_base64 X value 16 True) InvalidRecord)"

definition validate_binding ::
    "'z ext_scheme \<Rightarrow> sync_engine_binding \<Rightarrow> device_id \<Rightarrow> folder_sharing_error + unit" where
  "validate_binding X binding expected_owner =
     rbind (map_err (\<lambda>_. InvalidEngineBinding) (binding_validate X binding)) (\<lambda>_.
     fail_if (seb_covalent_device_id binding \<noteq> expected_owner) InvalidEngineBinding)"

definition validate_offer_shape ::
    "'z ext_scheme \<Rightarrow> folder_share_offer \<Rightarrow> bool \<Rightarrow> folder_sharing_error + unit" where
  "validate_offer_shape X offer require_signature =
     rbind (validate_label (offer_label offer)) (\<lambda>_.
     rbind (validate_pairing_id X (offer_pairing_id offer)) (\<lambda>_.
     rbind (validate_binding X (offer_source_engine offer) (offer_source_device_id offer)) (\<lambda>_.
     let expected_version =
           (if offer_link_policy offer \<noteq> None then FOLDER_LINK_SCHEMA_VERSION
            else FOLDER_SHARE_SCHEMA_VERSION) in
     fail_if
       (offer_schema_version offer \<noteq> expected_version
        \<or> uuid_is_nil (offer_offer_id offer)
        \<or> uuid_is_nil (offer_folder_id offer)
        \<or> is_nil_device_id (offer_source_device_id offer)
        \<or> is_nil_device_id (offer_target_device_id offer)
        \<or> offer_source_device_id offer = offer_target_device_id offer
        \<or> offer_issued_at_unix_ms offer = 0
        \<or> offer_expires_at_unix_ms offer \<le> offer_issued_at_unix_ms offer
        \<or> offer_expires_at_unix_ms offer - offer_issued_at_unix_ms offer
            > MAX_FOLDER_SHARE_LIFETIME_MS
        \<or> \<not> is_canonical_base64 X (offer_nonce offer) 24 True
        \<or> (require_signature \<and> \<not> is_canonical_base64 X (offer_signature offer) 64 False)
        \<or> (\<not> require_signature \<and> offer_signature offer \<noteq> [])) InvalidRecord)))"

definition folder_share_offer_digest ::
    "'z sharing_ext_scheme \<Rightarrow> folder_share_offer \<Rightarrow> folder_sharing_error + string" where
  "folder_share_offer_digest X offer =
     rbind (validate_offer_shape X offer True) (\<lambda>_.
     rbind (ok_or (json_offer X offer) EncodingFailed) (\<lambda>encoded.
     Inr (blake3_hex X (OFFER_DIGEST_DOMAIN @ encoded))))"

definition validate_acceptance_shape ::
    "'z sharing_ext_scheme \<Rightarrow> folder_share_offer \<Rightarrow> folder_share_acceptance \<Rightarrow> bool
      \<Rightarrow> folder_sharing_error + unit" where
  "validate_acceptance_shape X offer acceptance require_signature =
     rbind (validate_binding X (acc_target_engine acceptance) (acc_target_device_id acceptance)) (\<lambda>_.
     rbind (fail_if
       (acc_schema_version acceptance \<noteq> offer_schema_version offer
        \<or> acc_accepted_at_unix_ms acceptance = 0
        \<or> acc_accepted_at_unix_ms acceptance \<ge> offer_expires_at_unix_ms offer
        \<or> saturating_add (acc_accepted_at_unix_ms acceptance) MAX_CLOCK_SKEW_MS
            < offer_issued_at_unix_ms offer
        \<or> \<not> is_lower_hex_digest (acc_offer_digest acceptance)) InvalidRecord) (\<lambda>_.
     rbind (folder_share_offer_digest X offer) (\<lambda>digest.
     fail_if
       (acc_offer_digest acceptance \<noteq> digest
        \<or> (require_signature \<and> \<not> is_canonical_base64 X (acc_signature acceptance) 64 False)
        \<or> (\<not> require_signature \<and> acc_signature acceptance \<noteq> [])) InvalidRecord)))"

definition folder_share_acceptance_digest ::
    "'z sharing_ext_scheme \<Rightarrow> folder_share_offer \<Rightarrow> folder_share_acceptance
      \<Rightarrow> folder_sharing_error + string" where
  "folder_share_acceptance_digest X offer acceptance =
     rbind (validate_acceptance_shape X offer acceptance True) (\<lambda>_.
     rbind (ok_or (json_acceptance X acceptance) EncodingFailed) (\<lambda>encoded.
     Inr (blake3_hex X (ACCEPTANCE_DIGEST_DOMAIN @ encoded))))"

definition validate_commit_shape ::
    "'z sharing_ext_scheme \<Rightarrow> folder_share_offer \<Rightarrow> folder_share_acceptance \<Rightarrow> folder_share_commit
      \<Rightarrow> bool \<Rightarrow> folder_sharing_error + unit" where
  "validate_commit_shape X offer acceptance commit require_signature =
     rbind (fail_if
       (com_schema_version commit \<noteq> offer_schema_version offer
        \<or> \<not> is_lower_hex_digest (com_offer_digest commit)
        \<or> \<not> is_lower_hex_digest (com_acceptance_digest commit)) InvalidRecord) (\<lambda>_.
     rbind (folder_share_offer_digest X offer) (\<lambda>offer_digest.
     rbind (fail_if (com_offer_digest commit \<noteq> offer_digest) InvalidRecord) (\<lambda>_.
     rbind (folder_share_acceptance_digest X offer acceptance) (\<lambda>acceptance_digest.
     fail_if
       (com_acceptance_digest commit \<noteq> acceptance_digest
        \<or> (require_signature \<and> \<not> is_canonical_base64 X (com_signature commit) 64 False)
        \<or> (\<not> require_signature \<and> com_signature commit \<noteq> [])) InvalidRecord))))"

definition validate_fresh_offer_time :: "folder_share_offer \<Rightarrow> u64 \<Rightarrow> folder_sharing_error + unit" where
  "validate_fresh_offer_time offer now =
     fail_if (now = 0 \<or> now \<ge> offer_expires_at_unix_ms offer
       \<or> offer_issued_at_unix_ms offer > saturating_add now MAX_CLOCK_SKEW_MS) NotFresh"

definition verify_signature ::
    "'z ext_scheme \<Rightarrow> public_identity \<Rightarrow> bytes \<Rightarrow> bytes \<Rightarrow> string \<Rightarrow> folder_sharing_error + unit" where
  "verify_signature X identity domain message signature =
     map_err (\<lambda>_. InvalidSignature) (identity_verify X identity domain message signature)"

section \<open>Verification\<close>

definition verify_folder_share_offer ::
    "'z sharing_ext_scheme \<Rightarrow> folder_share_offer \<Rightarrow> public_identity \<Rightarrow> device_id
      \<Rightarrow> folder_sharing_error + unit" where
  "verify_folder_share_offer X offer trusted_source expected_target =
     rbind (validate_offer_shape X offer True) (\<lambda>_.
     rbind (offer_signing_bytes X offer) (\<lambda>message.
     rbind (verify_signature X trusted_source OFFER_SIGNATURE_DOMAIN message
              (offer_signature offer)) (\<lambda>_.
     fail_if (pi_device_id trusted_source \<noteq> offer_source_device_id offer
       \<or> expected_target \<noteq> offer_target_device_id offer) WrongPeer)))"

definition verify_fresh_folder_share_offer ::
    "'z sharing_ext_scheme \<Rightarrow> folder_share_offer \<Rightarrow> public_identity \<Rightarrow> device_id \<Rightarrow> u64
      \<Rightarrow> folder_sharing_error + unit" where
  "verify_fresh_folder_share_offer X offer trusted_source expected_target now =
     rbind (verify_folder_share_offer X offer trusted_source expected_target) (\<lambda>_.
     validate_fresh_offer_time offer now)"

definition verify_folder_share_acceptance ::
    "'z sharing_ext_scheme \<Rightarrow> folder_share_offer \<Rightarrow> folder_share_acceptance
      \<Rightarrow> public_identity \<Rightarrow> public_identity \<Rightarrow> folder_sharing_error + unit" where
  "verify_folder_share_acceptance X offer acceptance trusted_source trusted_target =
     rbind (verify_folder_share_offer X offer trusted_source (offer_target_device_id offer)) (\<lambda>_.
     rbind (validate_acceptance_shape X offer acceptance True) (\<lambda>_.
     rbind (acceptance_signing_bytes X acceptance) (\<lambda>message.
     rbind (verify_signature X trusted_target ACCEPTANCE_SIGNATURE_DOMAIN message
              (acc_signature acceptance)) (\<lambda>_.
     fail_if (acc_target_device_id acceptance \<noteq> pi_device_id trusted_target
       \<or> offer_target_device_id offer \<noteq> pi_device_id trusted_target) WrongPeer))))"

definition verify_fresh_folder_share_acceptance ::
    "'z sharing_ext_scheme \<Rightarrow> folder_share_offer \<Rightarrow> folder_share_acceptance
      \<Rightarrow> public_identity \<Rightarrow> public_identity \<Rightarrow> u64 \<Rightarrow> folder_sharing_error + unit" where
  "verify_fresh_folder_share_acceptance X offer acceptance trusted_source trusted_target now =
     rbind (verify_folder_share_acceptance X offer acceptance trusted_source trusted_target) (\<lambda>_.
     rbind (validate_fresh_offer_time offer now) (\<lambda>_.
     fail_if (acc_accepted_at_unix_ms acceptance > saturating_add now MAX_CLOCK_SKEW_MS) NotFresh))"

definition verify_folder_share_commit ::
    "'z sharing_ext_scheme \<Rightarrow> folder_share_offer \<Rightarrow> folder_share_acceptance \<Rightarrow> folder_share_commit
      \<Rightarrow> public_identity \<Rightarrow> public_identity \<Rightarrow> folder_sharing_error + unit" where
  "verify_folder_share_commit X offer acceptance commit trusted_source trusted_target =
     rbind (verify_folder_share_acceptance X offer acceptance trusted_source trusted_target) (\<lambda>_.
     rbind (validate_commit_shape X offer acceptance commit True) (\<lambda>_.
     rbind (commit_signing_bytes X commit) (\<lambda>message.
     rbind (verify_signature X trusted_source COMMIT_SIGNATURE_DOMAIN message
              (com_signature commit)) (\<lambda>_.
     fail_if (com_source_device_id commit \<noteq> pi_device_id trusted_source) WrongPeer))))"

section \<open>Creation\<close>

text \<open>
  The forty random bytes come from the operating system (\<open>None\<close> when it has none). The
  first sixteen become a version 4 UUID: the version nibble of byte 6, the variant bits of
  byte 8.
\<close>

definition uuid_of_bytes :: "bytes \<Rightarrow> uuid" where
  "uuid_of_bytes bs = foldl (\<lambda>acc b. acc * 256 + word_of_int (byte_val b)) 0 bs"

definition v4_bytes :: "bytes \<Rightarrow> bytes" where
  "v4_bytes bs =
     bs[6 := char_of ((byte_val (bs ! 6) AND 0x0F) OR 0x40),
        8 := char_of ((byte_val (bs ! 8) AND 0x3F) OR 0x80)]"

definition create_folder_share_offer_with_policy ::
    "'z sharing_ext_scheme \<Rightarrow> bytes option \<Rightarrow> device_identity \<Rightarrow> device_id \<Rightarrow> uuid \<Rightarrow> string
      \<Rightarrow> sync_engine_binding \<Rightarrow> string option \<Rightarrow> u64 \<Rightarrow> u64 \<Rightarrow> folder_link_policy option
      \<Rightarrow> folder_sharing_error + folder_share_offer" where
  "create_folder_share_offer_with_policy X entropy source target folder label source_engine
     pairing now lifetime policy =
     rbind (validate_label label) (\<lambda>_.
     rbind (validate_pairing_id X pairing) (\<lambda>_.
     rbind (validate_binding X source_engine (di_device_id source)) (\<lambda>_.
     rbind (fail_if (di_device_id source = target \<or> is_nil_device_id target
       \<or> uuid_is_nil folder \<or> now = 0 \<or> lifetime = 0
       \<or> lifetime > MAX_FOLDER_SHARE_LIFETIME_MS) InvalidRecord) (\<lambda>_.
     rbind (ok_or (checked_add now lifetime) InvalidRecord) (\<lambda>expires.
     rbind (ok_or entropy EntropyUnavailable) (\<lambda>random.
     rbind (fail_if (list_all (\<lambda>b. b = CHR 0x00) (take 16 random)
       \<or> list_all (\<lambda>b. b = CHR 0x00) (drop 16 random)) EntropyUnavailable) (\<lambda>_.
     let offer = \<lparr>
           offer_schema_version = (if policy \<noteq> None then FOLDER_LINK_SCHEMA_VERSION
             else FOLDER_SHARE_SCHEMA_VERSION),
           offer_offer_id = uuid_of_bytes (v4_bytes (take 16 random)),
           offer_folder_id = folder,
           offer_label = label,
           offer_source_device_id = di_device_id source,
           offer_target_device_id = target,
           offer_source_engine = source_engine,
           offer_link_policy = policy,
           offer_pairing_id = pairing,
           offer_issued_at_unix_ms = now,
           offer_expires_at_unix_ms = expires,
           offer_nonce = b64url_encode X (drop 16 random),
           offer_signature = []\<rparr> in
     rbind (validate_offer_shape X offer False) (\<lambda>_.
     rbind (offer_signing_bytes X offer) (\<lambda>message.
     let signed = offer\<lparr>offer_signature := device_sign X source OFFER_SIGNATURE_DOMAIN message\<rparr> in
     rbind (validate_offer_shape X signed True) (\<lambda>_.
     Inr signed))))))))))"

definition create_folder_share_offer ::
    "'z sharing_ext_scheme \<Rightarrow> bytes option \<Rightarrow> device_identity \<Rightarrow> device_id \<Rightarrow> uuid \<Rightarrow> string
      \<Rightarrow> sync_engine_binding \<Rightarrow> string option \<Rightarrow> u64 \<Rightarrow> u64
      \<Rightarrow> folder_sharing_error + folder_share_offer" where
  "create_folder_share_offer X entropy source target folder label source_engine pairing now
     lifetime =
     create_folder_share_offer_with_policy X entropy source target folder label source_engine
       pairing now lifetime None"

definition accept_folder_share_offer ::
    "'z sharing_ext_scheme \<Rightarrow> folder_share_offer \<Rightarrow> public_identity \<Rightarrow> device_identity
      \<Rightarrow> sync_engine_binding \<Rightarrow> u64 \<Rightarrow> folder_sharing_error + folder_share_acceptance" where
  "accept_folder_share_offer X offer trusted_source target target_engine now =
     rbind (verify_fresh_folder_share_offer X offer trusted_source (di_device_id target) now) (\<lambda>_.
     rbind (validate_binding X target_engine (di_device_id target)) (\<lambda>_.
     rbind (folder_share_offer_digest X offer) (\<lambda>digest.
     let acceptance = \<lparr>
           acc_schema_version = offer_schema_version offer,
           acc_offer_digest = digest,
           acc_target_device_id = di_device_id target,
           acc_target_engine = target_engine,
           acc_accepted_at_unix_ms = now,
           acc_signature = []\<rparr> in
     rbind (validate_acceptance_shape X offer acceptance False) (\<lambda>_.
     rbind (acceptance_signing_bytes X acceptance) (\<lambda>message.
     let signed = acceptance\<lparr>acc_signature :=
           device_sign X target ACCEPTANCE_SIGNATURE_DOMAIN message\<rparr> in
     rbind (validate_acceptance_shape X offer signed True) (\<lambda>_.
     Inr signed))))))"

definition commit_folder_share ::
    "'z sharing_ext_scheme \<Rightarrow> folder_share_offer \<Rightarrow> folder_share_acceptance \<Rightarrow> device_identity
      \<Rightarrow> public_identity \<Rightarrow> u64 \<Rightarrow> folder_sharing_error + folder_share_commit" where
  "commit_folder_share X offer acceptance source trusted_target now =
     rbind (verify_fresh_folder_share_acceptance X offer acceptance
       (device_public_identity X source) trusted_target now) (\<lambda>_.
     rbind (folder_share_offer_digest X offer) (\<lambda>offer_digest.
     rbind (folder_share_acceptance_digest X offer acceptance) (\<lambda>acceptance_digest.
     let commit = \<lparr>
           com_schema_version = offer_schema_version offer,
           com_source_device_id = di_device_id source,
           com_offer_digest = offer_digest,
           com_acceptance_digest = acceptance_digest,
           com_signature = []\<rparr> in
     rbind (validate_commit_shape X offer acceptance commit False) (\<lambda>_.
     rbind (commit_signing_bytes X commit) (\<lambda>message.
     let signed = commit\<lparr>com_signature :=
           device_sign X source COMMIT_SIGNATURE_DOMAIN message\<rparr> in
     rbind (validate_commit_shape X offer acceptance signed True) (\<lambda>_.
     Inr signed))))))"

end
