(* ===== verification/Demo.thy ===== *)
theory Demo
  imports Folder_Sharing
begin

text \<open>
  A concrete pair of devices on which the witnesses evaluate the model: total functions in
  place of the codecs, the hash and the signature scheme, two device identities, their
  engine bindings and a signed offer.
\<close>

definition pad :: "nat \<Rightarrow> bytes \<Rightarrow> bytes" where
  "pad n bs = take n (bs @ replicate n (CHR 0x00))"

definition hex_of_byte :: "char \<Rightarrow> char" where
  "hex_of_byte c = ''0123456789abcdef'' ! nat (byte_val c mod 16)"

definition demo_ext :: sharing_ext where
  "demo_ext = \<lparr>
     b64url_encode = (\<lambda>bs. bs), b64url_decode = Some,
     b64std_encode = (\<lambda>bs. bs), b64std_decode = Some,
     blake3_hex = (\<lambda>bs. map hex_of_byte (pad 64 (rev bs))),
     ed_public = pad 32, ed_key_ok = (\<lambda>key. length key = 32),
     ed_sign = (\<lambda>key m. pad 32 key @ pad 32 (rev m)),
     ed_verify = (\<lambda>key m sig. sig = key @ pad 32 (rev m)),
     json_offer_fields = (\<lambda>f. Some (osf_label f @ osf_nonce f)),
     json_acceptance_fields = (\<lambda>f. Some (asf_offer_digest f)),
     json_commit_fields = (\<lambda>f. Some (csf_acceptance_digest f)),
     json_offer = (\<lambda>v. Some (offer_label v @ offer_signature v)),
     json_acceptance = (\<lambda>v. Some (acc_signature v))\<rparr>"

definition alice :: device_identity where
  "alice = \<lparr>di_device_id = DeviceId 1, di_signing_key = ''alice''\<rparr>"

definition bob :: device_identity where
  "bob = \<lparr>di_device_id = DeviceId 2, di_signing_key = ''bob''\<rparr>"

definition demo_ssh_key :: string where
  "demo_ssh_key = ssh_ed25519_prefix @ replicate 32 (CHR ''k'')"

definition alice_engine_id :: string where
  "alice_engine_id = ''BBBBBBB-BBBBBBN-BBBBBBB-BBBBBBN-BBBBBBB-BBBBBBN-BBBBBBB-BBBBBAO''"

definition bob_engine_id :: string where
  "bob_engine_id = ''CCCCCCC-CCCCCC2-CCCCCCC-CCCCCC2-CCCCCCC-CCCCCC2-CCCCCCC-CCCCCQM''"

definition alice_binding :: sync_engine_binding where
  "alice_binding = \<lparr>seb_schema_version = 1, seb_covalent_device_id = DeviceId 1,
     seb_engine_device_id = SyncEngineDeviceId alice_engine_id,
     seb_ssh_public_key = Some demo_ssh_key, seb_direct_address = ''192.0.2.1:22000''\<rparr>"

definition bob_binding :: sync_engine_binding where
  "bob_binding = \<lparr>seb_schema_version = 1, seb_covalent_device_id = DeviceId 2,
     seb_engine_device_id = SyncEngineDeviceId bob_engine_id,
     seb_ssh_public_key = Some demo_ssh_key, seb_direct_address = ''192.0.2.2:22000''\<rparr>"

definition demo_entropy :: bytes where
  "demo_entropy = replicate 40 (CHR ''e'')"

definition demo_offer :: folder_share_offer where
  "demo_offer = \<lparr>offer_schema_version = 2,
     offer_offer_id = uuid_of_bytes (v4_bytes (replicate 16 (CHR ''e''))),
     offer_folder_id = 7, offer_label = ''Photos'',
     offer_source_device_id = DeviceId 1, offer_target_device_id = DeviceId 2,
     offer_source_engine = alice_binding, offer_link_policy = Some default_link_policy,
     offer_pairing_id = None, offer_issued_at_unix_ms = 1000000,
     offer_expires_at_unix_ms = 1900000, offer_nonce = replicate 24 (CHR ''e''),
     offer_signature = pad 32 ''alice'' @ replicate 24 (CHR ''e'') @ rev ''Photos'' @ ''1v''\<rparr>"

definition demo_create :: "folder_sharing_error + folder_share_offer" where
  "demo_create = create_folder_share_offer_with_policy demo_ext (Some demo_entropy) alice
     (DeviceId 2) 7 ''Photos'' alice_binding None 1000000 900000 (Some default_link_policy)"

lemma demo_bindings_ok:
  "validate_binding demo_ext alice_binding (DeviceId 1) = Inr ()"
  "validate_binding demo_ext bob_binding (DeviceId 2) = Inr ()"
  by code_simp+

lemma demo_create_eq: "demo_create = Inr demo_offer"
  by code_simp

definition demo_acceptance :: folder_share_acceptance where
  "demo_acceptance =
     (case accept_folder_share_offer demo_ext demo_offer (device_public_identity demo_ext alice) bob
        bob_binding 1200000 of Inr a \<Rightarrow> a)"

lemma demo_accept_eq:
  "accept_folder_share_offer demo_ext demo_offer (device_public_identity demo_ext alice) bob
     bob_binding 1200000 = Inr demo_acceptance"
  by code_simp

lemma demo_acceptance_verifies:
  "verify_folder_share_acceptance demo_ext demo_offer demo_acceptance
     (device_public_identity demo_ext alice) (device_public_identity demo_ext bob) = Inr ()"
  by code_simp

end
