(* ===== verification/Handshake.thy ===== *)
theory Handshake
  imports Demo
begin

text \<open>
  Correctness of the three-record handshake: what each creation function returns verifies,
  an unhindered exchange completes, an acceptance is bound to one offer, and signatures of
  the three record kinds are made on disjoint sets of messages.
\<close>

section \<open>Encodings\<close>

lemma canonical_encode:
  assumes "ext_ok X" and "length bs = n" and "n \<le> 64"
    and "nonzero \<Longrightarrow> list_ex (\<lambda>b. b \<noteq> CHR 0x00) bs"
  shows "is_canonical_base64 X (b64url_encode X bs) n nonzero"
  using assms by (auto simp: is_canonical_base64_def ext_ok_def not_less)

lemma canonical_signature:
  assumes "ext_ok X"
  shows "is_canonical_base64 X (device_sign X d domain message) 64 False"
  using assms unfolding device_sign_def
  by (intro canonical_encode) (auto simp: ext_ok_def)

text \<open>The signature is not among the signed fields.\<close>

lemma signing_bytes_unsigned [simp]:
  "offer_signing_bytes X (offer\<lparr>offer_signature := s\<rparr>) = offer_signing_bytes X offer"
  "acceptance_signing_bytes X (acceptance\<lparr>acc_signature := s\<rparr>) = acceptance_signing_bytes X acceptance"
  "commit_signing_bytes X (commit\<lparr>com_signature := s\<rparr>) = commit_signing_bytes X commit"
  by (simp_all add: offer_signing_bytes_def acceptance_signing_bytes_def commit_signing_bytes_def)

text \<open>The length prefix separates the domain from the message.\<close>

lemma signing_message_inj:
  assumes "signing_message d m = signing_message d' m'"
    and "length d < 2 ^ 64" and "length d' < 2 ^ 64"
  shows "d = d' \<and> m = m'"
proof -
  have whole: "u64_be_bytes (of_nat (length d)) @ d @ m = u64_be_bytes (of_nat (length d')) @ d' @ m'"
    using assms(1) by (simp add: signing_message_def)
  have len: "length (u64_be_bytes (of_nat (length d))) = length (u64_be_bytes (of_nat (length d')))"
    by (simp add: u64_be_bytes_def)
  note parts = iffD1[OF append_eq_append_conv[OF disjI1[OF len]] whole]
  have eq: "(of_nat (length d) :: u64) = of_nat (length d')"
    by (rule u64_be_bytes_inj[OF conjunct1[OF parts]])
  have len: "unat (of_nat (length d) :: u64) = length d"
      "unat (of_nat (length d') :: u64) = length d'"
    using assms(2,3) by (simp_all add: unat_of_nat)
  have "length d = length d'"
    using arg_cong[where f = unat, OF eq] unfolding len .
  with conjunct2[OF parts] show ?thesis by simp
qed
section \<open>Created records verify\<close>

lemma create_offer_fields:
  assumes "create_folder_share_offer_with_policy X entropy source target folder label engine
    pairing now lifetime policy = Inr offer"
  shows "offer_source_device_id offer = di_device_id source"
    and "offer_target_device_id offer = target"
    and "offer_folder_id offer = folder" and "offer_label offer = label"
    and "offer_link_policy offer = policy" and "offer_pairing_id offer = pairing"
    and "offer_source_engine offer = engine"
    and "offer_issued_at_unix_ms offer = now"
    and "checked_add now lifetime = Some (offer_expires_at_unix_ms offer)"
    and "validate_offer_shape X offer True = Inr ()"
  using assms by (auto simp: create_folder_share_offer_with_policy_def Let_def)

lemma create_offer_verifies:
  assumes "ext_ok X"
    and "create_folder_share_offer_with_policy X entropy source target folder label engine
      pairing now lifetime policy = Inr offer"
  shows "verify_folder_share_offer X offer (device_public_identity X source) target = Inr ()"
  using assms
  by (auto simp: create_folder_share_offer_with_policy_def verify_folder_share_offer_def Let_def
      verify_signature_def verify_own_signature
      offer_signing_bytes_def acceptance_signing_bytes_def commit_signing_bytes_def)

lemma accept_offer_verifies:
  assumes "ext_ok X"
    and "accept_folder_share_offer X offer trusted_source target engine now = Inr acceptance"
  shows "verify_folder_share_acceptance X offer acceptance trusted_source
    (device_public_identity X target) = Inr ()"
  using assms
  by (auto simp: accept_folder_share_offer_def verify_folder_share_acceptance_def Let_def
      verify_fresh_folder_share_offer_def verify_folder_share_offer_def verify_signature_def
      verify_own_signature acceptance_signing_bytes_def)

lemma commit_share_verifies:
  assumes "ext_ok X"
    and "commit_folder_share X offer acceptance source trusted_target now = Inr commit"
  shows "verify_folder_share_commit X offer acceptance commit
    (device_public_identity X source) trusted_target = Inr ()"
  using assms
  by (auto simp: commit_folder_share_def verify_folder_share_commit_def Let_def
      verify_fresh_folder_share_acceptance_def verify_signature_def verify_own_signature
      offer_signing_bytes_def acceptance_signing_bytes_def commit_signing_bytes_def)

section \<open>The exchange completes\<close>

text \<open>
  The remaining documented behaviour: BLAKE3 prints 64 lower-case hexadecimal digits, and
  \<open>serde_json\<close> encodes every value of these types (they have string keys and no custom
  serializer that can fail).
\<close>

definition share_ext_ok :: "'z sharing_ext_scheme \<Rightarrow> bool" where
  "share_ext_ok X \<longleftrightarrow>
     ext_ok X
     \<and> (\<forall>m. is_lower_hex_digest (blake3_hex X m))
     \<and> (\<forall>f. json_offer_fields X f \<noteq> None)
     \<and> (\<forall>f. json_acceptance_fields X f \<noteq> None)
     \<and> (\<forall>f. json_commit_fields X f \<noteq> None)
     \<and> (\<forall>v. json_offer X v \<noteq> None)
     \<and> (\<forall>v. json_acceptance X v \<noteq> None)"

lemma share_ext_okD:
  assumes "share_ext_ok X"
  shows "ext_ok X" and "is_lower_hex_digest (blake3_hex X m)"
    and "\<exists>b. json_offer_fields X f = Some b"
    and "\<exists>b. json_acceptance_fields X g = Some b"
    and "\<exists>b. json_commit_fields X h = Some b"
    and "\<exists>b. json_offer X offer = Some b" and "\<exists>b. json_acceptance X acceptance = Some b"
  using assms by (auto simp: share_ext_ok_def)

lemma offer_digest_ok:
  assumes "share_ext_ok X" and "validate_offer_shape X offer True = Inr ()"
  shows "\<exists>d. folder_share_offer_digest X offer = Inr d \<and> is_lower_hex_digest d"
  using assms share_ext_okD(2,6)[OF assms(1)]
  by (auto simp: folder_share_offer_digest_def dest!: meta_spec[of _ offer])

lemma acceptance_digest_ok:
  assumes "share_ext_ok X" and "validate_acceptance_shape X offer acceptance True = Inr ()"
  shows "\<exists>d. folder_share_acceptance_digest X offer acceptance = Inr d \<and> is_lower_hex_digest d"
  using assms share_ext_okD(2,7)[OF assms(1)]
  by (auto simp: folder_share_acceptance_digest_def dest!: meta_spec[of _ acceptance])

lemma fresh_time_bounds:
  assumes "validate_fresh_offer_time offer now = Inr ()"
  shows "now \<noteq> 0" and "now < offer_expires_at_unix_ms offer"
    and "offer_issued_at_unix_ms offer \<le> saturating_add now MAX_CLOCK_SKEW_MS"
  using assms by (auto simp: validate_fresh_offer_time_def)

lemma accept_completes:
  assumes ok: "share_ext_ok X"
    and offer: "verify_folder_share_offer X offer trusted_source (di_device_id target) = Inr ()"
    and fresh: "validate_fresh_offer_time offer now = Inr ()"
    and engine: "validate_binding X engine (di_device_id target) = Inr ()"
  shows "\<exists>a. accept_folder_share_offer X offer trusted_source target engine now = Inr a"
proof -
  have shape: "validate_offer_shape X offer True = Inr ()"
    using offer by (simp add: verify_folder_share_offer_def)
  from offer_digest_ok[OF ok shape] obtain d
    where d: "folder_share_offer_digest X offer = Inr d" "is_lower_hex_digest d"
    by blast
  show ?thesis
    using assms d fresh_time_bounds[OF fresh] share_ext_okD(4)[OF ok]
      canonical_signature[OF share_ext_okD(1)[OF ok]]
    by (auto simp: accept_folder_share_offer_def verify_fresh_folder_share_offer_def Let_def
        validate_acceptance_shape_def acceptance_signing_bytes_def not_le not_less)
qed

lemma commit_completes:
  assumes ok: "share_ext_ok X"
    and accepted: "verify_folder_share_acceptance X offer acceptance
      (device_public_identity X source) trusted_target = Inr ()"
    and fresh: "validate_fresh_offer_time offer now = Inr ()"
    and skew: "acc_accepted_at_unix_ms acceptance \<le> saturating_add now MAX_CLOCK_SKEW_MS"
  shows "\<exists>c. commit_folder_share X offer acceptance source trusted_target now = Inr c"
proof -
  have shapes: "validate_offer_shape X offer True = Inr ()"
      "validate_acceptance_shape X offer acceptance True = Inr ()"
    using accepted
    by (auto simp: verify_folder_share_acceptance_def verify_folder_share_offer_def)
  from offer_digest_ok[OF ok shapes(1)] acceptance_digest_ok[OF ok shapes(2)]
  obtain d e where d: "folder_share_offer_digest X offer = Inr d" "is_lower_hex_digest d"
    and e: "folder_share_acceptance_digest X offer acceptance = Inr e" "is_lower_hex_digest e"
    by blast
  show ?thesis
    using accepted fresh skew d e share_ext_okD(5)[OF ok]
      canonical_signature[OF share_ext_okD(1)[OF ok]]
    by (auto simp: commit_folder_share_def verify_fresh_folder_share_acceptance_def Let_def
        validate_commit_shape_def commit_signing_bytes_def not_less)
qed

section \<open>Properties of the handshake\<close>

lemma demo_share_ext_ok: "share_ext_ok demo_ext"
proof -
  have hex: "is_ascii_hexdigit (hex_of_byte c) \<and> \<not> is_ascii_uppercase (hex_of_byte c)" for c
  proof -
    have "nat (byte_val c mod 16) < 16" by (simp add: nat_less_iff)
    then have "hex_of_byte c \<in> set ''0123456789abcdef''"
      unfolding hex_of_byte_def by (intro nth_mem) simp
    then show ?thesis
      by (auto simp: is_ascii_hexdigit_def is_ascii_digit_def is_ascii_uppercase_def byte_val_def
          of_char_def)
  qed
  show ?thesis
    unfolding share_ext_ok_def ext_ok_def is_lower_hex_digest_def demo_ext_def
    by (auto simp: pad_def list_all_iff hex)
qed

text \<open>
  C1. The exchange completes. If a source created an offer, the target's binding is valid and
  both peers act inside the offer's window, then the target's acceptance and the source's
  commit are both produced, and the target's verification of all three records succeeds.
\<close>

theorem handshake_completes:
  assumes "share_ext_ok X"
    and "create_folder_share_offer_with_policy X entropy source (di_device_id target) folder label
      source_engine pairing issued lifetime policy = Inr offer"
    and "validate_binding X target_engine (di_device_id target) = Inr ()"
    and "validate_fresh_offer_time offer accept_time = Inr ()"
    and "validate_fresh_offer_time offer commit_time = Inr ()"
    and "accept_time \<le> saturating_add commit_time MAX_CLOCK_SKEW_MS"
  shows "\<exists>acceptance commit.
    accept_folder_share_offer X offer (device_public_identity X source) target target_engine
      accept_time = Inr acceptance
    \<and> commit_folder_share X offer acceptance source (device_public_identity X target)
      commit_time = Inr commit
    \<and> verify_folder_share_commit X offer acceptance commit (device_public_identity X source)
      (device_public_identity X target) = Inr ()"
proof -
  note ext = share_ext_okD(1)[OF assms(1)]
  obtain a where a: "accept_folder_share_offer X offer (device_public_identity X source) target
      target_engine accept_time = Inr a"
    using accept_completes[OF assms(1) create_offer_verifies[OF ext assms(2)] assms(4,3)] by blast
  then have "acc_accepted_at_unix_ms a = accept_time"
    by (auto simp: accept_folder_share_offer_def Let_def)
  with assms(6) obtain c where "commit_folder_share X offer a source
      (device_public_identity X target) commit_time = Inr c"
    using commit_completes[OF assms(1) accept_offer_verifies[OF ext a] assms(5)] by auto
  with a commit_share_verifies[OF ext] show ?thesis by blast
qed

theorem handshake_completes_witness:
  "\<exists>acceptance commit.
    accept_folder_share_offer demo_ext demo_offer (device_public_identity demo_ext alice) bob
      bob_binding 1200000 = Inr acceptance
    \<and> commit_folder_share demo_ext demo_offer acceptance alice (device_public_identity demo_ext bob)
      1100000 = Inr commit
    \<and> verify_folder_share_commit demo_ext demo_offer acceptance commit
      (device_public_identity demo_ext alice) (device_public_identity demo_ext bob) = Inr ()"
proof (rule handshake_completes[OF demo_share_ext_ok])
  show "create_folder_share_offer_with_policy demo_ext (Some demo_entropy) alice
      (di_device_id bob) 7 ''Photos'' alice_binding None 1000000 900000
      (Some default_link_policy) = Inr demo_offer"
    using demo_create_eq by (simp add: demo_create_def bob_def)
  show "validate_binding demo_ext bob_binding (di_device_id bob) = Inr ()"
    using demo_bindings_ok(2) by (simp add: bob_def)
  show "validate_fresh_offer_time demo_offer 1200000 = Inr ()" by code_simp
  show "validate_fresh_offer_time demo_offer 1100000 = Inr ()" by code_simp
  show "(1200000 :: u64) \<le> saturating_add 1100000 MAX_CLOCK_SKEW_MS" by code_simp
qed

text \<open>
  C2. An acceptance is consent to one offer. If the same acceptance verifies for two offers,
  then their complete signed encodings are equal, unless the two encodings are a collision
  of the digest.
\<close>

theorem acceptance_binds_offer:
  assumes "verify_folder_share_acceptance X offer acceptance source target = Inr ()"
    and "verify_folder_share_acceptance X offer' acceptance source' target' = Inr ()"
  shows "\<exists>e e'. json_offer X offer = Some e \<and> json_offer X offer' = Some e'
    \<and> (e = e' \<or> e \<noteq> e' \<and> blake3_hex X (OFFER_DIGEST_DOMAIN @ e) = blake3_hex X (OFFER_DIGEST_DOMAIN @ e'))"
proof -
  have *: "folder_share_offer_digest X offer = Inr (acc_offer_digest acceptance)"
    if "verify_folder_share_acceptance X offer acceptance source target = Inr ()"
    for offer source target
    using that
    by (auto simp: verify_folder_share_acceptance_def validate_acceptance_shape_def)
  obtain e e' where "json_offer X offer = Some e" "json_offer X offer' = Some e'"
    and "blake3_hex X (OFFER_DIGEST_DOMAIN @ e) = acc_offer_digest acceptance"
    and "blake3_hex X (OFFER_DIGEST_DOMAIN @ e') = acc_offer_digest acceptance"
    using *[OF assms(1)] *[OF assms(2)] by (auto simp: folder_share_offer_digest_def)
  then show ?thesis by auto
qed

theorem acceptance_binds_offer_witness:
  "\<exists>e e'. json_offer demo_ext demo_offer = Some e \<and> json_offer demo_ext demo_offer = Some e'
    \<and> (e = e' \<or> e \<noteq> e' \<and> blake3_hex demo_ext (OFFER_DIGEST_DOMAIN @ e)
          = blake3_hex demo_ext (OFFER_DIGEST_DOMAIN @ e'))"
  by (rule acceptance_binds_offer[OF demo_acceptance_verifies demo_acceptance_verifies])

text \<open>
  C3. Signatures of the three record kinds cover disjoint messages. No message is signed under two of
  the domains of folder sharing, whatever the records, and within one domain two records are signed as
  the same message only when their bytes are equal.
\<close>

theorem signature_domains_separate:
  "signing_message OFFER_SIGNATURE_DOMAIN m \<noteq> signing_message ACCEPTANCE_SIGNATURE_DOMAIN m'
   \<and> signing_message OFFER_SIGNATURE_DOMAIN m \<noteq> signing_message COMMIT_SIGNATURE_DOMAIN m'
   \<and> signing_message ACCEPTANCE_SIGNATURE_DOMAIN m \<noteq> signing_message COMMIT_SIGNATURE_DOMAIN m'
   \<and> (signing_message OFFER_SIGNATURE_DOMAIN m = signing_message OFFER_SIGNATURE_DOMAIN m') = (m = m')
   \<and> (signing_message ACCEPTANCE_SIGNATURE_DOMAIN m = signing_message ACCEPTANCE_SIGNATURE_DOMAIN m') = (m = m')
   \<and> (signing_message COMMIT_SIGNATURE_DOMAIN m = signing_message COMMIT_SIGNATURE_DOMAIN m') = (m = m')"
proof -
  let ?D = "{OFFER_SIGNATURE_DOMAIN, ACCEPTANCE_SIGNATURE_DOMAIN, COMMIT_SIGNATURE_DOMAIN}"
  have same: "d = d' \<and> m = m'" if "d \<in> ?D" "d' \<in> ?D" "signing_message d m = signing_message d' m'" for d d'
  proof (rule signing_message_inj[OF that(3)])
    show "length d < 2 ^ 64" "length d' < 2 ^ 64"
      using that(1,2)
      by (auto simp: OFFER_SIGNATURE_DOMAIN_def ACCEPTANCE_SIGNATURE_DOMAIN_def
          COMMIT_SIGNATURE_DOMAIN_def)
  qed
  have "OFFER_SIGNATURE_DOMAIN \<noteq> ACCEPTANCE_SIGNATURE_DOMAIN" "OFFER_SIGNATURE_DOMAIN \<noteq> COMMIT_SIGNATURE_DOMAIN"
    "ACCEPTANCE_SIGNATURE_DOMAIN \<noteq> COMMIT_SIGNATURE_DOMAIN"
    by code_simp+
  with same show ?thesis by (metis insertI1 insertI2)
qed

text \<open>
  C4. Consent is given only inside a short window: an acceptance that is produced carries the
  time of the decision, at which the offer had not expired, and the offer it answers was
  valid for at most fifteen minutes from its issue time.
\<close>

theorem acceptance_within_window:
  assumes "accept_folder_share_offer X offer source target engine now = Inr acceptance"
  shows "acc_accepted_at_unix_ms acceptance = now
    \<and> unat now < unat (offer_expires_at_unix_ms offer)
    \<and> unat (offer_expires_at_unix_ms offer) \<le> unat (offer_issued_at_unix_ms offer) + 15 * 60 * 1000
    \<and> unat (offer_issued_at_unix_ms offer) \<le> unat now + 5 * 60 * 1000"
proof -
  have *: "verify_folder_share_offer X offer source (di_device_id target) = Inr ()"
      "validate_fresh_offer_time offer now = Inr ()" "acc_accepted_at_unix_ms acceptance = now"
    using assms
    by (auto simp: accept_folder_share_offer_def verify_fresh_folder_share_offer_def Let_def)
  have "offer_issued_at_unix_ms offer < offer_expires_at_unix_ms offer"
    and "offer_expires_at_unix_ms offer - offer_issued_at_unix_ms offer \<le> 900000"
    using *(1) by (auto simp: verify_folder_share_offer_def validate_offer_shape_def Let_def
        MAX_FOLDER_SHARE_LIFETIME_MS_def)
  then have "unat (offer_expires_at_unix_ms offer) \<le> unat (offer_issued_at_unix_ms offer) + 900000"
    by (simp add: word_less_nat_alt word_le_nat_alt unat_sub)
  moreover have "now < offer_expires_at_unix_ms offer"
    and "offer_issued_at_unix_ms offer \<le> saturating_add now MAX_CLOCK_SKEW_MS"
    using *(2) by (auto simp: validate_fresh_offer_time_def)
  then have "unat now < unat (offer_expires_at_unix_ms offer)"
    and "unat (offer_issued_at_unix_ms offer) \<le> unat now + 300000"
    using unat_saturating_add_le[of now MAX_CLOCK_SKEW_MS]
    by (simp_all add: word_less_nat_alt word_le_nat_alt MAX_CLOCK_SKEW_MS_def)
  ultimately show ?thesis
    using *(3) by simp
qed

theorem acceptance_within_window_witness:
  "acc_accepted_at_unix_ms demo_acceptance = 1200000
    \<and> unat (1200000 :: u64) < unat (offer_expires_at_unix_ms demo_offer)
    \<and> unat (offer_expires_at_unix_ms demo_offer)
        \<le> unat (offer_issued_at_unix_ms demo_offer) + 15 * 60 * 1000
    \<and> unat (offer_issued_at_unix_ms demo_offer) \<le> unat (1200000 :: u64) + 5 * 60 * 1000"
  by (rule acceptance_within_window[OF demo_accept_eq])

end
