(* ===== verification/State_Store.thy ===== *)
theory State_Store
  imports Prelude
begin

text \<open>
  The authenticated state record of \<open>covalent-node/src/sync_engine/state.rs\<close>: one current
  file, one staging slot, and a handle that refuses further use once a write may have been
  interrupted. Every system call is a point of \<open>store_io\<close> that may fail; a crash at a point
  leaves the disk as a failure there does without the clean-up.
\<close>

datatype engine_state_error =
    Unavailable
  | InvalidState
  | InvalidPayload
  | StaleRevision
  | PersistenceUncertain

record state_record =
  rec_schema_version :: u16
  rec_engine_device_id :: string
  rec_revision :: u64
  rec_payload :: string
  rec_authentication :: bytes

text \<open>
  \<open>serde_json\<close>, SHA-256, the key protector behind \<open>WrappedSecret\<close>, and the installation the
  store belongs to.
\<close>

record store_ext =
  sha256 :: "bytes \<Rightarrow> bytes"
  secret_protect :: "bytes \<Rightarrow> bytes option"
  secret_open :: "bytes \<Rightarrow> bytes option"
  json_valid :: "bytes \<Rightarrow> bool"
  json_record :: "state_record \<Rightarrow> bytes option"
  json_record_decode :: "bytes \<Rightarrow> state_record option"
  installation_device_id :: string

datatype io_point =
    LockStateWriter | RevalidateHandle | ReadIncumbent | OpenDirectory | RevalidateBeforeStage
  | CreateStaged | StatStaged | ChmodStaged | WriteStaged | RereadIncumbent
  | RevalidateBeforeRename | StagedIsCurrent | RenameStaged | SyncDirectory | OpenNext | ReadBack
  | RevalidateAfter | UnlinkStaged | OpenCurrent | StagedIsSafe | SyncCurrent

record store_io =
  io_ok :: "io_point \<Rightarrow> bool"
  io_torn :: nat

text \<open>A file is identified by its inode; renaming over an entry replaces the inode.\<close>

record disk =
  dk_current :: "(nat \<times> bytes) option"
  dk_staged :: "bytes option"
  dk_fresh :: nat

record engine_state_store =
  st_current :: nat
  st_digest :: bytes
  st_revision :: u64
  st_payload :: bytes
  st_uncertain :: bool

type_synonym store_world = "engine_state_store \<times> disk"

definition MAX_PAYLOAD :: int where
  "MAX_PAYLOAD = 4194304"

definition MAX_RECORD :: int where
  "MAX_RECORD = 8388608"

section \<open>Encoding\<close>

definition authentication_bytes :: "'z store_ext_scheme \<Rightarrow> u64 \<Rightarrow> bytes \<Rightarrow> bytes" where
  "authentication_bytes X revision payload = u64_be_bytes revision @ sha256 X payload"

definition validate_payload :: "'z store_ext_scheme \<Rightarrow> bytes \<Rightarrow> engine_state_error + string" where
  "validate_payload X payload =
     rbind (fail_if (payload = [] \<or> vec_len payload > MAX_PAYLOAD) InvalidPayload) (\<lambda>_.
     rbind (fail_if (\<not> json_valid X payload) InvalidPayload) (\<lambda>_.
     rbind (fail_if (\<not> utf8_ok payload) InvalidPayload) (\<lambda>_. Inr payload)))"

definition encode_record ::
    "'z store_ext_scheme \<Rightarrow> u64 \<Rightarrow> bytes \<Rightarrow> engine_state_error + bytes" where
  "encode_record X revision payload =
     rbind (validate_payload X payload) (\<lambda>text.
     rbind (ok_or (secret_protect X (authentication_bytes X revision payload)) InvalidState) (\<lambda>auth.
     rbind (ok_or (json_record X
         \<lparr>rec_schema_version = 1, rec_engine_device_id = installation_device_id X,
          rec_revision = revision, rec_payload = text, rec_authentication = auth\<rparr>)
         InvalidPayload) (\<lambda>bs.
     rbind (fail_if (vec_len bs > MAX_RECORD) InvalidPayload) (\<lambda>_. Inr bs))))"

definition decode_record ::
    "'z store_ext_scheme \<Rightarrow> bytes \<Rightarrow> engine_state_error + (u64 \<times> bytes)" where
  "decode_record X bs =
     rbind (ok_or (json_record_decode X bs) InvalidState) (\<lambda>record.
     rbind (fail_if (rec_schema_version record \<noteq> 1 \<or> rec_revision record = 0
       \<or> rec_engine_device_id record \<noteq> installation_device_id X) InvalidState) (\<lambda>_.
     rbind (map_err (\<lambda>_. InvalidState) (validate_payload X (rec_payload record))) (\<lambda>_.
     rbind (ok_or (secret_open X (rec_authentication record)) InvalidState) (\<lambda>opened.
     rbind (fail_if (opened \<noteq> authentication_bytes X (rec_revision record) (rec_payload record))
       InvalidState) (\<lambda>_.
     Inr (rec_revision record, rec_payload record))))))"

section \<open>Handles\<close>

text \<open>A retained file handle reads only while the directory entry is still its inode.\<close>

definition read_handle :: "disk \<Rightarrow> nat \<Rightarrow> bytes option" where
  "read_handle d fd =
     (case dk_current d of None \<Rightarrow> None | Some (i, bs) \<Rightarrow> if i = fd then Some bs else None)"

definition check_io :: "store_io \<Rightarrow> io_point \<Rightarrow> engine_state_error \<Rightarrow> engine_state_error + unit" where
  "check_io io p e = fail_if (\<not> io_ok io p) e"

definition store_revalidate ::
    "'z store_ext_scheme \<Rightarrow> store_io \<Rightarrow> engine_state_store \<Rightarrow> disk \<Rightarrow> engine_state_error + unit" where
  "store_revalidate X io st d =
     rbind (fail_if (st_uncertain st) PersistenceUncertain) (\<lambda>_.
     rbind (check_io io RevalidateHandle Unavailable) (\<lambda>_.
     rbind (check_io io ReadIncumbent StaleRevision) (\<lambda>_.
     rbind (ok_or (read_handle d (st_current st)) StaleRevision) (\<lambda>bs.
     fail_if (sha256 X bs \<noteq> st_digest st) StaleRevision))))"

definition store_get_payload ::
    "'z store_ext_scheme \<Rightarrow> store_io \<Rightarrow> engine_state_store \<Rightarrow> disk \<Rightarrow> engine_state_error + bytes" where
  "store_get_payload X io st d =
     rbind (store_revalidate X io st d) (\<lambda>_. Inr (st_payload st))"

section \<open>Replacing the record\<close>

definition set_staged :: "bytes option \<Rightarrow> store_world \<Rightarrow> store_world" where
  "set_staged v w = (fst w, (snd w)\<lparr>dk_staged := v\<rparr>)"

definition drop_staged :: "store_io \<Rightarrow> store_world \<Rightarrow> store_world" where
  "drop_staged io w = (if io_ok io UnlinkStaged then set_staged None w else w)"

definition staged_create :: "store_io \<Rightarrow> (store_world, engine_state_error, unit) step" where
  "staged_create io =
     sbind (sget (\<lambda>w. dk_staged (snd w))) (\<lambda>staged.
     sbind (slift (fail_if (staged \<noteq> None) PersistenceUncertain)) (\<lambda>_.
     sbind (slift (check_io io CreateStaged PersistenceUncertain)) (\<lambda>_.
     sbind (smodify (set_staged (Some []))) (\<lambda>_.
     sbind (slift (check_io io StatStaged PersistenceUncertain)) (\<lambda>_.
     son_err (slift (check_io io ChmodStaged PersistenceUncertain)) (drop_staged io))))))"

definition staged_write :: "store_io \<Rightarrow> bytes \<Rightarrow> (store_world, engine_state_error, unit) step" where
  "staged_write io bs =
     sbind (smodify (set_staged (Some (if io_ok io WriteStaged then bs else take (io_torn io) bs))))
       (\<lambda>_. slift (check_io io WriteStaged PersistenceUncertain))"

text \<open>The rename publishes the staged file, with whatever bytes it holds.\<close>

definition rename_staged :: "store_world \<Rightarrow> store_world" where
  "rename_staged w =
     (case dk_staged (snd w) of
        None \<Rightarrow> w
      | Some bs \<Rightarrow> (fst w, (snd w)\<lparr>dk_current := Some (dk_fresh (snd w), bs), dk_staged := None,
          dk_fresh := Suc (dk_fresh (snd w))\<rparr>))"

text \<open>Everything from the staging write to the rename; an early return drops the staged file.\<close>

definition staged_until_rename ::
    "'z store_ext_scheme \<Rightarrow> store_io \<Rightarrow> bytes \<Rightarrow> (store_world, engine_state_error, unit) step" where
  "staged_until_rename X io bs =
     sbind (staged_write io bs) (\<lambda>_.
     sbind (slift (check_io io RereadIncumbent PersistenceUncertain)) (\<lambda>_.
     sbind (sget id) (\<lambda>w.
     sbind (slift (ok_or (read_handle (snd w) (st_current (fst w))) PersistenceUncertain)) (\<lambda>current.
     sbind (slift (fail_if (sha256 X current \<noteq> st_digest (fst w)) PersistenceUncertain)) (\<lambda>_.
     sbind (slift (check_io io RevalidateBeforeRename PersistenceUncertain)) (\<lambda>_.
     sbind (slift (check_io io StagedIsCurrent PersistenceUncertain)) (\<lambda>_.
     slift (check_io io RenameStaged PersistenceUncertain))))))))"

definition publish_record ::
    "'z store_ext_scheme \<Rightarrow> store_io \<Rightarrow> bytes \<Rightarrow> u64 \<Rightarrow> bytes
      \<Rightarrow> (store_world, engine_state_error, unit) step" where
  "publish_record X io payload revision bs =
     sbind (slift (check_io io SyncDirectory PersistenceUncertain)) (\<lambda>_.
     sbind (slift (check_io io OpenNext PersistenceUncertain)) (\<lambda>_.
     sbind (slift (check_io io ReadBack PersistenceUncertain)) (\<lambda>_.
     sbind (sget (\<lambda>w. dk_current (snd w))) (\<lambda>current.
     sbind (slift (ok_or current PersistenceUncertain)) (\<lambda>next.
     sbind (slift (fail_if (snd next \<noteq> bs) PersistenceUncertain)) (\<lambda>_.
     sbind (slift (check_io io RevalidateAfter PersistenceUncertain)) (\<lambda>_.
     smodify (\<lambda>w.
       (\<lparr>st_current = fst next, st_digest = sha256 X bs, st_revision = revision,
         st_payload = payload, st_uncertain = False\<rparr>, snd w)))))))))"

definition store_replace ::
    "'z store_ext_scheme \<Rightarrow> store_io \<Rightarrow> bytes \<Rightarrow> (store_world, engine_state_error, unit) step" where
  "store_replace X io payload =
     sbind (slift (check_io io LockStateWriter Unavailable)) (\<lambda>_.
     sbind (sget id) (\<lambda>w.
     sbind (slift (store_revalidate X io (fst w) (snd w))) (\<lambda>_.
     sbind (slift (ok_or (checked_add (st_revision (fst w)) 1) InvalidState)) (\<lambda>revision.
     sbind (slift (encode_record X revision payload)) (\<lambda>bs.
     sbind (slift (check_io io OpenDirectory Unavailable)) (\<lambda>_.
     sbind (slift (check_io io RevalidateBeforeStage Unavailable)) (\<lambda>_.
     sbind (smodify (\<lambda>w. ((fst w)\<lparr>st_uncertain := True\<rparr>, snd w))) (\<lambda>_.
     sbind (staged_create io) (\<lambda>_.
     sbind (son_err (staged_until_rename X io bs) (drop_staged io)) (\<lambda>_.
     sbind (smodify rename_staged) (\<lambda>_.
     publish_record X io payload revision bs)))))))))))"

section \<open>Opening and creating\<close>

definition reconcile_staged_record ::
    "store_io \<Rightarrow> disk \<Rightarrow> engine_state_error + disk" where
  "reconcile_staged_record io d =
     rbind (check_io io OpenDirectory Unavailable) (\<lambda>_.
     rbind (check_io io RevalidateBeforeStage Unavailable) (\<lambda>_.
     case dk_staged d of
       None \<Rightarrow> Inr d
     | Some staged \<Rightarrow>
         rbind (fail_if (\<not> io_ok io StagedIsSafe \<or> vec_len staged > MAX_RECORD) InvalidState) (\<lambda>_.
         rbind (check_io io StagedIsCurrent InvalidState) (\<lambda>_.
         rbind (check_io io RevalidateBeforeRename Unavailable) (\<lambda>_.
         rbind (check_io io UnlinkStaged PersistenceUncertain) (\<lambda>_.
         Inr (d\<lparr>dk_staged := None\<rparr>)))))))"

definition store_open ::
    "'z store_ext_scheme \<Rightarrow> store_io \<Rightarrow> disk \<Rightarrow> engine_state_error + store_world" where
  "store_open X io d =
     rbind (check_io io LockStateWriter Unavailable) (\<lambda>_.
     rbind (check_io io RevalidateHandle Unavailable) (\<lambda>_.
     rbind (check_io io OpenCurrent InvalidState) (\<lambda>_.
     rbind (ok_or (dk_current d) InvalidState) (\<lambda>(inode, bs).
     rbind (fail_if (vec_len bs > MAX_RECORD) InvalidState) (\<lambda>_.
     rbind (check_io io ReadIncumbent InvalidState) (\<lambda>_.
     rbind (decode_record X bs) (\<lambda>(revision, payload).
     rbind (reconcile_staged_record io d) (\<lambda>d'.
     rbind (check_io io SyncCurrent PersistenceUncertain) (\<lambda>_.
     rbind (check_io io SyncDirectory PersistenceUncertain) (\<lambda>_.
     rbind (check_io io ReadBack PersistenceUncertain) (\<lambda>_.
     rbind (check_io io RevalidateAfter Unavailable) (\<lambda>_.
     Inr (\<lparr>st_current = inode, st_digest = sha256 X bs, st_revision = revision,
           st_payload = payload, st_uncertain = False\<rparr>, d')))))))))))))"

definition store_create ::
    "'z store_ext_scheme \<Rightarrow> store_io \<Rightarrow> store_io \<Rightarrow> bytes \<Rightarrow> disk
      \<Rightarrow> engine_state_error + store_world" where
  "store_create X io io' payload d =
     rbind (check_io io LockStateWriter Unavailable) (\<lambda>_.
     rbind (check_io io RevalidateHandle Unavailable) (\<lambda>_.
     rbind (encode_record X 1 payload) (\<lambda>bs.
     rbind (fail_if (dk_current d \<noteq> None \<or> \<not> io_ok io CreateStaged) PersistenceUncertain) (\<lambda>_.
     store_open X io' (d\<lparr>dk_current := Some (dk_fresh d, bs), dk_fresh := Suc (dk_fresh d)\<rparr>)))))"

section \<open>What a replacement leaves behind\<close>

definition same_entry :: "store_world \<Rightarrow> store_world \<Rightarrow> bool" where
  "same_entry w w' \<longleftrightarrow> fst w' = fst w \<and> dk_current (snd w') = dk_current (snd w)
     \<and> dk_fresh (snd w') = dk_fresh (snd w)"

lemma same_entry_simps:
  "same_entry w w"
  "same_entry w (set_staged v u) = same_entry w u"
  "same_entry w (drop_staged io u) = same_entry w u"
  by (auto simp: same_entry_def set_staged_def drop_staged_def)

lemma staged_create_spec: "swp (staged_create io) (\<lambda>_. same_entry w) w"
  unfolding staged_create_def
  by (intro swp_intros) (simp_all add: same_entry_simps split: sum.splits)

text \<open>The bytes of the record are staged when the write and everything up to the rename succeeded.\<close>

definition staged_whole :: "bytes \<Rightarrow> engine_state_error + unit \<Rightarrow> store_world \<Rightarrow> bool" where
  "staged_whole bs r w \<longleftrightarrow> (r = Inr () \<longrightarrow> dk_staged (snd w) = Some bs)"

lemma staged_write_spec: "swp (staged_write io bs) (\<lambda>r w'. same_entry w w' \<and> staged_whole bs r w') w"
  unfolding staged_write_def
  by (intro swp_intros) (auto simp: same_entry_def staged_whole_def set_staged_def check_io_def)

lemma staged_until_rename_spec:
  "swp (son_err (staged_until_rename X io bs) (drop_staged io))
    (\<lambda>r w'. same_entry w w' \<and> staged_whole bs r w') w"
proof -
  have "swp (staged_until_rename X io bs) (\<lambda>r w'. same_entry w w' \<and> staged_whole bs r w') w"
    unfolding staged_until_rename_def
  proof (rule swp_bind_step[OF staged_write_spec], assumption)
  qed (intro swp_intros; simp add: staged_whole_def)
  then show ?thesis
    unfolding swp_son_err
    by (auto simp: swp_def same_entry_simps staged_whole_def split: prod.splits sum.splits)
qed

definition replaced :: "'z store_ext_scheme \<Rightarrow> store_io \<Rightarrow> bytes \<Rightarrow> store_world \<Rightarrow> u64 \<Rightarrow> bytes \<Rightarrow> bool" where
  "replaced X io payload w revision bs \<longleftrightarrow>
     store_revalidate X io (fst w) (snd w) = Inr ()
     \<and> checked_add (st_revision (fst w)) 1 = Some revision
     \<and> encode_record X revision payload = Inr bs"

lemma publish_record_spec:
  assumes "dk_current (snd w) = Some (i, bs)"
  shows "swp (publish_record X io payload revision bs) (\<lambda>r w'.
    case r of Inl _ \<Rightarrow> w' = w
    | Inr _ \<Rightarrow> snd w' = snd w \<and> fst w' = \<lparr>st_current = i, st_digest = sha256 X bs,
        st_revision = revision, st_payload = payload, st_uncertain = False\<rparr>) w"
  unfolding publish_record_def
  by (intro swp_intros) (use assms in auto)

lemma store_replace_spec:
  "swp (store_replace X io payload) (\<lambda>r w'.
     case r of
       Inr _ \<Rightarrow> (\<exists>revision bs. replaced X io payload w revision bs
           \<and> fst w' = \<lparr>st_current = dk_fresh (snd w), st_digest = sha256 X bs,
                st_revision = revision, st_payload = payload, st_uncertain = False\<rparr>
           \<and> dk_current (snd w') = Some (dk_fresh (snd w), bs)
           \<and> dk_fresh (snd w') = Suc (dk_fresh (snd w)))
     | Inl _ \<Rightarrow> w' = w
         \<or> same_entry ((fst w)\<lparr>st_uncertain := True\<rparr>, snd w) w'
         \<or> fst w' = (fst w)\<lparr>st_uncertain := True\<rparr>
           \<and> (\<exists>revision bs. replaced X io payload w revision bs
                \<and> dk_current (snd w') = Some (dk_fresh (snd w), bs)
                \<and> dk_fresh (snd w') = Suc (dk_fresh (snd w)))) w"
  unfolding store_replace_def
  apply (intro swp_intros)
       apply simp_all[6]
  apply (rule swp_bind_step[OF staged_create_spec])
   apply simp
  apply (rule swp_bind_step[OF staged_until_rename_spec])
   apply (simp add: same_entry_def)
  apply (intro swp_intros)
  apply (rule swp_mono[OF publish_record_spec])
   apply (simp add: rename_staged_def staged_whole_def)
  apply (auto simp: same_entry_def rename_staged_def staged_whole_def replaced_def split: sum.splits)
  done

section \<open>Recovery\<close>

text \<open>
  The documented behaviour of the codecs: a protected secret opens to itself and a record
  decodes from its own encoding.
\<close>

definition store_ext_ok :: "'z store_ext_scheme \<Rightarrow> bool" where
  "store_ext_ok X \<longleftrightarrow>
     (\<forall>secret wrapped. secret_protect X secret = Some wrapped \<longrightarrow> secret_open X wrapped = Some secret)
     \<and> (\<forall>record bs. json_record X record = Some bs \<longrightarrow> json_record_decode X bs = Some record)"

lemma decode_encode_record:
  assumes "store_ext_ok X" and "encode_record X revision payload = Inr bs" and "revision \<noteq> 0"
  shows "decode_record X bs = Inr (revision, payload)"
  using assms
  by (auto simp: encode_record_def decode_record_def store_ext_ok_def validate_payload_def)

lemma store_open_fields:
  assumes "store_open X io d = Inr (st, d')"
  shows "\<exists>i bs. dk_current d = Some (i, bs) \<and> dk_current d' = Some (i, bs) \<and> st_current st = i
    \<and> decode_record X bs = Inr (st_revision st, st_payload st)
    \<and> st_digest st = sha256 X bs \<and> \<not> st_uncertain st"
  using assms
  by (auto simp: store_open_def reconcile_staged_record_def split: prod.splits option.splits)

definition store_order :: "store_world \<Rightarrow> store_world \<Rightarrow> bool" where
  "store_order w w' \<longleftrightarrow>
     st_revision (fst w) \<le> st_revision (fst w')
     \<and> (st_uncertain (fst w) \<longrightarrow> w' = w)
     \<and> dk_fresh (snd w) \<le> dk_fresh (snd w')"

lemma store_replace_uncertain:
  assumes "st_uncertain (fst w)"
  shows "swp (store_replace X io payload)
    (\<lambda>r w'. w' = w \<and> (r = Inl Unavailable \<or> r = Inl PersistenceUncertain)) w"
  unfolding store_replace_def
  by (intro swp_intros) (use assms in \<open>auto simp: check_io_def store_revalidate_def\<close>)

lemma store_replace_forward: "swp (store_replace X io payload) (\<lambda>_. store_order w) w"
proof (cases "st_uncertain (fst w)")
  case True
  show ?thesis
    by (rule swp_mono[OF store_replace_uncertain[OF True]]) (simp add: store_order_def)
next
  case False
  show ?thesis
    by (rule swp_mono[OF store_replace_spec[of X io payload w]])
      (use False in \<open>auto simp: store_order_def same_entry_def replaced_def
        dest: checked_add_le split: sum.splits\<close>)
qed

interpretation store_handle: forward_object store_order
  "\<lambda>m. \<exists>io payload. m = store_replace X io payload" for X
proof
  show "store_order s s" for s by (simp add: store_order_def)
  show "store_order s u" if "store_order s t" "store_order t u" for s t u
    using that by (auto simp: store_order_def)
  show "swp m (\<lambda>_. store_order s) s"
    if "\<exists>io payload. m = store_replace X io payload" for m s
    using that store_replace_forward by blast
qed

section \<open>A concrete store\<close>

definition u64_of_bytes :: "bytes \<Rightarrow> u64" where
  "u64_of_bytes bs = foldl (\<lambda>acc b. acc * 256 + word_of_int (byte_val b)) 0 bs"

definition demo_decode :: "bytes \<Rightarrow> state_record" where
  "demo_decode bs = \<lparr>rec_schema_version = 1, rec_engine_device_id = ''engine'',
     rec_revision = u64_of_bytes (take 8 bs), rec_payload = drop 8 bs, rec_authentication = bs\<rparr>"

definition demo_store_ext :: store_ext where
  "demo_store_ext = \<lparr>sha256 = (\<lambda>bs. bs), secret_protect = Some, secret_open = Some,
     json_valid = (\<lambda>_. True),
     json_record = (\<lambda>r. if r = demo_decode (rec_authentication r)
       then Some (rec_authentication r) else None),
     json_record_decode = (\<lambda>bs. Some (demo_decode bs)),
     installation_device_id = ''engine''\<rparr>"

definition demo_io :: store_io where
  "demo_io = \<lparr>io_ok = (\<lambda>_. True), io_torn = 0\<rparr>"

definition demo_disk :: disk where
  "demo_disk = \<lparr>dk_current = Some (0, u64_be_bytes 1 @ ''old''), dk_staged = None, dk_fresh = 1\<rparr>"

definition demo_store :: engine_state_store where
  "demo_store = \<lparr>st_current = 0, st_digest = u64_be_bytes 1 @ ''old'', st_revision = 1,
     st_payload = ''old'', st_uncertain = False\<rparr>"

definition demo_store_after :: engine_state_store where
  "demo_store_after = \<lparr>st_current = 1, st_digest = u64_be_bytes 2 @ ''new'', st_revision = 2,
     st_payload = ''new'', st_uncertain = False\<rparr>"

definition demo_disk_after :: disk where
  "demo_disk_after = \<lparr>dk_current = Some (1, u64_be_bytes 2 @ ''new''), dk_staged = None, dk_fresh = 2\<rparr>"

lemma demo_store_ext_ok: "store_ext_ok demo_store_ext"
  by (auto simp: store_ext_ok_def demo_store_ext_def split: if_splits)

lemma demo_store_replace:
  "store_replace demo_store_ext demo_io ''new'' (demo_store, demo_disk)
     = (Inr (), demo_store_after, demo_disk_after)"
  by code_simp

section \<open>Properties of the store\<close>

text \<open>
  C5. A replacement is atomic across failures. However the write fails or is cut short, the file
  that is left decodes to the record before it or to the complete new record, with the matching
  revision, and to the new record once the replacement has returned success; and whatever a later
  successful open reads is that record.
\<close>

theorem replace_atomic:
  assumes "store_ext_ok X"
    and "dk_current d = Some (i, old)"
    and "decode_record X old = Inr (st_revision st, st_payload st)"
    and "store_replace X io payload (st, d) = (r, st', d')"
  shows "\<exists>j bs stored. dk_current d' = Some (j, bs) \<and> decode_record X bs = Inr stored
    \<and> (stored = (st_revision st + 1, payload) \<or> stored = (st_revision st, st_payload st) \<and> r \<noteq> Inr ())
    \<and> (\<forall>io' opened d''. store_open X io' d' = Inr (opened, d'')
         \<longrightarrow> (st_revision opened, st_payload opened) = stored)"
proof -
  note spec = swpD[OF store_replace_spec[of X io payload "(st, d)"] assms(4)]
  have opens: "(st_revision opened, st_payload opened) = stored"
    if "dk_current d' = Some (j, bs)" "decode_record X bs = Inr stored" "store_open X io' d' = Inr (opened, d'')"
    for j bs stored io' opened d''
    using store_open_fields[OF that(3)] that(1,2) by auto
  show ?thesis
  proof (cases "dk_current d' = dk_current d \<and> r \<noteq> Inr ()")
    case True
    then have here: "dk_current d' = Some (i, old)" using assms(2) by simp
    from opens[OF this assms(3)] here assms(3) True show ?thesis by blast
  next
    case False
    have "\<exists>revision bs j. replaced X io payload (st, d) revision bs \<and> dk_current d' = Some (j, bs)"
      using spec False by (cases r) (auto simp: same_entry_def)
    then obtain revision bs j where new: "replaced X io payload (st, d) revision bs" "dk_current d' = Some (j, bs)"
      by blast
    have revision: "revision = st_revision st + 1" "revision \<noteq> 0"
      using new(1) checked_add_1_eq[of "st_revision st" revision] checked_add_1_pos[of "st_revision st" revision]
      by (simp_all add: replaced_def)
    then have decoded: "decode_record X bs = Inr (st_revision st + 1, payload)"
      using new(1) decode_encode_record[OF assms(1), of revision payload bs] by (simp add: replaced_def)
    from opens[OF new(2) this] new(2) this show ?thesis by blast
  qed
qed

text \<open>A disk on which the write of the staged file is cut short.\<close>

definition demo_torn_io :: store_io where
  "demo_torn_io = demo_io\<lparr>io_ok := \<lambda>p. p \<noteq> WriteStaged, io_torn := 2\<rparr>"

theorem replace_atomic_witness:
  "(\<exists>opened d''. store_open demo_store_ext demo_io demo_disk_after = Inr (opened, d'')
     \<and> (st_revision opened, st_payload opened) = (st_revision demo_store + 1, ''new''))
   \<and> (\<exists>e st' d' j bs stored. store_replace demo_store_ext demo_torn_io ''new'' (demo_store, demo_disk) = (Inl e, st', d')
     \<and> dk_current d' = Some (j, bs) \<and> decode_record demo_store_ext bs = Inr stored
     \<and> (stored = (st_revision demo_store + 1, ''new'') \<or> stored = (st_revision demo_store, st_payload demo_store)))"
proof -
  have old: "dk_current demo_disk = Some (0, u64_be_bytes 1 @ ''old'')"
      "decode_record demo_store_ext (u64_be_bytes 1 @ ''old'') = Inr (st_revision demo_store, st_payload demo_store)"
    by code_simp+
  have opened: "store_open demo_store_ext demo_io demo_disk_after = Inr (demo_store_after, demo_disk_after)"
    by code_simp
  obtain r st' d' where torn: "store_replace demo_store_ext demo_torn_io ''new'' (demo_store, demo_disk) = (r, st', d')"
    by (metis prod_cases3)
  moreover have "\<not> is_ok (fst (store_replace demo_store_ext demo_torn_io ''new'' (demo_store, demo_disk)))"
    by code_simp
  ultimately obtain e where r: "r = Inl e" by (cases r) simp_all
  from replace_atomic[OF demo_store_ext_ok old torn] obtain j bs stored where
    "dk_current d' = Some (j, bs)" "decode_record demo_store_ext bs = Inr stored"
    "stored = (st_revision demo_store + 1, ''new'') \<or> stored = (st_revision demo_store, st_payload demo_store)"
    by blast
  with replace_atomic[OF demo_store_ext_ok old demo_store_replace] opened torn r show ?thesis by blast
qed

text \<open>
  C6. No update is lost between two handles. After one handle has replaced the record, a
  replacement through another handle that was opened on the previous record fails and leaves
  the disk alone.
\<close>

theorem no_lost_update:
  assumes "dk_current d = Some (st_current other, bs)"
    and "st_current other < dk_fresh d"
    and "store_replace X io payload (st, d) = (Inr (), st', d')"
    and "store_replace X io' payload' (other, d') = (r, other', d'')"
  shows "(\<exists>e. r = Inl e) \<and> d'' = d' \<and> other' = other"
proof -
  obtain bs' where "dk_current d' = Some (dk_fresh d, bs')"
    using swpD[OF store_replace_spec assms(3)] by auto
  then have stale: "read_handle d' (st_current other) = None"
    using assms(2) by (simp add: read_handle_def)
  have "swp (store_replace X io' payload') (\<lambda>r w'. (\<exists>e. r = Inl e) \<and> w' = (other, d')) (other, d')"
    unfolding store_replace_def
    by (intro swp_intros) (use stale in \<open>auto simp: store_revalidate_def\<close>)
  from swpD[OF this assms(4)] show ?thesis by simp
qed

theorem no_lost_update_witness:
  "\<exists>e. fst (store_replace demo_store_ext demo_io ''late'' (demo_store, demo_disk_after)) = Inl e"
proof -
  obtain r other' d'' where run:
      "store_replace demo_store_ext demo_io ''late'' (demo_store, demo_disk_after) = (r, other', d'')"
    by (metis prod_cases3)
  have "dk_current demo_disk = Some (st_current demo_store, u64_be_bytes 1 @ ''old'')"
    "st_current demo_store < dk_fresh demo_disk"
    by (simp_all add: demo_disk_def demo_store_def)
  from no_lost_update[OF this demo_store_replace run] run show ?thesis by simp
qed

text \<open>
  C7. Any sequence of replacements through one handle never lowers the revision, and a handle
  whose write became uncertain is closed for good: nothing changes the handle or the disk
  through it any more.
\<close>

theorem store_calls_forward:
  "st_revision (fst w)
      \<le> st_revision (fst (srun (map (\<lambda>(io, payload). store_replace X io payload) calls) w))
   \<and> (st_uncertain (fst w)
      \<longrightarrow> srun (map (\<lambda>(io, payload). store_replace X io payload) calls) w = w)"
proof -
  have "store_order w (srun (map (\<lambda>(io, payload). store_replace X io payload) calls) w)"
    by (rule store_handle.srun_forward[of _ X]) auto
  then show ?thesis by (simp add: store_order_def)
qed

theorem store_calls_forward_witness:
  "srun (map (\<lambda>(io, payload). store_replace demo_store_ext io payload) [(demo_io, ''new'')])
      (demo_store\<lparr>st_uncertain := True\<rparr>, demo_disk)
    = (demo_store\<lparr>st_uncertain := True\<rparr>, demo_disk)"
  using store_calls_forward[of "(demo_store\<lparr>st_uncertain := True\<rparr>, demo_disk)" demo_store_ext
      "[(demo_io, ''new'')]"]
  by simp

end
