(* ===== verification/Sharing_Types.thy ===== *)
theory Sharing_Types
  imports Folder_Sharing State_Store
begin

text \<open>
  The data of the folder-sharing journal: the snapshot of
  \<open>covalent-node/src/sync_engine/sharing.rs\<close> with the link settings, runs and rosters it
  contains, and the environment an operation consults.
\<close>

datatype sharing_error =
    InvalidState
  | UntrustedPeer
  | InvalidRecord
  | Removed
  | AlreadyShared
  | FolderUnavailable
  | LimitExceeded
  | PersistenceUncertain
  | SettingsConflict
  | SettingsPending
  | RunConflict
  | RunPending

type_synonym 'a sharing_result = "sharing_error + 'a"

definition MAX_SHARES :: int where "MAX_SHARES = 512"
definition MAX_RETAINED_OFFERS :: int where "MAX_RETAINED_OFFERS = 4096"
definition MAX_PENDING_OFFERS :: int where "MAX_PENDING_OFFERS = 128"
definition MAX_PEER_PENDING_OFFERS :: int where "MAX_PEER_PENDING_OFFERS = 16"
definition MAX_RENEWALS_PER_SHARE :: int where "MAX_RENEWALS_PER_SHARE = 128"
definition MAX_REMOVAL_OFFER_IDS :: int where "MAX_REMOVAL_OFFER_IDS = MAX_RENEWALS_PER_SHARE + 1"
definition MAX_PENDING_REMOVALS :: int where "MAX_PENDING_REMOVALS = MAX_SHARES"
definition INVITATION_LIFETIME_MS :: u64 where "INVITATION_LIFETIME_MS = MAX_FOLDER_SHARE_LIFETIME_MS"

section \<open>Link settings\<close>

datatype link_cadence = Manual | Continuous | Scheduled (interval_minutes: u32)

record android_link_conditions =
  alc_wifi_only :: bool
  alc_charging_only :: bool

definition default_conditions :: android_link_conditions where
  "default_conditions = \<lparr>alc_wifi_only = False, alc_charging_only = False\<rparr>"

record folder_link_settings =
  fls_deletion_policy :: folder_link_policy
  fls_paused :: bool
  fls_cadence :: link_cadence
  fls_android_conditions :: android_link_conditions

record link_settings_request =
  lsq_folder_id :: uuid
  lsq_source_id :: device_id
  lsq_requester_id :: device_id
  lsq_change_id :: uuid
  lsq_expected_revision :: u64
  lsq_settings :: folder_link_settings

record link_settings_commit =
  lsc_folder_id :: uuid
  lsc_source_id :: device_id
  lsc_target_id :: device_id
  lsc_revision :: u64
  lsc_settings :: folder_link_settings
  lsc_change_id :: uuid
  lsc_changed_by :: device_id
  lsc_accepted_at_unix_ms :: u64

record link_settings_state =
  lss_revision :: u64
  lss_settings :: folder_link_settings
  lss_change_id :: uuid
  lss_changed_by :: device_id
  lss_accepted_at_unix_ms :: u64
  lss_confirmed :: bool
  lss_pending_change :: "link_settings_request option"
  lss_conflicted_change :: "link_settings_request option"

section \<open>Link runs\<close>

record engine_index_snapshot =
  eis_index_id :: string
  eis_sequence :: u64

datatype link_run_phase =
    Preparing | Running | PhaseSucceeded | PhaseIncomplete | PhaseInterrupted | PhaseCancelled

datatype link_run_destination_result =
    ResultPending | Succeeded | Failed | TimedOut | Interrupted | Cancelled

record link_run_destination_state =
  lrd_result :: link_run_destination_result
  lrd_ended_at_unix_ms :: "u64 option"

record link_run_state =
  lrs_generation :: u64
  lrs_state_revision :: u64
  lrs_settings_revision :: u64
  lrs_request_id :: uuid
  lrs_requested_by :: device_id
  lrs_phase :: link_run_phase
  lrs_started_at_unix_ms :: u64
  lrs_deadline_unix_ms :: u64
  lrs_ended_at_unix_ms :: "u64 option"
  lrs_source_index :: "engine_index_snapshot option"
  lrs_destinations :: "(device_id, link_run_destination_state) fmap"

record link_run_request =
  lrq_folder_id :: uuid
  lrq_source_id :: device_id
  lrq_requester_id :: device_id
  lrq_request_id :: uuid
  lrq_expected_generation :: u64
  lrq_settings_revision :: u64

datatype link_run_rejection_reason = GenerationChanged | SettingsChanged

record link_run_rejection =
  lrj_requester_id :: device_id
  lrj_request_id :: uuid
  lrj_reason :: link_run_rejection_reason

record link_run_commit =
  lrc_folder_id :: uuid
  lrc_source_id :: device_id
  lrc_target_id :: device_id
  lrc_state :: "link_run_state option"
  lrc_acknowledged_request_id :: "uuid option"
  lrc_rejected_request :: "link_run_rejection option"

record link_run_report =
  lrr_folder_id :: uuid
  lrr_source_id :: device_id
  lrr_reporter_id :: device_id
  lrr_generation :: u64
  lrr_settings_revision :: u64
  lrr_source_index :: engine_index_snapshot
  lrr_result :: link_run_destination_result
  lrr_ended_at_unix_ms :: u64

datatype link_run_admission =
    Accepted link_run_state
  | Pending link_run_request
  | AlreadyRunning link_run_state
  | Rejected link_run_rejection

record link_run_link_state =
  slot_authoritative :: "link_run_state option"
  slot_pending_request :: "link_run_request option"
  slot_rejected_request :: "link_run_rejection option"
  slot_pending_report :: "link_run_report option"

definition default_slot :: link_run_link_state where
  "default_slot = \<lparr>slot_authoritative = None, slot_pending_request = None,
     slot_rejected_request = None, slot_pending_report = None\<rparr>"

text \<open>An \<open>Instant\<close> is a number of nanoseconds.\<close>

record android_condition_observation =
  aco_wifi_connected :: bool
  aco_charging :: bool
  aco_observed_at :: int

section \<open>Endpoint rosters\<close>

record roster_endpoint =
  re_device_id :: device_id
  re_display_name :: string

record endpoint_roster =
  er_revision :: u64
  er_label :: string
  er_source :: roster_endpoint
  er_destinations :: "roster_endpoint list"

record endpoint_roster_commit =
  erc_source_id :: device_id
  erc_target_id :: device_id
  erc_folder_id :: uuid
  erc_offer_id :: uuid
  erc_roster :: endpoint_roster

section \<open>The snapshot\<close>

record local_root =
  root_path :: path
  root_device :: u64
  root_inode :: u64
  root_grant_id :: "uuid option"

record superseded_offer =
  so_offer_id :: uuid
  so_issued_at_unix_ms :: u64

record share =
  sh_peer_identity :: public_identity
  sh_peer_transport :: transport_binding
  sh_peer_confirmed_at_unix_ms :: u64
  sh_offer :: folder_share_offer
  sh_acceptance :: "folder_share_acceptance option"
  sh_commit :: "folder_share_commit option"
  sh_root :: "local_root option"
  sh_paused :: bool
  sh_removed :: bool
  sh_superseded_offers :: "superseded_offer list"

record pending_root_reset =
  prr_offer_id :: uuid
  prr_folder_id :: uuid
  prr_replacement :: local_root

record pending_remote_removal =
  prm_peer_identity :: public_identity
  prm_peer_transport :: transport_binding
  prm_peer_confirmed_at_unix_ms :: u64
  prm_offer_source_id :: device_id
  prm_folder_id :: uuid
  prm_offer_ids :: "uuid list"

record remote_removal_tombstone =
  rrt_peer_id :: device_id
  rrt_offer_source_id :: device_id
  rrt_folder_id :: uuid
  rrt_offer_ids :: "uuid list"

record pending_peer_address_refresh =
  par_expected_grant :: peer_grant
  par_peer_identity :: public_identity
  par_confirmed_at_unix_ms :: u64
  par_expected_transport :: transport_binding
  par_candidate_transport :: transport_binding
  par_candidate_engine :: sync_engine_binding

record completed_peer_address_refresh =
  car_expected_transport :: transport_binding
  car_candidate_transport :: transport_binding
  car_candidate_engine :: sync_engine_binding

record tombstone =
  tomb_offer_id :: uuid
  tomb_superseded_offer_ids :: "uuid list"
  tomb_folder_id :: uuid
  tomb_label :: string
  tomb_peer_id :: device_id
  tomb_incoming :: bool
  tomb_issued_at_unix_ms :: u64

record snapshot =
  sn_schema_version :: u16
  sn_owner :: public_identity
  sn_binding :: sync_engine_binding
  sn_listener :: socket_addr
  sn_shares :: "share list"
  sn_tombstones :: "tombstone list"
  sn_freshness_floor_unix_ms :: u64
  sn_pending_root_reset :: "pending_root_reset option"
  sn_pending_remote_removals :: "pending_remote_removal list"
  sn_remote_removal_tombstones :: "remote_removal_tombstone list"
  sn_current_peer_routes :: "(device_id, sync_engine_binding) fmap"
  sn_pending_peer_address_refresh :: "pending_peer_address_refresh option"
  sn_completed_peer_address_refreshes :: "(device_id, completed_peer_address_refresh) fmap"
  sn_link_settings :: "(uuid, link_settings_state) fmap"
  sn_link_runs :: "(uuid, link_run_link_state) fmap"
  sn_endpoint_rosters :: "(uuid, endpoint_roster) fmap"

section \<open>Records for delivery\<close>

record folder_removal_notice =
  frn_requester_id :: device_id
  frn_target_id :: device_id
  frn_offer_source_id :: device_id
  frn_folder_id :: uuid
  frn_offer_ids :: "uuid list"

datatype folder_share_record =
    RecordOffer folder_share_offer
  | RecordAcceptance uuid folder_share_acceptance
  | RecordCommit uuid folder_share_commit
  | RecordRemoval folder_removal_notice
  | RecordSettingsRequest link_settings_request
  | RecordSettingsCommit link_settings_commit
  | RecordRunRequest link_run_request
  | RecordRunCommit link_run_commit
  | RecordRunReport link_run_report
  | RecordEndpointRoster endpoint_roster_commit

record folder_share_delivery =
  fsd_peer_transport :: transport_binding
  fsd_record :: folder_share_record

section \<open>The environment of an operation\<close>

text \<open>The fields of \<open>NodeConfig\<close> that the journal reads.\<close>

record node_config =
  nc_device_name :: string
  nc_trusted_peers :: "(device_id, peer_grant) fmap"
  nc_trusted_peer_transports :: "(device_id, transport_binding) fmap"

record file_metadata =
  fm_is_dir :: bool
  fm_device :: u64
  fm_inode :: u64

text \<open>
  What one call consults: the identity and configuration of the node (\<open>None\<close> when its lock is
  poisoned), the engine installation, the file system, and per consultation a reading of each
  clock, randomness and the fate of the store's system calls.
\<close>

record env = sharing_ext +
  env_identity :: device_identity
  env_config :: "node_config option"
  env_installation_root :: path
  env_ssh_public_key :: "string option"
  env_canonicalize :: "path \<Rightarrow> path option"
  env_symlink_metadata :: "path \<Rightarrow> file_metadata option"
  env_uuid_parse :: "string \<Rightarrow> uuid option"
  env_uuid_show :: "uuid \<Rightarrow> string"
  env_now :: "nat \<Rightarrow> u64"
  env_instant :: "nat \<Rightarrow> int"
  env_uuid :: "nat \<Rightarrow> uuid"
  env_entropy :: "nat \<Rightarrow> bytes option"
  env_io :: "nat \<Rightarrow> store_io"
  env_store :: store_ext
  json_snapshot :: "snapshot \<Rightarrow> bytes option"
  json_snapshot_decode :: "bytes \<Rightarrow> snapshot option"

abbreviation own_id :: "env \<Rightarrow> device_id" where
  "own_id E \<equiv> di_device_id (env_identity E)"

abbreviation installation_id :: "env \<Rightarrow> string" where
  "installation_id E \<equiv> installation_device_id (env_store E)"

section \<open>The journal\<close>

text \<open>\<open>j_ticks\<close> counts the consultations of the environment.\<close>

record journal =
  j_store :: engine_state_store
  j_disk :: disk
  j_snapshot :: snapshot
  j_preparation_identity :: nat
  j_android_host :: bool
  j_android_condition_observation :: "android_condition_observation option"
  j_ticks :: nat

type_synonym 'a journal_step = "(journal, sharing_error, 'a) step"

end
