(* ===== verification/Engine_Config.thy ===== *)
theory Engine_Config
  imports Sharing_Types
begin

text \<open>
  The validated peers and folders of an engine session,
  \<open>covalent-node/src/sync_engine/config.rs\<close>, with the Android grant tokens of
  \<open>android_saf.rs\<close> that stand in for a path.
\<close>

datatype engine_config_error =
    ConfigInvalidDeviceId
  | InvalidCertificate
  | InvalidName
  | InvalidAddress
  | InvalidFolder
  | UnsafeFolderRoot
  | DuplicateMember
  | ConfigLimitExceeded

datatype android_saf_grant_error =
    InvalidGrantId | InvalidPort | InvalidCredential | Busy | GrantUnavailable

definition MAX_FOLDER_MEMBERS :: int where "MAX_FOLDER_MEMBERS = 129"
definition MAX_NAME_BYTES :: nat where "MAX_NAME_BYTES = 128"
definition MAX_LABEL_BYTES :: nat where "MAX_LABEL_BYTES = 256"
definition MAX_PATH_BYTES :: int where "MAX_PATH_BYTES = 4096"
definition TOKEN_PREFIX :: string where "TOKEN_PREFIX = ''covalent-saf:''"

section \<open>Grant tokens\<close>

definition parse_token :: "env \<Rightarrow> path \<Rightarrow> android_saf_grant_error + uuid option" where
  "parse_token E selected_root =
     (if \<not> utf8_ok selected_root then Inr None
      else case str_strip_prefix TOKEN_PREFIX selected_root of
        None \<Rightarrow> Inr None
      | Some value \<Rightarrow>
          rbind (ok_or (env_uuid_parse E value) InvalidGrantId) (\<lambda>grant.
          rbind (fail_if (uuid_is_nil grant \<or> value \<noteq> env_uuid_show E grant) InvalidGrantId) (\<lambda>_.
          Inr (Some grant))))"

section \<open>Text, addresses and roots\<close>

definition has_unsafe_path_text :: "string \<Rightarrow> bool" where
  "has_unsafe_path_text value \<longleftrightarrow>
     list_ex (\<lambda>c. char_is_control c \<or> c = 0xFFFE \<or> c = 0xFFFF) (utf8_chars value)"

definition validate_text :: "string \<Rightarrow> nat \<Rightarrow> engine_config_error + unit" where
  "validate_text value maximum =
     fail_if (value = [] \<or> length value > maximum
       \<or> list_ex (\<lambda>c. char_is_control c \<or> c = 0xFFFE \<or> c = 0xFFFF) (utf8_chars value)) InvalidName"

definition unacceptable_ip :: "ip_addr \<Rightarrow> bool" where
  "unacceptable_ip ip \<longleftrightarrow> ip_is_unspecified ip \<or> ip_is_multicast ip"

definition validate_peer_address :: "socket_addr \<Rightarrow> engine_config_error + unit" where
  "validate_peer_address a =
     fail_if (sock_port a = 0 \<or> unacceptable_ip (sock_ip a)) InvalidAddress"

definition validate_root :: "env \<Rightarrow> path \<Rightarrow> engine_config_error + path" where
  "validate_root E p =
     rbind (map_err (\<lambda>_. InvalidFolder) (parse_token E p)) (\<lambda>token.
     if token \<noteq> None then Inr p else
     rbind (fail_if (\<not> utf8_ok p) UnsafeFolderRoot) (\<lambda>_.
     rbind (fail_if (\<not> path_is_absolute p \<or> p = [] \<or> vec_len p > MAX_PATH_BYTES
       \<or> CHR 0x00 \<in> set p \<or> has_unsafe_path_text p) UnsafeFolderRoot) (\<lambda>_.
     rbind (ok_or (env_canonicalize E p) UnsafeFolderRoot) (\<lambda>canonical.
     rbind (ok_or (env_symlink_metadata E canonical) UnsafeFolderRoot) (\<lambda>metadata.
     rbind (fail_if (\<not> utf8_ok canonical) UnsafeFolderRoot) (\<lambda>_.
     rbind (fail_if (\<not> fm_is_dir metadata \<or> vec_len canonical > MAX_PATH_BYTES
       \<or> has_unsafe_path_text canonical \<or> \<not> path_has_parent canonical) UnsafeFolderRoot) (\<lambda>_.
     Inr canonical)))))))"

section \<open>Peers and folders\<close>

text \<open>An \<open>EngineDeviceId\<close> is its canonical string.\<close>

definition parse_engine_id :: "string \<Rightarrow> engine_config_error + string" where
  "parse_engine_id value =
     rbind (map_err (\<lambda>_. ConfigInvalidDeviceId) (parse_engine_device_id value)) (\<lambda>canonical.
     Inr (engine_id_str canonical))"

record engine_peer_config =
  epc_id :: string
  epc_name :: string
  epc_address :: socket_addr
  epc_ssh_public_key :: "string option"
  epc_paused :: bool

definition peer_config_new ::
    "string \<Rightarrow> string \<Rightarrow> socket_addr \<Rightarrow> engine_config_error + engine_peer_config" where
  "peer_config_new i name address =
     rbind (validate_text name MAX_NAME_BYTES) (\<lambda>_.
     rbind (validate_peer_address address) (\<lambda>_.
     Inr \<lparr>epc_id = i, epc_name = name, epc_address = address,
          epc_ssh_public_key = None, epc_paused = False\<rparr>))"

definition peer_with_paused :: "engine_peer_config \<Rightarrow> bool \<Rightarrow> engine_peer_config" where
  "peer_with_paused peer paused = peer\<lparr>epc_paused := paused\<rparr>"

text \<open>The check builds a throw-away binding under a random owner.\<close>

definition peer_with_ssh_public_key ::
    "'z ext_scheme \<Rightarrow> uuid \<Rightarrow> engine_peer_config \<Rightarrow> string \<Rightarrow> engine_config_error + engine_peer_config" where
  "peer_with_ssh_public_key X fresh peer value =
     rbind (map_err (\<lambda>_. ConfigInvalidDeviceId)
       (binding_new_authenticated X (DeviceId fresh) (epc_id peer) value
          (show_socket (epc_address peer)))) (\<lambda>_.
     Inr (peer\<lparr>epc_ssh_public_key := Some value\<rparr>))"

datatype engine_folder_role =
    LegacyTwoWay
  | Source
  | Destination (role_propagate_source_deletions: bool) (role_restore_local_deletions: bool)

record engine_folder_config =
  efc_id :: uuid
  efc_label :: string
  efc_root :: path
  efc_members :: "string list"
  efc_paused :: bool
  efc_role :: engine_folder_role

definition folder_config_new ::
    "env \<Rightarrow> uuid \<Rightarrow> string \<Rightarrow> path \<Rightarrow> string list \<Rightarrow> engine_config_error + engine_folder_config" where
  "folder_config_new E i label root members =
     rbind (fail_if (uuid_is_nil i) InvalidFolder) (\<lambda>_.
     rbind (validate_text label MAX_LABEL_BYTES) (\<lambda>_.
     rbind (fail_if (vec_len members > MAX_FOLDER_MEMBERS) ConfigLimitExceeded) (\<lambda>_.
     rbind (fail_if (\<not> distinct members) DuplicateMember) (\<lambda>_.
     rbind (validate_root E root) (\<lambda>canonical.
     Inr \<lparr>efc_id = i, efc_label = label, efc_root = canonical, efc_members = sort members,
          efc_paused = False, efc_role = LegacyTwoWay\<rparr>)))))"

definition folder_with_role :: "engine_folder_config \<Rightarrow> engine_folder_role \<Rightarrow> engine_folder_config" where
  "folder_with_role folder role = folder\<lparr>efc_role := role\<rparr>"

definition folder_with_paused :: "engine_folder_config \<Rightarrow> bool \<Rightarrow> engine_folder_config" where
  "folder_with_paused folder paused = folder\<lparr>efc_paused := paused\<rparr>"

record engine_session_settings =
  ess_device_name :: string
  ess_listener :: "socket_addr option"
  ess_peers :: "engine_peer_config list"
  ess_folders :: "engine_folder_config list"

end
