(* ===== verification/Endpoint_Roster.thy ===== *)
theory Endpoint_Roster
  imports Sharing_Types
begin

text \<open>
  The presentation rosters of \<open>sharing/endpoint_roster.rs\<close>: the checks on one roster and the
  two passes over a snapshot.
\<close>

definition MAX_ENDPOINTS :: int where "MAX_ENDPOINTS = 128"

definition valid_name :: "string \<Rightarrow> nat \<Rightarrow> bool" where
  "valid_name name maximum \<longleftrightarrow>
     \<not> str_blank name \<and> length name \<le> maximum \<and> \<not> str_has_control name"

text \<open>Inserting every identifier into a set that starts with the source fails on a duplicate.\<close>

definition roster_validate :: "endpoint_roster \<Rightarrow> unit sharing_result" where
  "roster_validate r =
     fail_if
       (er_revision r = 0
        \<or> \<not> valid_name (er_label r) 256
        \<or> re_device_id (er_source r) = device_nil
        \<or> \<not> valid_name (re_display_name (er_source r)) 80
        \<or> er_destinations r = []
        \<or> vec_len (er_destinations r) > MAX_ENDPOINTS
        \<or> list_ex (\<lambda>e. re_device_id e = device_nil \<or> \<not> valid_name (re_display_name e) 80)
            (er_destinations r)
        \<or> \<not> distinct (re_device_id (er_source r) # map re_device_id (er_destinations r)))
       InvalidRecord"

definition roster_is_owned :: "share list \<Rightarrow> uuid \<Rightarrow> endpoint_roster \<Rightarrow> bool" where
  "roster_is_owned shares folder r \<longleftrightarrow>
     list_ex (\<lambda>s. \<not> sh_removed s \<and> offer_folder_id (sh_offer s) = folder
       \<and> offer_source_device_id (sh_offer s) = re_device_id (er_source r)
       \<and> offer_link_policy (sh_offer s) \<noteq> None) shares"

definition roster_reconcile :: "snapshot \<Rightarrow> snapshot" where
  "roster_reconcile sn =
     sn\<lparr>sn_endpoint_rosters := bt_retain (roster_is_owned (sn_shares sn)) (sn_endpoint_rosters sn)\<rparr>"

definition validate_rosters :: "snapshot \<Rightarrow> unit sharing_result" where
  "validate_rosters sn =
     rbind (fail_if (int (bt_len (sn_endpoint_rosters sn)) > MAX_SHARES) LimitExceeded) (\<lambda>_.
     rcheck (\<lambda>(folder, r).
       rbind (roster_validate r) (\<lambda>_.
       fail_if (\<not> roster_is_owned (sn_shares sn) folder r) InvalidState))
       (sorted_list_of_fmap (sn_endpoint_rosters sn)))"

end
