(* ===== verification/Link_Settings.thy ===== *)
theory Link_Settings
  imports Sharing_Types
begin

text \<open>
  The link-wide settings of \<open>sharing/link_settings.rs\<close> as far as they are functions of a
  snapshot: validity, the commit a source sends, and the two passes over a snapshot.
\<close>

definition MIN_SCHEDULE_INTERVAL_MINUTES :: u32 where "MIN_SCHEDULE_INTERVAL_MINUTES = 15"
definition MAX_SCHEDULE_INTERVAL_MINUTES :: u32 where "MAX_SCHEDULE_INTERVAL_MINUTES = 525600"

fun cadence_is_valid :: "link_cadence \<Rightarrow> bool" where
  "cadence_is_valid Manual = True"
| "cadence_is_valid Continuous = True"
| "cadence_is_valid (Scheduled minutes) =
     (MIN_SCHEDULE_INTERVAL_MINUTES \<le> minutes \<and> minutes \<le> MAX_SCHEDULE_INTERVAL_MINUTES)"

definition settings_is_valid :: "folder_link_settings \<Rightarrow> bool" where
  "settings_is_valid s = cadence_is_valid (fls_cadence s)"

definition settings_commit ::
    "link_settings_state \<Rightarrow> uuid \<Rightarrow> device_id \<Rightarrow> device_id \<Rightarrow> link_settings_commit" where
  "settings_commit st folder source target =
     \<lparr>lsc_folder_id = folder, lsc_source_id = source, lsc_target_id = target,
      lsc_revision = lss_revision st, lsc_settings = lss_settings st,
      lsc_change_id = lss_change_id st, lsc_changed_by = lss_changed_by st,
      lsc_accepted_at_unix_ms = lss_accepted_at_unix_ms st\<rparr>"

definition is_link_share :: "uuid \<Rightarrow> share \<Rightarrow> bool" where
  "is_link_share folder s \<longleftrightarrow>
     \<not> sh_removed s \<and> offer_folder_id (sh_offer s) = folder
     \<and> offer_link_policy (sh_offer s) \<noteq> None"

definition link_source_in_snapshot :: "share list \<Rightarrow> uuid \<Rightarrow> device_id option" where
  "link_source_in_snapshot shares folder =
     map_option (\<lambda>s. offer_source_device_id (sh_offer s)) (find (is_link_share folder) shares)"

definition initial_link_state :: "device_id \<Rightarrow> share \<Rightarrow> folder_link_policy \<Rightarrow> link_settings_state" where
  "initial_link_state owner s policy =
     \<lparr>lss_revision = 0,
      lss_settings = \<lparr>fls_deletion_policy = policy, fls_paused = False,
        fls_cadence = Continuous, fls_android_conditions = default_conditions\<rparr>,
      lss_change_id = uuid_nil,
      lss_changed_by = offer_source_device_id (sh_offer s),
      lss_accepted_at_unix_ms = offer_issued_at_unix_ms (sh_offer s),
      lss_confirmed = (owner = offer_source_device_id (sh_offer s)),
      lss_pending_change = None, lss_conflicted_change = None\<rparr>"

fun insert_link_states ::
    "device_id \<Rightarrow> share list \<Rightarrow> (uuid, link_settings_state) fmap \<Rightarrow> (uuid, link_settings_state) fmap" where
  "insert_link_states owner [] m = m"
| "insert_link_states owner (s # ss) m =
     insert_link_states owner ss
       (case offer_link_policy (sh_offer s) of
          None \<Rightarrow> m
        | Some policy \<Rightarrow>
            if sh_removed s then m
            else bt_or_insert (offer_folder_id (sh_offer s)) (initial_link_state owner s policy) m)"

definition reconcile_link_states :: "snapshot \<Rightarrow> snapshot" where
  "reconcile_link_states sn =
     (let active = map (\<lambda>s. offer_folder_id (sh_offer s))
            (filter (\<lambda>s. \<not> sh_removed s \<and> offer_link_policy (sh_offer s) \<noteq> None) (sn_shares sn));
          retained = bt_retain (\<lambda>folder _. folder \<in> set active) (sn_link_settings sn)
      in sn\<lparr>sn_link_settings :=
           insert_link_states (pi_device_id (sn_owner sn)) (sn_shares sn) retained\<rparr>)"

fun is_scheduled :: "link_cadence \<Rightarrow> bool" where
  "is_scheduled (Scheduled _) = True"
| "is_scheduled _ = False"

definition validate_retained_change ::
    "device_id \<Rightarrow> device_id \<Rightarrow> uuid \<Rightarrow> link_settings_state \<Rightarrow> link_settings_request
      \<Rightarrow> unit sharing_result" where
  "validate_retained_change owner source folder st pending =
     fail_if (source = owner
       \<or> lsq_source_id pending \<noteq> source
       \<or> lsq_requester_id pending \<noteq> owner
       \<or> lsq_folder_id pending \<noteq> folder
       \<or> uuid_is_nil (lsq_change_id pending)
       \<or> lsq_expected_revision pending > lss_revision st) InvalidState"

definition validate_link_state ::
    "device_id \<Rightarrow> share list \<Rightarrow> uuid \<times> link_settings_state \<Rightarrow> unit sharing_result" where
  "validate_link_state owner shares = (\<lambda>(folder, st).
     rbind (ok_or (link_source_in_snapshot shares folder) InvalidState) (\<lambda>source.
     rbind (fail_if
       ((lss_revision st = 0) \<noteq> uuid_is_nil (lss_change_id st)
        \<or> \<not> settings_is_valid (lss_settings st)
        \<or> (is_scheduled (fls_cadence (lss_settings st)) \<and> lss_accepted_at_unix_ms st = 0)
        \<or> (source = owner \<and> (\<not> lss_confirmed st \<or> lss_pending_change st \<noteq> None))
        \<or> (lss_revision st = 0 \<and> lss_changed_by st \<noteq> source)
        \<or> (\<not> lss_confirmed st \<and> lss_revision st \<noteq> 0)) InvalidState) (\<lambda>_.
     rcheck (validate_retained_change owner source folder st)
       (option_list [lss_pending_change st, lss_conflicted_change st]))))"

definition validate_link_states :: "snapshot \<Rightarrow> unit sharing_result" where
  "validate_link_states sn =
     rbind (rcheck (validate_link_state (pi_device_id (sn_owner sn)) (sn_shares sn))
       (sorted_list_of_fmap (sn_link_settings sn))) (\<lambda>_.
     rcheck (\<lambda>s. fail_if (fmlookup (sn_link_settings sn) (offer_folder_id (sh_offer s)) = None)
       InvalidState)
       (filter (\<lambda>s. \<not> sh_removed s \<and> offer_link_policy (sh_offer s) \<noteq> None) (sn_shares sn)))"

end
