(* ===== verification/Link_Runs.thy ===== *)
theory Link_Runs
  imports Link_Settings
begin

text \<open>
  The link runs of \<open>sharing/link_runs.rs\<close> as far as they are functions of a snapshot: one
  source-authoritative run per link with its phase, deadline and destinations, admission of
  requests, the commit each destination sees, and the passes that cancel or retain runs.
\<close>

definition LINK_RUN_DEADLINE_MS :: u64 where "LINK_RUN_DEADLINE_MS = 86400000"
definition ANDROID_CONDITION_TTL :: int where "ANDROID_CONDITION_TTL = 90000000000"
definition CONTINUOUS_CHECK_INTERVAL_MS :: u64 where "CONTINUOUS_CHECK_INTERVAL_MS = 15000"

section \<open>Run states\<close>

definition phase_active :: "link_run_phase \<Rightarrow> bool" where
  "phase_active p \<longleftrightarrow> p = Preparing \<or> p = Running"

definition result_terminal :: "link_run_destination_result \<Rightarrow> bool" where
  "result_terminal r \<longleftrightarrow> r \<noteq> ResultPending"

definition is_upper_hex :: "char \<Rightarrow> bool" where
  "is_upper_hex b \<longleftrightarrow> is_ascii_digit b \<or> (65 \<le> byte_val b \<and> byte_val b \<le> 70)"

definition index_is_valid :: "engine_index_snapshot \<Rightarrow> bool" where
  "index_is_valid i \<longleftrightarrow>
     (let bs = eis_index_id i in
      length bs = 18 \<and> prefix ''0x'' bs
      \<and> list_all is_upper_hex (drop 2 bs)
      \<and> list_ex (\<lambda>b. b \<noteq> CHR ''0'') (drop 2 bs)
      \<and> eis_sequence i \<le> 9223372036854775807)"

definition index_reaches :: "engine_index_snapshot \<Rightarrow> engine_index_snapshot \<Rightarrow> bool" where
  "index_reaches i expected \<longleftrightarrow>
     index_is_valid i \<and> index_is_valid expected
     \<and> eis_index_id i = eis_index_id expected \<and> eis_sequence i \<ge> eis_sequence expected"

definition next_state_revision :: "u64 \<Rightarrow> u64 sharing_result" where
  "next_state_revision current = ok_or (checked_add current 1) LimitExceeded"

definition destinations_of :: "link_run_state \<Rightarrow> link_run_destination_state list" where
  "destinations_of st = map snd (sorted_list_of_fmap (lrs_destinations st))"

definition finish_if_terminal :: "link_run_state \<Rightarrow> u64 \<Rightarrow> link_run_state" where
  "finish_if_terminal st now =
     (if list_all (\<lambda>d. result_terminal (lrd_result d)) (destinations_of st)
      then st\<lparr>lrs_phase := (if list_all (\<lambda>d. lrd_result d = Succeeded) (destinations_of st)
                            then PhaseSucceeded else PhaseIncomplete),
              lrs_ended_at_unix_ms := Some now\<rparr>
      else st)"

text \<open>Ending every destination that has not reported.\<close>

definition end_pending ::
    "link_run_destination_result \<Rightarrow> u64 \<Rightarrow> link_run_destination_state \<Rightarrow> link_run_destination_state" where
  "end_pending result now d =
     (if lrd_result d = ResultPending
      then d\<lparr>lrd_result := result, lrd_ended_at_unix_ms := Some now\<rparr> else d)"

text \<open>The common body of interruption, expiry and cancellation of a whole run.\<close>

definition end_run ::
    "link_run_destination_result \<Rightarrow> link_run_phase \<Rightarrow> u64 \<Rightarrow> link_run_state
      \<Rightarrow> link_run_state sharing_result" where
  "end_run result phase now st =
     rbind (next_state_revision (lrs_state_revision st)) (\<lambda>revision.
     Inr (st\<lparr>lrs_destinations := fmmap (end_pending result now) (lrs_destinations st),
             lrs_phase := phase, lrs_ended_at_unix_ms := Some now,
             lrs_state_revision := revision\<rparr>))"

definition slot_generation :: "link_run_link_state \<Rightarrow> u64" where
  "slot_generation slot =
     (case slot_authoritative slot of None \<Rightarrow> 0 | Some st \<Rightarrow> lrs_generation st)"

definition current_generation :: "snapshot \<Rightarrow> uuid \<Rightarrow> u64" where
  "current_generation sn folder =
     (case fmlookup (sn_link_runs sn) folder of None \<Rightarrow> 0 | Some slot \<Rightarrow> slot_generation slot)"

definition authoritative_run :: "snapshot \<Rightarrow> uuid \<Rightarrow> link_run_state option" where
  "authoritative_run sn folder =
     Option.bind (fmlookup (sn_link_runs sn) folder) slot_authoritative"

section \<open>Validity of runs\<close>

definition destination_times_ok :: "link_run_state \<Rightarrow> link_run_destination_state \<Rightarrow> bool" where
  "destination_times_ok st d \<longleftrightarrow>
     result_terminal (lrd_result d) = (lrd_ended_at_unix_ms d \<noteq> None)
     \<and> \<not> opt_any (\<lambda>ended. ended < lrs_started_at_unix_ms st) (lrd_ended_at_unix_ms d)"

fun phase_fields_ok :: "link_run_phase \<Rightarrow> link_run_state \<Rightarrow> bool" where
  "phase_fields_ok Preparing st \<longleftrightarrow> lrs_source_index st = None \<and> lrs_ended_at_unix_ms st = None"
| "phase_fields_ok Running st \<longleftrightarrow>
     opt_any index_is_valid (lrs_source_index st) \<and> lrs_ended_at_unix_ms st = None"
| "phase_fields_ok PhaseSucceeded st \<longleftrightarrow>
     opt_any index_is_valid (lrs_source_index st) \<and> lrs_ended_at_unix_ms st \<noteq> None
     \<and> list_all (\<lambda>d. lrd_result d = Succeeded) (destinations_of st)"
| "phase_fields_ok _ st \<longleftrightarrow>
     lrs_ended_at_unix_ms st \<noteq> None
     \<and> list_all (\<lambda>d. result_terminal (lrd_result d)) (destinations_of st)"

definition validate_run_state :: "link_run_state \<Rightarrow> unit sharing_result" where
  "validate_run_state st =
     rbind (fail_if (lrs_generation st = 0 \<or> lrs_state_revision st = 0
       \<or> uuid_is_nil (lrs_request_id st) \<or> lrs_started_at_unix_ms st = 0) InvalidState) (\<lambda>_.
     rbind (ok_or (checked_add (lrs_started_at_unix_ms st) LINK_RUN_DEADLINE_MS) InvalidState)
       (\<lambda>deadline.
     rbind (fail_if
       (lrs_deadline_unix_ms st \<noteq> deadline
        \<or> opt_any (\<lambda>ended. ended < lrs_started_at_unix_ms st) (lrs_ended_at_unix_ms st)
        \<or> destinations_of st = []
        \<or> vec_len (destinations_of st) > MAX_SHARES
        \<or> list_ex (\<lambda>d. \<not> destination_times_ok st d) (destinations_of st)) InvalidState) (\<lambda>_.
     fail_if (\<not> phase_fields_ok (lrs_phase st) st) InvalidState)))"

definition validate_authoritative ::
    "snapshot \<Rightarrow> uuid \<Rightarrow> link_run_state \<Rightarrow> unit sharing_result" where
  "validate_authoritative sn folder st =
     rbind (validate_run_state st) (\<lambda>_.
     rbind (ok_or (fmlookup (sn_link_settings sn) folder) InvalidState) (\<lambda>settings.
     rbind (fail_if
       (lrs_settings_revision st > lss_revision settings
        \<or> (phase_active (lrs_phase st)
           \<and> (lrs_settings_revision st \<noteq> lss_revision settings
              \<or> \<not> lss_confirmed settings
              \<or> fls_paused (lss_settings settings)))) InvalidState) (\<lambda>_.
     let known =
       map (\<lambda>s. offer_target_device_id (sh_offer s))
         (filter (\<lambda>s. offer_folder_id (sh_offer s) = folder) (sn_shares sn))
       @ map tomb_peer_id (filter (\<lambda>t. tomb_folder_id t = folder) (sn_tombstones sn))
     in fail_if (list_ex (\<lambda>(peer, _). peer \<notin> set known)
          (sorted_list_of_fmap (lrs_destinations st))) InvalidState)))"

definition result_reportable :: "link_run_destination_result \<Rightarrow> bool" where
  "result_reportable r \<longleftrightarrow> r = Succeeded \<or> r = Failed"

definition validate_run_slot :: "snapshot \<Rightarrow> uuid \<times> link_run_link_state \<Rightarrow> unit sharing_result" where
  "validate_run_slot sn = (\<lambda>(folder, slot).
     rbind (ok_or (link_source_in_snapshot (sn_shares sn) folder) InvalidState) (\<lambda>source.
     rbind (case slot_authoritative slot of None \<Rightarrow> Inr ()
       | Some st \<Rightarrow> validate_authoritative sn folder st) (\<lambda>_.
     rbind (fail_if (opt_any (\<lambda>request.
         lrq_folder_id request \<noteq> folder
         \<or> lrq_source_id request \<noteq> source
         \<or> lrq_requester_id request \<noteq> pi_device_id (sn_owner sn)
         \<or> uuid_is_nil (lrq_request_id request)
         \<or> source = pi_device_id (sn_owner sn)) (slot_pending_request slot)) InvalidState) (\<lambda>_.
     rbind (fail_if (opt_any (\<lambda>rejected.
         uuid_is_nil (lrj_request_id rejected)
         \<or> \<not> (lrj_requester_id rejected = source
              \<or> list_ex (\<lambda>s. offer_folder_id (sh_offer s) = folder
                   \<and> offer_source_device_id (sh_offer s) = source
                   \<and> offer_target_device_id (sh_offer s) = lrj_requester_id rejected) (sn_shares sn))
         \<or> (source \<noteq> pi_device_id (sn_owner sn)
            \<and> lrj_requester_id rejected \<noteq> pi_device_id (sn_owner sn)))
         (slot_rejected_request slot)) InvalidState) (\<lambda>_.
     fail_if (opt_any (\<lambda>report.
         lrr_folder_id report \<noteq> folder
         \<or> lrr_source_id report \<noteq> source
         \<or> lrr_reporter_id report \<noteq> pi_device_id (sn_owner sn)
         \<or> source = pi_device_id (sn_owner sn)
         \<or> \<not> index_is_valid (lrr_source_index report)
         \<or> \<not> result_reportable (lrr_result report)) (slot_pending_report slot)) InvalidState)))))"

definition validate_run_states :: "snapshot \<Rightarrow> unit sharing_result" where
  "validate_run_states sn =
     rbind (fail_if (int (bt_len (sn_link_runs sn)) > MAX_SHARES) LimitExceeded) (\<lambda>_.
     rcheck (validate_run_slot sn) (sorted_list_of_fmap (sn_link_runs sn)))"

section \<open>Membership\<close>

definition validate_request_membership :: "snapshot \<Rightarrow> link_run_request \<Rightarrow> unit sharing_result" where
  "validate_request_membership sn request =
     fail_if
       (uuid_is_nil (lrq_request_id request)
        \<or> link_source_in_snapshot (sn_shares sn) (lrq_folder_id request) \<noteq> Some (lrq_source_id request)
        \<or> \<not> list_ex (\<lambda>s.
             \<not> sh_removed s \<and> sh_commit s \<noteq> None
             \<and> offer_folder_id (sh_offer s) = lrq_folder_id request
             \<and> offer_source_device_id (sh_offer s) = lrq_source_id request
             \<and> (lrq_requester_id request = lrq_source_id request
                \<or> offer_target_device_id (sh_offer s) = lrq_requester_id request)) (sn_shares sn))
       InvalidRecord"

definition validate_reporter_membership :: "snapshot \<Rightarrow> link_run_report \<Rightarrow> unit sharing_result" where
  "validate_reporter_membership sn report =
     fail_if (\<not> list_ex (\<lambda>s.
         \<not> sh_removed s \<and> sh_commit s \<noteq> None
         \<and> offer_folder_id (sh_offer s) = lrr_folder_id report
         \<and> offer_source_device_id (sh_offer s) = lrr_source_id report
         \<and> offer_target_device_id (sh_offer s) = lrr_reporter_id report) (sn_shares sn))
       InvalidRecord"

definition validate_commit_for_local ::
    "snapshot \<Rightarrow> device_id \<Rightarrow> link_run_commit \<Rightarrow> unit sharing_result" where
  "validate_commit_for_local sn owner commit =
     rbind (fail_if
       (lrc_target_id commit \<noteq> owner
        \<or> lrc_source_id commit = owner
        \<or> link_source_in_snapshot (sn_shares sn) (lrc_folder_id commit) \<noteq> Some (lrc_source_id commit)
        \<or> \<not> list_ex (\<lambda>s.
             \<not> sh_removed s \<and> sh_commit s \<noteq> None
             \<and> offer_folder_id (sh_offer s) = lrc_folder_id commit
             \<and> offer_source_device_id (sh_offer s) = lrc_source_id commit
             \<and> offer_target_device_id (sh_offer s) = owner) (sn_shares sn)) InvalidRecord) (\<lambda>_.
     rbind (case lrc_state commit of
         Some st \<Rightarrow>
           rbind (fail_if
             (uuid_is_nil (lrs_request_id st) \<or> lrs_generation st = 0 \<or> lrs_state_revision st = 0
              \<or> fmlookup (lrs_destinations st) owner = None
              \<or> list_ex (\<lambda>(peer, _). peer \<noteq> owner) (sorted_list_of_fmap (lrs_destinations st)))
             InvalidRecord) (\<lambda>_. validate_run_state st)
       | None \<Rightarrow> fail_if (lrc_rejected_request commit = None) InvalidRecord) (\<lambda>_.
     rbind (fail_if (opt_any uuid_is_nil (lrc_acknowledged_request_id commit)) InvalidRecord) (\<lambda>_.
     fail_if (opt_any (\<lambda>rejected.
         lrj_requester_id rejected \<noteq> owner \<or> uuid_is_nil (lrj_request_id rejected))
         (lrc_rejected_request commit)) InvalidRecord)))"

section \<open>Admission\<close>

definition pending_destination :: link_run_destination_state where
  "pending_destination = \<lparr>lrd_result = ResultPending, lrd_ended_at_unix_ms = None\<rparr>"

definition run_destinations ::
    "share list \<Rightarrow> link_run_request \<Rightarrow> (device_id, link_run_destination_state) fmap" where
  "run_destinations shares request =
     fmap_of_list (map (\<lambda>s. (offer_target_device_id (sh_offer s), pending_destination))
       (filter (\<lambda>s.
          \<not> sh_removed s \<and> \<not> sh_paused s \<and> sh_commit s \<noteq> None
          \<and> offer_folder_id (sh_offer s) = lrq_folder_id request
          \<and> offer_source_device_id (sh_offer s) = lrq_source_id request) shares))"

definition rejection_reason ::
    "snapshot \<Rightarrow> link_run_request \<Rightarrow> u64 \<Rightarrow> link_run_rejection_reason option" where
  "rejection_reason sn request settings_revision =
     (if settings_revision \<noteq> lrq_settings_revision request then Some SettingsChanged
      else if current_generation sn (lrq_folder_id request) \<noteq> lrq_expected_generation request
      then Some GenerationChanged
      else None)"

text \<open>The exact run this request started, so that a retry is answered with it.\<close>

definition run_answers_request :: "link_run_state \<Rightarrow> link_run_request \<Rightarrow> bool" where
  "run_answers_request st request \<longleftrightarrow>
     lrs_request_id st = lrq_request_id request
     \<and> lrs_requested_by st = lrq_requester_id request
     \<and> checked_add (lrq_expected_generation request) 1 = Some (lrs_generation st)
     \<and> lrq_settings_revision request = lrs_settings_revision st"

definition slot_of :: "snapshot \<Rightarrow> uuid \<Rightarrow> link_run_link_state" where
  "slot_of sn folder =
     (case fmlookup (sn_link_runs sn) folder of None \<Rightarrow> default_slot | Some slot \<Rightarrow> slot)"

definition set_slot :: "uuid \<Rightarrow> link_run_link_state \<Rightarrow> snapshot \<Rightarrow> snapshot" where
  "set_slot folder slot sn = sn\<lparr>sn_link_runs := fmupd folder slot (sn_link_runs sn)\<rparr>"

definition start_run ::
    "snapshot \<Rightarrow> link_run_request \<Rightarrow> u64 \<Rightarrow> (snapshot \<times> link_run_state) sharing_result" where
  "start_run sn request now =
     (let folder = lrq_folder_id request;
          slot = slot_of sn folder;
          destinations = run_destinations (sn_shares sn) request
      in
      rbind (ok_or (checked_add (lrq_expected_generation request) 1) LimitExceeded) (\<lambda>generation.
      rbind (case slot_authoritative slot of None \<Rightarrow> Inr 1
             | Some st \<Rightarrow> next_state_revision (lrs_state_revision st)) (\<lambda>state_revision.
      rbind (ok_or (checked_add now LINK_RUN_DEADLINE_MS) LimitExceeded) (\<lambda>deadline.
      rbind (fail_if (destinations = fmempty) InvalidRecord) (\<lambda>_.
      let st = \<lparr>lrs_generation = generation, lrs_state_revision = state_revision,
            lrs_settings_revision = lrq_settings_revision request,
            lrs_request_id = lrq_request_id request,
            lrs_requested_by = lrq_requester_id request,
            lrs_phase = Preparing, lrs_started_at_unix_ms = now,
            lrs_deadline_unix_ms = deadline, lrs_ended_at_unix_ms = None,
            lrs_source_index = None, lrs_destinations = destinations\<rparr>
      in Inr (set_slot folder (slot\<lparr>slot_authoritative := Some st,
              slot_pending_request := None, slot_rejected_request := None\<rparr>) sn, st))))))"

definition admit_source_request ::
    "snapshot \<Rightarrow> link_run_request \<Rightarrow> u64 \<Rightarrow> bool
      \<Rightarrow> (snapshot \<times> link_run_admission \<times> bool) sharing_result" where
  "admit_source_request sn request now allow_automatic_continuous =
     rbind (fail_if (now = 0) InvalidRecord) (\<lambda>_.
     rbind (validate_request_membership sn request) (\<lambda>_.
     rbind (ok_or (fmlookup (sn_link_settings sn) (lrq_folder_id request)) InvalidState) (\<lambda>settings.
     rbind (fail_if
       (\<not> lss_confirmed settings
        \<or> fls_paused (lss_settings settings)
        \<or> (fls_cadence (lss_settings settings) = Continuous \<and> \<not> allow_automatic_continuous)
        \<or> now < lss_accepted_at_unix_ms settings) InvalidState) (\<lambda>_.
     let current = authoritative_run sn (lrq_folder_id request) in
     if opt_any (\<lambda>st. run_answers_request st request \<or> phase_active (lrs_phase st)) current
     then Inr (sn, AlreadyRunning (the current), False)
     else
       case rejection_reason sn request (lss_revision settings) of
         Some reason \<Rightarrow>
           let rejection = \<lparr>lrj_requester_id = lrq_requester_id request,
                 lrj_request_id = lrq_request_id request, lrj_reason = reason\<rparr>
           in Inr (set_slot (lrq_folder_id request)
                ((slot_of sn (lrq_folder_id request))\<lparr>slot_rejected_request := Some rejection\<rparr>) sn,
              Rejected rejection, True)
       | None \<Rightarrow>
           rbind (start_run sn request now) (\<lambda>(sn', st). Inr (sn', Accepted st, True))))))"

section \<open>What a destination is sent\<close>

definition restrict_to_target :: "device_id \<Rightarrow> link_run_state \<Rightarrow> link_run_state sharing_result" where
  "restrict_to_target target st =
     rbind (ok_or (fmlookup (lrs_destinations st) target) InvalidRecord) (\<lambda>d.
     Inr (st\<lparr>lrs_destinations := fmap_of_list [(target, d)]\<rparr>))"

definition commit_for_target :: "snapshot \<Rightarrow> uuid \<Rightarrow> device_id \<Rightarrow> link_run_commit sharing_result" where
  "commit_for_target sn folder target =
     rbind (ok_or (link_source_in_snapshot (sn_shares sn) folder) InvalidRecord) (\<lambda>source.
     rbind (ok_or (fmlookup (sn_link_runs sn) folder) InvalidState) (\<lambda>slot.
     rbind (case slot_authoritative slot of
              None \<Rightarrow> Inr None
            | Some st \<Rightarrow> rbind (restrict_to_target target st) (\<lambda>st'. Inr (Some st'))) (\<lambda>st.
     let rejected = (if opt_any (\<lambda>r. lrj_requester_id r = target) (slot_rejected_request slot)
                     then slot_rejected_request slot else None) in
     rbind (fail_if (st = None \<and> rejected = None) InvalidState) (\<lambda>_.
     Inr \<lparr>lrc_folder_id = folder, lrc_source_id = source, lrc_target_id = target,
          lrc_state = st, lrc_acknowledged_request_id = None,
          lrc_rejected_request = rejected\<rparr>))))"

definition run_delivery ::
    "snapshot \<Rightarrow> device_id \<Rightarrow> share \<Rightarrow> folder_share_record option" where
  "run_delivery sn owner s =
     (case fmlookup (sn_link_runs sn) (offer_folder_id (sh_offer s)) of
        None \<Rightarrow> None
      | Some slot \<Rightarrow>
          if offer_source_device_id (sh_offer s) = owner
          then (case commit_for_target sn (offer_folder_id (sh_offer s))
                       (offer_target_device_id (sh_offer s)) of
                  Inl _ \<Rightarrow> None | Inr commit \<Rightarrow> Some (RecordRunCommit commit))
          else case slot_pending_report slot of
                 Some report \<Rightarrow> Some (RecordRunReport report)
               | None \<Rightarrow> map_option RecordRunRequest (slot_pending_request slot))"

definition run_deliveries :: "snapshot \<Rightarrow> device_id \<Rightarrow> folder_share_delivery list" where
  "run_deliveries sn owner =
     option_list (map (\<lambda>s. map_option
         (\<lambda>r. \<lparr>fsd_peer_transport = sh_peer_transport s, fsd_record = r\<rparr>) (run_delivery sn owner s))
       (filter (\<lambda>s. \<not> sh_removed s \<and> sh_commit s \<noteq> None
          \<and> offer_link_policy (sh_offer s) \<noteq> None) (sn_shares sn)))"

section \<open>Passes over the runs of a snapshot\<close>

definition cancel_for_settings_change :: "snapshot \<Rightarrow> uuid \<Rightarrow> u64 \<Rightarrow> snapshot sharing_result" where
  "cancel_for_settings_change sn folder now =
     (case fmlookup (sn_link_runs sn) folder of
        None \<Rightarrow> Inr sn
      | Some slot \<Rightarrow>
          let cleared = slot\<lparr>slot_pending_request := None, slot_pending_report := None\<rparr> in
          case slot_authoritative slot of
            None \<Rightarrow> Inr (set_slot folder cleared sn)
          | Some st \<Rightarrow>
              if phase_active (lrs_phase st)
              then rbind (end_run Cancelled PhaseCancelled now st) (\<lambda>st'.
                   Inr (set_slot folder (cleared\<lparr>slot_authoritative := Some st'\<rparr>) sn))
              else Inr (set_slot folder cleared sn))"

definition reconcile_run_states :: "snapshot \<Rightarrow> snapshot" where
  "reconcile_run_states sn =
     sn\<lparr>sn_link_runs := bt_retain (\<lambda>folder _. fmlookup (sn_link_settings sn) folder \<noteq> None)
          (sn_link_runs sn)\<rparr>"

definition retained_member :: "snapshot \<Rightarrow> device_id \<Rightarrow> uuid \<Rightarrow> device_id \<Rightarrow> bool" where
  "retained_member sn owner folder peer \<longleftrightarrow>
     list_ex (\<lambda>s. \<not> sh_removed s \<and> \<not> sh_paused s \<and> sh_commit s \<noteq> None
       \<and> offer_source_device_id (sh_offer s) = owner
       \<and> offer_folder_id (sh_offer s) = folder
       \<and> offer_target_device_id (sh_offer s) = peer) (sn_shares sn)"

definition source_folder :: "snapshot \<Rightarrow> device_id \<Rightarrow> uuid \<Rightarrow> bool" where
  "source_folder sn owner folder \<longleftrightarrow>
     list_ex (\<lambda>s. offer_source_device_id (sh_offer s) = owner
       \<and> offer_folder_id (sh_offer s) = folder) (sn_shares sn)"

definition lost_destination ::
    "snapshot \<Rightarrow> device_id \<Rightarrow> uuid \<Rightarrow> device_id \<Rightarrow> link_run_destination_state \<Rightarrow> bool" where
  "lost_destination sn owner folder peer d \<longleftrightarrow>
     lrd_result d = ResultPending \<and> \<not> retained_member sn owner folder peer"

definition loses_members :: "snapshot \<Rightarrow> device_id \<Rightarrow> uuid \<Rightarrow> link_run_link_state \<Rightarrow> bool" where
  "loses_members sn owner folder slot \<longleftrightarrow>
     source_folder sn owner folder
     \<and> opt_any (\<lambda>st. phase_active (lrs_phase st)
         \<and> list_ex (\<lambda>(peer, d). lost_destination sn owner folder peer d)
             (sorted_list_of_fmap (lrs_destinations st))) (slot_authoritative slot)"

definition drop_members ::
    "snapshot \<Rightarrow> device_id \<Rightarrow> u64 \<Rightarrow> uuid \<Rightarrow> link_run_state \<Rightarrow> link_run_state sharing_result" where
  "drop_members sn owner now folder st =
     rbind (next_state_revision (lrs_state_revision st)) (\<lambda>revision.
     Inr (finish_if_terminal
       (st\<lparr>lrs_destinations := fmmap_keys (\<lambda>peer d.
              if lost_destination sn owner folder peer d then end_pending Cancelled now d else d)
              (lrs_destinations st),
            lrs_state_revision := revision\<rparr>) now))"

definition reconcile_slot ::
    "snapshot \<Rightarrow> device_id \<Rightarrow> u64 \<Rightarrow> uuid \<Rightarrow> link_run_link_state \<Rightarrow> link_run_link_state sharing_result" where
  "reconcile_slot sn owner now folder slot =
     (if loses_members sn owner folder slot
      then rbind (drop_members sn owner now folder (the (slot_authoritative slot))) (\<lambda>st.
           Inr (slot\<lparr>slot_authoritative := Some st\<rparr>))
      else Inr slot)"

definition reconcile_membership ::
    "snapshot \<Rightarrow> device_id \<Rightarrow> u64 \<Rightarrow> (snapshot \<times> bool) sharing_result" where
  "reconcile_membership sn owner now =
     rbind (bt_try_map (reconcile_slot sn owner now) (sn_link_runs sn)) (\<lambda>runs.
     Inr (sn\<lparr>sn_link_runs := runs\<rparr>,
          list_ex (\<lambda>(folder, slot). loses_members sn owner folder slot)
            (sorted_list_of_fmap (sn_link_runs sn))))"

end
