(* ===== verification/Snapshot_Checks.thy ===== *)
theory Snapshot_Checks
  imports Engine_Config Endpoint_Roster Link_Runs
begin

text \<open>
  The functions of \<open>sharing.rs\<close> on a snapshot: current peer trust, local roots, the retained
  offer chains, and \<open>validate_snapshot\<close>, split at its loops. Every snapshot that reaches the
  disk has passed it.
\<close>

section \<open>Current trust\<close>

record current_peer_trust =
  cpt_identity :: public_identity
  cpt_transport :: transport_binding
  cpt_confirmed_at_unix_ms :: u64

definition trust_matches :: "current_peer_trust \<Rightarrow> share \<Rightarrow> bool" where
  "trust_matches trust s \<longleftrightarrow>
     cpt_identity trust = sh_peer_identity s
     \<and> cpt_transport trust = sh_peer_transport s
     \<and> cpt_confirmed_at_unix_ms trust = sh_peer_confirmed_at_unix_ms s"

definition observe_trust ::
    "'z ext_scheme \<Rightarrow> node_config \<Rightarrow> device_id \<Rightarrow> current_peer_trust option sharing_result" where
  "observe_trust X config peer =
     (case fmlookup (nc_trusted_peers config) peer of None \<Rightarrow> Inr None | Some grant \<Rightarrow>
      (case fmlookup (nc_trusted_peer_transports config) peer of None \<Rightarrow> Inr None | Some transport \<Rightarrow>
       if pg_revoked grant then Inr None else
       rbind (fail_if (pg_peer_device_id grant \<noteq> peer \<or> tb_peer_id transport \<noteq> peer
         \<or> pg_confirmed_at_unix_ms grant = 0) InvalidState) (\<lambda>_.
       rbind (map_err (\<lambda>_. InvalidState) (identity_from_encoded X peer (pg_public_key grant)))
         (\<lambda>identity.
       Inr (Some \<lparr>cpt_identity = identity, cpt_transport = transport,
                  cpt_confirmed_at_unix_ms = pg_confirmed_at_unix_ms grant\<rparr>)))))"

section \<open>Local roots\<close>

definition same_root :: "local_root \<Rightarrow> local_root \<Rightarrow> bool" where
  "same_root left right \<longleftrightarrow>
     path_eq (root_path left) (root_path right) \<and> root_device left = root_device right
     \<and> root_inode left = root_inode right"

definition capture_root :: "env \<Rightarrow> uuid \<Rightarrow> path \<Rightarrow> local_root sharing_result" where
  "capture_root E fresh p =
     rbind (map_err (\<lambda>_. FolderUnavailable) (parse_token E p)) (\<lambda>token.
     case token of
       Some grant \<Rightarrow> Inr \<lparr>root_path = p, root_device = 0, root_inode = 0, root_grant_id = Some grant\<rparr>
     | None \<Rightarrow>
         rbind (map_err (\<lambda>_. FolderUnavailable)
           (folder_config_new E fresh ''Selected folder'' p [installation_id E])) (\<lambda>admitted.
         let path = efc_root admitted in
         rbind (fail_if (path_starts_with path (env_installation_root E)
           \<or> path_starts_with (env_installation_root E) path) FolderUnavailable) (\<lambda>_.
         rbind (ok_or (env_symlink_metadata E path) FolderUnavailable) (\<lambda>metadata.
         Inr \<lparr>root_path = path, root_device = fm_device metadata, root_inode = fm_inode metadata,
              root_grant_id = None\<rparr>))))"

definition validate_current_root :: "env \<Rightarrow> local_root \<Rightarrow> unit sharing_result" where
  "validate_current_root E root =
     rbind (map_err (\<lambda>_. FolderUnavailable) (parse_token E (root_path root))) (\<lambda>token.
     if token = root_grant_id root \<and> root_grant_id root \<noteq> None
        \<and> root_device root = 0 \<and> root_inode root = 0
     then Inr ()
     else
       rbind (ok_or (env_canonicalize E (root_path root)) FolderUnavailable) (\<lambda>canonical.
       rbind (ok_or (env_symlink_metadata E (root_path root)) FolderUnavailable) (\<lambda>metadata.
       fail_if (\<not> path_eq canonical (root_path root) \<or> \<not> fm_is_dir metadata
         \<or> (fm_device metadata, fm_inode metadata) \<noteq> (root_device root, root_inode root))
         FolderUnavailable)))"

section \<open>Routes and engine identities\<close>

definition valid_route :: "string \<Rightarrow> bool" where
  "valid_route value \<longleftrightarrow>
     length value \<le> 128
     \<and> (case parse_socket value of None \<Rightarrow> False
        | Some address \<Rightarrow>
            sock_port address \<noteq> 0
            \<and> \<not> ip_is_unspecified (sock_ip address)
            \<and> \<not> ip_is_multicast (sock_ip address)
            \<and> \<not> ip_is_broadcast (sock_ip address)
            \<and> \<not> (\<not> sock_is_ipv4 address
                 \<and> (ip_is_link_local_v6 (sock_ip address) \<or> sock_has_scope address))
            \<and> show_socket address = value)"

definition validate_listener_route :: "socket_addr \<Rightarrow> socket_addr \<Rightarrow> unit sharing_result" where
  "validate_listener_route listener advertised =
     fail_if
       (sock_port listener = 0
        \<or> sock_is_ipv4 listener \<noteq> sock_is_ipv4 advertised
        \<or> ip_is_multicast (sock_ip listener)
        \<or> (\<not> ip_is_unspecified (sock_ip listener) \<and> sock_ip listener \<noteq> sock_ip advertised)
        \<or> \<not> valid_route (show_socket advertised)) InvalidState"

definition same_transport_identity :: "transport_binding \<Rightarrow> transport_binding \<Rightarrow> bool" where
  "same_transport_identity left right \<longleftrightarrow>
     tb_peer_id left = tb_peer_id right \<and> tb_display_name left = tb_display_name right
     \<and> tb_certificate_der left = tb_certificate_der right
     \<and> tb_certificate_fingerprint left = tb_certificate_fingerprint right"

definition same_engine_identity ::
    "'z ext_scheme \<Rightarrow> sync_engine_binding \<Rightarrow> sync_engine_binding \<Rightarrow> bool" where
  "same_engine_identity X left right \<longleftrightarrow>
     is_ok (binding_validate X left) \<and> is_ok (binding_validate X right)
     \<and> seb_covalent_device_id left = seb_covalent_device_id right
     \<and> seb_engine_device_id left = seb_engine_device_id right"

definition historical_peer_engine :: "snapshot \<Rightarrow> device_id \<Rightarrow> device_id \<Rightarrow> string option" where
  "historical_peer_engine sn owner peer =
     find_map (\<lambda>s.
       if pi_device_id (sh_peer_identity s) \<noteq> peer then None
       else if offer_source_device_id (sh_offer s) = owner
       then map_option (\<lambda>a. engine_id_str (seb_engine_device_id (acc_target_engine a))) (sh_acceptance s)
       else Some (engine_id_str (seb_engine_device_id (offer_source_engine (sh_offer s)))))
       (sn_shares sn)"

section \<open>Retained offers\<close>

definition superseded_ids :: "share \<Rightarrow> uuid list" where
  "superseded_ids s = map so_offer_id (sh_superseded_offers s)"

definition retained_offer_count :: "snapshot \<Rightarrow> int sharing_result" where
  "retained_offer_count sn =
     rbind (ok_or (usize_checked_add (vec_len (sn_shares sn)) (vec_len (sn_tombstones sn)))
       LimitExceeded) (\<lambda>start.
     rfold (\<lambda>s acc. ok_or (usize_checked_add acc (vec_len (sh_superseded_offers s))) LimitExceeded)
       (sn_shares sn) start)"

definition retained_offer_binding ::
    "snapshot \<Rightarrow> uuid \<Rightarrow> (device_id \<times> uuid \<times> device_id) option" where
  "retained_offer_binding sn offer =
     (case find (\<lambda>t. tomb_offer_id t = offer \<or> offer \<in> set (tomb_superseded_offer_ids t))
        (sn_tombstones sn) of
        Some t \<Rightarrow> Some (tomb_peer_id t, tomb_folder_id t,
          if tomb_incoming t then tomb_peer_id t else pi_device_id (sn_owner sn))
      | None \<Rightarrow> find_map (\<lambda>s.
          if offer_offer_id (sh_offer s) = offer \<or> offer \<in> set (superseded_ids s)
          then Some (pi_device_id (sh_peer_identity s), offer_folder_id (sh_offer s),
            offer_source_device_id (sh_offer s))
          else None) (sn_shares sn))"

definition is_prefix :: "'a list \<Rightarrow> 'a list \<Rightarrow> bool" where
  "is_prefix p xs \<longleftrightarrow> length p \<le> length xs \<and> take (length p) xs = p"

definition validate_removal_notice :: "folder_removal_notice \<Rightarrow> device_id \<Rightarrow> unit sharing_result" where
  "validate_removal_notice notice expected_target =
     fail_if
       (frn_requester_id notice = expected_target
        \<or> frn_target_id notice \<noteq> expected_target
        \<or> (frn_offer_source_id notice \<noteq> frn_requester_id notice
           \<and> frn_offer_source_id notice \<noteq> frn_target_id notice)
        \<or> uuid_is_nil (frn_folder_id notice)
        \<or> frn_offer_ids notice = []
        \<or> vec_len (frn_offer_ids notice) > MAX_REMOVAL_OFFER_IDS
        \<or> list_ex uuid_is_nil (frn_offer_ids notice)
        \<or> \<not> distinct (frn_offer_ids notice)) InvalidRecord"

definition pending_removal_ids :: "snapshot \<Rightarrow> uuid list" where
  "pending_removal_ids sn = concat (map prm_offer_ids (sn_pending_remote_removals sn))"

definition share_tombstones :: "device_id \<Rightarrow> u64 \<Rightarrow> uuid list \<Rightarrow> share \<Rightarrow> tombstone list" where
  "share_tombstones owner freshness pending s =
     (let row = (\<lambda>offer superseded issued.
            \<lparr>tomb_offer_id = offer, tomb_superseded_offer_ids = superseded,
             tomb_folder_id = offer_folder_id (sh_offer s), tomb_label = offer_label (sh_offer s),
             tomb_peer_id = pi_device_id (sh_peer_identity s),
             tomb_incoming = (offer_target_device_id (sh_offer s) = owner),
             tomb_issued_at_unix_ms = issued\<rparr>)
      in map (\<lambda>old. row (so_offer_id old) [] (so_issued_at_unix_ms old))
           (filter (\<lambda>old. so_issued_at_unix_ms old \<ge> freshness \<or> so_offer_id old \<in> set pending)
              (sh_superseded_offers s))
         @ [row (offer_offer_id (sh_offer s)) (superseded_ids s)
              (offer_issued_at_unix_ms (sh_offer s))])"

definition compact_removed :: "snapshot \<Rightarrow> snapshot" where
  "compact_removed sn =
     sn\<lparr>sn_shares := filter (\<lambda>s. \<not> sh_removed s) (sn_shares sn),
        sn_tombstones := sn_tombstones sn
          @ concat (map (share_tombstones (pi_device_id (sn_owner sn))
              (sn_freshness_floor_unix_ms sn) (pending_removal_ids sn))
              (filter sh_removed (sn_shares sn)))\<rparr>"

definition freshness_floor :: "u64 \<Rightarrow> u64" where
  "freshness_floor now = saturating_sub now (INVITATION_LIFETIME_MS + 300000)"

definition advance_freshness_floor_candidate :: "snapshot \<Rightarrow> u64 \<Rightarrow> snapshot" where
  "advance_freshness_floor_candidate sn now =
     (let floor = freshness_floor now;
          superseded = concat (map tomb_superseded_offer_ids (sn_tombstones sn))
      in if floor > sn_freshness_floor_unix_ms sn
         then sn\<lparr>sn_freshness_floor_unix_ms := floor,
                 sn_tombstones := filter (\<lambda>t. tomb_offer_id t \<notin> set superseded
                   \<or> tomb_issued_at_unix_ms t \<ge> floor
                   \<or> tomb_offer_id t \<in> set (pending_removal_ids sn)) (sn_tombstones sn)\<rparr>
         else sn)"

section \<open>Validation of a whole snapshot\<close>

definition validate_header :: "env \<Rightarrow> snapshot \<Rightarrow> unit sharing_result" where
  "validate_header E sn =
     rbind (map_err (\<lambda>_. InvalidState) (binding_validate E (sn_binding sn))) (\<lambda>advertised.
     rbind (fail_if
       (sn_schema_version sn \<noteq> 1
        \<or> sn_owner sn \<noteq> device_public_identity E (env_identity E)
        \<or> seb_covalent_device_id (sn_binding sn) \<noteq> own_id E
        \<or> engine_id_str (seb_engine_device_id (sn_binding sn)) \<noteq> installation_id E
        \<or> sock_port (sn_listener sn) = 0
        \<or> sock_is_ipv4 (sn_listener sn) \<noteq> sock_is_ipv4 advertised
        \<or> (\<not> ip_is_unspecified (sock_ip (sn_listener sn))
           \<and> sock_ip (sn_listener sn) \<noteq> sock_ip advertised)
        \<or> vec_len (sn_shares sn) > MAX_SHARES
        \<or> bt_len (sn_current_peer_routes sn) > 128
        \<or> bt_len (sn_completed_peer_address_refreshes sn) > 128) InvalidState) (\<lambda>_.
     rbind (retained_offer_count sn) (\<lambda>count.
     fail_if (count > MAX_RETAINED_OFFERS) InvalidState)))"

text \<open>The tombstone loop carries the offer identifiers seen and the length of all chains.\<close>

definition validate_tombstone ::
    "env \<Rightarrow> tombstone \<Rightarrow> uuid list \<times> int \<Rightarrow> (uuid list \<times> int) sharing_result" where
  "validate_tombstone E t = (\<lambda>(offers, chain_total).
     rbind (ok_or (usize_checked_add chain_total (vec_len (tomb_superseded_offer_ids t))) LimitExceeded)
       (\<lambda>chain_total.
     rbind (fail_if
       (uuid_is_nil (tomb_offer_id t)
        \<or> vec_len (tomb_superseded_offer_ids t) > MAX_RENEWALS_PER_SHARE
        \<or> list_ex uuid_is_nil (tomb_superseded_offer_ids t)
        \<or> \<not> distinct (tomb_superseded_offer_ids t)
        \<or> tomb_offer_id t \<in> set (tomb_superseded_offer_ids t)
        \<or> uuid_is_nil (tomb_folder_id t)
        \<or> tomb_peer_id t = own_id E
        \<or> tomb_issued_at_unix_ms t = 0
        \<or> tomb_label t = []
        \<or> length (tomb_label t) > 256
        \<or> str_has_control (tomb_label t)
        \<or> tomb_offer_id t \<in> set offers) InvalidState) (\<lambda>_.
     Inr (tomb_offer_id t # offers, chain_total))))"

text \<open>What the share loop accumulates.\<close>

record share_scan =
  sc_offers :: "uuid list"
  sc_memberships :: "(uuid \<times> device_id) list"
  sc_roots :: "(uuid, local_root) fmap"
  sc_labels :: "(uuid, string) fmap"
  sc_link_policies :: "(uuid, folder_link_policy option \<times> device_id) fmap"
  sc_peer_engines :: "(device_id, string) fmap"
  sc_engine_owners :: "(string, device_id) fmap"

definition empty_scan :: "uuid list \<Rightarrow> share_scan" where
  "empty_scan offers = \<lparr>sc_offers = offers, sc_memberships = [], sc_roots = fmempty,
     sc_labels = fmempty, sc_link_policies = fmempty, sc_peer_engines = fmempty,
     sc_engine_owners = fmempty\<rparr>"

definition validate_superseded ::
    "share \<Rightarrow> superseded_offer \<Rightarrow> uuid list \<times> u64 \<Rightarrow> (uuid list \<times> u64) sharing_result" where
  "validate_superseded s old = (\<lambda>(offers, previous_issued).
     rbind (fail_if
       (uuid_is_nil (so_offer_id old)
        \<or> so_offer_id old = offer_offer_id (sh_offer s)
        \<or> so_issued_at_unix_ms old = 0
        \<or> so_issued_at_unix_ms old \<le> previous_issued
        \<or> so_issued_at_unix_ms old \<ge> offer_issued_at_unix_ms (sh_offer s)
        \<or> so_offer_id old \<in> set offers) InvalidState) (\<lambda>_.
     Inr (so_offer_id old # offers, so_issued_at_unix_ms old)))"

definition validate_share_records ::
    "env \<Rightarrow> snapshot \<Rightarrow> bool \<Rightarrow> share \<Rightarrow> unit sharing_result" where
  "validate_share_records E sn source_is_owner s =
     (let source = (if source_is_owner then sn_owner sn else sh_peer_identity s);
          target = (if source_is_owner then sh_peer_identity s else sn_owner sn)
      in
      rbind (fail_if (source_is_owner
        \<and> \<not> same_engine_identity E (offer_source_engine (sh_offer s)) (sn_binding sn)) InvalidRecord) (\<lambda>_.
      rbind (case sh_acceptance s of None \<Rightarrow> Inr ()
        | Some a \<Rightarrow>
            rbind (map_err (\<lambda>_. InvalidRecord)
              (verify_folder_share_acceptance E (sh_offer s) a source target)) (\<lambda>_.
            fail_if (\<not> source_is_owner
              \<and> \<not> same_engine_identity E (acc_target_engine a) (sn_binding sn)) InvalidRecord)) (\<lambda>_.
      rbind (case sh_commit s of None \<Rightarrow> Inr ()
        | Some c \<Rightarrow>
            rbind (ok_or (sh_acceptance s) InvalidState) (\<lambda>a.
            map_err (\<lambda>_. InvalidRecord)
              (verify_folder_share_commit E (sh_offer s) a c source target))) (\<lambda>_.
      fail_if
        (((source_is_owner \<or> sh_acceptance s \<noteq> None) \<and> sh_root s = None)
         \<or> (\<not> source_is_owner \<and> sh_acceptance s = None \<and> sh_root s \<noteq> None)) InvalidState))))"

definition scan_policy :: "share \<Rightarrow> share_scan \<Rightarrow> share_scan sharing_result" where
  "scan_policy s sc =
     (let offer = sh_offer s in
      rbind (fail_if (opt_any (\<lambda>(policy, source).
          (policy \<noteq> None) \<noteq> (offer_link_policy offer \<noteq> None)
          \<or> (policy \<noteq> None \<and> source \<noteq> offer_source_device_id offer))
        (fmlookup (sc_link_policies sc) (offer_folder_id offer))) InvalidRecord) (\<lambda>_.
      Inr (sc\<lparr>sc_link_policies := fmupd (offer_folder_id offer)
        (offer_link_policy offer, offer_source_device_id offer) (sc_link_policies sc)\<rparr>)))"

definition scan_engine :: "env \<Rightarrow> bool \<Rightarrow> share \<Rightarrow> share_scan \<Rightarrow> share_scan sharing_result" where
  "scan_engine E source_is_owner s sc =
     (case sh_acceptance s of None \<Rightarrow> Inr sc
      | Some a \<Rightarrow>
          let binding = (if source_is_owner then acc_target_engine a
                         else offer_source_engine (sh_offer s));
              engine = engine_id_str (seb_engine_device_id binding);
              peer = pi_device_id (sh_peer_identity s)
          in
          rbind (fail_if (engine = installation_id E) InvalidRecord) (\<lambda>_.
          rbind (fail_if (opt_any (\<lambda>old. old \<noteq> engine) (fmlookup (sc_peer_engines sc) peer))
            InvalidRecord) (\<lambda>_.
          rbind (fail_if (opt_any (\<lambda>old. old \<noteq> peer) (fmlookup (sc_engine_owners sc) engine))
            InvalidRecord) (\<lambda>_.
          Inr (sc\<lparr>sc_peer_engines := fmupd peer engine (sc_peer_engines sc),
                  sc_engine_owners := fmupd engine peer (sc_engine_owners sc)\<rparr>)))))"

definition scan_membership :: "share \<Rightarrow> share_scan \<Rightarrow> share_scan sharing_result" where
  "scan_membership s sc =
     (let folder = offer_folder_id (sh_offer s);
          member = (folder, pi_device_id (sh_peer_identity s))
      in
      rbind (fail_if (opt_any (\<lambda>old. old \<noteq> offer_label (sh_offer s)) (fmlookup (sc_labels sc) folder))
        InvalidRecord) (\<lambda>_.
      rbind (fail_if (member \<in> set (sc_memberships sc)) InvalidState) (\<lambda>_.
      Inr (sc\<lparr>sc_labels := fmupd folder (offer_label (sh_offer s)) (sc_labels sc),
              sc_memberships := member # sc_memberships sc\<rparr>))))"

definition scan_root :: "env \<Rightarrow> share \<Rightarrow> share_scan \<Rightarrow> share_scan sharing_result" where
  "scan_root E s sc =
     (case sh_root s of None \<Rightarrow> Inr sc
      | Some root \<Rightarrow>
          rbind (map_err (\<lambda>_. InvalidState) (parse_token E (root_path root))) (\<lambda>grant.
          rbind (fail_if
            (grant \<noteq> root_grant_id root
             \<or> (grant \<noteq> None \<and> (root_device root \<noteq> 0 \<or> root_inode root \<noteq> 0))
             \<or> (grant = None
                \<and> (\<not> path_is_absolute (root_path root)
                   \<or> vec_len (root_path root) > 4096
                   \<or> ParentDir \<in> set (path_components (root_path root))
                   \<or> path_starts_with (root_path root) (env_installation_root E)
                   \<or> path_starts_with (env_installation_root E) (root_path root)))) InvalidState) (\<lambda>_.
          rbind (fail_if (opt_any (\<lambda>old. \<not> same_root old root)
            (fmlookup (sc_roots sc) (offer_folder_id (sh_offer s)))) InvalidState) (\<lambda>_.
          Inr (sc\<lparr>sc_roots := fmupd (offer_folder_id (sh_offer s)) root (sc_roots sc)\<rparr>)))))"

definition validate_share :: "env \<Rightarrow> snapshot \<Rightarrow> share \<Rightarrow> share_scan \<Rightarrow> share_scan sharing_result" where
  "validate_share E sn s sc =
     (let offer = sh_offer s;
          source_is_owner = (offer_source_device_id offer = own_id E);
          target_is_owner = (offer_target_device_id offer = own_id E);
          source = (if source_is_owner then sn_owner sn else sh_peer_identity s);
          target = (if source_is_owner then sh_peer_identity s else sn_owner sn)
      in
      rbind (fail_if
        (source_is_owner = target_is_owner
         \<or> offer_offer_id offer \<in> set (sc_offers sc)
         \<or> pi_device_id (sh_peer_identity s) = own_id E
         \<or> tb_peer_id (sh_peer_transport s) \<noteq> pi_device_id (sh_peer_identity s)
         \<or> sh_peer_confirmed_at_unix_ms s = 0) InvalidState) (\<lambda>_.
      rbind (map_err (\<lambda>_. InvalidRecord)
        (verify_folder_share_offer E offer source (pi_device_id target))) (\<lambda>_.
      rbind (fail_if (vec_len (sh_superseded_offers s) > MAX_RENEWALS_PER_SHARE) LimitExceeded) (\<lambda>_.
      rbind (rfold (validate_superseded s) (sh_superseded_offers s)
        (offer_offer_id offer # sc_offers sc, 0)) (\<lambda>(offers, _).
      rbind (validate_share_records E sn source_is_owner s) (\<lambda>_.
      let sc = sc\<lparr>sc_offers := offers\<rparr> in
      if sh_removed s then Inr sc
      else
        rbind (scan_policy s sc) (\<lambda>sc.
        rbind (scan_engine E source_is_owner s sc) (\<lambda>sc.
        rbind (scan_membership s sc) (\<lambda>sc.
        scan_root E s sc)))))))))"

definition validate_removed_chains :: "snapshot \<Rightarrow> unit sharing_result" where
  "validate_removed_chains sn =
     rbind (fail_if (\<not> distinct (concat (map tomb_superseded_offer_ids (sn_tombstones sn))))
       InvalidState) (\<lambda>_.
     rcheck (\<lambda>t. rcheck (\<lambda>offer.
       fail_if
         (list_ex (\<lambda>s. offer_offer_id (sh_offer s) = offer \<or> offer \<in> set (superseded_ids s)) (sn_shares sn)
          \<or> list_ex (\<lambda>c. tomb_offer_id c = offer
               \<and> (tomb_peer_id c \<noteq> tomb_peer_id t \<or> tomb_folder_id c \<noteq> tomb_folder_id t
                  \<or> tomb_incoming c \<noteq> tomb_incoming t)) (sn_tombstones sn)) InvalidState)
       (tomb_superseded_offer_ids t)) (sn_tombstones sn))"

definition tombstone_is_for :: "env \<Rightarrow> pending_remote_removal \<Rightarrow> tombstone \<Rightarrow> bool" where
  "tombstone_is_for E p t \<longleftrightarrow>
     tomb_folder_id t = prm_folder_id p
     \<and> tomb_peer_id t = pi_device_id (prm_peer_identity p)
     \<and> (if tomb_incoming t then tomb_peer_id t else own_id E) = prm_offer_source_id p"

definition validate_pending_removal ::
    "env \<Rightarrow> snapshot \<Rightarrow> pending_remote_removal \<Rightarrow> uuid list \<times> int
      \<Rightarrow> (uuid list \<times> int) sharing_result" where
  "validate_pending_removal E sn p = (\<lambda>(seen, pending_total).
     rbind (ok_or (usize_checked_add pending_total (vec_len (prm_offer_ids p))) LimitExceeded)
       (\<lambda>pending_total.
     rbind (fail_if
       (pi_device_id (prm_peer_identity p) = own_id E
        \<or> tb_peer_id (prm_peer_transport p) \<noteq> pi_device_id (prm_peer_identity p)
        \<or> prm_peer_confirmed_at_unix_ms p = 0
        \<or> (prm_offer_source_id p \<noteq> own_id E
           \<and> prm_offer_source_id p \<noteq> pi_device_id (prm_peer_identity p))
        \<or> uuid_is_nil (prm_folder_id p)
        \<or> prm_offer_ids p = []
        \<or> vec_len (prm_offer_ids p) > MAX_REMOVAL_OFFER_IDS
        \<or> list_ex uuid_is_nil (prm_offer_ids p)
        \<or> \<not> opt_any (\<lambda>current. tomb_superseded_offer_ids current = butlast (prm_offer_ids p))
             (find (\<lambda>t. tomb_offer_id t = last (prm_offer_ids p) \<and> tombstone_is_for E p t)
                (sn_tombstones sn))
        \<or> \<not> distinct (prm_offer_ids p)
        \<or> list_ex (\<lambda>offer. offer \<in> set seen
             \<or> \<not> list_ex (\<lambda>t. tomb_offer_id t = offer \<and> tombstone_is_for E p t) (sn_tombstones sn))
             (prm_offer_ids p)) InvalidState) (\<lambda>_.
     Inr (prm_offer_ids p @ seen, pending_total))))"

text \<open>The refusal loop counts per peer with the peers seen so far.\<close>

definition validate_remote_tombstone ::
    "env \<Rightarrow> snapshot \<Rightarrow> remote_removal_tombstone \<Rightarrow> uuid list \<times> device_id list \<times> int
      \<Rightarrow> (uuid list \<times> device_id list \<times> int) sharing_result" where
  "validate_remote_tombstone E sn r = (\<lambda>(seen, peers, remote_total).
     rbind (ok_or (usize_checked_add remote_total (vec_len (rrt_offer_ids r))) LimitExceeded)
       (\<lambda>remote_total.
     rbind (ok_or (usize_checked_add (vec_len (filter (\<lambda>p. p = rrt_peer_id r) peers)) 1) LimitExceeded)
       (\<lambda>peer_count.
     rbind (fail_if
       (rrt_peer_id r = own_id E
        \<or> (rrt_offer_source_id r \<noteq> own_id E \<and> rrt_offer_source_id r \<noteq> rrt_peer_id r)
        \<or> uuid_is_nil (rrt_folder_id r)
        \<or> rrt_offer_ids r = []
        \<or> vec_len (rrt_offer_ids r) > MAX_REMOVAL_OFFER_IDS
        \<or> peer_count > MAX_SHARES
        \<or> list_ex uuid_is_nil (rrt_offer_ids r)
        \<or> \<not> distinct (rrt_offer_ids r)
        \<or> list_ex (\<lambda>offer. offer \<in> set seen
             \<or> opt_any (\<lambda>b. b \<noteq> (rrt_peer_id r, rrt_folder_id r, rrt_offer_source_id r))
                 (retained_offer_binding sn offer)) (rrt_offer_ids r)) InvalidState) (\<lambda>_.
     Inr (rrt_offer_ids r @ seen, rrt_peer_id r # peers, remote_total)))))"

definition validate_removals :: "env \<Rightarrow> snapshot \<Rightarrow> unit sharing_result" where
  "validate_removals E sn =
     rbind (fail_if (vec_len (sn_pending_remote_removals sn) > MAX_PENDING_REMOVALS) LimitExceeded) (\<lambda>_.
     rbind (rfold (validate_pending_removal E sn) (sn_pending_remote_removals sn) ([], 0))
       (\<lambda>(_, pending_total).
     rbind (fail_if (pending_total > MAX_RETAINED_OFFERS) LimitExceeded) (\<lambda>_.
     rbind (fail_if (vec_len (sn_remote_removal_tombstones sn) > MAX_RETAINED_OFFERS) LimitExceeded) (\<lambda>_.
     rbind (rfold (validate_remote_tombstone E sn) (sn_remote_removal_tombstones sn) ([], [], 0))
       (\<lambda>(_, _, remote_total).
     fail_if (remote_total > MAX_RETAINED_OFFERS) LimitExceeded)))))"

definition validate_routes :: "env \<Rightarrow> snapshot \<Rightarrow> unit sharing_result" where
  "validate_routes E sn =
     rbind (rcheck (\<lambda>(peer, route).
       fail_if
         (peer = own_id E \<or> seb_covalent_device_id route \<noteq> peer
          \<or> \<not> is_ok (binding_validate E route)
          \<or> opt_any (\<lambda>known. known \<noteq> engine_id_str (seb_engine_device_id route))
              (historical_peer_engine sn (own_id E) peer)) InvalidState)
       (sorted_list_of_fmap (sn_current_peer_routes sn))) (\<lambda>_.
     rcheck (\<lambda>(peer, completed).
       fail_if
         (peer = own_id E
          \<or> tb_peer_id (car_expected_transport completed) \<noteq> peer
          \<or> tb_peer_id (car_candidate_transport completed) \<noteq> peer
          \<or> \<not> same_transport_identity (car_expected_transport completed)
               (car_candidate_transport completed)
          \<or> seb_covalent_device_id (car_candidate_engine completed) \<noteq> peer
          \<or> \<not> is_ok (binding_validate E (car_candidate_engine completed))
          \<or> fmlookup (sn_current_peer_routes sn) peer \<noteq> Some (car_candidate_engine completed))
         InvalidState)
       (sorted_list_of_fmap (sn_completed_peer_address_refreshes sn)))"

definition validate_pending_refresh :: "env \<Rightarrow> snapshot \<Rightarrow> unit sharing_result" where
  "validate_pending_refresh E sn =
     fail_if (opt_any (\<lambda>p.
       let peer = pi_device_id (par_peer_identity p); grant = par_expected_grant p in
       peer = own_id E
       \<or> par_confirmed_at_unix_ms p = 0
       \<or> pg_revoked grant
       \<or> pg_peer_device_id grant \<noteq> peer
       \<or> pg_confirmed_at_unix_ms grant \<noteq> par_confirmed_at_unix_ms p
       \<or> pg_display_name grant \<noteq> tb_display_name (par_expected_transport p)
       \<or> identity_from_encoded E (pg_peer_device_id grant) (pg_public_key grant)
           \<noteq> Inr (par_peer_identity p)
       \<or> tb_peer_id (par_expected_transport p) \<noteq> peer
       \<or> tb_peer_id (par_candidate_transport p) \<noteq> peer
       \<or> \<not> same_transport_identity (par_expected_transport p) (par_candidate_transport p)
       \<or> \<not> valid_route (tb_address (par_candidate_transport p))
       \<or> seb_covalent_device_id (par_candidate_engine p) \<noteq> peer
       \<or> \<not> is_ok (binding_validate E (par_candidate_engine p)))
       (sn_pending_peer_address_refresh sn)) InvalidState"

definition roots_overlap :: "local_root \<Rightarrow> local_root \<Rightarrow> bool" where
  "roots_overlap a b \<longleftrightarrow>
     path_starts_with (root_path a) (root_path b) \<or> path_starts_with (root_path b) (root_path a)"

definition validate_roots :: "share_scan \<Rightarrow> unit sharing_result" where
  "validate_roots sc =
     (let roots = sorted_list_of_fmap (sc_roots sc) in
      rbind (rcheck (\<lambda>(folder, root).
        fail_if (list_ex (\<lambda>(other, path). folder \<noteq> other \<and> roots_overlap root path) roots)
          FolderUnavailable) roots) (\<lambda>_.
      fail_if (bt_len (sc_roots sc) > 128 \<or> bt_len (sc_peer_engines sc) > 128) LimitExceeded))"

definition validate_root_reset :: "snapshot \<Rightarrow> unit sharing_result" where
  "validate_root_reset sn =
     (case sn_pending_root_reset sn of None \<Rightarrow> Inr ()
      | Some p \<Rightarrow>
          rbind (ok_or (position (\<lambda>s. offer_offer_id (sh_offer s) = prr_offer_id p) (sn_shares sn))
            InvalidState) (\<lambda>index.
          let s = sn_shares sn ! index in
          fail_if
            (prr_folder_id p \<noteq> offer_folder_id (sh_offer s)
             \<or> sh_removed s \<or> sh_paused s \<or> sh_commit s = None
             \<or> \<not> opt_any (\<lambda>root. same_root root (prr_replacement p)) (sh_root s)
             \<or> list_ex (\<lambda>(other, c). other \<noteq> index \<and> \<not> sh_removed c
                  \<and> offer_folder_id (sh_offer c) = prr_folder_id p)
                  (enumerate 0 (sn_shares sn))) InvalidState))"

definition validate_snapshot :: "env \<Rightarrow> snapshot \<Rightarrow> unit sharing_result" where
  "validate_snapshot E sn =
     rbind (validate_rosters sn) (\<lambda>_.
     rbind (validate_link_states sn) (\<lambda>_.
     rbind (validate_run_states sn) (\<lambda>_.
     rbind (validate_header E sn) (\<lambda>_.
     rbind (rfold (validate_tombstone E) (sn_tombstones sn) ([], 0)) (\<lambda>(offers, chain_total).
     rbind (fail_if (chain_total > MAX_RETAINED_OFFERS) LimitExceeded) (\<lambda>_.
     rbind (rfold (validate_share E sn) (sn_shares sn) (empty_scan offers)) (\<lambda>scan.
     rbind (validate_removed_chains sn) (\<lambda>_.
     rbind (validate_removals E sn) (\<lambda>_.
     rbind (validate_routes E sn) (\<lambda>_.
     rbind (validate_pending_refresh E sn) (\<lambda>_.
     rbind (validate_roots scan) (\<lambda>_.
     validate_root_reset sn))))))))))))"

end
