(* ===== verification/Journal.thy ===== *)
theory Journal
  imports Snapshot_Checks
begin

text \<open>
  The core of \<open>FolderSharingJournal\<close>: consulting the environment, the one way a snapshot is
  made durable (\<open>persist\<close>), reconciliation with current trust, and the small queries the
  operations share.
\<close>

section \<open>Consulting the environment\<close>

definition jtick :: "nat journal_step" where
  "jtick = (\<lambda>j. (Inr (j_ticks j), j\<lparr>j_ticks := Suc (j_ticks j)\<rparr>))"

definition jsnapshot :: "snapshot journal_step" where
  "jsnapshot = sget j_snapshot"

text \<open>\<open>self.store.payload().map_err(|_| PersistenceUncertain)?\<close>\<close>

definition jpayload :: "env \<Rightarrow> unit journal_step" where
  "jpayload E =
     sbind jtick (\<lambda>t.
     sbind (sget id) (\<lambda>j.
     slift (rbind (map_err (\<lambda>_. PersistenceUncertain)
       (store_get_payload (env_store E) (env_io E t) (j_store j) (j_disk j))) (\<lambda>_. Inr ()))))"

definition jreplace :: "env \<Rightarrow> bytes \<Rightarrow> unit journal_step" where
  "jreplace E payload =
     sbind jtick (\<lambda>t. \<lambda>j.
       case store_replace (env_store E) (env_io E t) payload (j_store j, j_disk j) of
         (r, w) \<Rightarrow> (map_err (\<lambda>_. PersistenceUncertain) r, j\<lparr>j_store := fst w, j_disk := snd w\<rparr>))"

definition engine_config :: "env \<Rightarrow> node_config sharing_result" where
  "engine_config E = ok_or (env_config E) InvalidState"

section \<open>Making a snapshot durable\<close>

definition drop_stale_reset :: "snapshot \<Rightarrow> snapshot" where
  "drop_stale_reset sn =
     (if opt_any (\<lambda>p. \<not> opt_any (\<lambda>s. \<not> sh_removed s)
            (find (\<lambda>s. offer_offer_id (sh_offer s) = prr_offer_id p) (sn_shares sn)))
          (sn_pending_root_reset sn)
      then sn\<lparr>sn_pending_root_reset := None\<rparr> else sn)"

definition finalize_candidate :: "env \<Rightarrow> u64 \<Rightarrow> snapshot \<Rightarrow> snapshot sharing_result" where
  "finalize_candidate E now candidate =
     rbind (reconcile_membership (drop_stale_reset candidate) (own_id E) now) (\<lambda>(c, _).
     Inr (reconcile_run_states (reconcile_link_states (roster_reconcile (compact_removed c)))))"

definition persist :: "env \<Rightarrow> snapshot \<Rightarrow> unit journal_step" where
  "persist E candidate =
     sbind jtick (\<lambda>t.
     sbind (slift (finalize_candidate E (env_now E t) candidate)) (\<lambda>c.
     sbind (slift (validate_snapshot E c)) (\<lambda>_.
     sbind (slift (ok_or (json_snapshot E c) InvalidState)) (\<lambda>payload.
     sbind (jreplace E payload) (\<lambda>_.
     smodify (\<lambda>j. j\<lparr>j_snapshot := c\<rparr>))))))"

section \<open>Trust\<close>

definition trusted_peer :: "env \<Rightarrow> device_id \<Rightarrow> current_peer_trust sharing_result" where
  "trusted_peer E peer =
     rbind (engine_config E) (\<lambda>config.
     rbind (observe_trust E config peer) (\<lambda>trust.
     ok_or trust UntrustedPeer))"

definition validate_pending_peer_address_refresh :: "env \<Rightarrow> snapshot \<Rightarrow> unit sharing_result" where
  "validate_pending_peer_address_refresh E sn =
     (case sn_pending_peer_address_refresh sn of None \<Rightarrow> Inr ()
      | Some p \<Rightarrow>
          let peer = pi_device_id (par_peer_identity p) in
          rbind (engine_config E) (\<lambda>config.
          rbind (observe_trust E config peer) (\<lambda>observed.
          rbind (ok_or observed UntrustedPeer) (\<lambda>current.
          fail_if
            (cpt_identity current \<noteq> par_peer_identity p
             \<or> cpt_confirmed_at_unix_ms current \<noteq> par_confirmed_at_unix_ms p
             \<or> fmlookup (nc_trusted_peers config) peer \<noteq> Some (par_expected_grant p)
             \<or> (cpt_transport current \<noteq> par_expected_transport p
                \<and> cpt_transport current \<noteq> par_candidate_transport p)) InvalidState))))"

definition trust_keeps_share ::
    "env \<Rightarrow> node_config \<Rightarrow> device_id option \<Rightarrow> share \<Rightarrow> bool sharing_result" where
  "trust_keeps_share E config pending_peer s =
     (if sh_removed s \<or> Some (pi_device_id (sh_peer_identity s)) = pending_peer then Inr True
      else rbind (observe_trust E config (pi_device_id (sh_peer_identity s))) (\<lambda>current.
        Inr (opt_any (\<lambda>trust. trust_matches trust s) current)))"

definition trust_keeps_removal ::
    "env \<Rightarrow> node_config \<Rightarrow> device_id option \<Rightarrow> pending_remote_removal \<Rightarrow> bool sharing_result" where
  "trust_keeps_removal E config pending_peer p =
     (if Some (pi_device_id (prm_peer_identity p)) = pending_peer then Inr True
      else rbind (observe_trust E config (pi_device_id (prm_peer_identity p))) (\<lambda>current.
        Inr (opt_any (\<lambda>trust. cpt_identity trust = prm_peer_identity p
          \<and> cpt_transport trust = prm_peer_transport p
          \<and> cpt_confirmed_at_unix_ms trust = prm_peer_confirmed_at_unix_ms p) current)))"

definition trust_keeps_route ::
    "env \<Rightarrow> node_config \<Rightarrow> device_id option \<Rightarrow> device_id \<Rightarrow> bool sharing_result" where
  "trust_keeps_route E config pending_peer peer =
     (if Some peer = pending_peer then Inr True
      else rbind (observe_trust E config peer) (\<lambda>current. Inr (current \<noteq> None)))"

text \<open>The candidate of \<open>reconcile_trust\<close> and whether it differs.\<close>

definition trust_candidate ::
    "env \<Rightarrow> node_config \<Rightarrow> snapshot \<Rightarrow> (snapshot \<times> bool) sharing_result" where
  "trust_candidate E config sn =
     (let pending_peer = map_option (\<lambda>p. pi_device_id (par_peer_identity p))
            (sn_pending_peer_address_refresh sn);
          keys = map fst (sorted_list_of_fmap (sn_current_peer_routes sn))
            @ map fst (sorted_list_of_fmap (sn_completed_peer_address_refreshes sn))
      in
      rbind (rmap (\<lambda>s. rbind (trust_keeps_share E config pending_peer s) (\<lambda>keep.
          Inr (if keep then s else s\<lparr>sh_removed := True\<rparr>))) (sn_shares sn)) (\<lambda>shares.
      rbind (rfilter (trust_keeps_removal E config pending_peer) (sn_pending_remote_removals sn))
        (\<lambda>removals.
      rbind (rfilter (trust_keeps_route E config pending_peer) keys) (\<lambda>trusted.
      let routes = bt_retain (\<lambda>peer _. peer \<in> set trusted) (sn_current_peer_routes sn);
          completed = bt_retain (\<lambda>peer _. peer \<in> set trusted) (sn_completed_peer_address_refreshes sn)
      in Inr (sn\<lparr>sn_shares := shares, sn_pending_remote_removals := removals,
                 sn_current_peer_routes := routes,
                 sn_completed_peer_address_refreshes := completed\<rparr>,
              map sh_removed shares \<noteq> map sh_removed (sn_shares sn)
              \<or> length removals \<noteq> length (sn_pending_remote_removals sn)
              \<or> bt_len routes \<noteq> bt_len (sn_current_peer_routes sn)
              \<or> bt_len completed \<noteq> bt_len (sn_completed_peer_address_refreshes sn))))))"

definition reconcile_trust :: "env \<Rightarrow> unit journal_step" where
  "reconcile_trust E =
     sbind (jpayload E) (\<lambda>_.
     sbind jsnapshot (\<lambda>sn.
     sbind (slift (validate_pending_peer_address_refresh E sn)) (\<lambda>_.
     sbind (slift (engine_config E)) (\<lambda>config.
     sbind (slift (trust_candidate E config sn)) (\<lambda>(next, changed).
     if changed then persist E next else sret ())))))"

section \<open>Queries shared by the operations\<close>

definition check_capacity :: "snapshot \<Rightarrow> unit sharing_result" where
  "check_capacity sn =
     rbind (fail_if (vec_len (sn_shares sn) \<ge> MAX_SHARES) LimitExceeded) (\<lambda>_.
     rbind (retained_offer_count sn) (\<lambda>count.
     fail_if (count \<ge> MAX_RETAINED_OFFERS) LimitExceeded))"

definition check_renewal_capacity :: "snapshot \<Rightarrow> share \<Rightarrow> unit sharing_result" where
  "check_renewal_capacity sn s =
     rbind (fail_if (vec_len (sh_superseded_offers s) \<ge> MAX_RENEWALS_PER_SHARE) LimitExceeded) (\<lambda>_.
     rbind (retained_offer_count sn) (\<lambda>count.
     fail_if (count \<ge> MAX_RETAINED_OFFERS) LimitExceeded))"

definition check_not_shared :: "snapshot \<Rightarrow> uuid \<Rightarrow> device_id \<Rightarrow> unit sharing_result" where
  "check_not_shared sn folder peer =
     fail_if (list_ex (\<lambda>s. \<not> sh_removed s \<and> offer_folder_id (sh_offer s) = folder
       \<and> pi_device_id (sh_peer_identity s) = peer) (sn_shares sn)) AlreadyShared"

definition tombstoned :: "snapshot \<Rightarrow> uuid \<Rightarrow> bool" where
  "tombstoned sn offer \<longleftrightarrow>
     list_ex (\<lambda>t. tomb_offer_id t = offer \<or> offer \<in> set (tomb_superseded_offer_ids t)) (sn_tombstones sn)"

definition superseded_by :: "uuid \<Rightarrow> share \<Rightarrow> bool" where
  "superseded_by offer s \<longleftrightarrow> offer \<in> set (superseded_ids s)"

definition share_index :: "snapshot \<Rightarrow> uuid \<Rightarrow> nat sharing_result" where
  "share_index sn offer =
     rbind (fail_if (tombstoned sn offer) Removed) (\<lambda>_.
     rbind (fail_if (list_ex (superseded_by offer) (sn_shares sn)) Removed) (\<lambda>_.
     rbind (ok_or (position (\<lambda>s. offer_offer_id (sh_offer s) = offer) (sn_shares sn)) InvalidRecord)
       (\<lambda>index.
     rbind (fail_if (sh_removed (sn_shares sn ! index)) Removed) (\<lambda>_. Inr index))))"

definition link_source :: "snapshot \<Rightarrow> uuid \<Rightarrow> device_id sharing_result" where
  "link_source sn folder = ok_or (link_source_in_snapshot (sn_shares sn) folder) InvalidRecord"

definition advance_freshness_floor :: "env \<Rightarrow> u64 \<Rightarrow> unit journal_step" where
  "advance_freshness_floor E now =
     sbind jsnapshot (\<lambda>sn.
     if freshness_floor now > sn_freshness_floor_unix_ms sn
     then persist E (advance_freshness_floor_candidate sn now)
     else sret ())"

text \<open>Replacing one row of the share vector.\<close>

definition set_share :: "nat \<Rightarrow> share \<Rightarrow> snapshot \<Rightarrow> snapshot" where
  "set_share i s sn = sn\<lparr>sn_shares := (sn_shares sn)[i := s]\<rparr>"

definition push_share :: "share \<Rightarrow> snapshot \<Rightarrow> snapshot" where
  "push_share s sn = sn\<lparr>sn_shares := sn_shares sn @ [s]\<rparr>"

end
