(* ===== verification/Journal_Settings.thy ===== *)
theory Journal_Settings
  imports Journal
begin

text \<open>
  The journal operations of \<open>sharing/link_settings.rs\<close> and \<open>sharing/endpoint_roster.rs\<close> that
  change state: requesting and committing link settings, receiving the source's commit, and
  receiving the source's endpoint roster.
\<close>

section \<open>Settings at the source\<close>

definition set_link_state :: "uuid \<Rightarrow> link_settings_state \<Rightarrow> snapshot \<Rightarrow> snapshot" where
  "set_link_state folder st sn = sn\<lparr>sn_link_settings := fmupd folder st (sn_link_settings sn)\<rparr>"

text \<open>The state after a committed request.\<close>

definition committed_state ::
    "link_settings_state \<Rightarrow> link_settings_request \<Rightarrow> u64 \<Rightarrow> u64 \<Rightarrow> link_settings_state" where
  "committed_state st request revision now =
     st\<lparr>lss_revision := revision, lss_settings := lsq_settings request,
        lss_change_id := lsq_change_id request, lss_changed_by := lsq_requester_id request,
        lss_accepted_at_unix_ms := now, lss_pending_change := None,
        lss_conflicted_change := None\<rparr>"

definition commit_link_candidate ::
    "snapshot \<Rightarrow> link_settings_request \<Rightarrow> u64 \<Rightarrow> snapshot sharing_result" where
  "commit_link_candidate sn request now =
     rbind (fail_if (now = 0) InvalidRecord) (\<lambda>_.
     rbind (ok_or (fmlookup (sn_link_settings sn) (lsq_folder_id request)) InvalidState) (\<lambda>st.
     rbind (fail_if (lss_revision st \<noteq> lsq_expected_revision request
       \<or> now < lss_accepted_at_unix_ms st) SettingsConflict) (\<lambda>_.
     rbind (ok_or (checked_add (lss_revision st) 1) LimitExceeded) (\<lambda>revision.
     cancel_for_settings_change
       (set_link_state (lsq_folder_id request) (committed_state st request revision now) sn)
       (lsq_folder_id request) now))))"

definition commit_link_request :: "env \<Rightarrow> link_settings_request \<Rightarrow> u64 \<Rightarrow> unit journal_step" where
  "commit_link_request E request now =
     sbind jsnapshot (\<lambda>sn.
     sbind (slift (commit_link_candidate sn request now)) (\<lambda>next.
     persist E next))"

definition request_link_settings_at ::
    "env \<Rightarrow> uuid \<Rightarrow> uuid \<Rightarrow> u64 \<Rightarrow> folder_link_settings \<Rightarrow> u64 \<Rightarrow> unit journal_step" where
  "request_link_settings_at E folder change expected_revision settings now =
     sbind (reconcile_trust E) (\<lambda>_.
     sbind jsnapshot (\<lambda>sn.
     sbind (slift (link_source sn folder)) (\<lambda>source.
     sbind (slift (ok_or (fmlookup (sn_link_settings sn) folder) InvalidState)) (\<lambda>st.
     sbind (slift (fail_if (uuid_is_nil change \<or> \<not> lss_confirmed st
       \<or> \<not> settings_is_valid settings) InvalidRecord)) (\<lambda>_.
     let request = \<lparr>lsq_folder_id = folder, lsq_source_id = source, lsq_requester_id = own_id E,
           lsq_change_id = change, lsq_expected_revision = expected_revision,
           lsq_settings = settings\<rparr> in
     if lss_change_id st = change then
       slift (fail_if (\<not> (lss_settings st = settings
         \<and> lss_changed_by st = lsq_requester_id request
         \<and> checked_add expected_revision 1 = Some (lss_revision st))) InvalidRecord)
     else
       sbind (slift (fail_if (expected_revision \<noteq> lss_revision st) SettingsConflict)) (\<lambda>_.
       case lss_pending_change st of
         Some pending \<Rightarrow> slift (fail_if (pending \<noteq> request) SettingsPending)
       | None \<Rightarrow>
           if source = own_id E then commit_link_request E request now
           else
             sbind (slift (fail_if (\<not> list_ex (\<lambda>s. \<not> sh_removed s \<and> sh_commit s \<noteq> None
               \<and> offer_folder_id (sh_offer s) = folder
               \<and> offer_source_device_id (sh_offer s) = source) (sn_shares sn)) InvalidRecord)) (\<lambda>_.
             persist E (set_link_state folder
               (st\<lparr>lss_pending_change := Some request, lss_conflicted_change := None\<rparr>) sn))))))))"

text \<open>The time a caller without a clock supplies.\<close>

definition accepted_at :: "snapshot \<Rightarrow> uuid \<Rightarrow> u64" where
  "accepted_at sn folder =
     (case fmlookup (sn_link_settings sn) folder of None \<Rightarrow> 0
      | Some st \<Rightarrow> lss_accepted_at_unix_ms st)"

definition request_link_settings ::
    "env \<Rightarrow> uuid \<Rightarrow> uuid \<Rightarrow> u64 \<Rightarrow> folder_link_settings \<Rightarrow> unit journal_step" where
  "request_link_settings E folder change expected_revision settings =
     sbind jsnapshot (\<lambda>sn.
     request_link_settings_at E folder change expected_revision settings (accepted_at sn folder))"

definition receive_link_settings_request_at ::
    "env \<Rightarrow> link_settings_request \<Rightarrow> u64 \<Rightarrow> link_settings_commit journal_step" where
  "receive_link_settings_request_at E request now =
     sbind (reconcile_trust E) (\<lambda>_.
     sbind jsnapshot (\<lambda>sn.
     sbind (slift (fail_if (lsq_source_id request \<noteq> own_id E
       \<or> uuid_is_nil (lsq_change_id request)) InvalidRecord)) (\<lambda>_.
     sbind (slift (link_source sn (lsq_folder_id request))) (\<lambda>source.
     sbind (slift (fail_if (source \<noteq> own_id E \<or> \<not> settings_is_valid (lsq_settings request))
       InvalidRecord)) (\<lambda>_.
     sbind (slift (trusted_peer E (lsq_requester_id request))) (\<lambda>peer.
     sbind (slift (fail_if (\<not> list_ex (\<lambda>s. \<not> sh_removed s \<and> sh_commit s \<noteq> None
         \<and> offer_folder_id (sh_offer s) = lsq_folder_id request
         \<and> offer_target_device_id (sh_offer s) = lsq_requester_id request
         \<and> trust_matches peer s) (sn_shares sn)) UntrustedPeer)) (\<lambda>_.
     sbind (slift (ok_or (fmlookup (sn_link_settings sn) (lsq_folder_id request)) InvalidState))
       (\<lambda>current.
     sbind (if lss_change_id current = lsq_change_id request
            then slift (fail_if (lss_settings current \<noteq> lsq_settings request
              \<or> lss_changed_by current \<noteq> lsq_requester_id request
              \<or> checked_add (lsq_expected_revision request) 1 \<noteq> Some (lss_revision current))
              InvalidRecord)
            else if lss_revision current = lsq_expected_revision request
            then commit_link_request E request now
            else sret ()) (\<lambda>_.
     sbind jsnapshot (\<lambda>sn'.
     sbind (slift (ok_or (fmlookup (sn_link_settings sn') (lsq_folder_id request)) InvalidState))
       (\<lambda>st.
     sret (settings_commit st (lsq_folder_id request) (own_id E) (lsq_requester_id request)))))))))))))"

definition receive_link_settings_request ::
    "env \<Rightarrow> link_settings_request \<Rightarrow> link_settings_commit journal_step" where
  "receive_link_settings_request E request =
     sbind jsnapshot (\<lambda>sn.
     receive_link_settings_request_at E request (accepted_at sn (lsq_folder_id request)))"

section \<open>Settings at a destination\<close>

text \<open>The destination's state after it adopts a commit, before its own request is settled.\<close>

definition adopted_state :: "link_settings_state \<Rightarrow> link_settings_commit \<Rightarrow> link_settings_state" where
  "adopted_state st commit =
     st\<lparr>lss_revision := lsc_revision commit, lss_settings := lsc_settings commit,
        lss_change_id := lsc_change_id commit, lss_changed_by := lsc_changed_by commit,
        lss_accepted_at_unix_ms := lsc_accepted_at_unix_ms commit, lss_confirmed := True\<rparr>"

definition settle_pending_change ::
    "link_settings_commit \<Rightarrow> link_settings_state \<Rightarrow> link_settings_state sharing_result" where
  "settle_pending_change commit st =
     (case lss_pending_change st of None \<Rightarrow> Inr st
      | Some pending \<Rightarrow>
          if lsq_change_id pending = lsc_change_id commit
             \<and> lsq_requester_id pending = lsc_changed_by commit
          then rbind (fail_if (lsq_settings pending \<noteq> lsc_settings commit
                 \<or> checked_add (lsq_expected_revision pending) 1 \<noteq> Some (lsc_revision commit))
                 InvalidRecord) (\<lambda>_.
               Inr (st\<lparr>lss_pending_change := None, lss_conflicted_change := None\<rparr>))
          else if lsq_expected_revision pending < lsc_revision commit
          then Inr (st\<lparr>lss_conflicted_change := Some pending, lss_pending_change := None\<rparr>)
          else Inr st)"

text \<open>Whether the commit is refused, ignored (\<open>None\<close>) or adopted.\<close>

definition adopt_settings_commit ::
    "link_settings_state \<Rightarrow> link_settings_commit \<Rightarrow> link_settings_state option sharing_result" where
  "adopt_settings_commit current commit =
     (if lsc_revision commit < lss_revision current then Inr None
      else
        rbind (fail_if (lss_confirmed current \<and> lsc_revision commit > lss_revision current
          \<and> lsc_accepted_at_unix_ms commit < lss_accepted_at_unix_ms current) InvalidRecord) (\<lambda>_.
        rbind (fail_if (lsc_revision commit = 0 \<and> lsc_changed_by commit \<noteq> lsc_source_id commit)
          InvalidRecord) (\<lambda>_.
        rbind (fail_if (lss_confirmed current \<and> lsc_revision commit = lss_revision current
          \<and> (lsc_settings commit \<noteq> lss_settings current
             \<or> lsc_change_id commit \<noteq> lss_change_id current
             \<or> lsc_changed_by commit \<noteq> lss_changed_by current
             \<or> lsc_accepted_at_unix_ms commit \<noteq> lss_accepted_at_unix_ms current)) InvalidRecord) (\<lambda>_.
        rbind (settle_pending_change commit (adopted_state current commit)) (\<lambda>st.
        Inr (if st = current then None else Some st))))))"

definition receive_link_settings_commit :: "env \<Rightarrow> link_settings_commit \<Rightarrow> unit journal_step" where
  "receive_link_settings_commit E commit =
     sbind (reconcile_trust E) (\<lambda>_.
     sbind jsnapshot (\<lambda>sn.
     sbind (slift (fail_if (lsc_target_id commit \<noteq> own_id E \<or> lsc_source_id commit = own_id E)
       InvalidRecord)) (\<lambda>_.
     sbind (slift (link_source sn (lsc_folder_id commit))) (\<lambda>source.
     sbind (slift (fail_if (source \<noteq> lsc_source_id commit
       \<or> (lsc_revision commit = 0) \<noteq> uuid_is_nil (lsc_change_id commit)
       \<or> \<not> settings_is_valid (lsc_settings commit)
       \<or> lsc_accepted_at_unix_ms commit = 0) InvalidRecord)) (\<lambda>_.
     sbind (slift (trusted_peer E (lsc_source_id commit))) (\<lambda>peer.
     sbind (slift (fail_if (\<not> list_ex (\<lambda>s. \<not> sh_removed s \<and> sh_commit s \<noteq> None
         \<and> offer_folder_id (sh_offer s) = lsc_folder_id commit
         \<and> trust_matches peer s) (sn_shares sn)) UntrustedPeer)) (\<lambda>_.
     sbind (slift (ok_or (fmlookup (sn_link_settings sn) (lsc_folder_id commit)) InvalidState))
       (\<lambda>current.
     sbind (slift (adopt_settings_commit current commit)) (\<lambda>adopted.
     case adopted of None \<Rightarrow> sret ()
     | Some st \<Rightarrow>
         sbind (slift (cancel_for_settings_change (set_link_state (lsc_folder_id commit) st sn)
           (lsc_folder_id commit) (lsc_accepted_at_unix_ms commit))) (\<lambda>next.
         persist E next))))))))))"

definition settings_delivery :: "snapshot \<Rightarrow> device_id \<Rightarrow> share \<Rightarrow> folder_share_record option" where
  "settings_delivery sn owner s =
     (case fmlookup (sn_link_settings sn) (offer_folder_id (sh_offer s)) of None \<Rightarrow> None
      | Some st \<Rightarrow>
          if offer_source_device_id (sh_offer s) = owner
          then Some (RecordSettingsCommit (settings_commit st (offer_folder_id (sh_offer s)) owner
                 (pi_device_id (sh_peer_identity s))))
          else map_option RecordSettingsRequest (lss_pending_change st))"

definition link_deliveries :: "snapshot \<Rightarrow> device_id \<Rightarrow> folder_share_delivery list" where
  "link_deliveries sn owner =
     option_list (map (\<lambda>s. map_option
         (\<lambda>r. \<lparr>fsd_peer_transport = sh_peer_transport s, fsd_record = r\<rparr>) (settings_delivery sn owner s))
       (filter (\<lambda>s. \<not> sh_removed s \<and> sh_commit s \<noteq> None) (sn_shares sn)))"

section \<open>Endpoint rosters\<close>

definition set_roster :: "uuid \<Rightarrow> endpoint_roster \<Rightarrow> snapshot \<Rightarrow> snapshot" where
  "set_roster folder r sn = sn\<lparr>sn_endpoint_rosters := fmupd folder r (sn_endpoint_rosters sn)\<rparr>"

definition receive_endpoint_roster :: "env \<Rightarrow> endpoint_roster_commit \<Rightarrow> unit journal_step" where
  "receive_endpoint_roster E commit =
     sbind (slift (roster_validate (erc_roster commit))) (\<lambda>_.
     sbind (slift (fail_if (erc_target_id commit \<noteq> own_id E
       \<or> erc_source_id commit = own_id E
       \<or> re_device_id (er_source (erc_roster commit)) \<noteq> erc_source_id commit
       \<or> \<not> list_ex (\<lambda>e. re_device_id e = own_id E) (er_destinations (erc_roster commit)))
       InvalidRecord)) (\<lambda>_.
     sbind (slift (trusted_peer E (erc_source_id commit))) (\<lambda>trust.
     sbind jsnapshot (\<lambda>sn.
     sbind (slift (fail_if (\<not> list_ex (\<lambda>s. \<not> sh_removed s
         \<and> offer_offer_id (sh_offer s) = erc_offer_id commit
         \<and> offer_folder_id (sh_offer s) = erc_folder_id commit
         \<and> offer_source_device_id (sh_offer s) = erc_source_id commit
         \<and> offer_target_device_id (sh_offer s) = own_id E
         \<and> offer_link_policy (sh_offer s) \<noteq> None
         \<and> trust_matches trust s) (sn_shares sn)) UntrustedPeer)) (\<lambda>_.
     let current = fmlookup (sn_endpoint_rosters sn) (erc_folder_id commit) in
     if current = Some (erc_roster commit) then sret ()
     else
       sbind (slift (fail_if (opt_any (\<lambda>r. er_revision (erc_roster commit) \<le> er_revision r) current)
         InvalidRecord)) (\<lambda>_.
       persist E (set_roster (erc_folder_id commit) (erc_roster commit) sn)))))))"

text \<open>The names a user gave to peers and folders.\<close>

record display_names =
  dn_peers :: "(device_id, string) fmap"
  dn_folders :: "(uuid, string) fmap"

definition apply_display_names :: "uuid \<Rightarrow> display_names \<Rightarrow> endpoint_roster \<Rightarrow> endpoint_roster" where
  "apply_display_names folder names r =
     (let rename = (\<lambda>e. case fmlookup (dn_peers names) (re_device_id e) of None \<Rightarrow> e
            | Some name \<Rightarrow> e\<lparr>re_display_name := name\<rparr>)
      in r\<lparr>er_label := (case fmlookup (dn_folders names) folder of None \<Rightarrow> er_label r
             | Some name \<Rightarrow> name),
           er_source := rename (er_source r),
           er_destinations := map rename (er_destinations r)\<rparr>)"

definition source_roster_shares :: "env \<Rightarrow> node_config \<Rightarrow> snapshot \<Rightarrow> share list sharing_result" where
  "source_roster_shares E config sn =
     rfilter (\<lambda>s. rbind (observe_trust E config (pi_device_id (sh_peer_identity s))) (\<lambda>trust.
         Inr (opt_any (\<lambda>t. trust_matches t s) trust)))
       (filter (\<lambda>s. \<not> sh_removed s \<and> offer_source_device_id (sh_offer s) = own_id E
          \<and> offer_link_policy (sh_offer s) \<noteq> None) (sn_shares sn))"

text \<open>\<open>trusted_peers[&id]\<close> is present: a share is only listed under current trust.\<close>

definition roster_endpoint_of ::
    "node_config \<Rightarrow> display_names \<Rightarrow> share \<Rightarrow> roster_endpoint" where
  "roster_endpoint_of config names s =
     (let peer = pi_device_id (sh_peer_identity s) in
      \<lparr>re_device_id = peer,
       re_display_name = (case fmlookup (dn_peers names) peer of Some name \<Rightarrow> name
         | None \<Rightarrow> pg_display_name (the (fmlookup (nc_trusted_peers config) peer)))\<rparr>)"

definition derived_roster ::
    "env \<Rightarrow> node_config \<Rightarrow> display_names \<Rightarrow> snapshot \<Rightarrow> uuid \<Rightarrow> share list \<Rightarrow> endpoint_roster" where
  "derived_roster E config names sn folder shares =
     \<lparr>er_revision = (case fmlookup (sn_endpoint_rosters sn) folder of None \<Rightarrow> 1
        | Some r \<Rightarrow> er_revision r),
      er_label = (case fmlookup (dn_folders names) folder of Some name \<Rightarrow> name
        | None \<Rightarrow> offer_label (sh_offer (hd shares))),
      er_source = \<lparr>re_device_id = own_id E, re_display_name = nc_device_name config\<rparr>,
      er_destinations = sort_key re_device_id (map (roster_endpoint_of config names) shares)\<rparr>"

definition next_roster ::
    "env \<Rightarrow> node_config \<Rightarrow> display_names \<Rightarrow> snapshot \<Rightarrow> uuid \<Rightarrow> share list
      \<Rightarrow> endpoint_roster sharing_result" where
  "next_roster E config names sn folder shares =
     (let r = derived_roster E config names sn folder shares;
          current = fmlookup (sn_endpoint_rosters sn) folder
      in
      rbind (roster_validate r) (\<lambda>_.
      case current of
        None \<Rightarrow> Inr r
      | Some c \<Rightarrow>
          if c = r then Inr r
          else rbind (ok_or (checked_add (er_revision c) 1) LimitExceeded) (\<lambda>revision.
               Inr (r\<lparr>er_revision := revision\<rparr>))))"

definition roster_delivery :: "device_id \<Rightarrow> uuid \<Rightarrow> endpoint_roster \<Rightarrow> share \<Rightarrow> folder_share_delivery" where
  "roster_delivery owner folder r s =
     \<lparr>fsd_peer_transport = sh_peer_transport s,
      fsd_record = RecordEndpointRoster
        \<lparr>erc_source_id = owner, erc_target_id = offer_target_device_id (sh_offer s),
         erc_folder_id = folder, erc_offer_id = offer_offer_id (sh_offer s), erc_roster = r\<rparr>\<rparr>"

definition roster_round ::
    "env \<Rightarrow> node_config \<Rightarrow> display_names \<Rightarrow> snapshot \<Rightarrow> share list \<Rightarrow> uuid
      \<Rightarrow> snapshot \<times> bool \<times> folder_share_delivery list
      \<Rightarrow> (snapshot \<times> bool \<times> folder_share_delivery list) sharing_result" where
  "roster_round E config names sn shares folder = (\<lambda>(next, changed, deliveries).
     let members = filter (\<lambda>s. offer_folder_id (sh_offer s) = folder) shares in
     rbind (next_roster E config names sn folder members) (\<lambda>r.
     let differs = fmlookup (sn_endpoint_rosters sn) folder \<noteq> Some r in
     Inr (if differs then set_roster folder r next else next, changed \<or> differs,
          deliveries @ map (roster_delivery (own_id E) folder r) members)))"

definition endpoint_roster_records ::
    "env \<Rightarrow> display_names \<Rightarrow> folder_share_delivery list journal_step" where
  "endpoint_roster_records E names =
     sbind (jpayload E) (\<lambda>_.
     sbind (slift (engine_config E)) (\<lambda>config.
     sbind jsnapshot (\<lambda>sn.
     sbind (slift (source_roster_shares E config sn)) (\<lambda>shares.
     sbind (slift (rfold (roster_round E config names sn shares)
       (sort (remdups (map (\<lambda>s. offer_folder_id (sh_offer s)) shares))) (sn, False, [])))
       (\<lambda>(next, changed, deliveries).
     sbind (if changed then persist E next else sret ()) (\<lambda>_.
     sret deliveries))))))"

end
