(* ===== verification/Journal_Runs.thy ===== *)
theory Journal_Runs
  imports Journal_Settings Engine_Config
begin

text \<open>
  The journal operations of \<open>sharing/link_runs.rs\<close>: requesting a run and admitting it at the
  source, its start, interruption, reports, expiry and cancellation, the scheduler, and the
  queries that decide whether a link may transfer.
\<close>

section \<open>Host conditions\<close>

definition set_android_host :: "bool \<Rightarrow> unit journal_step" where
  "set_android_host is_android = smodify (\<lambda>j. j\<lparr>j_android_host := is_android,
     j_android_condition_observation :=
       (if is_android then j_android_condition_observation j else None)\<rparr>)"

definition observe_android_conditions :: "bool \<Rightarrow> bool \<Rightarrow> int \<Rightarrow> unit journal_step" where
  "observe_android_conditions wifi charging at =
     smodify (\<lambda>j. j\<lparr>j_android_condition_observation := Some \<lparr>aco_wifi_connected = wifi,
       aco_charging = charging, aco_observed_at = at\<rparr>\<rparr>)"

definition saturating_duration_since :: "int \<Rightarrow> int \<Rightarrow> int" where
  "saturating_duration_since now earlier = max 0 (now - earlier)"

definition conditions_allow :: "journal \<Rightarrow> android_link_conditions \<Rightarrow> int \<Rightarrow> bool" where
  "conditions_allow j required now =
     (if \<not> j_android_host j \<or> (\<not> alc_wifi_only required \<and> \<not> alc_charging_only required) then True
      else case j_android_condition_observation j of
        None \<Rightarrow> False
      | Some observed \<Rightarrow>
          if saturating_duration_since now (aco_observed_at observed) > ANDROID_CONDITION_TTL
          then False
          else (\<not> alc_wifi_only required \<or> aco_wifi_connected observed)
               \<and> (\<not> alc_charging_only required \<or> aco_charging observed))"

section \<open>Requests\<close>

text \<open>Replacing the authoritative run of an existing slot.\<close>

definition set_run :: "uuid \<Rightarrow> link_run_state \<Rightarrow> snapshot \<Rightarrow> snapshot" where
  "set_run folder st sn = set_slot folder ((slot_of sn folder)\<lparr>slot_authoritative := Some st\<rparr>) sn"

definition request_link_run ::
    "env \<Rightarrow> uuid \<Rightarrow> uuid \<Rightarrow> u64 \<Rightarrow> u64 \<Rightarrow> u64 \<Rightarrow> link_run_admission journal_step" where
  "request_link_run E folder request_id expected_generation settings_revision now =
     sbind (reconcile_trust E) (\<lambda>_.
     sbind jsnapshot (\<lambda>sn.
     sbind (slift (fail_if (uuid_is_nil request_id \<or> now = 0) InvalidRecord)) (\<lambda>_.
     sbind (slift (link_source sn folder)) (\<lambda>source.
     let request = \<lparr>lrq_folder_id = folder, lrq_source_id = source, lrq_requester_id = own_id E,
           lrq_request_id = request_id, lrq_expected_generation = expected_generation,
           lrq_settings_revision = settings_revision\<rparr> in
     if source = own_id E then
       sbind (slift (admit_source_request sn request now False)) (\<lambda>(next, admission, changed).
       sbind (if changed then persist E next else sret ()) (\<lambda>_. sret admission))
     else
       sbind (slift (validate_request_membership sn request)) (\<lambda>_.
       sbind (slift (ok_or (fmlookup (sn_link_settings sn) folder) InvalidState)) (\<lambda>settings.
       sbind (slift (fail_if (\<not> lss_confirmed settings
         \<or> lss_revision settings \<noteq> settings_revision) SettingsConflict)) (\<lambda>_.
       if opt_any (\<lambda>st. run_answers_request st request) (authoritative_run sn folder)
       then sret (AlreadyRunning (the (authoritative_run sn folder)))
       else
         sbind (slift (fail_if (current_generation sn folder \<noteq> expected_generation) RunConflict)) (\<lambda>_.
         let slot = slot_of sn folder in
         case slot_pending_request slot of
           Some pending \<Rightarrow>
             if pending = request then sret (Pending request) else sfail RunPending
         | None \<Rightarrow>
             sbind (persist E (set_slot folder (slot\<lparr>slot_pending_request := Some request,
               slot_rejected_request := None\<rparr>) sn)) (\<lambda>_. sret (Pending request))))))))))"

definition receive_link_run_request ::
    "env \<Rightarrow> link_run_request \<Rightarrow> u64 \<Rightarrow> link_run_commit journal_step" where
  "receive_link_run_request E request now =
     sbind (reconcile_trust E) (\<lambda>_.
     sbind jsnapshot (\<lambda>sn.
     sbind (slift (fail_if (lrq_source_id request \<noteq> own_id E
       \<or> uuid_is_nil (lrq_request_id request)) InvalidRecord)) (\<lambda>_.
     sbind (slift (validate_request_membership sn request)) (\<lambda>_.
     sbind (slift (admit_source_request sn request now False)) (\<lambda>(next, _, changed).
     sbind (slift (commit_for_target next (lrq_folder_id request) (lrq_requester_id request)))
       (\<lambda>commit.
     sbind (if changed then persist E next else sret ()) (\<lambda>_.
     sret (commit\<lparr>lrc_acknowledged_request_id := Some (lrq_request_id request)\<rparr>))))))))"

section \<open>The source's transitions of a run\<close>

definition started_run ::
    "link_run_state \<Rightarrow> u64 \<Rightarrow> engine_index_snapshot \<Rightarrow> u64 \<Rightarrow> link_run_state sharing_result" where
  "started_run st generation index now =
     rbind (fail_if (lrs_generation st \<noteq> generation \<or> lrs_phase st \<noteq> Preparing) RunConflict) (\<lambda>_.
     rbind (fail_if (now < lrs_started_at_unix_ms st \<or> now \<ge> lrs_deadline_unix_ms st) RunConflict) (\<lambda>_.
     rbind (next_state_revision (lrs_state_revision st)) (\<lambda>revision.
     Inr (st\<lparr>lrs_phase := Running, lrs_state_revision := revision,
             lrs_source_index := Some index\<rparr>))))"

definition start_link_run ::
    "env \<Rightarrow> uuid \<Rightarrow> u64 \<Rightarrow> engine_index_snapshot \<Rightarrow> u64 \<Rightarrow> link_run_state journal_step" where
  "start_link_run E folder generation index now =
     sbind jsnapshot (\<lambda>sn.
     sbind (slift (fail_if (\<not> index_is_valid index \<or> now = 0) InvalidRecord)) (\<lambda>_.
     sbind (slift (link_source sn folder)) (\<lambda>source.
     sbind (slift (fail_if (source \<noteq> own_id E) InvalidRecord)) (\<lambda>_.
     sbind (slift (ok_or (authoritative_run sn folder) InvalidState)) (\<lambda>st.
     sbind (slift (started_run st generation index now)) (\<lambda>st'.
     sbind (persist E (set_run folder st' sn)) (\<lambda>_.
     sret st')))))))"

definition interrupted_run ::
    "link_run_state \<Rightarrow> u64 \<Rightarrow> u64 \<Rightarrow> link_run_state sharing_result" where
  "interrupted_run st generation now =
     rbind (fail_if (lrs_generation st \<noteq> generation \<or> lrs_phase st \<noteq> Preparing
       \<or> now < lrs_started_at_unix_ms st \<or> now \<ge> lrs_deadline_unix_ms st) RunConflict) (\<lambda>_.
     end_run Interrupted PhaseInterrupted now st)"

definition interrupt_link_run :: "env \<Rightarrow> uuid \<Rightarrow> u64 \<Rightarrow> u64 \<Rightarrow> unit journal_step" where
  "interrupt_link_run E folder generation now =
     sbind jsnapshot (\<lambda>sn.
     sbind (slift (fail_if (now = 0) InvalidRecord)) (\<lambda>_.
     sbind (slift (link_source sn folder)) (\<lambda>source.
     sbind (slift (fail_if (source \<noteq> own_id E) InvalidRecord)) (\<lambda>_.
     sbind (slift (ok_or (authoritative_run sn folder) InvalidState)) (\<lambda>st.
     sbind (slift (interrupted_run st generation now)) (\<lambda>st'.
     persist E (set_run folder st' sn)))))))"

text \<open>
  A report is answered with the unchanged run (\<open>None\<close>) when it is late or repeated.
\<close>

definition reported_run ::
    "link_run_state \<Rightarrow> link_run_report \<Rightarrow> u64 \<Rightarrow> link_run_state option sharing_result" where
  "reported_run st report now =
     (if lrr_generation report < lrs_generation st
         \<or> (lrr_generation report = lrs_generation st \<and> \<not> phase_active (lrs_phase st))
      then Inr None
      else
        rbind (fail_if
          (lrs_generation st \<noteq> lrr_generation report
           \<or> lrs_settings_revision st \<noteq> lrr_settings_revision report
           \<or> lrs_source_index st \<noteq> Some (lrr_source_index report)
           \<or> lrr_ended_at_unix_ms report < lrs_started_at_unix_ms st
           \<or> lrr_ended_at_unix_ms report \<ge> lrs_deadline_unix_ms st) RunConflict) (\<lambda>_.
        rbind (ok_or (fmlookup (lrs_destinations st) (lrr_reporter_id report)) InvalidRecord) (\<lambda>d.
        if result_terminal (lrd_result d)
        then rbind (fail_if (lrd_result d \<noteq> lrr_result report
               \<or> lrd_ended_at_unix_ms d \<noteq> Some (lrr_ended_at_unix_ms report)) InvalidRecord) (\<lambda>_.
             Inr None)
        else
          rbind (fail_if (lrs_phase st \<noteq> Running) RunConflict) (\<lambda>_.
          rbind (next_state_revision (lrs_state_revision st)) (\<lambda>revision.
          Inr (Some (finish_if_terminal
            (st\<lparr>lrs_destinations := fmupd (lrr_reporter_id report)
                   \<lparr>lrd_result = lrr_result report,
                    lrd_ended_at_unix_ms = Some (lrr_ended_at_unix_ms report)\<rparr>
                   (lrs_destinations st),
                lrs_state_revision := revision\<rparr>) now)))))))"

definition receive_link_run_report :: "env \<Rightarrow> link_run_report \<Rightarrow> u64 \<Rightarrow> link_run_state journal_step" where
  "receive_link_run_report E report now =
     sbind (reconcile_trust E) (\<lambda>_.
     sbind jsnapshot (\<lambda>sn.
     sbind (slift (fail_if
       (lrr_source_id report \<noteq> own_id E
        \<or> \<not> index_is_valid (lrr_source_index report)
        \<or> \<not> result_reportable (lrr_result report)
        \<or> lrr_ended_at_unix_ms report = 0
        \<or> lrr_ended_at_unix_ms report > now
        \<or> now = 0) InvalidRecord)) (\<lambda>_.
     sbind (slift (validate_reporter_membership sn report)) (\<lambda>_.
     sbind (slift (ok_or (authoritative_run sn (lrr_folder_id report)) InvalidState)) (\<lambda>st.
     sbind (slift (reported_run st report now)) (\<lambda>reported.
     case reported of
       None \<Rightarrow> sret st
     | Some st' \<Rightarrow>
         sbind (persist E (set_run (lrr_folder_id report) st' sn)) (\<lambda>_. sret st')))))))"

text \<open>The two sweeps over the runs this device is the source of.\<close>

definition active_source_folder :: "snapshot \<Rightarrow> device_id \<Rightarrow> uuid \<Rightarrow> bool" where
  "active_source_folder sn owner folder \<longleftrightarrow>
     list_ex (\<lambda>s. \<not> sh_removed s \<and> offer_source_device_id (sh_offer s) = owner
       \<and> offer_folder_id (sh_offer s) = folder) (sn_shares sn)"

definition sweeps :: "snapshot \<Rightarrow> device_id \<Rightarrow> (link_run_state \<Rightarrow> bool) \<Rightarrow> uuid
    \<Rightarrow> link_run_link_state \<Rightarrow> bool" where
  "sweeps sn owner P folder slot \<longleftrightarrow>
     active_source_folder sn owner folder
     \<and> opt_any (\<lambda>st. phase_active (lrs_phase st) \<and> P st) (slot_authoritative slot)"

definition sweep_runs ::
    "snapshot \<Rightarrow> device_id \<Rightarrow> (link_run_state \<Rightarrow> bool) \<Rightarrow> (link_run_state \<Rightarrow> link_run_state sharing_result)
      \<Rightarrow> (snapshot \<times> bool) sharing_result" where
  "sweep_runs sn owner P f =
     rbind (bt_try_map (\<lambda>folder slot.
         if sweeps sn owner P folder slot
         then rbind (f (the (slot_authoritative slot))) (\<lambda>st.
              Inr (slot\<lparr>slot_authoritative := Some st\<rparr>))
         else Inr slot) (sn_link_runs sn)) (\<lambda>runs.
     Inr (sn\<lparr>sn_link_runs := runs\<rparr>,
          list_ex (\<lambda>(folder, slot). sweeps sn owner P folder slot)
            (sorted_list_of_fmap (sn_link_runs sn))))"

definition overdue :: "u64 \<Rightarrow> link_run_state \<Rightarrow> bool" where
  "overdue now st \<longleftrightarrow> now \<ge> lrs_deadline_unix_ms st"

definition expire_run :: "link_run_state \<Rightarrow> link_run_state sharing_result" where
  "expire_run st = end_run TimedOut PhaseIncomplete (lrs_deadline_unix_ms st) st"

definition expire_link_runs :: "env \<Rightarrow> u64 \<Rightarrow> bool journal_step" where
  "expire_link_runs E now =
     sbind jsnapshot (\<lambda>sn.
     sbind (slift (sweep_runs sn (own_id E) (overdue now) expire_run)) (\<lambda>(next, changed).
     sbind (if changed then persist E next else sret ()) (\<lambda>_. sret changed)))"

definition interrupt_run :: "u64 \<Rightarrow> link_run_state \<Rightarrow> link_run_state sharing_result" where
  "interrupt_run now st =
     rbind (fail_if (now < lrs_started_at_unix_ms st) InvalidRecord) (\<lambda>_.
     end_run Interrupted PhaseInterrupted now st)"

definition interrupt_unfinished_link_runs :: "env \<Rightarrow> u64 \<Rightarrow> bool journal_step" where
  "interrupt_unfinished_link_runs E now =
     sbind jsnapshot (\<lambda>sn.
     sbind (slift (fail_if (now = 0) InvalidRecord)) (\<lambda>_.
     sbind (slift (sweep_runs sn (own_id E) (\<lambda>_. True) (interrupt_run now))) (\<lambda>(next, changed).
     sbind (if changed then persist E next else sret ()) (\<lambda>_. sret changed))))"

definition reconcile_link_run_membership :: "env \<Rightarrow> uuid \<Rightarrow> u64 \<Rightarrow> bool journal_step" where
  "reconcile_link_run_membership E folder now =
     sbind jsnapshot (\<lambda>sn.
     sbind (slift (fail_if (now = 0 \<or> \<not> source_folder sn (own_id E) folder) InvalidRecord)) (\<lambda>_.
     sbind (slift (reconcile_membership sn (own_id E) now)) (\<lambda>(next, changed).
     sbind (if changed then persist E next else sret ()) (\<lambda>_. sret changed))))"

section \<open>The scheduler\<close>

fun cadence_interval_ms :: "link_cadence \<Rightarrow> u64 option" where
  "cadence_interval_ms Manual = None"
| "cadence_interval_ms Continuous = Some CONTINUOUS_CHECK_INTERVAL_MS"
| "cadence_interval_ms (Scheduled minutes) = Some (ucast minutes * 60000)"

definition due_base :: "snapshot \<Rightarrow> uuid \<Rightarrow> link_settings_state \<Rightarrow> u64" where
  "due_base sn folder settings =
     (case Option.bind (authoritative_run sn folder) lrs_ended_at_unix_ms of
        None \<Rightarrow> lss_accepted_at_unix_ms settings | Some ended \<Rightarrow> ended)"

definition link_is_due :: "snapshot \<Rightarrow> device_id \<Rightarrow> u64 \<Rightarrow> uuid \<Rightarrow> link_settings_state \<Rightarrow> bool" where
  "link_is_due sn owner now folder settings =
     (if link_source_in_snapshot (sn_shares sn) folder \<noteq> Some owner \<or> \<not> lss_confirmed settings
         \<or> fls_paused (lss_settings settings) then False
      else case cadence_interval_ms (fls_cadence (lss_settings settings)) of
        None \<Rightarrow> False
      | Some interval \<Rightarrow>
          let base = due_base sn folder settings in
          opt_any (\<lambda>due_at. base \<noteq> 0 \<and> now \<ge> due_at) (checked_add base interval))"

definition due_links :: "snapshot \<Rightarrow> device_id \<Rightarrow> u64 \<Rightarrow> uuid list" where
  "due_links sn owner now =
     map fst (filter (\<lambda>(folder, settings). link_is_due sn owner now folder settings)
       (sorted_list_of_fmap (sn_link_settings sn)))"

text \<open>\<open>next.link_settings[&folder_id]\<close> is present: the due links are keys of that map.\<close>

definition due_request :: "snapshot \<Rightarrow> device_id \<Rightarrow> uuid \<Rightarrow> uuid \<Rightarrow> link_run_request" where
  "due_request next owner folder request_id =
     \<lparr>lrq_folder_id = folder, lrq_source_id = owner, lrq_requester_id = owner,
      lrq_request_id = request_id, lrq_expected_generation = current_generation next folder,
      lrq_settings_revision = lss_revision (the (fmlookup (sn_link_settings next) folder))\<rparr>"

definition admit_due_round ::
    "env \<Rightarrow> u64 \<Rightarrow> uuid \<Rightarrow> snapshot \<times> link_run_state list
      \<Rightarrow> (snapshot \<times> link_run_state list) journal_step" where
  "admit_due_round E now folder = (\<lambda>(next, admitted).
     if opt_any (\<lambda>st. phase_active (lrs_phase st)) (authoritative_run next folder)
     then sret (next, admitted)
     else
       sbind jtick (\<lambda>t.
       sbind (slift (admit_source_request next (due_request next (own_id E) folder (env_uuid E t))
         now True)) (\<lambda>(next', admission, _).
       sret (next', case admission of Accepted st \<Rightarrow> admitted @ [st] | _ \<Rightarrow> admitted))))"

definition admit_due_link_runs :: "env \<Rightarrow> u64 \<Rightarrow> link_run_state list journal_step" where
  "admit_due_link_runs E now =
     sbind (reconcile_trust E) (\<lambda>_.
     sbind jsnapshot (\<lambda>sn.
     sbind (sfold (admit_due_round E now) (due_links sn (own_id E) now) (sn, []))
       (\<lambda>(next, admitted).
     sbind (if admitted = [] then sret () else persist E next) (\<lambda>_.
     sret admitted))))"

section \<open>The destination's side of a run\<close>

definition complete_link_run ::
    "env \<Rightarrow> uuid \<Rightarrow> u64 \<Rightarrow> engine_index_snapshot \<Rightarrow> link_run_destination_result \<Rightarrow> u64
      \<Rightarrow> link_run_report journal_step" where
  "complete_link_run E folder generation index result now =
     sbind jsnapshot (\<lambda>sn.
     sbind (slift (fail_if (\<not> index_is_valid index \<or> \<not> result_reportable result \<or> now = 0)
       InvalidRecord)) (\<lambda>_.
     sbind (slift (link_source sn folder)) (\<lambda>source.
     sbind (slift (fail_if (source = own_id E) InvalidRecord)) (\<lambda>_.
     sbind (slift (ok_or (authoritative_run sn folder) InvalidState)) (\<lambda>current.
     sbind (slift (fail_if
       (lrs_generation current \<noteq> generation
        \<or> lrs_phase current \<noteq> Running
        \<or> lrs_source_index current \<noteq> Some index
        \<or> fmlookup (lrs_destinations current) (own_id E) = None
        \<or> now < lrs_started_at_unix_ms current
        \<or> now \<ge> lrs_deadline_unix_ms current) RunConflict)) (\<lambda>_.
     let report = \<lparr>lrr_folder_id = folder, lrr_source_id = source, lrr_reporter_id = own_id E,
           lrr_generation = generation, lrr_settings_revision = lrs_settings_revision current,
           lrr_source_index = index, lrr_result = result, lrr_ended_at_unix_ms = now\<rparr>;
         slot = slot_of sn folder
     in case slot_pending_report slot of
          Some pending \<Rightarrow> if pending = report then sret report else sfail RunConflict
        | None \<Rightarrow>
            sbind (persist E (set_slot folder (slot\<lparr>slot_pending_report := Some report\<rparr>) sn))
              (\<lambda>_. sret report)))))))"

definition rejection_matches_pending :: "link_run_link_state \<Rightarrow> link_run_commit \<Rightarrow> bool" where
  "rejection_matches_pending slot commit \<longleftrightarrow>
     opt_any (\<lambda>request. opt_any (\<lambda>rejected.
         lrj_request_id rejected = lrq_request_id request
         \<and> lrj_requester_id rejected = lrq_requester_id request) (lrc_rejected_request commit))
       (slot_pending_request slot)"

definition answers_pending :: "link_run_commit \<Rightarrow> link_run_request \<Rightarrow> bool" where
  "answers_pending commit request \<longleftrightarrow>
     opt_any (\<lambda>st. lrq_request_id request = lrs_request_id st) (lrc_state commit)
     \<or> lrc_acknowledged_request_id commit = Some (lrq_request_id request)
     \<or> opt_any (\<lambda>rejected. lrj_request_id rejected = lrq_request_id request)
         (lrc_rejected_request commit)"

definition final_ack :: "device_id \<Rightarrow> link_run_report \<Rightarrow> link_run_state \<Rightarrow> bool" where
  "final_ack owner report st \<longleftrightarrow>
     lrs_generation st > lrr_generation report
     \<or> (lrs_generation st = lrr_generation report
        \<and> (\<not> phase_active (lrs_phase st)
           \<or> opt_any (\<lambda>d. lrd_result d = lrr_result report) (fmlookup (lrs_destinations st) owner)))"

definition adopt_run_commit ::
    "device_id \<Rightarrow> link_run_commit \<Rightarrow> link_run_link_state \<Rightarrow> link_run_link_state" where
  "adopt_run_commit owner commit slot =
     slot\<lparr>slot_authoritative := (case lrc_state commit of None \<Rightarrow> slot_authoritative slot
            | Some st \<Rightarrow> Some st),
          slot_pending_request := (if opt_any (answers_pending commit) (slot_pending_request slot)
            then None else slot_pending_request slot),
          slot_rejected_request := (if rejection_matches_pending slot commit
            then lrc_rejected_request commit else None),
          slot_pending_report := (case (slot_pending_report slot, lrc_state commit) of
              (Some report, Some st) \<Rightarrow> if final_ack owner report st then None else Some report
            | _ \<Rightarrow> slot_pending_report slot)\<rparr>"

text \<open>Whether an incoming run state is refused, ignored (\<open>False\<close>) or to be adopted.\<close>

definition incoming_run_is_new ::
    "link_run_state option \<Rightarrow> link_run_state option \<Rightarrow> bool sharing_result" where
  "incoming_run_is_new current incoming =
     (case (current, incoming) of
        (Some c, Some i) \<Rightarrow>
          if lrs_generation i < lrs_generation c
             \<or> (lrs_generation i = lrs_generation c \<and> lrs_state_revision i < lrs_state_revision c)
          then Inr False
          else rbind (fail_if (lrs_generation i = lrs_generation c
                 \<and> lrs_state_revision i = lrs_state_revision c \<and> c \<noteq> i) InvalidRecord) (\<lambda>_. Inr True)
      | _ \<Rightarrow> Inr True)"

definition receive_link_run_commit :: "env \<Rightarrow> link_run_commit \<Rightarrow> unit journal_step" where
  "receive_link_run_commit E commit =
     sbind (reconcile_trust E) (\<lambda>_.
     sbind jsnapshot (\<lambda>sn.
     sbind (slift (validate_commit_for_local sn (own_id E) commit)) (\<lambda>_.
     sbind (slift (incoming_run_is_new (authoritative_run sn (lrc_folder_id commit))
       (lrc_state commit))) (\<lambda>is_new.
     if \<not> is_new then sret ()
     else
       let slot = slot_of sn (lrc_folder_id commit) in
       if lrc_state commit = None \<and> \<not> rejection_matches_pending slot commit then sret ()
       else persist E (set_slot (lrc_folder_id commit)
              (adopt_run_commit (own_id E) commit slot) sn)))))"

section \<open>Whether a link may transfer\<close>

definition local_run_is_active ::
    "env \<Rightarrow> journal \<Rightarrow> uuid \<Rightarrow> link_run_state \<Rightarrow> u64 \<Rightarrow> int \<Rightarrow> bool" where
  "local_run_is_active E j folder st now observed_at =
     (let sn = j_snapshot j in
      case link_source sn folder of Inl _ \<Rightarrow> False
      | Inr source \<Rightarrow>
          (case fmlookup (sn_link_settings sn) folder of None \<Rightarrow> False
           | Some settings \<Rightarrow>
               if \<not> lss_confirmed settings
                  \<or> lss_revision settings \<noteq> lrs_settings_revision st
                  \<or> fls_paused (lss_settings settings)
                  \<or> now \<ge> lrs_deadline_unix_ms st
                  \<or> \<not> conditions_allow j (fls_android_conditions (lss_settings settings)) observed_at
               then False
               else if source = own_id E then phase_active (lrs_phase st)
               else lrs_phase st = Running \<and> lrs_source_index st \<noteq> None
                 \<and> opt_any (\<lambda>d. lrd_result d = ResultPending)
                     (fmlookup (lrs_destinations st) (own_id E))
                 \<and> \<not> opt_any (\<lambda>slot. slot_pending_report slot \<noteq> None)
                     (fmlookup (sn_link_runs sn) folder)))"

definition local_batch_allows_transfer_at :: "env \<Rightarrow> journal \<Rightarrow> uuid \<Rightarrow> u64 \<Rightarrow> int \<Rightarrow> bool" where
  "local_batch_allows_transfer_at E j folder now observed_at \<longleftrightarrow>
     opt_any (\<lambda>st. phase_active (lrs_phase st) \<and> now < lrs_deadline_unix_ms st
         \<and> local_run_is_active E j folder st now observed_at)
       (authoritative_run (j_snapshot j) folder)"

definition link_allows_transfer_at :: "env \<Rightarrow> journal \<Rightarrow> share \<Rightarrow> u64 \<Rightarrow> int \<Rightarrow> bool" where
  "link_allows_transfer_at E j s now observed_at \<longleftrightarrow>
     offer_link_policy (sh_offer s) = None
     \<or> opt_any (\<lambda>st. lss_confirmed st \<and> \<not> fls_paused (lss_settings st)
         \<and> (if fls_cadence (lss_settings st) = Continuous
            then conditions_allow j (fls_android_conditions (lss_settings st)) observed_at
            else local_batch_allows_transfer_at E j (offer_folder_id (sh_offer s)) now observed_at))
       (fmlookup (sn_link_settings (j_snapshot j)) (offer_folder_id (sh_offer s)))"

definition active_batch_generations :: "env \<Rightarrow> u64 \<Rightarrow> int \<Rightarrow> (uuid, u64) fmap journal_step" where
  "active_batch_generations E now observed_at =
     sbind (jpayload E) (\<lambda>_.
     sget (\<lambda>j. fmap_of_list (option_list (map (\<lambda>(folder, slot).
       case slot_authoritative slot of None \<Rightarrow> None
       | Some st \<Rightarrow>
           if phase_active (lrs_phase st) \<and> now < lrs_deadline_unix_ms st
              \<and> local_run_is_active E j folder st now observed_at
           then Some (folder, lrs_generation st) else None)
       (sorted_list_of_fmap (sn_link_runs (j_snapshot j)))))))"

datatype link_run_work_item =
    PrepareSource uuid u64 u64
  | ObserveDestination uuid u64 u64 device_id string engine_index_snapshot

definition link_source_engine_id :: "env \<Rightarrow> snapshot \<Rightarrow> uuid \<Rightarrow> string sharing_result" where
  "link_source_engine_id E sn folder =
     rbind (link_source sn folder) (\<lambda>source.
     rbind (if source = own_id E then Inr (installation_id E)
            else rbind (ok_or (find (\<lambda>s. \<not> sh_removed s \<and> offer_folder_id (sh_offer s) = folder
                     \<and> offer_source_device_id (sh_offer s) = source) (sn_shares sn)) InvalidRecord)
                   (\<lambda>s. Inr (engine_id_str (seb_engine_device_id (offer_source_engine (sh_offer s)))))) (\<lambda>raw.
     map_err (\<lambda>_. InvalidRecord) (parse_engine_id raw)))"

definition work_item ::
    "env \<Rightarrow> journal \<Rightarrow> u64 \<Rightarrow> int \<Rightarrow> uuid \<times> link_run_link_state \<Rightarrow> link_run_work_item option sharing_result" where
  "work_item E j now observed_at = (\<lambda>(folder, slot).
     case slot_authoritative slot of None \<Rightarrow> Inr None
     | Some st \<Rightarrow>
         if now \<ge> lrs_deadline_unix_ms st then Inr None
         else rbind (link_source (j_snapshot j) folder) (\<lambda>source.
           if source = own_id E \<and> lrs_phase st = Preparing
              \<and> local_run_is_active E j folder st now observed_at
           then Inr (Some (PrepareSource folder (lrs_generation st) (lrs_settings_revision st)))
           else if source \<noteq> own_id E \<and> lrs_phase st = Running
              \<and> local_run_is_active E j folder st now observed_at
           then rbind (link_source_engine_id E (j_snapshot j) folder) (\<lambda>engine.
                rbind (ok_or (lrs_source_index st) InvalidState) (\<lambda>index.
                Inr (Some (ObserveDestination folder (lrs_generation st) (lrs_settings_revision st)
                  source engine index))))
           else Inr None))"

definition link_run_work ::
    "env \<Rightarrow> journal \<Rightarrow> u64 \<Rightarrow> int \<Rightarrow> link_run_work_item list sharing_result" where
  "link_run_work E j now observed_at =
     rbind (rmap (work_item E j now observed_at) (sorted_list_of_fmap (sn_link_runs (j_snapshot j))))
       (\<lambda>items. Inr (option_list items))"

end
