(* ===== verification/Journal_Sharing.thy ===== *)
theory Journal_Sharing
  imports Journal_Runs
begin

text \<open>
  The journal operations of \<open>sharing.rs\<close> that record consent: creating and opening a journal,
  invitations and their renewal, acceptance and commit, pause, removal on both sides, root
  repair and the two-phase address refresh. The three signing methods of \<open>Engine\<close>
  (\<open>covalent-core/src/engine.rs\<close>) come first.
\<close>

section \<open>Signing under current trust\<close>

definition trusted_peer_identity :: "env \<Rightarrow> device_id \<Rightarrow> core_error + public_identity" where
  "trusted_peer_identity E peer =
     rbind (ok_or (env_config E) Synchronization) (\<lambda>config.
     rbind (ok_or (fmlookup (nc_trusted_peers config) peer) IdentityMismatch) (\<lambda>grant.
     rbind (fail_if (pg_revoked grant) PeerRevoked) (\<lambda>_.
     identity_from_encoded E (pg_peer_device_id grant) (pg_public_key grant))))"

definition issue_folder_share_offer_with_policy ::
    "env \<Rightarrow> bytes option \<Rightarrow> device_id \<Rightarrow> uuid \<Rightarrow> string \<Rightarrow> sync_engine_binding \<Rightarrow> string option
      \<Rightarrow> u64 \<Rightarrow> u64 \<Rightarrow> folder_link_policy option \<Rightarrow> folder_sharing_error + folder_share_offer" where
  "issue_folder_share_offer_with_policy E entropy target folder label binding pairing now lifetime
     policy =
     rbind (map_err (\<lambda>_. WrongPeer) (trusted_peer_identity E target)) (\<lambda>_.
     create_folder_share_offer_with_policy E entropy (env_identity E) target folder label binding
       pairing now lifetime policy)"

definition accept_folder_share ::
    "env \<Rightarrow> folder_share_offer \<Rightarrow> sync_engine_binding \<Rightarrow> u64
      \<Rightarrow> folder_sharing_error + folder_share_acceptance" where
  "accept_folder_share E offer binding now =
     rbind (map_err (\<lambda>_. WrongPeer) (trusted_peer_identity E (offer_source_device_id offer)))
       (\<lambda>source.
     accept_folder_share_offer E offer source (env_identity E) binding now)"

definition commit_folder_share_offer ::
    "env \<Rightarrow> folder_share_offer \<Rightarrow> folder_share_acceptance \<Rightarrow> u64
      \<Rightarrow> folder_sharing_error + folder_share_commit" where
  "commit_folder_share_offer E offer acceptance now =
     rbind (map_err (\<lambda>_. WrongPeer) (trusted_peer_identity E (offer_target_device_id offer)))
       (\<lambda>target.
     commit_folder_share E offer acceptance (env_identity E) target now)"

section \<open>Creating and opening a journal\<close>

definition own_binding :: "env \<Rightarrow> string \<Rightarrow> sync_engine_binding sharing_result" where
  "own_binding E advertised =
     rbind (ok_or (env_ssh_public_key E) InvalidState) (\<lambda>key.
     map_err (\<lambda>_. InvalidState)
       (binding_new_authenticated E (own_id E) (installation_id E) key advertised))"

definition empty_snapshot :: "env \<Rightarrow> sync_engine_binding \<Rightarrow> socket_addr \<Rightarrow> snapshot" where
  "empty_snapshot E binding listener =
     \<lparr>sn_schema_version = 1, sn_owner = device_public_identity E (env_identity E),
      sn_binding = binding, sn_listener = listener, sn_shares = [], sn_tombstones = [],
      sn_freshness_floor_unix_ms = 0, sn_pending_root_reset = None,
      sn_pending_remote_removals = [], sn_remote_removal_tombstones = [],
      sn_current_peer_routes = fmempty, sn_pending_peer_address_refresh = None,
      sn_completed_peer_address_refreshes = fmempty, sn_link_settings = fmempty,
      sn_link_runs = fmempty, sn_endpoint_rosters = fmempty\<rparr>"

text \<open>
  The instance identity stands for the fresh \<open>Arc\<close>. The store's system calls draw their fate
  from the first two readings of the environment.
\<close>

definition journal_new :: "store_world \<Rightarrow> snapshot \<Rightarrow> nat \<Rightarrow> journal" where
  "journal_new w sn instance_id =
     \<lparr>j_store = fst w, j_disk = snd w, j_snapshot = sn, j_preparation_identity = instance_id,
      j_android_host = False, j_android_condition_observation = None, j_ticks = 2\<rparr>"

definition journal_create ::
    "env \<Rightarrow> nat \<Rightarrow> socket_addr \<Rightarrow> socket_addr \<Rightarrow> disk \<Rightarrow> journal sharing_result" where
  "journal_create E instance_id listener advertised d =
     rbind (own_binding E (show_socket advertised)) (\<lambda>binding.
     let sn = empty_snapshot E binding listener in
     rbind (validate_snapshot E sn) (\<lambda>_.
     rbind (ok_or (json_snapshot E sn) InvalidState) (\<lambda>payload.
     rbind (map_err (\<lambda>_. PersistenceUncertain)
       (store_create (env_store E) (env_io E 0) (env_io E 1) payload d)) (\<lambda>w.
     Inr (journal_new w sn instance_id)))))"

text \<open>Loading the durable snapshot, before the route and the trust are brought up to date.\<close>

definition journal_load :: "env \<Rightarrow> nat \<Rightarrow> disk \<Rightarrow> journal sharing_result" where
  "journal_load E instance_id d =
     rbind (map_err (\<lambda>_. InvalidState) (store_open (env_store E) (env_io E 0) d)) (\<lambda>w.
     rbind (map_err (\<lambda>_. InvalidState)
       (store_get_payload (env_store E) (env_io E 1) (fst w) (snd w))) (\<lambda>payload.
     rbind (ok_or (json_snapshot_decode E payload) InvalidState) (\<lambda>sn.
     rbind (validate_snapshot E sn) (\<lambda>_.
     Inr (journal_new w sn instance_id)))))"

definition chosen_route ::
    "snapshot \<Rightarrow> (socket_addr \<times> socket_addr) option \<Rightarrow> (socket_addr \<times> string) sharing_result" where
  "chosen_route sn route =
     (case route of
        None \<Rightarrow> Inr (sn_listener sn, seb_direct_address (sn_binding sn))
      | Some (listener, advertised) \<Rightarrow>
          rbind (validate_listener_route listener advertised) (\<lambda>_.
          Inr (listener, show_socket advertised)))"

definition adopt_route :: "env \<Rightarrow> (socket_addr \<times> socket_addr) option \<Rightarrow> unit journal_step" where
  "adopt_route E route =
     sbind jsnapshot (\<lambda>sn.
     sbind (slift (chosen_route sn route)) (\<lambda>(listener, advertised).
     sbind (slift (own_binding E advertised)) (\<lambda>binding.
     if sn_listener sn \<noteq> listener \<or> sn_binding sn \<noteq> binding
     then persist E (sn\<lparr>sn_listener := listener, sn_binding := binding\<rparr>)
     else sret ())))"

definition check_trust_or_refresh :: "env \<Rightarrow> unit journal_step" where
  "check_trust_or_refresh E =
     sbind jsnapshot (\<lambda>sn.
     if sn_pending_peer_address_refresh sn = None then reconcile_trust E
     else slift (validate_pending_peer_address_refresh E sn))"

definition journal_open_inner ::
    "env \<Rightarrow> nat \<Rightarrow> (socket_addr \<times> socket_addr) option \<Rightarrow> disk \<Rightarrow> journal sharing_result" where
  "journal_open_inner E instance_id route d =
     rbind (journal_load E instance_id d) (\<lambda>j.
     case sbind (adopt_route E route) (\<lambda>_. check_trust_or_refresh E) j of
       (r, j') \<Rightarrow> rbind r (\<lambda>_. Inr j'))"

definition journal_open :: "env \<Rightarrow> nat \<Rightarrow> disk \<Rightarrow> journal sharing_result" where
  "journal_open E instance_id d = journal_open_inner E instance_id None d"

definition journal_open_at_route ::
    "env \<Rightarrow> nat \<Rightarrow> socket_addr \<Rightarrow> socket_addr \<Rightarrow> disk \<Rightarrow> journal sharing_result" where
  "journal_open_at_route E instance_id listener advertised d =
     journal_open_inner E instance_id (Some (listener, advertised)) d"

definition authenticated_binding :: "env \<Rightarrow> sync_engine_binding journal_step" where
  "authenticated_binding E = sbind (jpayload E) (\<lambda>_. sget (\<lambda>j. sn_binding (j_snapshot j)))"

section \<open>Invitations\<close>

definition jcapture :: "env \<Rightarrow> path \<Rightarrow> local_root journal_step" where
  "jcapture E p = sbind jtick (\<lambda>t. slift (capture_root E (env_uuid E t) p))"

definition jissue ::
    "env \<Rightarrow> device_id \<Rightarrow> uuid \<Rightarrow> string \<Rightarrow> sync_engine_binding \<Rightarrow> string option \<Rightarrow> u64
      \<Rightarrow> folder_link_policy option \<Rightarrow> folder_share_offer journal_step" where
  "jissue E peer folder label binding pairing now policy =
     sbind jtick (\<lambda>t.
     slift (map_err (\<lambda>_. InvalidRecord)
       (issue_folder_share_offer_with_policy E (env_entropy E t) peer folder label binding pairing
          now INVITATION_LIFETIME_MS policy)))"

definition new_share ::
    "current_peer_trust \<Rightarrow> folder_share_offer \<Rightarrow> local_root option \<Rightarrow> share" where
  "new_share peer offer root =
     \<lparr>sh_peer_identity = cpt_identity peer, sh_peer_transport = cpt_transport peer,
      sh_peer_confirmed_at_unix_ms = cpt_confirmed_at_unix_ms peer, sh_offer = offer,
      sh_acceptance = None, sh_commit = None, sh_root = root, sh_paused = False,
      sh_removed = False, sh_superseded_offers = []\<rparr>"

definition source_settings_state :: "env \<Rightarrow> u64 \<Rightarrow> folder_link_settings \<Rightarrow> link_settings_state" where
  "source_settings_state E now settings =
     \<lparr>lss_revision = 0, lss_settings = settings, lss_change_id = uuid_nil,
      lss_changed_by = own_id E, lss_accepted_at_unix_ms = now, lss_confirmed = True,
      lss_pending_change = None, lss_conflicted_change = None\<rparr>"

text \<open>An invitation this device already sent for the same choice is returned again.\<close>

definition repeats_offer ::
    "env \<Rightarrow> snapshot \<Rightarrow> current_peer_trust \<Rightarrow> uuid \<Rightarrow> string \<Rightarrow> folder_link_policy option
      \<Rightarrow> local_root \<Rightarrow> share \<Rightarrow> bool" where
  "repeats_offer E sn peer folder label policy root existing \<longleftrightarrow>
     offer_source_device_id (sh_offer existing) = own_id E
     \<and> offer_label (sh_offer existing) = label
     \<and> (offer_link_policy (sh_offer existing) = policy
        \<or> fmlookup (sn_link_settings sn) folder \<noteq> None)
     \<and> opt_any (\<lambda>old. same_root old root) (sh_root existing)
     \<and> trust_matches peer existing"

definition offer_candidate ::
    "env \<Rightarrow> u64 \<Rightarrow> uuid \<Rightarrow> folder_link_settings option \<Rightarrow> share \<Rightarrow> snapshot \<Rightarrow> snapshot" where
  "offer_candidate E now folder settings s sn =
     (let next = push_share s sn in
      case settings of None \<Rightarrow> next
      | Some settings' \<Rightarrow> next\<lparr>sn_link_settings := bt_or_insert folder
          (source_settings_state E now settings') (sn_link_settings next)\<rparr>)"

definition offer_with_settings_inner ::
    "env \<Rightarrow> device_id \<Rightarrow> uuid \<Rightarrow> string \<Rightarrow> path \<Rightarrow> u64 \<Rightarrow> folder_link_settings option
      \<Rightarrow> folder_share_offer journal_step" where
  "offer_with_settings_inner E peer_id folder label selected now initial =
     (let policy = map_option fls_deletion_policy initial in
      sbind (reconcile_trust E) (\<lambda>_.
      sbind jsnapshot (\<lambda>sn.
      sbind (slift (trusted_peer E peer_id)) (\<lambda>peer.
      sbind (slift (fail_if (opt_any (\<lambda>current.
          Some (fls_deletion_policy (lss_settings current)) \<noteq> policy
          \<or> opt_any (\<lambda>settings. lss_settings current \<noteq> settings) initial)
          (fmlookup (sn_link_settings sn) folder)) SettingsConflict)) (\<lambda>_.
      sbind (jcapture E selected) (\<lambda>root.
      case find (\<lambda>s. \<not> sh_removed s \<and> offer_folder_id (sh_offer s) = folder
             \<and> pi_device_id (sh_peer_identity s) = peer_id) (sn_shares sn) of
        Some existing \<Rightarrow>
          if repeats_offer E sn peer folder label policy root existing
          then sret (sh_offer existing) else sfail AlreadyShared
      | None \<Rightarrow>
          sbind (advance_freshness_floor E now) (\<lambda>_.
          sbind jsnapshot (\<lambda>sn'.
          sbind (slift (fail_if (now < sn_freshness_floor_unix_ms sn') InvalidRecord)) (\<lambda>_.
          sbind (slift (check_capacity sn')) (\<lambda>_.
          sbind (slift (check_not_shared sn' folder peer_id)) (\<lambda>_.
          sbind (jissue E peer_id folder label (sn_binding sn') None now policy) (\<lambda>offer.
          sbind (persist E (offer_candidate E now folder initial
            (new_share peer offer (Some root)) sn')) (\<lambda>_.
          sret offer)))))))))))))"

definition offer_with_policy ::
    "env \<Rightarrow> device_id \<Rightarrow> uuid \<Rightarrow> string \<Rightarrow> path \<Rightarrow> u64 \<Rightarrow> folder_link_policy option
      \<Rightarrow> folder_share_offer journal_step" where
  "offer_with_policy E peer folder label selected now policy =
     offer_with_settings_inner E peer folder label selected now
       (map_option (\<lambda>p. \<lparr>fls_deletion_policy = p, fls_paused = False, fls_cadence = Continuous,
          fls_android_conditions = default_conditions\<rparr>) policy)"

definition journal_offer ::
    "env \<Rightarrow> device_id \<Rightarrow> uuid \<Rightarrow> string \<Rightarrow> path \<Rightarrow> u64 \<Rightarrow> folder_share_offer journal_step" where
  "journal_offer E peer folder label selected now =
     offer_with_policy E peer folder label selected now (Some default_link_policy)"

definition offer_with_settings ::
    "env \<Rightarrow> device_id \<Rightarrow> uuid \<Rightarrow> string \<Rightarrow> path \<Rightarrow> u64 \<Rightarrow> folder_link_settings
      \<Rightarrow> folder_share_offer journal_step" where
  "offer_with_settings E peer folder label selected now settings =
     sbind (slift (fail_if (\<not> settings_is_valid settings \<or> now = 0) InvalidRecord)) (\<lambda>_.
     offer_with_settings_inner E peer folder label selected now (Some settings))"

definition superseded_offer_of :: "share \<Rightarrow> superseded_offer" where
  "superseded_offer_of s = \<lparr>so_offer_id = offer_offer_id (sh_offer s),
     so_issued_at_unix_ms = offer_issued_at_unix_ms (sh_offer s)\<rparr>"

text \<open>
  A renewed invitation at the recipient keeps the refusal history and nothing of the old
  consent.
\<close>

definition replaced_invitation :: "folder_share_offer \<Rightarrow> share \<Rightarrow> share" where
  "replaced_invitation offer s =
     s\<lparr>sh_superseded_offers := sh_superseded_offers s @ [superseded_offer_of s],
       sh_offer := offer, sh_acceptance := None, sh_commit := None, sh_root := None,
       sh_paused := False\<rparr>"

definition insert_route :: "device_id \<Rightarrow> sync_engine_binding \<Rightarrow> snapshot \<Rightarrow> snapshot" where
  "insert_route peer engine sn =
     sn\<lparr>sn_current_peer_routes := bt_or_insert peer engine (sn_current_peer_routes sn)\<rparr>"

text \<open>The answers to a record that is already known or was refused, in the code's order.\<close>

datatype known_offer = KnownSame | Unknown

definition check_known_offer :: "snapshot \<Rightarrow> folder_share_offer \<Rightarrow> known_offer sharing_result" where
  "check_known_offer sn offer =
     rbind (fail_if (list_ex (\<lambda>r. rrt_peer_id r = offer_source_device_id offer
         \<and> rrt_offer_source_id r = offer_source_device_id offer
         \<and> rrt_folder_id r = offer_folder_id offer) (sn_remote_removal_tombstones sn)) Removed) (\<lambda>_.
     rbind (fail_if (tombstoned sn (offer_offer_id offer)) Removed) (\<lambda>_.
     case find (\<lambda>s. offer_offer_id (sh_offer s) = offer_offer_id offer) (sn_shares sn) of
       Some old \<Rightarrow>
         if sh_removed old then Inl Removed
         else if sh_offer old = offer then Inr KnownSame else Inl InvalidRecord
     | None \<Rightarrow>
         rbind (fail_if (list_ex (superseded_by (offer_offer_id offer)) (sn_shares sn)) Removed)
           (\<lambda>_. Inr Unknown)))"

definition may_replace_invitation ::
    "env \<Rightarrow> current_peer_trust \<Rightarrow> folder_share_offer \<Rightarrow> u64 \<Rightarrow> share \<Rightarrow> bool" where
  "may_replace_invitation E peer offer now previous \<longleftrightarrow>
     \<not> (offer_target_device_id (sh_offer previous) \<noteq> own_id E
        \<or> sh_commit previous \<noteq> None
        \<or> now < offer_expires_at_unix_ms (sh_offer previous)
        \<or> offer_issued_at_unix_ms offer \<le> offer_issued_at_unix_ms (sh_offer previous)
        \<or> offer_expires_at_unix_ms offer \<le> offer_expires_at_unix_ms (sh_offer previous)
        \<or> offer_label offer \<noteq> offer_label (sh_offer previous)
        \<or> offer_link_policy offer \<noteq> offer_link_policy (sh_offer previous)
        \<or> \<not> same_engine_identity E (offer_source_engine offer) (offer_source_engine (sh_offer previous))
        \<or> offer_pairing_id offer \<noteq> offer_pairing_id (sh_offer previous)
        \<or> \<not> trust_matches peer previous)"

definition check_pending_capacity :: "env \<Rightarrow> snapshot \<Rightarrow> device_id \<Rightarrow> unit sharing_result" where
  "check_pending_capacity E sn peer =
     (let pending = filter (\<lambda>s. offer_target_device_id (sh_offer s) = own_id E
            \<and> sh_acceptance s = None) (sn_shares sn)
      in fail_if (vec_len pending \<ge> MAX_PENDING_OFFERS
           \<or> vec_len (filter (\<lambda>s. pi_device_id (sh_peer_identity s) = peer) pending)
               \<ge> MAX_PEER_PENDING_OFFERS) LimitExceeded)"

text \<open>Recording a fresh, verified invitation: a replacement of an expired one, or a new row.\<close>

definition record_offer ::
    "env \<Rightarrow> current_peer_trust \<Rightarrow> folder_share_offer \<Rightarrow> u64 \<Rightarrow> unit journal_step" where
  "record_offer E peer offer now =
     sbind jsnapshot (\<lambda>sn.
     let peer_id = pi_device_id (cpt_identity peer) in
     case position (\<lambda>s. \<not> sh_removed s \<and> offer_folder_id (sh_offer s) = offer_folder_id offer
            \<and> pi_device_id (sh_peer_identity s) = peer_id) (sn_shares sn) of
       Some index \<Rightarrow>
         let previous = sn_shares sn ! index in
         sbind (slift (fail_if (\<not> may_replace_invitation E peer offer now previous) AlreadyShared))
           (\<lambda>_.
         sbind (slift (check_renewal_capacity sn previous)) (\<lambda>_.
         persist E (insert_route peer_id (offer_source_engine offer)
           (set_share index (replaced_invitation offer previous) sn))))
     | None \<Rightarrow>
         sbind (slift (check_pending_capacity E sn peer_id)) (\<lambda>_.
         sbind (slift (check_capacity sn)) (\<lambda>_.
         sbind (slift (check_not_shared sn (offer_folder_id offer) peer_id)) (\<lambda>_.
         persist E (insert_route peer_id (offer_source_engine offer)
           (push_share (new_share peer offer None) sn))))))"

definition receive_offer :: "env \<Rightarrow> folder_share_offer \<Rightarrow> u64 \<Rightarrow> unit journal_step" where
  "receive_offer E offer now =
     sbind (reconcile_trust E) (\<lambda>_.
     sbind jsnapshot (\<lambda>sn.
     sbind (slift (trusted_peer E (offer_source_device_id offer))) (\<lambda>peer.
     sbind (slift (map_err (\<lambda>_. InvalidRecord)
       (verify_folder_share_offer E offer (cpt_identity peer) (own_id E)))) (\<lambda>_.
     sbind (slift (check_known_offer sn offer)) (\<lambda>known.
     if known = KnownSame then sret ()
     else
       sbind (slift (map_err (\<lambda>_. InvalidRecord)
         (verify_fresh_folder_share_offer E offer (cpt_identity peer) (own_id E) now))) (\<lambda>_.
       let peer_id = pi_device_id (cpt_identity peer) in
       sbind (slift (fail_if (opt_any (\<lambda>current. current \<noteq> offer_source_engine offer)
         (fmlookup (sn_current_peer_routes sn) peer_id)) InvalidRecord)) (\<lambda>_.
       sbind (slift (fail_if (list_ex (\<lambda>t. tomb_folder_id t = offer_folder_id offer
           \<and> tomb_peer_id t = peer_id \<and> tomb_incoming t) (sn_tombstones sn)) Removed)) (\<lambda>_.
       sbind (advance_freshness_floor E now) (\<lambda>_.
       sbind jsnapshot (\<lambda>sn'.
       sbind (slift (fail_if (offer_issued_at_unix_ms offer < sn_freshness_floor_unix_ms sn')
         Removed)) (\<lambda>_.
       record_offer E peer offer now)))))))))))"

text \<open>Renewal of an outgoing invitation keeps the row and supersedes its identifier.\<close>

definition renewed_share :: "folder_share_offer \<Rightarrow> share \<Rightarrow> share" where
  "renewed_share offer s =
     s\<lparr>sh_superseded_offers := sh_superseded_offers s @ [superseded_offer_of s], sh_offer := offer\<rparr>"

definition renew_at :: "env \<Rightarrow> nat \<Rightarrow> u64 \<Rightarrow> folder_share_offer journal_step" where
  "renew_at E index now =
     sbind jsnapshot (\<lambda>sn.
     let s = sn_shares sn ! index in
     sbind (slift (fail_if (offer_source_device_id (sh_offer s) \<noteq> own_id E
       \<or> sh_acceptance s \<noteq> None \<or> sh_commit s \<noteq> None
       \<or> now < offer_expires_at_unix_ms (sh_offer s)) InvalidRecord)) (\<lambda>_.
     sbind (slift (trusted_peer E (pi_device_id (sh_peer_identity s)))) (\<lambda>peer.
     sbind (slift (fail_if (\<not> trust_matches peer s) UntrustedPeer)) (\<lambda>_.
     sbind (slift (ok_or (sh_root s) InvalidState)) (\<lambda>root.
     sbind (slift (validate_current_root E root)) (\<lambda>_.
     sbind (slift (check_renewal_capacity sn s)) (\<lambda>_.
     sbind (slift (fail_if (now < sn_freshness_floor_unix_ms sn) InvalidRecord)) (\<lambda>_.
     sbind (jissue E (pi_device_id (sh_peer_identity s)) (offer_folder_id (sh_offer s))
       (offer_label (sh_offer s)) (sn_binding sn) (offer_pairing_id (sh_offer s)) now
       (offer_link_policy (sh_offer s))) (\<lambda>replacement.
     sbind (slift (fail_if
       (offer_issued_at_unix_ms replacement \<le> offer_issued_at_unix_ms (sh_offer s)
        \<or> offer_expires_at_unix_ms replacement \<le> offer_expires_at_unix_ms (sh_offer s))
       InvalidRecord)) (\<lambda>_.
     sbind (persist E (set_share index (renewed_share replacement s)
       (advance_freshness_floor_candidate sn now))) (\<lambda>_.
     sret replacement)))))))))))"

definition renew_offer :: "env \<Rightarrow> uuid \<Rightarrow> u64 \<Rightarrow> folder_share_offer journal_step" where
  "renew_offer E offer_id now =
     sbind (reconcile_trust E) (\<lambda>_.
     sbind jsnapshot (\<lambda>sn.
     sbind (slift (fail_if (tombstoned sn offer_id) Removed)) (\<lambda>_.
     case find (superseded_by offer_id) (sn_shares sn) of
       Some s \<Rightarrow>
         if offer_source_device_id (sh_offer s) = own_id E then sret (sh_offer s)
         else sfail InvalidRecord
     | None \<Rightarrow>
         sbind (slift (share_index sn offer_id)) (\<lambda>index. renew_at E index now))))"

section \<open>Acceptance and commit\<close>

definition journal_accept :: "env \<Rightarrow> uuid \<Rightarrow> path \<Rightarrow> u64 \<Rightarrow> folder_share_acceptance journal_step" where
  "journal_accept E offer_id selected now =
     sbind (reconcile_trust E) (\<lambda>_.
     sbind jsnapshot (\<lambda>sn.
     sbind (slift (share_index sn offer_id)) (\<lambda>index.
     let s = sn_shares sn ! index in
     sbind (slift (fail_if (offer_target_device_id (sh_offer s) \<noteq> own_id E) InvalidRecord)) (\<lambda>_.
     sbind (jcapture E selected) (\<lambda>root.
     case sh_acceptance s of
       Some acceptance \<Rightarrow>
         if opt_any (\<lambda>r. same_root r root) (sh_root s) then sret acceptance
         else sfail AlreadyShared
     | None \<Rightarrow>
         sbind (slift (map_err (\<lambda>_. InvalidRecord)
           (accept_folder_share E (sh_offer s) (sn_binding sn) now))) (\<lambda>acceptance.
         sbind (persist E (set_share index (s\<lparr>sh_root := Some root,
           sh_acceptance := Some acceptance\<rparr>) sn)) (\<lambda>_.
         sret acceptance)))))))"

definition receive_acceptance ::
    "env \<Rightarrow> uuid \<Rightarrow> folder_share_acceptance \<Rightarrow> u64 \<Rightarrow> folder_share_commit journal_step" where
  "receive_acceptance E offer_id acceptance now =
     sbind (reconcile_trust E) (\<lambda>_.
     sbind jsnapshot (\<lambda>sn.
     sbind (slift (share_index sn offer_id)) (\<lambda>index.
     let s = sn_shares sn ! index; peer_id = pi_device_id (sh_peer_identity s) in
     sbind (slift (fail_if (offer_source_device_id (sh_offer s) \<noteq> own_id E) InvalidRecord)) (\<lambda>_.
     case sh_acceptance s of
       Some old \<Rightarrow>
         if old = acceptance then slift (ok_or (sh_commit s) InvalidState)
         else sfail InvalidRecord
     | None \<Rightarrow>
         sbind (slift (map_err (\<lambda>_. InvalidRecord)
           (commit_folder_share_offer E (sh_offer s) acceptance now))) (\<lambda>commit.
         sbind (slift (fail_if (opt_any (\<lambda>current. current \<noteq> acc_target_engine acceptance)
           (fmlookup (sn_current_peer_routes sn) peer_id)) InvalidRecord)) (\<lambda>_.
         sbind (persist E (set_share index (s\<lparr>sh_acceptance := Some acceptance,
           sh_commit := Some commit\<rparr>)
           (insert_route peer_id (acc_target_engine acceptance) sn))) (\<lambda>_.
         sret commit)))))))"

definition receive_commit :: "env \<Rightarrow> uuid \<Rightarrow> folder_share_commit \<Rightarrow> unit journal_step" where
  "receive_commit E offer_id commit =
     sbind (reconcile_trust E) (\<lambda>_.
     sbind jsnapshot (\<lambda>sn.
     sbind (slift (share_index sn offer_id)) (\<lambda>index.
     let s = sn_shares sn ! index in
     sbind (slift (fail_if (offer_target_device_id (sh_offer s) \<noteq> own_id E) InvalidRecord)) (\<lambda>_.
     case sh_commit s of
       Some old \<Rightarrow> slift (fail_if (old \<noteq> commit) InvalidRecord)
     | None \<Rightarrow>
         sbind (slift (ok_or (sh_acceptance s) InvalidRecord)) (\<lambda>acceptance.
         sbind (slift (map_err (\<lambda>_. InvalidRecord)
           (verify_folder_share_commit E (sh_offer s) acceptance commit (sh_peer_identity s)
              (sn_owner sn)))) (\<lambda>_.
         persist E (set_share index (s\<lparr>sh_commit := Some commit\<rparr>) sn)))))))"

section \<open>Pause and removal\<close>

definition set_paused :: "env \<Rightarrow> uuid \<Rightarrow> bool \<Rightarrow> unit journal_step" where
  "set_paused E offer_id paused =
     sbind (reconcile_trust E) (\<lambda>_.
     sbind jsnapshot (\<lambda>sn.
     sbind (slift (share_index sn offer_id)) (\<lambda>index.
     let s = sn_shares sn ! index; folder = offer_folder_id (sh_offer s) in
     case fmlookup (sn_link_settings sn) folder of
       Some st \<Rightarrow>
         (case lss_pending_change st of
            Some pending \<Rightarrow>
              slift (fail_if (fls_paused (lsq_settings pending) \<noteq> paused) SettingsPending)
          | None \<Rightarrow>
              if fls_paused (lss_settings st) = paused then sret ()
              else
                sbind jtick (\<lambda>t.
                sbind jtick (\<lambda>t'.
                request_link_settings_at E folder (env_uuid E t) (lss_revision st)
                  ((lss_settings st)\<lparr>fls_paused := paused\<rparr>) (env_now E t'))))
     | None \<Rightarrow>
         if sh_paused s = paused then sret ()
         else persist E (set_share index (s\<lparr>sh_paused := paused\<rparr>) sn))))"

definition removal_of :: "share \<Rightarrow> pending_remote_removal" where
  "removal_of s =
     \<lparr>prm_peer_identity = sh_peer_identity s, prm_peer_transport = sh_peer_transport s,
      prm_peer_confirmed_at_unix_ms = sh_peer_confirmed_at_unix_ms s,
      prm_offer_source_id = offer_source_device_id (sh_offer s),
      prm_folder_id = offer_folder_id (sh_offer s),
      prm_offer_ids = superseded_ids s @ [offer_offer_id (sh_offer s)]\<rparr>"

definition remove_share_at :: "nat \<Rightarrow> snapshot \<Rightarrow> snapshot" where
  "remove_share_at index sn = set_share index ((sn_shares sn ! index)\<lparr>sh_removed := True\<rparr>) sn"

definition journal_remove :: "env \<Rightarrow> uuid \<Rightarrow> unit journal_step" where
  "journal_remove E offer_id =
     sbind (jpayload E) (\<lambda>_.
     sbind jsnapshot (\<lambda>sn.
     if list_ex (\<lambda>t. tomb_offer_id t = offer_id) (sn_tombstones sn) then sret ()
     else
       sbind (slift (ok_or (position (\<lambda>s. offer_offer_id (sh_offer s) = offer_id) (sn_shares sn))
         InvalidRecord)) (\<lambda>index.
       let s = sn_shares sn ! index in
       if sh_removed s then sret ()
       else
         sbind (slift (fail_if (vec_len (prm_offer_ids (removal_of s)) > MAX_REMOVAL_OFFER_IDS
           \<or> vec_len (sn_pending_remote_removals sn) \<ge> MAX_PENDING_REMOVALS) LimitExceeded)) (\<lambda>_.
         persist E (remove_share_at index (sn\<lparr>sn_pending_remote_removals :=
           sn_pending_remote_removals sn @ [removal_of s]\<rparr>))))))"

subsection \<open>A removal the peer asks for\<close>

definition refusal_is_for :: "folder_removal_notice \<Rightarrow> remote_removal_tombstone \<Rightarrow> bool" where
  "refusal_is_for notice r \<longleftrightarrow>
     rrt_peer_id r = frn_requester_id notice
     \<and> rrt_offer_source_id r = frn_offer_source_id notice
     \<and> rrt_folder_id r = frn_folder_id notice"

definition refused_elsewhere ::
    "remote_removal_tombstone list \<Rightarrow> nat option \<Rightarrow> uuid list \<Rightarrow> bool" where
  "refused_elsewhere rs matching ids \<longleftrightarrow>
     list_ex (\<lambda>(i, r). Some i \<noteq> matching \<and> list_ex (\<lambda>x. x \<in> set ids) (rrt_offer_ids r))
       (enumerate 0 rs)"

definition comparable :: "uuid list \<Rightarrow> uuid list \<Rightarrow> bool" where
  "comparable xs ys \<longleftrightarrow> is_prefix xs ys \<or> is_prefix ys xs"

definition check_notice_ids ::
    "snapshot \<Rightarrow> folder_removal_notice \<Rightarrow> nat option \<Rightarrow> unit sharing_result" where
  "check_notice_ids sn notice matching =
     fail_if
       (refused_elsewhere (sn_remote_removal_tombstones sn) matching (frn_offer_ids notice)
        \<or> opt_any (\<lambda>i. \<not> comparable (rrt_offer_ids (sn_remote_removal_tombstones sn ! i))
            (frn_offer_ids notice)) matching
        \<or> list_ex (\<lambda>offer. opt_any (\<lambda>binding. binding \<noteq>
              (frn_requester_id notice, frn_folder_id notice, frn_offer_source_id notice))
            (retained_offer_binding sn offer)) (frn_offer_ids notice)) InvalidRecord"

definition longer_of :: "uuid list \<Rightarrow> uuid list \<Rightarrow> uuid list" where
  "longer_of known ids = (if length known > length ids then known else ids)"

text \<open>The longest identifier chain either side knows.\<close>

definition canonical_ids ::
    "snapshot \<Rightarrow> folder_removal_notice \<Rightarrow> nat option \<Rightarrow> nat option \<Rightarrow> uuid list sharing_result" where
  "canonical_ids sn notice matching shared =
     (let ids = (case matching of None \<Rightarrow> frn_offer_ids notice
            | Some i \<Rightarrow> longer_of (rrt_offer_ids (sn_remote_removal_tombstones sn ! i))
                (frn_offer_ids notice))
      in case shared of None \<Rightarrow> Inr ids
         | Some index \<Rightarrow>
             let s = sn_shares sn ! index;
                 known = superseded_ids s @ [offer_offer_id (sh_offer s)]
             in
             rbind (fail_if (offer_source_device_id (sh_offer s) \<noteq> frn_offer_source_id notice)
               InvalidRecord) (\<lambda>_.
             rbind (fail_if (\<not> comparable known ids) InvalidRecord) (\<lambda>_.
             Inr (longer_of known ids))))"

definition check_refusal_capacity ::
    "snapshot \<Rightarrow> folder_removal_notice \<Rightarrow> nat option \<Rightarrow> uuid list \<Rightarrow> unit sharing_result" where
  "check_refusal_capacity sn notice matching ids =
     (let rs = sn_remote_removal_tombstones sn;
          replaced = (case matching of None \<Rightarrow> 0 | Some i \<Rightarrow> vec_len (rrt_offer_ids (rs ! i)))
      in
      rbind (rfold (\<lambda>r acc. ok_or (usize_checked_add acc (vec_len (rrt_offer_ids r))) LimitExceeded)
        rs 0) (\<lambda>retained.
      fail_if
        ((matching = None \<and> vec_len rs \<ge> MAX_RETAINED_OFFERS)
         \<or> (vec_len (filter (\<lambda>r. rrt_peer_id r = frn_requester_id notice) rs) \<ge> MAX_SHARES
            \<and> matching = None)
         \<or> \<not> opt_any (\<lambda>count. count \<le> MAX_RETAINED_OFFERS)
             (Option.bind (usize_checked_sub retained replaced)
                (\<lambda>count. usize_checked_add count (vec_len ids)))) LimitExceeded))"

definition record_refusal ::
    "folder_removal_notice \<Rightarrow> nat option \<Rightarrow> uuid list \<Rightarrow> snapshot \<Rightarrow> snapshot" where
  "record_refusal notice matching ids sn =
     (let rs = sn_remote_removal_tombstones sn in
      sn\<lparr>sn_remote_removal_tombstones :=
        (case matching of
           Some i \<Rightarrow> rs[i := (rs ! i)\<lparr>rrt_offer_ids := ids\<rparr>]
         | None \<Rightarrow> rs @ [\<lparr>rrt_peer_id = frn_requester_id notice,
             rrt_offer_source_id = frn_offer_source_id notice,
             rrt_folder_id = frn_folder_id notice, rrt_offer_ids = ids\<rparr>])\<rparr>)"

definition removal_candidate ::
    "folder_removal_notice \<Rightarrow> nat option \<Rightarrow> nat option \<Rightarrow> uuid list \<Rightarrow> snapshot \<Rightarrow> snapshot" where
  "removal_candidate notice matching shared ids sn =
     record_refusal notice matching ids
       (case shared of None \<Rightarrow> sn | Some index \<Rightarrow> remove_share_at index sn)"

definition receive_removal :: "env \<Rightarrow> folder_removal_notice \<Rightarrow> unit journal_step" where
  "receive_removal E notice =
     sbind (reconcile_trust E) (\<lambda>_.
     sbind jsnapshot (\<lambda>sn.
     sbind (slift (validate_removal_notice notice (own_id E))) (\<lambda>_.
     sbind (slift (trusted_peer E (frn_requester_id notice))) (\<lambda>_.
     let rs = sn_remote_removal_tombstones sn;
         matching = position (refusal_is_for notice) rs
     in
     if opt_any (\<lambda>i. rrt_offer_ids (rs ! i) = frn_offer_ids notice) matching then sret ()
     else
       sbind (slift (check_notice_ids sn notice matching)) (\<lambda>_.
       let shared = position (\<lambda>s. pi_device_id (sh_peer_identity s) = frn_requester_id notice
             \<and> offer_folder_id (sh_offer s) = frn_folder_id notice) (sn_shares sn) in
       sbind (slift (canonical_ids sn notice matching shared)) (\<lambda>ids.
       sbind (slift (fail_if (vec_len ids > MAX_REMOVAL_OFFER_IDS
         \<or> refused_elsewhere rs matching ids) InvalidRecord)) (\<lambda>_.
       if opt_any (\<lambda>i. rrt_offer_ids (rs ! i) = ids) matching
          \<and> \<not> opt_any (\<lambda>index. \<not> sh_removed (sn_shares sn ! index)) shared
       then sret ()
       else
         sbind (slift (check_refusal_capacity sn notice matching ids)) (\<lambda>_.
         persist E (removal_candidate notice matching shared ids sn)))))))))"

definition drop_nth :: "nat \<Rightarrow> 'a list \<Rightarrow> 'a list" where
  "drop_nth i xs = take i xs @ drop (Suc i) xs"

definition acknowledge_removal :: "env \<Rightarrow> device_id \<Rightarrow> uuid \<Rightarrow> unit journal_step" where
  "acknowledge_removal E peer_id current_offer_id =
     sbind (jpayload E) (\<lambda>_.
     sbind jsnapshot (\<lambda>sn.
     case position (\<lambda>p. pi_device_id (prm_peer_identity p) = peer_id
            \<and> prm_offer_ids p \<noteq> [] \<and> last (prm_offer_ids p) = current_offer_id)
            (sn_pending_remote_removals sn) of
       None \<Rightarrow> slift (fail_if (\<not> list_ex (\<lambda>t. tomb_peer_id t = peer_id
           \<and> tomb_offer_id t = current_offer_id) (sn_tombstones sn)) InvalidRecord)
     | Some index \<Rightarrow>
         persist E (sn\<lparr>sn_pending_remote_removals :=
           drop_nth index (sn_pending_remote_removals sn)\<rparr>)))"

definition remove_peer_candidate :: "device_id \<Rightarrow> snapshot \<Rightarrow> snapshot" where
  "remove_peer_candidate peer_id sn =
     sn\<lparr>sn_shares := map (\<lambda>s. if pi_device_id (sh_peer_identity s) = peer_id \<and> \<not> sh_removed s
            then s\<lparr>sh_removed := True\<rparr> else s) (sn_shares sn),
        sn_pending_remote_removals := filter (\<lambda>p. pi_device_id (prm_peer_identity p) \<noteq> peer_id)
            (sn_pending_remote_removals sn)\<rparr>"

definition remove_peer :: "env \<Rightarrow> device_id \<Rightarrow> unit journal_step" where
  "remove_peer E peer_id =
     sbind jsnapshot (\<lambda>sn.
     if list_ex (\<lambda>s. pi_device_id (sh_peer_identity s) = peer_id \<and> \<not> sh_removed s) (sn_shares sn)
        \<or> length (filter (\<lambda>p. pi_device_id (prm_peer_identity p) \<noteq> peer_id)
             (sn_pending_remote_removals sn)) \<noteq> length (sn_pending_remote_removals sn)
     then persist E (remove_peer_candidate peer_id sn)
     else sret ())"

section \<open>Root repair\<close>

record prepared_root_repair =
  prep_journal :: nat
  prep_expected_revision :: u64
  prep_offer_id :: uuid
  prep_folder_id :: uuid
  prep_replacement :: local_root
  prep_changes_root :: bool

definition check_root_change ::
    "snapshot \<Rightarrow> nat \<Rightarrow> uuid \<Rightarrow> local_root \<Rightarrow> bool \<Rightarrow> unit sharing_result" where
  "check_root_change sn index offer_id replacement changes_root =
     (let folder = offer_folder_id (sh_offer (sn_shares sn ! index)) in
      case sn_pending_root_reset sn of
        Some pending \<Rightarrow>
          fail_if (prr_offer_id pending \<noteq> offer_id \<or> prr_folder_id pending \<noteq> folder
            \<or> \<not> same_root (prr_replacement pending) replacement \<or> changes_root) InvalidState
      | None \<Rightarrow>
          fail_if (changes_root \<and> list_ex (\<lambda>(other, s). other \<noteq> index \<and> \<not> sh_removed s
              \<and> offer_folder_id (sh_offer s) = folder) (enumerate 0 (sn_shares sn))) AlreadyShared)"

definition prepare_root_repair :: "env \<Rightarrow> uuid \<Rightarrow> path \<Rightarrow> prepared_root_repair journal_step" where
  "prepare_root_repair E offer_id selected =
     sbind (reconcile_trust E) (\<lambda>_.
     sbind jsnapshot (\<lambda>sn.
     sbind (slift (share_index sn offer_id)) (\<lambda>index.
     let s = sn_shares sn ! index in
     sbind (slift (fail_if (sh_commit s = None) InvalidState)) (\<lambda>_.
     sbind (slift (ok_or (sh_root s) FolderUnavailable)) (\<lambda>old_root.
     sbind (jcapture E selected) (\<lambda>replacement.
     let changes_root = (\<not> same_root old_root replacement) in
     sbind (slift (fail_if (sh_paused s \<and> changes_root) InvalidState)) (\<lambda>_.
     sbind (slift (check_root_change sn index offer_id replacement changes_root)) (\<lambda>_.
     sget (\<lambda>j. \<lparr>prep_journal = j_preparation_identity j,
       prep_expected_revision = st_revision (j_store j), prep_offer_id = offer_id,
       prep_folder_id = offer_folder_id (sh_offer s), prep_replacement = replacement,
       prep_changes_root = changes_root\<rparr>)))))))))"

definition check_pending_reset ::
    "snapshot \<Rightarrow> nat \<Rightarrow> prepared_root_repair \<Rightarrow> pending_root_reset \<Rightarrow> unit sharing_result" where
  "check_pending_reset sn index prepared pending =
     fail_if (prr_offer_id pending \<noteq> prep_offer_id prepared
       \<or> prr_folder_id pending \<noteq> prep_folder_id prepared
       \<or> \<not> same_root (prr_replacement pending) (prep_replacement prepared)
       \<or> \<not> opt_any (\<lambda>root. same_root root (prep_replacement prepared))
           (sh_root (sn_shares sn ! index))) InvalidState"

definition commit_root_repair :: "env \<Rightarrow> prepared_root_repair \<Rightarrow> uuid option journal_step" where
  "commit_root_repair E prepared =
     sbind (sget id) (\<lambda>j.
     let sn = j_snapshot j in
     sbind (slift (fail_if (prep_journal prepared \<noteq> j_preparation_identity j
       \<or> prep_expected_revision prepared \<noteq> st_revision (j_store j)) InvalidState)) (\<lambda>_.
     sbind (slift (share_index sn (prep_offer_id prepared))) (\<lambda>index.
     let s = sn_shares sn ! index in
     sbind (slift (fail_if (offer_folder_id (sh_offer s) \<noteq> prep_folder_id prepared) InvalidState)) (\<lambda>_.
     sbind (jcapture E (root_path (prep_replacement prepared))) (\<lambda>observed.
     sbind (slift (fail_if (\<not> same_root observed (prep_replacement prepared)) FolderUnavailable)) (\<lambda>_.
     case sn_pending_root_reset sn of
       Some pending \<Rightarrow>
         sbind (slift (check_pending_reset sn index prepared pending)) (\<lambda>_.
         sret (Some (prr_folder_id pending)))
     | None \<Rightarrow>
         if \<not> prep_changes_root prepared then sret None
         else
           sbind (persist E ((set_share index (s\<lparr>sh_root := Some (prep_replacement prepared)\<rparr>) sn)
             \<lparr>sn_pending_root_reset := Some \<lparr>prr_offer_id = prep_offer_id prepared,
                prr_folder_id = prep_folder_id prepared,
                prr_replacement = prep_replacement prepared\<rparr>\<rparr>)) (\<lambda>_.
           sret (Some (prep_folder_id prepared)))))))))"

definition repair_root :: "env \<Rightarrow> uuid \<Rightarrow> path \<Rightarrow> unit journal_step" where
  "repair_root E offer_id selected =
     sbind (prepare_root_repair E offer_id selected) (\<lambda>prepared.
     sbind (commit_root_repair E prepared) (\<lambda>_. sret ()))"

definition journal_pending_root_reset :: "env \<Rightarrow> uuid option journal_step" where
  "journal_pending_root_reset E =
     sbind (jpayload E) (\<lambda>_.
     sget (\<lambda>j. map_option prr_folder_id (sn_pending_root_reset (j_snapshot j))))"

definition complete_root_reset :: "env \<Rightarrow> uuid \<Rightarrow> unit journal_step" where
  "complete_root_reset E folder =
     sbind jsnapshot (\<lambda>sn.
     sbind (slift (ok_or (sn_pending_root_reset sn) InvalidState)) (\<lambda>pending.
     sbind (slift (fail_if (prr_folder_id pending \<noteq> folder) InvalidState)) (\<lambda>_.
     sbind (jcapture E (root_path (prr_replacement pending))) (\<lambda>observed.
     sbind (slift (fail_if (\<not> same_root observed (prr_replacement pending)) FolderUnavailable)) (\<lambda>_.
     persist E (sn\<lparr>sn_pending_root_reset := None\<rparr>))))))"

end
