(* ===== verification/Address_Refresh.thy ===== *)
theory Address_Refresh
  imports Journal_Sharing
begin

text \<open>
  The two-phase change of a peer's network address in \<open>sharing.rs\<close>: a prepared transition is
  bound to one journal instance and revision, its intent is made durable before the core's
  transport record is changed, and it is completed only once the core contains the new one.
\<close>

record prepared_peer_address_refresh =
  ppr_journal :: nat
  ppr_expected_revision :: u64
  ppr_pending :: pending_peer_address_refresh
  ppr_already_complete :: bool

definition refresh_request_ok ::
    "env \<Rightarrow> node_config \<Rightarrow> device_id \<Rightarrow> peer_grant \<Rightarrow> transport_binding \<Rightarrow> transport_binding
      \<Rightarrow> sync_engine_binding \<Rightarrow> bool" where
  "refresh_request_ok E config peer grant expected candidate engine \<longleftrightarrow>
     \<not> (fmlookup (nc_trusted_peers config) peer \<noteq> Some grant
        \<or> pg_revoked grant
        \<or> pg_peer_device_id grant \<noteq> peer
        \<or> tb_peer_id candidate \<noteq> peer
        \<or> tb_display_name candidate \<noteq> tb_display_name expected
        \<or> tb_certificate_der candidate \<noteq> tb_certificate_der expected
        \<or> tb_certificate_fingerprint candidate \<noteq> tb_certificate_fingerprint expected
        \<or> \<not> valid_route (tb_address candidate)
        \<or> seb_covalent_device_id engine \<noteq> peer
        \<or> \<not> is_ok (binding_validate E engine))"

definition known_engine_id :: "env \<Rightarrow> snapshot \<Rightarrow> device_id \<Rightarrow> string option" where
  "known_engine_id E sn peer =
     (case fmlookup (sn_current_peer_routes sn) peer of
        Some binding \<Rightarrow> Some (engine_id_str (seb_engine_device_id binding))
      | None \<Rightarrow> historical_peer_engine sn (own_id E) peer)"

definition completed_refresh_is ::
    "snapshot \<Rightarrow> device_id \<Rightarrow> transport_binding \<Rightarrow> transport_binding \<Rightarrow> sync_engine_binding \<Rightarrow> bool" where
  "completed_refresh_is sn peer expected candidate engine \<longleftrightarrow>
     opt_any (\<lambda>completed. car_expected_transport completed = expected
         \<and> car_candidate_transport completed = candidate
         \<and> car_candidate_engine completed = engine)
       (fmlookup (sn_completed_peer_address_refreshes sn) peer)"

definition prepare_peer_address_refresh ::
    "env \<Rightarrow> device_id \<Rightarrow> peer_grant \<Rightarrow> transport_binding \<Rightarrow> transport_binding \<Rightarrow> sync_engine_binding
      \<Rightarrow> prepared_peer_address_refresh journal_step" where
  "prepare_peer_address_refresh E peer grant expected candidate engine =
     sbind (check_trust_or_refresh E) (\<lambda>_.
     sbind jsnapshot (\<lambda>sn.
     sbind (slift (trusted_peer E peer)) (\<lambda>trust.
     sbind (slift (engine_config E)) (\<lambda>config.
     sbind (slift (fail_if (\<not> refresh_request_ok E config peer grant expected candidate engine)
       InvalidRecord)) (\<lambda>_.
     sbind (slift (fail_if (opt_any (\<lambda>known. known \<noteq> engine_id_str (seb_engine_device_id engine))
       (known_engine_id E sn peer)) InvalidRecord)) (\<lambda>_.
     let pending = \<lparr>par_expected_grant = grant, par_peer_identity = cpt_identity trust,
           par_confirmed_at_unix_ms = cpt_confirmed_at_unix_ms trust,
           par_expected_transport = expected, par_candidate_transport = candidate,
           par_candidate_engine = engine\<rparr>;
         already_complete = completed_refresh_is sn peer expected candidate engine
     in
     sbind (slift (fail_if (opt_any (\<lambda>retained. retained \<noteq> pending)
       (sn_pending_peer_address_refresh sn)) InvalidState)) (\<lambda>_.
     sbind (slift (fail_if
       (pi_device_id (cpt_identity trust) \<noteq> peer
        \<or> cpt_confirmed_at_unix_ms trust \<noteq> par_confirmed_at_unix_ms pending
        \<or> (if already_complete then cpt_transport trust \<noteq> candidate
           else cpt_transport trust \<noteq> expected)) InvalidRecord)) (\<lambda>_.
     sget (\<lambda>j. \<lparr>ppr_journal = j_preparation_identity j,
       ppr_expected_revision = st_revision (j_store j), ppr_pending = pending,
       ppr_already_complete = already_complete\<rparr>)))))))))"

text \<open>The retained transition's grant and identity are still the ones the core trusts.\<close>

definition observe_refresh_peer ::
    "env \<Rightarrow> pending_peer_address_refresh \<Rightarrow> (node_config \<times> current_peer_trust) sharing_result" where
  "observe_refresh_peer E pending =
     rbind (engine_config E) (\<lambda>config.
     rbind (observe_trust E config (pi_device_id (par_peer_identity pending))) (\<lambda>observed.
     rbind (ok_or observed UntrustedPeer) (\<lambda>current.
     rbind (fail_if
       (cpt_identity current \<noteq> par_peer_identity pending
        \<or> cpt_confirmed_at_unix_ms current \<noteq> par_confirmed_at_unix_ms pending
        \<or> fmlookup (nc_trusted_peers config) (pi_device_id (par_peer_identity pending))
            \<noteq> Some (par_expected_grant pending)) InvalidState) (\<lambda>_.
     Inr (config, current)))))"

definition begin_peer_address_refresh ::
    "env \<Rightarrow> prepared_peer_address_refresh \<Rightarrow> bool journal_step" where
  "begin_peer_address_refresh E prepared =
     sbind (sget id) (\<lambda>j.
     let sn = j_snapshot j; pending = ppr_pending prepared in
     sbind (slift (fail_if (ppr_journal prepared \<noteq> j_preparation_identity j
       \<or> ppr_expected_revision prepared \<noteq> st_revision (j_store j)) InvalidState)) (\<lambda>_.
     if ppr_already_complete prepared then sret False
     else
       sbind (slift (observe_refresh_peer E pending)) (\<lambda>(_, current).
       sbind (slift (fail_if (cpt_transport current \<noteq> par_expected_transport pending) InvalidState))
         (\<lambda>_.
       case sn_pending_peer_address_refresh sn of
         Some retained \<Rightarrow> if retained = pending then sret True else sfail InvalidState
       | None \<Rightarrow>
           sbind (persist E (sn\<lparr>sn_pending_peer_address_refresh := Some pending\<rparr>)) (\<lambda>_.
           sret True)))))"

definition completed_candidate ::
    "device_id \<Rightarrow> pending_peer_address_refresh \<Rightarrow> snapshot \<Rightarrow> snapshot" where
  "completed_candidate peer pending sn =
     sn\<lparr>sn_shares := map (\<lambda>s. if pi_device_id (sh_peer_identity s) = peer
            then s\<lparr>sh_peer_transport := par_candidate_transport pending\<rparr> else s) (sn_shares sn),
        sn_pending_remote_removals := map (\<lambda>p. if pi_device_id (prm_peer_identity p) = peer
            then p\<lparr>prm_peer_transport := par_candidate_transport pending\<rparr> else p)
            (sn_pending_remote_removals sn),
        sn_current_peer_routes := fmupd peer (par_candidate_engine pending) (sn_current_peer_routes sn),
        sn_completed_peer_address_refreshes := fmupd peer
            \<lparr>car_expected_transport = par_expected_transport pending,
             car_candidate_transport = par_candidate_transport pending,
             car_candidate_engine = par_candidate_engine pending\<rparr>
            (sn_completed_peer_address_refreshes sn),
        sn_pending_peer_address_refresh := None\<rparr>"

definition complete_peer_address_refresh :: "env \<Rightarrow> device_id \<Rightarrow> unit journal_step" where
  "complete_peer_address_refresh E peer =
     sbind jsnapshot (\<lambda>sn.
     sbind (slift (ok_or (sn_pending_peer_address_refresh sn) InvalidState)) (\<lambda>pending.
     sbind (slift (fail_if (pi_device_id (par_peer_identity pending) \<noteq> peer) InvalidState)) (\<lambda>_.
     sbind (slift (observe_refresh_peer E pending)) (\<lambda>(_, current).
     sbind (slift (fail_if (cpt_transport current \<noteq> par_candidate_transport pending) InvalidState))
       (\<lambda>_.
     persist E (completed_candidate peer pending sn))))))"

text \<open>A read-only query: it changes nothing although the method takes \<open>&mut self\<close>.\<close>

definition journal_pending_peer_address_refresh ::
    "env \<Rightarrow> snapshot \<Rightarrow> (device_id \<times> bool) option sharing_result" where
  "journal_pending_peer_address_refresh E sn =
     (case sn_pending_peer_address_refresh sn of None \<Rightarrow> Inr None
      | Some pending \<Rightarrow>
          rbind (observe_refresh_peer E pending) (\<lambda>(_, current).
          if cpt_transport current = par_candidate_transport pending
          then Inr (Some (pi_device_id (par_peer_identity pending), True))
          else if cpt_transport current = par_expected_transport pending
          then Inr (Some (pi_device_id (par_peer_identity pending), False))
          else Inl InvalidState))"

definition recognizes_peer_address_refresh ::
    "env \<Rightarrow> device_id \<Rightarrow> string \<Rightarrow> string \<Rightarrow> bool journal_step" where
  "recognizes_peer_address_refresh E peer expected candidate =
     sbind (jpayload E) (\<lambda>_.
     sget (\<lambda>j.
       let sn = j_snapshot j;
           matches = (\<lambda>e c. tb_address e = expected \<and> tb_address c = candidate)
       in opt_any (\<lambda>p. pi_device_id (par_peer_identity p) = peer
              \<and> matches (par_expected_transport p) (par_candidate_transport p))
            (sn_pending_peer_address_refresh sn)
          \<or> opt_any (\<lambda>c. matches (car_expected_transport c) (car_candidate_transport c))
              (fmlookup (sn_completed_peer_address_refreshes sn) peer)))"

end
