(* ===== verification/Journal_Views.thy ===== *)
theory Journal_Views
  imports Address_Refresh
begin

text \<open>
  What the journal shows and what it releases: the records awaiting delivery, the summaries of
  the user interface, and the desired settings of the transfer engine, which contain a peer or
  a folder only under mutual consent and current trust.
\<close>

section \<open>Eligibility of a share\<close>

definition historical_binding :: "env \<Rightarrow> share \<Rightarrow> sync_engine_binding option" where
  "historical_binding E s =
     (if offer_source_device_id (sh_offer s) = own_id E
      then map_option acc_target_engine (sh_acceptance s)
      else Some (offer_source_engine (sh_offer s)))"

definition pairing_upgrade_required :: "env \<Rightarrow> snapshot \<Rightarrow> share \<Rightarrow> bool" where
  "pairing_upgrade_required E sn s =
     (if offer_link_policy (sh_offer s) = None then True
      else \<not> opt_any (\<lambda>binding. is_ok (require_ssh_public_key E binding))
        (case fmlookup (sn_current_peer_routes sn) (pi_device_id (sh_peer_identity s)) of
           Some binding \<Rightarrow> Some binding | None \<Rightarrow> historical_binding E s))"

definition link_allows_transfer :: "env \<Rightarrow> share \<Rightarrow> bool journal_step" where
  "link_allows_transfer E s =
     sbind jtick (\<lambda>t. sbind jtick (\<lambda>t'.
     sget (\<lambda>j. link_allows_transfer_at E j s (env_now E t) (env_instant E t'))))"

definition share_consented :: "share \<Rightarrow> bool" where
  "share_consented s \<longleftrightarrow> \<not> sh_removed s \<and> \<not> sh_paused s \<and> sh_commit s \<noteq> None"

definition active_engine_peer ::
    "env \<Rightarrow> share \<Rightarrow> (string, device_id) fmap \<Rightarrow> (string, device_id) fmap journal_step" where
  "active_engine_peer E s result =
     (if \<not> share_consented s then sret result
      else
        sbind (link_allows_transfer E s) (\<lambda>allowed.
        sbind jsnapshot (\<lambda>sn.
        if \<not> allowed \<or> pairing_upgrade_required E sn s then sret result
        else
          sbind (slift (ok_or (historical_binding E s) InvalidState)) (\<lambda>binding.
          sbind (slift (map_err (\<lambda>_. InvalidRecord)
            (parse_engine_id (engine_id_str (seb_engine_device_id binding))))) (\<lambda>engine.
          sbind (slift (fail_if (opt_any (\<lambda>previous. previous \<noteq> pi_device_id (sh_peer_identity s))
            (fmlookup result engine)) InvalidRecord)) (\<lambda>_.
          sret (fmupd engine (pi_device_id (sh_peer_identity s)) result)))))))"

definition active_engine_peers :: "env \<Rightarrow> (string, device_id) fmap journal_step" where
  "active_engine_peers E =
     sbind (jpayload E) (\<lambda>_.
     sbind jsnapshot (\<lambda>sn.
     sfold (active_engine_peer E) (sn_shares sn) fmempty))"

definition outgoing_root :: "env \<Rightarrow> snapshot \<Rightarrow> uuid \<Rightarrow> path option" where
  "outgoing_root E sn folder =
     map_option root_path (Option.bind (find (\<lambda>s. \<not> sh_removed s
         \<and> offer_folder_id (sh_offer s) = folder
         \<and> offer_source_device_id (sh_offer s) = own_id E) (sn_shares sn)) sh_root)"

section \<open>Delivery\<close>

definition removal_delivery ::
    "env \<Rightarrow> node_config \<Rightarrow> pending_remote_removal \<Rightarrow> folder_share_delivery sharing_result" where
  "removal_delivery E config p =
     rbind (observe_trust E config (pi_device_id (prm_peer_identity p))) (\<lambda>observed.
     rbind (ok_or observed UntrustedPeer) (\<lambda>trust.
     rbind (fail_if (cpt_identity trust \<noteq> prm_peer_identity p
       \<or> cpt_transport trust \<noteq> prm_peer_transport p
       \<or> cpt_confirmed_at_unix_ms trust \<noteq> prm_peer_confirmed_at_unix_ms p) UntrustedPeer) (\<lambda>_.
     Inr \<lparr>fsd_peer_transport = cpt_transport trust,
          fsd_record = RecordRemoval \<lparr>frn_requester_id = own_id E,
            frn_target_id = pi_device_id (prm_peer_identity p),
            frn_offer_source_id = prm_offer_source_id p, frn_folder_id = prm_folder_id p,
            frn_offer_ids = prm_offer_ids p\<rparr>\<rparr>)))"

definition consent_record :: "env \<Rightarrow> share \<Rightarrow> folder_share_record option" where
  "consent_record E s =
     (let offer_id = offer_offer_id (sh_offer s) in
      if offer_source_device_id (sh_offer s) = own_id E
      then (case sh_commit s of Some commit \<Rightarrow> Some (RecordCommit offer_id commit)
            | None \<Rightarrow> Some (RecordOffer (sh_offer s)))
      else if sh_commit s = None
      then map_option (RecordAcceptance offer_id) (sh_acceptance s)
      else None)"

definition consent_delivery ::
    "env \<Rightarrow> node_config \<Rightarrow> share \<Rightarrow> folder_share_delivery option sharing_result" where
  "consent_delivery E config s =
     (if sh_removed s then Inr None
      else
        rbind (observe_trust E config (pi_device_id (sh_peer_identity s))) (\<lambda>observed.
        rbind (ok_or observed UntrustedPeer) (\<lambda>trust.
        rbind (fail_if (\<not> trust_matches trust s) UntrustedPeer) (\<lambda>_.
        Inr (map_option (\<lambda>r. \<lparr>fsd_peer_transport = cpt_transport trust, fsd_record = r\<rparr>)
          (consent_record E s))))))"

definition outbound_records :: "env \<Rightarrow> folder_share_delivery list journal_step" where
  "outbound_records E =
     sbind jsnapshot (\<lambda>earlier.
     sbind (slift (fail_if (sn_pending_peer_address_refresh earlier \<noteq> None) PersistenceUncertain)) (\<lambda>_.
     sbind (reconcile_trust E) (\<lambda>_.
     sbind jsnapshot (\<lambda>sn.
     sbind (slift (engine_config E)) (\<lambda>config.
     sbind (slift (rmap (removal_delivery E config) (sn_pending_remote_removals sn))) (\<lambda>removals.
     sbind (slift (rmap (consent_delivery E config) (sn_shares sn))) (\<lambda>records.
     sret (removals @ option_list records @ link_deliveries sn (own_id E)
       @ run_deliveries sn (own_id E)))))))))"

section \<open>Desired settings of the engine\<close>

record folder_plan =
  fp_label :: string
  fp_root :: path
  fp_members :: "string list"
  fp_role :: engine_folder_role

definition desired_role :: "env \<Rightarrow> snapshot \<Rightarrow> share \<Rightarrow> engine_folder_role" where
  "desired_role E sn s =
     (case (case fmlookup (sn_link_settings sn) (offer_folder_id (sh_offer s)) of
              Some st \<Rightarrow> Some (fls_deletion_policy (lss_settings st))
            | None \<Rightarrow> offer_link_policy (sh_offer s)) of
        None \<Rightarrow> LegacyTwoWay
      | Some policy \<Rightarrow>
          if offer_source_device_id (sh_offer s) = own_id E then Source
          else Destination (propagate_source_deletions policy) (restore_local_deletions policy))"

definition desired_peer ::
    "env \<Rightarrow> node_config \<Rightarrow> snapshot \<Rightarrow> uuid \<Rightarrow> share \<Rightarrow> engine_peer_config sharing_result" where
  "desired_peer E config sn fresh s =
     (let peer_id = pi_device_id (sh_peer_identity s) in
      rbind (ok_or (historical_binding E s) InvalidState) (\<lambda>historical.
      let binding = (case fmlookup (sn_current_peer_routes sn) peer_id of
            Some current \<Rightarrow> current | None \<Rightarrow> historical) in
      rbind (map_err (\<lambda>_. InvalidRecord)
        (parse_engine_id (engine_id_str (seb_engine_device_id binding)))) (\<lambda>engine.
      rbind (map_err (\<lambda>_. InvalidRecord) (binding_validate E binding)) (\<lambda>address.
      rbind (ok_or (fmlookup (nc_trusted_peers config) peer_id) UntrustedPeer) (\<lambda>grant.
      rbind (map_err (\<lambda>_. InvalidRecord) (require_ssh_public_key E binding)) (\<lambda>key.
      map_err (\<lambda>_. InvalidRecord)
        (rbind (peer_config_new engine (pg_display_name grant) address) (\<lambda>peer.
         peer_with_ssh_public_key E fresh peer key))))))))"

definition plan_folder ::
    "env \<Rightarrow> snapshot \<Rightarrow> share \<Rightarrow> local_root \<Rightarrow> string \<Rightarrow> (uuid, folder_plan) fmap
      \<Rightarrow> (uuid, folder_plan) fmap sharing_result" where
  "plan_folder E sn s root engine folders =
     (let folder = offer_folder_id (sh_offer s); label = offer_label (sh_offer s);
          role = desired_role E sn s;
          plan = (case fmlookup folders folder of Some plan \<Rightarrow> plan
            | None \<Rightarrow> \<lparr>fp_label = label, fp_root = root_path root,
                fp_members = [installation_id E], fp_role = role\<rparr>)
      in
      rbind (fail_if (fp_label plan \<noteq> label \<or> \<not> path_eq (fp_root plan) (root_path root)
        \<or> fp_role plan \<noteq> role) InvalidState) (\<lambda>_.
      Inr (fmupd folder (plan\<lparr>fp_members := List.insert engine (fp_members plan)\<rparr>) folders)))"

type_synonym desired_acc =
  "(device_id, engine_peer_config) fmap \<times> (uuid, folder_plan) fmap"

definition desired_share ::
    "env \<Rightarrow> node_config \<Rightarrow> snapshot \<Rightarrow> uuid \<Rightarrow> share \<Rightarrow> desired_acc \<Rightarrow> desired_acc sharing_result" where
  "desired_share E config sn fresh s = (\<lambda>(peers, folders).
     let peer_id = pi_device_id (sh_peer_identity s) in
     rbind (observe_trust E config peer_id) (\<lambda>observed.
     rbind (ok_or observed UntrustedPeer) (\<lambda>trust.
     rbind (fail_if (\<not> trust_matches trust s) UntrustedPeer) (\<lambda>_.
     rbind (ok_or (sh_root s) InvalidState) (\<lambda>root.
     rbind (validate_current_root E root) (\<lambda>_.
     rbind (desired_peer E config sn fresh s) (\<lambda>peer.
     rbind (fail_if (opt_any (\<lambda>old. epc_id old \<noteq> epc_id peer \<or> epc_address old \<noteq> epc_address peer)
       (fmlookup peers peer_id)) InvalidRecord) (\<lambda>_.
     rbind (plan_folder E sn s root (epc_id peer) folders) (\<lambda>folders'.
     Inr (fmupd peer_id peer peers, folders'))))))))))"

definition transfer_eligible :: "env \<Rightarrow> journal \<Rightarrow> u64 \<Rightarrow> int \<Rightarrow> share \<Rightarrow> bool" where
  "transfer_eligible E j now observed_at s \<longleftrightarrow>
     share_consented s \<and> link_allows_transfer_at E j s now observed_at
     \<and> \<not> pairing_upgrade_required E (j_snapshot j) s"

definition desired_round ::
    "env \<Rightarrow> node_config \<Rightarrow> share \<Rightarrow> desired_acc \<Rightarrow> desired_acc journal_step" where
  "desired_round E config s acc =
     sbind jtick (\<lambda>t. sbind jsnapshot (\<lambda>sn. slift (desired_share E config sn (env_uuid E t) s acc)))"

definition plan_config ::
    "env \<Rightarrow> uuid \<times> folder_plan \<Rightarrow> engine_folder_config sharing_result" where
  "plan_config E = (\<lambda>(folder, plan).
     map_err (\<lambda>_. FolderUnavailable)
       (rbind (folder_config_new E folder (fp_label plan) (fp_root plan) (fp_members plan))
          (\<lambda>config. Inr (folder_with_role config (fp_role plan)))))"

definition desired_settings_at :: "env \<Rightarrow> u64 \<Rightarrow> int \<Rightarrow> engine_session_settings journal_step" where
  "desired_settings_at E now observed_at =
     sbind jsnapshot (\<lambda>earlier.
     sbind (slift (fail_if (sn_pending_peer_address_refresh earlier \<noteq> None) PersistenceUncertain)) (\<lambda>_.
     sbind (reconcile_trust E) (\<lambda>_.
     sbind (jpayload E) (\<lambda>_.
     sbind (slift (engine_config E)) (\<lambda>config.
     sbind (sget id) (\<lambda>j.
     sbind (sfold (desired_round E config)
       (filter (transfer_eligible E j now observed_at) (sn_shares (j_snapshot j)))
       (fmempty, fmempty)) (\<lambda>(peers, folders).
     sbind (slift (rmap (plan_config E) (sorted_list_of_fmap folders))) (\<lambda>configs.
     sret \<lparr>ess_device_name = nc_device_name config,
           ess_listener = (if configs = [] then None else Some (sn_listener (j_snapshot j))),
           ess_peers = map snd (sorted_list_of_fmap peers), ess_folders = configs\<rparr>))))))))"

definition desired_settings :: "env \<Rightarrow> engine_session_settings journal_step" where
  "desired_settings E =
     sbind jtick (\<lambda>t. sbind jtick (\<lambda>t'.
     desired_settings_at E (env_now E t) (env_instant E t')))"

definition desired_settings_and_runs ::
    "env \<Rightarrow> u64 \<Rightarrow> int \<Rightarrow> (engine_session_settings \<times> (uuid, u64) fmap) journal_step" where
  "desired_settings_and_runs E now observed_at =
     sbind (desired_settings_at E now observed_at) (\<lambda>desired.
     sbind (active_batch_generations E now observed_at) (\<lambda>runs.
     sret (desired, runs)))"

section \<open>Summaries\<close>

record link_run_destination_summary =
  lrds_peer_id :: device_id
  lrds_result :: link_run_destination_result
  lrds_ended_at_unix_ms :: "u64 option"

record link_run_request_summary =
  lrqs_request_id :: uuid
  lrqs_requester_id :: device_id

record link_run_summary =
  lsum_generation :: u64
  lsum_state_revision :: u64
  lsum_settings_revision :: u64
  lsum_phase :: "link_run_phase option"
  lsum_started_at_unix_ms :: "u64 option"
  lsum_deadline_unix_ms :: "u64 option"
  lsum_ended_at_unix_ms :: "u64 option"
  lsum_next_due_at_unix_ms :: "u64 option"
  lsum_pending_request :: "link_run_request_summary option"
  lsum_rejected_request :: "link_run_rejection option"
  lsum_destinations :: "link_run_destination_summary list"

definition destination_summary ::
    "device_id \<times> link_run_destination_state \<Rightarrow> link_run_destination_summary" where
  "destination_summary = (\<lambda>(peer, d). \<lparr>lrds_peer_id = peer, lrds_result = lrd_result d,
     lrds_ended_at_unix_ms = lrd_ended_at_unix_ms d\<rparr>)"

definition summary_from ::
    "link_run_link_state \<Rightarrow> u64 \<Rightarrow> u64 option \<Rightarrow> link_run_summary" where
  "summary_from slot settings_revision next_due =
     (let st = slot_authoritative slot in
      \<lparr>lsum_generation = (case st of None \<Rightarrow> 0 | Some r \<Rightarrow> lrs_generation r),
       lsum_state_revision = (case st of None \<Rightarrow> 0 | Some r \<Rightarrow> lrs_state_revision r),
       lsum_settings_revision =
         (case st of None \<Rightarrow> settings_revision | Some r \<Rightarrow> lrs_settings_revision r),
       lsum_phase = map_option lrs_phase st,
       lsum_started_at_unix_ms = map_option lrs_started_at_unix_ms st,
       lsum_deadline_unix_ms = map_option lrs_deadline_unix_ms st,
       lsum_ended_at_unix_ms = Option.bind st lrs_ended_at_unix_ms,
       lsum_next_due_at_unix_ms = next_due,
       lsum_pending_request = map_option (\<lambda>r. \<lparr>lrqs_request_id = lrq_request_id r,
         lrqs_requester_id = lrq_requester_id r\<rparr>) (slot_pending_request slot),
       lsum_rejected_request = slot_rejected_request slot,
       lsum_destinations = (case st of None \<Rightarrow> []
         | Some r \<Rightarrow> map destination_summary (sorted_list_of_fmap (lrs_destinations r)))\<rparr>)"

definition next_due_at :: "snapshot \<Rightarrow> uuid \<Rightarrow> device_id \<Rightarrow> link_settings_state \<Rightarrow> u64 option" where
  "next_due_at sn folder owner settings =
     (let run = slot_authoritative (slot_of sn folder) in
      if link_source_in_snapshot (sn_shares sn) folder \<noteq> Some owner then None
      else case fls_cadence (lss_settings settings) of
        Scheduled minutes \<Rightarrow>
          if opt_any (\<lambda>st. phase_active (lrs_phase st)) run then None
          else checked_add (case Option.bind run lrs_ended_at_unix_ms of
                 Some ended \<Rightarrow> ended | None \<Rightarrow> lss_accepted_at_unix_ms settings)
               (ucast minutes * 60000)
      | _ \<Rightarrow> None)"

definition run_summary :: "snapshot \<Rightarrow> uuid \<Rightarrow> device_id \<Rightarrow> link_run_summary option" where
  "run_summary sn folder owner =
     map_option (\<lambda>settings. summary_from (slot_of sn folder) (lss_revision settings)
       (next_due_at sn folder owner settings)) (fmlookup (sn_link_settings sn) folder)"

datatype sharing_phase = Offered | AwaitingCommit | Ready | PhasePaused | PhaseRemoved

record share_summary =
  sum_offer_id :: uuid
  sum_superseded_offer_ids :: "uuid list"
  sum_folder_id :: uuid
  sum_label :: string
  sum_endpoint_roster :: "endpoint_roster option"
  sum_peer_id :: device_id
  sum_incoming :: bool
  sum_pairing_upgrade_required :: bool
  sum_link_policy :: "folder_link_policy option"
  sum_link_settings :: "link_settings_state option"
  sum_link_run :: "link_run_summary option"
  sum_waiting_for_conditions :: bool
  sum_phase :: sharing_phase
  sum_expires_at_unix_ms :: "u64 option"
  sum_remote_removal_pending :: bool

definition share_phase :: "snapshot \<Rightarrow> share \<Rightarrow> sharing_phase" where
  "share_phase sn s =
     (let st = fmlookup (sn_link_settings sn) (offer_folder_id (sh_offer s)) in
      if sh_removed s then PhaseRemoved
      else if sh_paused s \<or> opt_any (\<lambda>st. fls_paused (lss_settings st)) st then PhasePaused
      else if sh_commit s \<noteq> None \<and> offer_link_policy (sh_offer s) \<noteq> None
           \<and> \<not> opt_any lss_confirmed st then AwaitingCommit
      else if sh_commit s \<noteq> None then Ready
      else if sh_acceptance s \<noteq> None then AwaitingCommit
      else Offered)"

definition share_summary_of :: "env \<Rightarrow> journal \<Rightarrow> int \<Rightarrow> share \<Rightarrow> share_summary" where
  "share_summary_of E j observed_at s =
     (let sn = j_snapshot j; folder = offer_folder_id (sh_offer s);
          st = fmlookup (sn_link_settings sn) folder
      in
      \<lparr>sum_offer_id = offer_offer_id (sh_offer s),
       sum_superseded_offer_ids = superseded_ids s,
       sum_folder_id = folder, sum_label = offer_label (sh_offer s),
       sum_endpoint_roster = (if sh_removed s then None
         else fmlookup (sn_endpoint_rosters sn) folder),
       sum_peer_id = pi_device_id (sh_peer_identity s),
       sum_incoming = (offer_target_device_id (sh_offer s) = own_id E),
       sum_pairing_upgrade_required = pairing_upgrade_required E sn s,
       sum_link_policy = (case st of Some st' \<Rightarrow> Some (fls_deletion_policy (lss_settings st'))
         | None \<Rightarrow> offer_link_policy (sh_offer s)),
       sum_link_settings = st,
       sum_link_run = run_summary sn folder (own_id E),
       sum_waiting_for_conditions = (share_consented s
         \<and> opt_any (\<lambda>st'. lss_confirmed st' \<and> \<not> fls_paused (lss_settings st')
             \<and> \<not> conditions_allow j (fls_android_conditions (lss_settings st')) observed_at) st),
       sum_phase = share_phase sn s,
       sum_expires_at_unix_ms = (if \<not> sh_removed s \<and> sh_acceptance s = None
         then Some (offer_expires_at_unix_ms (sh_offer s)) else None),
       sum_remote_removal_pending = False\<rparr>)"

definition tombstone_summary :: "snapshot \<Rightarrow> tombstone \<Rightarrow> share_summary" where
  "tombstone_summary sn t =
     \<lparr>sum_offer_id = tomb_offer_id t,
      sum_superseded_offer_ids = tomb_superseded_offer_ids t,
      sum_folder_id = tomb_folder_id t, sum_label = tomb_label t,
      sum_endpoint_roster = None, sum_peer_id = tomb_peer_id t,
      sum_incoming = tomb_incoming t, sum_pairing_upgrade_required = False,
      sum_link_policy = None, sum_link_settings = None, sum_link_run = None,
      sum_waiting_for_conditions = False, sum_phase = PhaseRemoved,
      sum_expires_at_unix_ms = None,
      sum_remote_removal_pending = list_ex (\<lambda>p.
          pi_device_id (prm_peer_identity p) = tomb_peer_id t
          \<and> prm_folder_id p = tomb_folder_id t
          \<and> prm_offer_ids p \<noteq> [] \<and> last (prm_offer_ids p) = tomb_offer_id t)
        (sn_pending_remote_removals sn)\<rparr>"

definition summaries :: "env \<Rightarrow> share_summary list journal_step" where
  "summaries E =
     sbind (jpayload E) (\<lambda>_.
     sbind jtick (\<lambda>t.
     sget (\<lambda>j.
       let sn = j_snapshot j;
           superseded = concat (map tomb_superseded_offer_ids (sn_tombstones sn))
       in map (share_summary_of E j (env_instant E t)) (sn_shares sn)
          @ map (tombstone_summary sn)
              (filter (\<lambda>t'. tomb_offer_id t' \<notin> set superseded) (sn_tombstones sn)))))"

definition reconciled_summaries :: "env \<Rightarrow> share_summary list journal_step" where
  "reconciled_summaries E = sbind (reconcile_trust E) (\<lambda>_. summaries E)"

end
