(* ===== verification/Journal_Moves.thy ===== *)
theory Journal_Moves
  imports Journal_Views
begin

text \<open>
  The journal as a state machine. Every snapshot a method makes durable comes from one of the
  candidates below, brought in order by \<open>finalize_candidate\<close> and accepted by
  \<open>validate_snapshot\<close>. One lemma per method shows that it moves only along this relation, also
  when it fails half-way; properties of the journal are then proved by cases on the candidate.
\<close>

section \<open>What a successful persist leaves\<close>

lemma jreplace_snapshot: "swp (jreplace E payload) (\<lambda>_ j'. j_snapshot j' = j_snapshot j) j"
  by (simp add: jreplace_def swp_def sbind_def jtick_def split: prod.splits)

lemma frames_jtick: "frames j_snapshot jtick"
  by (simp add: keeps_def keeps_at_def swp_def jtick_def)

lemma frames_jpayload: "frames j_snapshot (jpayload E)"
  by (simp add: keeps_def keeps_at_def swp_def jpayload_def sbind_def jtick_def sget_def slift_def
      split: sum.splits)

lemma frames_jcapture: "frames j_snapshot (jcapture E p)"
  by (simp add: keeps_def keeps_at_def swp_def jcapture_def sbind_def jtick_def slift_def)

lemma frames_jissue: "frames j_snapshot (jissue E peer folder label binding pairing now policy)"
  by (simp add: keeps_def keeps_at_def swp_def jissue_def sbind_def jtick_def slift_def)

text \<open>A snapshot that \<open>persist\<close> installs.\<close>

definition finalized :: "env \<Rightarrow> snapshot \<Rightarrow> snapshot \<Rightarrow> bool" where
  "finalized E c sn' \<longleftrightarrow>
     (\<exists>now. finalize_candidate E now c = Inr sn') \<and> validate_snapshot E sn' = Inr ()"

lemma persist_spec:
  "swp (persist E c) (\<lambda>r j'. case r of Inl _ \<Rightarrow> j_snapshot j' = j_snapshot j
     | Inr _ \<Rightarrow> finalized E c (j_snapshot j')) j"
  unfolding persist_def
  apply (rule swp_bind_step[where P = "\<lambda>_ j'. j_snapshot j' = j_snapshot j"])
    apply (simp add: swp_def jtick_def)
   apply simp
  apply (intro swp_intros)
       apply (auto)[3]
  apply (rule swp_bind_step[OF jreplace_snapshot])
   apply (auto simp: finalized_def)
  done

section \<open>The candidates\<close>

text \<open>One admission after the other, as the scheduler makes them.\<close>

inductive admits :: "snapshot \<Rightarrow> snapshot \<Rightarrow> bool" where
  admits_refl: "admits sn sn"
| admits_step: "admits sn c \<Longrightarrow> admit_source_request c request now automatic = Inr (c', admission, changed)
    \<Longrightarrow> admits sn c'"

text \<open>The transitions the source makes on one run.\<close>

inductive run_step :: "link_run_state \<Rightarrow> link_run_state \<Rightarrow> bool" where
  run_started: "started_run st generation index now = Inr st' \<Longrightarrow> run_step st st'"
| run_interrupted: "interrupted_run st generation now = Inr st' \<Longrightarrow> run_step st st'"
| run_reported: "reported_run st report now = Inr (Some st')
    \<Longrightarrow> result_reportable (lrr_result report) \<Longrightarrow> lrr_ended_at_unix_ms report \<le> now
    \<Longrightarrow> run_step st st'"

inductive candidate :: "env \<Rightarrow> snapshot \<Rightarrow> snapshot \<Rightarrow> bool" for E where
  cand_route: "candidate E sn (sn\<lparr>sn_listener := listener, sn_binding := binding\<rparr>)"
| cand_trust: "env_config E = Some config \<Longrightarrow> trust_candidate E config sn = Inr (c, True)
    \<Longrightarrow> candidate E sn c"
| cand_floor: "candidate E sn (advance_freshness_floor_candidate sn now)"
| cand_settings_commit: "link_source sn (lsq_folder_id request) = Inr (own_id E)
    \<Longrightarrow> settings_is_valid (lsq_settings request)
    \<Longrightarrow> commit_link_candidate sn request now = Inr c \<Longrightarrow> candidate E sn c"
| cand_settings_pending: "fmlookup (sn_link_settings sn) folder = Some st
    \<Longrightarrow> link_source sn folder = Inr source \<Longrightarrow> source \<noteq> own_id E
    \<Longrightarrow> candidate E sn (set_link_state folder
          (st\<lparr>lss_pending_change := Some request, lss_conflicted_change := None\<rparr>) sn)"
| cand_settings_adopt: "fmlookup (sn_link_settings sn) (lsc_folder_id commit) = Some st
    \<Longrightarrow> link_source sn (lsc_folder_id commit) = Inr (lsc_source_id commit)
    \<Longrightarrow> lsc_source_id commit \<noteq> own_id E
    \<Longrightarrow> adopt_settings_commit st commit = Inr (Some st')
    \<Longrightarrow> cancel_for_settings_change (set_link_state (lsc_folder_id commit) st' sn)
          (lsc_folder_id commit) (lsc_accepted_at_unix_ms commit) = Inr c
    \<Longrightarrow> candidate E sn c"
| cand_roster: "\<not> opt_any (\<lambda>old. er_revision r \<le> er_revision old) (fmlookup (sn_endpoint_rosters sn) folder)
    \<Longrightarrow> candidate E sn (set_roster folder r sn)"
| cand_rosters_derived: "rfold (roster_round E config names sn shares)
      (sort (remdups (map (\<lambda>s. offer_folder_id (sh_offer s)) shares))) (sn, False, [])
      = Inr (c, True, deliveries)
    \<Longrightarrow> candidate E sn c"
| cand_runs_admitted: "admits sn c \<Longrightarrow> candidate E sn c"
| cand_slot: "slot_authoritative slot = slot_authoritative (slot_of sn folder)
    \<Longrightarrow> candidate E sn (set_slot folder slot sn)"
| cand_run: "authoritative_run sn folder = Some st \<Longrightarrow> run_step st st'
    \<Longrightarrow> candidate E sn (set_run folder st' sn)"
| cand_expire: "sweep_runs sn (own_id E) (overdue now) expire_run = Inr (c, True) \<Longrightarrow> candidate E sn c"
| cand_interrupt: "sweep_runs sn (own_id E) (\<lambda>_. True) (interrupt_run now) = Inr (c, True)
    \<Longrightarrow> candidate E sn c"
| cand_membership: "reconcile_membership sn (own_id E) now = Inr (c, True) \<Longrightarrow> candidate E sn c"
| cand_run_commit: "incoming_run_is_new (authoritative_run sn (lrc_folder_id commit)) (lrc_state commit)
      = Inr True
    \<Longrightarrow> validate_commit_for_local sn (own_id E) commit = Inr ()
    \<Longrightarrow> candidate E sn (set_slot (lrc_folder_id commit)
          (adopt_run_commit (own_id E) commit (slot_of sn (lrc_folder_id commit))) sn)"
| cand_offer: "trusted_peer E peer_id = Inr peer \<Longrightarrow> sn_freshness_floor_unix_ms sn \<le> now
    \<Longrightarrow> candidate E sn (offer_candidate E now folder initial (new_share peer offer (Some root)) sn)"
| cand_received: "trusted_peer E (offer_source_device_id offer) = Inr peer
    \<Longrightarrow> verify_folder_share_offer E offer (cpt_identity peer) (own_id E) = Inr ()
    \<Longrightarrow> sn_freshness_floor_unix_ms sn \<le> offer_issued_at_unix_ms offer
    \<Longrightarrow> candidate E sn (insert_route (pi_device_id (cpt_identity peer)) (offer_source_engine offer)
          (push_share (new_share peer offer None) sn))"
| cand_replaced: "trusted_peer E (offer_source_device_id offer) = Inr peer
    \<Longrightarrow> verify_folder_share_offer E offer (cpt_identity peer) (own_id E) = Inr ()
    \<Longrightarrow> sn_freshness_floor_unix_ms sn \<le> offer_issued_at_unix_ms offer
    \<Longrightarrow> index < length (sn_shares sn)
    \<Longrightarrow> may_replace_invitation E peer offer now (sn_shares sn ! index)
    \<Longrightarrow> candidate E sn (insert_route (pi_device_id (cpt_identity peer)) (offer_source_engine offer)
          (set_share index (replaced_invitation offer (sn_shares sn ! index)) sn))"
| cand_renewed: "index < length (sn_shares sn) \<Longrightarrow> sh_acceptance (sn_shares sn ! index) = None
    \<Longrightarrow> candidate E sn (set_share index (renewed_share offer (sn_shares sn ! index))
          (advance_freshness_floor_candidate sn now))"
| cand_accepted: "index < length (sn_shares sn) \<Longrightarrow> s = sn_shares sn ! index
    \<Longrightarrow> sh_acceptance s = None \<Longrightarrow> accept_folder_share E (sh_offer s) (sn_binding sn) now = Inr a
    \<Longrightarrow> candidate E sn (set_share index (s\<lparr>sh_root := Some root, sh_acceptance := Some a\<rparr>) sn)"
| cand_committed: "index < length (sn_shares sn) \<Longrightarrow> s = sn_shares sn ! index
    \<Longrightarrow> sh_acceptance s = None \<Longrightarrow> commit_folder_share_offer E (sh_offer s) a now = Inr commit
    \<Longrightarrow> candidate E sn (set_share index (s\<lparr>sh_acceptance := Some a, sh_commit := Some commit\<rparr>)
          (insert_route (pi_device_id (sh_peer_identity s)) (acc_target_engine a) sn))"
| cand_commit_received: "index < length (sn_shares sn) \<Longrightarrow> s = sn_shares sn ! index
    \<Longrightarrow> sh_commit s = None
    \<Longrightarrow> candidate E sn (set_share index (s\<lparr>sh_commit := Some commit\<rparr>) sn)"
| cand_paused: "index < length (sn_shares sn) \<Longrightarrow> s = sn_shares sn ! index
    \<Longrightarrow> candidate E sn (set_share index (s\<lparr>sh_paused := paused\<rparr>) sn)"
| cand_removed: "index < length (sn_shares sn)
    \<Longrightarrow> candidate E sn (remove_share_at index (sn\<lparr>sn_pending_remote_removals :=
          sn_pending_remote_removals sn @ [removal_of (sn_shares sn ! index)]\<rparr>))"
| cand_removal_received: "\<forall>index. shared = Some index \<longrightarrow> index < length (sn_shares sn)
    \<Longrightarrow> \<forall>i. matching = Some i \<longrightarrow> i < length (sn_remote_removal_tombstones sn)
          \<and> length (rrt_offer_ids (sn_remote_removal_tombstones sn ! i)) \<le> length ids
    \<Longrightarrow> candidate E sn (removal_candidate notice matching shared ids sn)"
| cand_acknowledged: "candidate E sn (sn\<lparr>sn_pending_remote_removals :=
      drop_nth index (sn_pending_remote_removals sn)\<rparr>)"
| cand_peer_removed: "candidate E sn (remove_peer_candidate peer sn)"
| cand_root_moved: "index < length (sn_shares sn) \<Longrightarrow> s = sn_shares sn ! index
    \<Longrightarrow> candidate E sn ((set_share index (s\<lparr>sh_root := Some root\<rparr>) sn)
          \<lparr>sn_pending_root_reset := Some reset\<rparr>)"
| cand_reset_done: "candidate E sn (sn\<lparr>sn_pending_root_reset := None\<rparr>)"
| cand_refresh_begun: "candidate E sn (sn\<lparr>sn_pending_peer_address_refresh := Some pending\<rparr>)"
| cand_refresh_done: "sn_pending_peer_address_refresh sn = Some pending
    \<Longrightarrow> candidate E sn (completed_candidate peer pending sn)"

definition move :: "env \<Rightarrow> snapshot \<Rightarrow> snapshot \<Rightarrow> bool" where
  "move E sn sn' \<longleftrightarrow> (\<exists>c. candidate E sn c \<and> finalized E c sn')"

abbreviation moves :: "env \<Rightarrow> snapshot \<Rightarrow> snapshot \<Rightarrow> bool" where
  "moves E \<equiv> (move E)\<^sup>*\<^sup>*"

abbreviation moving_at :: "env \<Rightarrow> snapshot \<Rightarrow> 'a journal_step \<Rightarrow> bool" where
  "moving_at E \<equiv> keeps_at j_snapshot (moves E)"

abbreviation moving :: "env \<Rightarrow> 'a journal_step \<Rightarrow> bool" where
  "moving E \<equiv> keeps j_snapshot (moves E)"

interpretation journal_track: tracked j_snapshot "moves E" for E
  by unfold_locales auto

lemma moving_persist: "candidate E sn c \<Longrightarrow> moving_at E sn (persist E c)"
  unfolding keeps_at_def
proof (intro allI impI)
  fix j :: journal assume c: "candidate E sn c" and sn: "j_snapshot j = sn"
  show "swp (persist E c) (\<lambda>_ j'. moves E sn (j_snapshot j')) j"
  proof (rule swp_mono[OF persist_spec])
    fix r j' assume "case r of Inl _ \<Rightarrow> j_snapshot j' = j_snapshot j
      | Inr _ \<Rightarrow> finalized E c (j_snapshot j')"
    then consider "j_snapshot j' = sn" | "move E sn (j_snapshot j')"
      using c sn unfolding move_def by (cases r) auto
    then show "moves E sn (j_snapshot j')" by cases auto
  qed
qed

lemma moving_bind_snapshot: "moving_at E sn (f sn) \<Longrightarrow> moving_at E sn (sbind jsnapshot f)"
  unfolding jsnapshot_def by (rule journal_track.keeps_bind_sget) simp

lemma moving_persist_ret:
  "candidate E sn c \<Longrightarrow> moving_at E sn (sbind (persist E c) (\<lambda>_. sret x))"
  by (intro journal_track.keeps_bind moving_persist keepsI journal_track.keeps_sret)

lemma moving_if_persist_ret:
  "(b \<Longrightarrow> candidate E sn c) \<Longrightarrow>
   moving_at E sn (sbind (if b then persist E c else sret ()) (\<lambda>_. sret x))"
  by (intro journal_track.keeps_bind journal_track.keeps_if moving_persist keepsI
      journal_track.keeps_sret)

lemma moving_bind:
  "moving E m \<Longrightarrow> (\<And>x sn. moving_at E sn (f x)) \<Longrightarrow> moving_at E sn (sbind m f)"
  by (intro journal_track.keeps_bind keepsI) (auto intro: keepsD)

lemmas moving_rules = moving_persist_ret moving_if_persist_ret moving_bind_snapshot
  journal_track.keeps_rules journal_track.keeps_sget journal_track.keeps_bind_frame[OF frames_jtick]
  journal_track.keeps_bind_frame[OF frames_jpayload]
  journal_track.keeps_bind_frame[OF frames_jcapture]
  journal_track.keeps_bind_frame[OF frames_jissue]


section \<open>Trust, settings and rosters\<close>

lemma moving_reconcile_trust: "moving E (reconcile_trust E)"
  unfolding reconcile_trust_def
  by (intro keepsI moving_rules moving_persist)
     (auto intro: cand_trust simp: engine_config_def ok_or_def split: option.splits)

lemmas moving_after_trust = moving_bind[OF moving_reconcile_trust]

lemma moving_advance_freshness_floor: "moving E (advance_freshness_floor E now)"
  unfolding advance_freshness_floor_def
  by (intro keepsI moving_rules moving_persist cand_floor)

lemma moving_commit_link_request:
  assumes "link_source sn (lsq_folder_id request) = Inr (own_id E)"
    and "settings_is_valid (lsq_settings request)"
  shows "moving_at E sn (commit_link_request E request now)"
  unfolding commit_link_request_def
  by (intro moving_rules moving_persist cand_settings_commit[OF assms])

lemma moving_request_link_settings_at:
  "moving E (request_link_settings_at E folder change revision settings now)"
  unfolding request_link_settings_at_def
  apply (intro keepsI moving_after_trust moving_rules moving_commit_link_request moving_persist)
     apply (auto intro: cand_settings_pending)
  done

lemma moving_request_link_settings:
  "moving E (request_link_settings E folder change revision settings)"
  unfolding request_link_settings_def
  by (intro keepsI moving_rules keepsD[OF moving_request_link_settings_at])

lemma moving_receive_link_settings_request_at:
  "moving E (receive_link_settings_request_at E request now)"
  unfolding receive_link_settings_request_at_def
  apply (intro keepsI moving_after_trust moving_rules journal_track.keeps_bind)
   apply (auto intro!: moving_commit_link_request keepsI moving_rules)
  done

lemma moving_receive_link_settings_request: "moving E (receive_link_settings_request E request)"
  unfolding receive_link_settings_request_def
  by (intro keepsI moving_rules keepsD[OF moving_receive_link_settings_request_at])

lemma moving_receive_link_settings_commit: "moving E (receive_link_settings_commit E commit)"
  unfolding receive_link_settings_commit_def
  by (intro keepsI moving_after_trust moving_rules moving_persist)
     (auto intro: cand_settings_adopt)

lemma moving_receive_endpoint_roster: "moving E (receive_endpoint_roster E commit)"
  unfolding receive_endpoint_roster_def
  by (intro keepsI moving_rules moving_persist) (auto intro: cand_roster)

lemma moving_endpoint_roster_records: "moving E (endpoint_roster_records E names)"
  unfolding endpoint_roster_records_def
  by (intro keepsI moving_rules) (auto intro: cand_rosters_derived)

section \<open>Runs\<close>

lemma admits_one:
  "admit_source_request sn request now automatic = Inr (c, admission, changed) \<Longrightarrow> admits sn c"
  by (rule admits_step[OF admits_refl])

lemma moving_request_link_run:
  "moving E (request_link_run E folder request_id expected settings_revision now)"
  unfolding request_link_run_def
  by (intro keepsI moving_after_trust moving_rules)
     (auto intro!: cand_runs_admitted cand_slot intro: admits_one)

lemma moving_receive_link_run_request: "moving E (receive_link_run_request E request now)"
  unfolding receive_link_run_request_def
  by (intro keepsI moving_after_trust moving_rules)
     (auto intro!: cand_runs_admitted intro: admits_one)

lemma moving_start_link_run: "moving E (start_link_run E folder generation index now)"
  unfolding start_link_run_def
  by (intro keepsI moving_rules) (auto intro!: cand_run intro: run_started)

lemma moving_interrupt_link_run: "moving E (interrupt_link_run E folder generation now)"
  unfolding interrupt_link_run_def
  by (intro keepsI moving_rules moving_persist) (auto intro!: cand_run intro: run_interrupted)

lemma moving_receive_link_run_report: "moving E (receive_link_run_report E report now)"
  unfolding receive_link_run_report_def
  by (intro keepsI moving_after_trust moving_rules) (auto intro!: cand_run intro: run_reported)

lemma moving_expire_link_runs: "moving E (expire_link_runs E now)"
  unfolding expire_link_runs_def by (intro keepsI moving_rules) (auto intro: cand_expire)

lemma moving_interrupt_unfinished_link_runs: "moving E (interrupt_unfinished_link_runs E now)"
  unfolding interrupt_unfinished_link_runs_def
  by (intro keepsI moving_rules) (auto intro: cand_interrupt)

lemma moving_reconcile_link_run_membership: "moving E (reconcile_link_run_membership E folder now)"
  unfolding reconcile_link_run_membership_def
  by (intro keepsI moving_rules) (auto intro: cand_membership)

lemma admit_due_rounds:
  assumes "j_snapshot j = sn"
  shows "swp (sfold (admit_due_round E now) folders (sn, []))
    (\<lambda>r j'. j_snapshot j' = sn \<and> (\<forall>x. r = Inr x \<longrightarrow> admits sn (fst x))) j"
proof (rule swp_sfold[where I = "\<lambda>b j'. j_snapshot j' = sn \<and> admits sn (fst b)"])
  fix folder and b :: "snapshot \<times> link_run_state list" and j' :: journal
  assume b: "j_snapshot j' = sn \<and> admits sn (fst b)"
  obtain c admitted where [simp]: "b = (c, admitted)" by (cases b)
  show "swp (admit_due_round E now folder b) (\<lambda>r t. case r of
      Inl e \<Rightarrow> j_snapshot t = sn \<and> (\<forall>x. Inl e = Inr x \<longrightarrow> admits sn (fst x))
    | Inr b' \<Rightarrow> j_snapshot t = sn \<and> admits sn (fst b')) j'"
    using b
    by (auto simp: admit_due_round_def swp_sbind swp_def jtick_def sbind_def slift_def sret_def
        split: sum.splits prod.splits intro: admits_step)
qed (use assms in \<open>auto intro: admits_refl\<close>)

lemma moving_admit_due_link_runs: "moving E (admit_due_link_runs E now)"
  unfolding admit_due_link_runs_def
proof (intro keepsI moving_after_trust moving_bind_snapshot)
  fix sn
  let ?f = "\<lambda>x. case x of (next, admitted) \<Rightarrow>
    sbind (if admitted = [] then sret () else persist E next) (\<lambda>_. sret admitted)"
  have tail: "moving_at E sn (?f x)" if "admits sn (fst x)" for x
    using that by (cases x) (auto intro!: moving_rules journal_track.keeps_bind moving_persist keepsI
        intro: cand_runs_admitted)
  show "moving_at E sn (sbind (sfold (admit_due_round E now) (due_links sn (own_id E) now) (sn, [])) ?f)"
    unfolding keeps_at_def
  proof (intro allI impI)
    fix j :: journal assume "j_snapshot j = sn"
    then show "swp (sbind (sfold (admit_due_round E now) (due_links sn (own_id E) now) (sn, [])) ?f)
        (\<lambda>_ t. moves E sn (j_snapshot t)) j"
      by (rule swp_bind_step[OF admit_due_rounds]) (use tail in \<open>auto simp: keeps_at_def\<close>)
  qed
qed

lemma moving_complete_link_run: "moving E (complete_link_run E folder generation index result now)"
  unfolding complete_link_run_def
  by (intro keepsI moving_rules) (auto intro!: cand_slot)

lemma moving_receive_link_run_commit: "moving E (receive_link_run_commit E commit)"
  unfolding receive_link_run_commit_def
  by (intro keepsI moving_after_trust moving_rules moving_persist) (auto intro!: cand_run_commit)

lemma frames_set_android_host: "frames j_snapshot (set_android_host is_android)"
  by (simp add: set_android_host_def keeps_def keeps_at_def)

lemma frames_observe_android_conditions:
  "frames j_snapshot (observe_android_conditions wifi charging at)"
  by (simp add: observe_android_conditions_def keeps_def keeps_at_def)

section \<open>Sharing\<close>

lemma share_indexD:
  assumes "share_index sn offer = Inr i"
  shows "i < length (sn_shares sn)" and "offer_offer_id (sh_offer (sn_shares sn ! i)) = offer"
    and "\<not> sh_removed (sn_shares sn ! i)" and "\<not> tombstoned sn offer"
    and "\<not> list_ex (superseded_by offer) (sn_shares sn)"
  using assms unfolding share_index_def
  by (auto simp: ok_or_def split: option.splits dest: position_SomeD)

lemma moving_offer_with_settings_inner:
  "moving E (offer_with_settings_inner E peer folder label selected now initial)"
  unfolding offer_with_settings_inner_def
  by (intro keepsI moving_rules moving_after_trust moving_bind[OF moving_advance_freshness_floor])
     (auto intro!: cand_offer)

lemma moving_offer_with_policy: "moving E (offer_with_policy E peer folder label selected now policy)"
  unfolding offer_with_policy_def by (rule moving_offer_with_settings_inner)

lemma moving_offer: "moving E (journal_offer E peer folder label selected now)"
  unfolding journal_offer_def by (rule moving_offer_with_policy)

lemma moving_offer_with_settings:
  "moving E (offer_with_settings E peer folder label selected now settings)"
  unfolding offer_with_settings_def
  by (intro keepsI moving_rules keepsD[OF moving_offer_with_settings_inner])

lemma moving_record_offer:
  assumes "trusted_peer E (offer_source_device_id offer) = Inr peer"
    and "verify_folder_share_offer E offer (cpt_identity peer) (own_id E) = Inr ()"
    and "sn_freshness_floor_unix_ms sn \<le> offer_issued_at_unix_ms offer"
  shows "moving_at E sn (record_offer E peer offer now)"
  unfolding record_offer_def
  by (intro moving_rules moving_persist)
     (auto intro: cand_received[OF assms] cand_replaced[OF assms] dest: position_SomeD)

lemma moving_receive_offer: "moving E (receive_offer E offer now)"
  unfolding receive_offer_def
  by (intro keepsI moving_after_trust moving_rules moving_bind[OF moving_advance_freshness_floor]
      moving_record_offer)
     (auto simp: map_err_def split: sum.splits)

lemma moving_renew_at:
  "index < length (sn_shares sn) \<Longrightarrow> moving_at E sn (renew_at E index now)"
  unfolding renew_at_def by (intro moving_rules) (auto intro!: cand_renewed)

lemma moving_renew_offer: "moving E (renew_offer E offer_id now)"
  unfolding renew_offer_def
  by (intro keepsI moving_after_trust moving_rules moving_renew_at) (auto dest: share_indexD)

lemma map_err_InrD: "map_err f r = Inr x \<Longrightarrow> r = Inr x"
  by (cases r) simp_all

lemma moving_accept: "moving E (journal_accept E offer_id selected now)"
  unfolding journal_accept_def
  by (intro keepsI moving_after_trust moving_rules)
     (auto intro!: cand_accepted dest: share_indexD map_err_InrD)

lemma moving_receive_acceptance: "moving E (receive_acceptance E offer_id acceptance now)"
  unfolding receive_acceptance_def
  by (intro keepsI moving_after_trust moving_rules)
     (auto intro!: cand_committed dest: share_indexD map_err_InrD)

lemma moving_receive_commit: "moving E (receive_commit E offer_id commit)"
  unfolding receive_commit_def
  by (intro keepsI moving_after_trust moving_rules moving_persist)
     (auto intro!: cand_commit_received dest: share_indexD)

lemma moving_set_paused: "moving E (set_paused E offer_id paused)"
  unfolding set_paused_def
  by (intro keepsI moving_after_trust moving_rules moving_persist
      keepsD[OF moving_request_link_settings_at])
     (auto intro!: cand_paused dest: share_indexD)

lemma moving_remove: "moving E (journal_remove E offer_id)"
  unfolding journal_remove_def
  by (intro keepsI moving_rules moving_persist)
     (auto intro!: cand_removed simp: ok_or_def split: option.splits dest: position_SomeD)

lemma canonical_ids_longer:
  assumes "canonical_ids sn notice matching shared = Inr ids" and "matching = Some i"
  shows "length (rrt_offer_ids (sn_remote_removal_tombstones sn ! i)) \<le> length ids"
  using assms
  by (auto simp: canonical_ids_def longer_of_def Let_def split: option.splits if_splits)

lemma moving_receive_removal: "moving E (receive_removal E notice)"
  unfolding receive_removal_def
  by (intro keepsI moving_after_trust moving_rules moving_persist)
     (auto intro!: cand_removal_received dest: position_SomeD intro: canonical_ids_longer)

lemma moving_acknowledge_removal: "moving E (acknowledge_removal E peer offer_id)"
  unfolding acknowledge_removal_def
  by (intro keepsI moving_rules moving_persist cand_acknowledged)

lemma moving_remove_peer: "moving E (remove_peer E peer)"
  unfolding remove_peer_def by (intro keepsI moving_rules moving_persist cand_peer_removed)

lemma moving_prepare_root_repair: "moving E (prepare_root_repair E offer_id selected)"
  unfolding prepare_root_repair_def by (intro keepsI moving_after_trust moving_rules)

lemma moving_commit_root_repair: "moving E (commit_root_repair E prepared)"
  unfolding commit_root_repair_def
  by (intro keepsI moving_rules) (auto intro!: cand_root_moved dest: share_indexD)

lemma moving_repair_root: "moving E (repair_root E offer_id selected)"
  unfolding repair_root_def
  by (intro keepsI moving_bind[OF moving_prepare_root_repair] moving_bind[OF moving_commit_root_repair]
      moving_rules)

lemma moving_complete_root_reset: "moving E (complete_root_reset E folder)"
  unfolding complete_root_reset_def by (intro keepsI moving_rules moving_persist cand_reset_done)

section \<open>Address refresh and views\<close>

lemma moving_adopt_route: "moving E (adopt_route E route)"
  unfolding adopt_route_def by (intro keepsI moving_rules moving_persist cand_route)

lemma moving_check_trust_or_refresh: "moving E (check_trust_or_refresh E)"
  unfolding check_trust_or_refresh_def
  by (intro keepsI moving_rules keepsD[OF moving_reconcile_trust])

lemma moving_prepare_peer_address_refresh:
  "moving E (prepare_peer_address_refresh E peer grant expected candidate_transport engine)"
  unfolding prepare_peer_address_refresh_def
  by (intro keepsI moving_bind[OF moving_check_trust_or_refresh] moving_rules)

lemma moving_begin_peer_address_refresh: "moving E (begin_peer_address_refresh E prepared)"
  unfolding begin_peer_address_refresh_def
  by (intro keepsI moving_rules) (auto intro!: cand_refresh_begun)

lemma moving_complete_peer_address_refresh: "moving E (complete_peer_address_refresh E peer)"
  unfolding complete_peer_address_refresh_def
  by (intro keepsI moving_rules moving_persist)
     (auto intro: cand_refresh_done simp: ok_or_def split: option.splits)

lemma moving_outbound_records: "moving E (outbound_records E)"
  unfolding outbound_records_def by (intro keepsI moving_rules moving_after_trust)

lemma moving_summaries: "moving E (summaries E)"
  unfolding summaries_def by (intro keepsI moving_rules)

lemma moving_reconciled_summaries: "moving E (reconciled_summaries E)"
  unfolding reconciled_summaries_def
  by (intro keepsI moving_after_trust keepsD[OF moving_summaries])

lemma moving_desired_round: "moving E (desired_round E config s acc)"
  unfolding desired_round_def by (intro keepsI moving_rules)

lemma moving_desired_settings_at: "moving E (desired_settings_at E now observed_at)"
  unfolding desired_settings_at_def
  by (intro keepsI moving_rules moving_after_trust journal_track.keeps_sfold moving_desired_round
      moving_bind[of E "sfold f xs b" for f xs b])

lemma moving_desired_settings: "moving E (desired_settings E)"
  unfolding desired_settings_def
  by (intro keepsI moving_rules keepsD[OF moving_desired_settings_at])

lemma moving_active_batch_generations: "moving E (active_batch_generations E now observed_at)"
  unfolding active_batch_generations_def by (intro keepsI moving_rules)

lemma moving_desired_settings_and_runs: "moving E (desired_settings_and_runs E now observed_at)"
  unfolding desired_settings_and_runs_def
  by (intro keepsI moving_bind[OF moving_desired_settings_at]
      moving_bind[OF moving_active_batch_generations] moving_rules)

section \<open>Calls\<close>

text \<open>The public methods that may change the journal, with their arguments.\<close>

datatype journal_call =
    CallOffer device_id uuid string path u64 "folder_link_policy option"
  | CallOfferWithSettings device_id uuid string path u64 folder_link_settings
  | CallReceiveOffer folder_share_offer u64
  | CallRenewOffer uuid u64
  | CallAccept uuid path u64
  | CallReceiveAcceptance uuid folder_share_acceptance u64
  | CallReceiveCommit uuid folder_share_commit
  | CallSetPaused uuid bool
  | CallRemove uuid
  | CallReceiveRemoval folder_removal_notice
  | CallAcknowledgeRemoval device_id uuid
  | CallRemovePeer device_id
  | CallRepairRoot uuid path
  | CallCompleteRootReset uuid
  | CallPrepareRefresh device_id peer_grant transport_binding transport_binding sync_engine_binding
  | CallBeginRefresh prepared_peer_address_refresh
  | CallCompleteRefresh device_id
  | CallRequestSettings uuid uuid u64 folder_link_settings u64
  | CallReceiveSettingsRequest link_settings_request u64
  | CallReceiveSettingsCommit link_settings_commit
  | CallReceiveRoster endpoint_roster_commit
  | CallRosterRecords display_names
  | CallRequestRun uuid uuid u64 u64 u64
  | CallReceiveRunRequest link_run_request u64
  | CallStartRun uuid u64 engine_index_snapshot u64
  | CallInterruptRun uuid u64 u64
  | CallCompleteRun uuid u64 engine_index_snapshot link_run_destination_result u64
  | CallReceiveRunCommit link_run_commit
  | CallReceiveRunReport link_run_report u64
  | CallExpireRuns u64
  | CallInterruptRuns u64
  | CallReconcileMembership uuid u64
  | CallAdmitDue u64
  | CallOutbound
  | CallSummaries
  | CallDesired u64 int
  | CallAndroidHost bool
  | CallAndroidConditions bool bool int

definition forget :: "'a journal_step \<Rightarrow> unit journal_step" where
  "forget m = sbind m (\<lambda>_. sret ())"

fun run_call :: "env \<Rightarrow> journal_call \<Rightarrow> unit journal_step" where
  "run_call E (CallOffer peer folder label selected now policy) =
     forget (offer_with_policy E peer folder label selected now policy)"
| "run_call E (CallOfferWithSettings peer folder label selected now settings) =
     forget (offer_with_settings E peer folder label selected now settings)"
| "run_call E (CallReceiveOffer offer now) = receive_offer E offer now"
| "run_call E (CallRenewOffer offer now) = forget (renew_offer E offer now)"
| "run_call E (CallAccept offer selected now) = forget (journal_accept E offer selected now)"
| "run_call E (CallReceiveAcceptance offer a now) = forget (receive_acceptance E offer a now)"
| "run_call E (CallReceiveCommit offer commit) = receive_commit E offer commit"
| "run_call E (CallSetPaused offer paused) = set_paused E offer paused"
| "run_call E (CallRemove offer) = journal_remove E offer"
| "run_call E (CallReceiveRemoval notice) = receive_removal E notice"
| "run_call E (CallAcknowledgeRemoval peer offer) = acknowledge_removal E peer offer"
| "run_call E (CallRemovePeer peer) = remove_peer E peer"
| "run_call E (CallRepairRoot offer selected) = repair_root E offer selected"
| "run_call E (CallCompleteRootReset folder) = complete_root_reset E folder"
| "run_call E (CallPrepareRefresh peer grant expected new_transport engine) =
     forget (prepare_peer_address_refresh E peer grant expected new_transport engine)"
| "run_call E (CallBeginRefresh prepared) = forget (begin_peer_address_refresh E prepared)"
| "run_call E (CallCompleteRefresh peer) = complete_peer_address_refresh E peer"
| "run_call E (CallRequestSettings folder change revision settings now) =
     request_link_settings_at E folder change revision settings now"
| "run_call E (CallReceiveSettingsRequest request now) =
     forget (receive_link_settings_request_at E request now)"
| "run_call E (CallReceiveSettingsCommit commit) = receive_link_settings_commit E commit"
| "run_call E (CallReceiveRoster commit) = receive_endpoint_roster E commit"
| "run_call E (CallRosterRecords names) = forget (endpoint_roster_records E names)"
| "run_call E (CallRequestRun folder request expected revision now) =
     forget (request_link_run E folder request expected revision now)"
| "run_call E (CallReceiveRunRequest request now) = forget (receive_link_run_request E request now)"
| "run_call E (CallStartRun folder generation index now) =
     forget (start_link_run E folder generation index now)"
| "run_call E (CallInterruptRun folder generation now) = interrupt_link_run E folder generation now"
| "run_call E (CallCompleteRun folder generation index result now) =
     forget (complete_link_run E folder generation index result now)"
| "run_call E (CallReceiveRunCommit commit) = receive_link_run_commit E commit"
| "run_call E (CallReceiveRunReport report now) = forget (receive_link_run_report E report now)"
| "run_call E (CallExpireRuns now) = forget (expire_link_runs E now)"
| "run_call E (CallInterruptRuns now) = forget (interrupt_unfinished_link_runs E now)"
| "run_call E (CallReconcileMembership folder now) =
     forget (reconcile_link_run_membership E folder now)"
| "run_call E (CallAdmitDue now) = forget (admit_due_link_runs E now)"
| "run_call E CallOutbound = forget (outbound_records E)"
| "run_call E CallSummaries = forget (reconciled_summaries E)"
| "run_call E (CallDesired now observed_at) = forget (desired_settings_and_runs E now observed_at)"
| "run_call E (CallAndroidHost is_android) = set_android_host is_android"
| "run_call E (CallAndroidConditions wifi charging at) = observe_android_conditions wifi charging at"

lemma moving_forget: "moving E m \<Longrightarrow> moving E (forget m)"
  unfolding forget_def by (rule keepsI, rule moving_bind) (auto intro: journal_track.keeps_sret)

lemma moving_frame: "frames j_snapshot m \<Longrightarrow> moving E m"
  by (rule keepsI) (rule journal_track.keeps_frame)

lemma moving_run_call: "moving E (run_call E call)"
  by (cases call)
     (simp_all add: moving_forget moving_frame frames_set_android_host
       frames_observe_android_conditions moving_offer_with_policy moving_offer_with_settings
       moving_receive_offer moving_renew_offer moving_accept moving_receive_acceptance
       moving_receive_commit moving_set_paused moving_remove moving_receive_removal
       moving_acknowledge_removal moving_remove_peer moving_repair_root moving_complete_root_reset
       moving_prepare_peer_address_refresh moving_begin_peer_address_refresh
       moving_complete_peer_address_refresh moving_request_link_settings_at
       moving_receive_link_settings_request_at moving_receive_link_settings_commit
       moving_receive_endpoint_roster moving_endpoint_roster_records moving_request_link_run
       moving_receive_link_run_request moving_start_link_run moving_interrupt_link_run
       moving_complete_link_run moving_receive_link_run_commit moving_receive_link_run_report
       moving_expire_link_runs moving_interrupt_unfinished_link_runs
       moving_reconcile_link_run_membership moving_admit_due_link_runs moving_outbound_records
       moving_reconciled_summaries moving_desired_settings_and_runs)

end
