(* ===== verification/Journal_Demo.thy ===== *)
theory Journal_Demo
  imports Journal_Moves Demo
begin

text \<open>
  Two concrete installations on which the witnesses run the journal: the devices of
  \<open>Demo\<close>, each trusting the other, with a store whose disk never fails and a clock that stands
  still.
\<close>

definition demo_grant :: "device_identity \<Rightarrow> peer_grant" where
  "demo_grant peer = \<lparr>pg_peer_device_id = di_device_id peer,
     pg_public_key = pad 32 (di_signing_key peer), pg_display_name = ''peer'', pg_roles = [],
     pg_confirmed_at_unix_ms = 5, pg_revoked = False\<rparr>"

definition demo_transport :: "device_identity \<Rightarrow> transport_binding" where
  "demo_transport peer = \<lparr>tb_peer_id = di_device_id peer, tb_display_name = ''peer'',
     tb_address = ''192.0.2.9:22001'', tb_certificate_der = ''cert'',
     tb_certificate_fingerprint = ''print''\<rparr>"

definition demo_config :: "device_identity \<Rightarrow> node_config" where
  "demo_config peer = \<lparr>nc_device_name = ''node'',
     nc_trusted_peers = fmupd (di_device_id peer) (demo_grant peer) fmempty,
     nc_trusted_peer_transports = fmupd (di_device_id peer) (demo_transport peer) fmempty\<rparr>"

definition demo_record :: "string \<Rightarrow> bytes \<Rightarrow> state_record" where
  "demo_record engine bs = (demo_decode bs)\<lparr>rec_engine_device_id := engine\<rparr>"

definition demo_engine_store :: "string \<Rightarrow> store_ext" where
  "demo_engine_store engine = demo_store_ext\<lparr>
     json_record := (\<lambda>r. if r = demo_record engine (rec_authentication r)
       then Some (rec_authentication r) else None),
     json_record_decode := (\<lambda>bs. Some (demo_record engine bs)),
     installation_device_id := engine\<rparr>"

definition demo_env :: "device_identity \<Rightarrow> device_identity \<Rightarrow> string \<Rightarrow> u64 \<Rightarrow> env" where
  "demo_env own peer engine now = sharing_ext.extend demo_ext \<lparr>
     env_identity = own, env_config = Some (demo_config peer),
     env_installation_root = ''/var/covalent'', env_ssh_public_key = Some demo_ssh_key,
     env_canonicalize = Some,
     env_symlink_metadata = (\<lambda>_. Some \<lparr>fm_is_dir = True, fm_device = 1, fm_inode = 2\<rparr>),
     env_uuid_parse = (\<lambda>_. None), env_uuid_show = (\<lambda>_. ''uuid''),
     env_now = (\<lambda>_. now), env_instant = (\<lambda>_. 0), env_uuid = (\<lambda>t. of_nat t + 1),
     env_entropy = (\<lambda>_. Some demo_entropy), env_io = (\<lambda>_. demo_io),
     env_store = demo_engine_store engine,
     json_snapshot = (\<lambda>_. Some ''{}''), json_snapshot_decode = (\<lambda>_. None)\<rparr>"

definition bob_env :: env where
  "bob_env = demo_env bob alice bob_engine_id 1000000"

definition alice_env :: env where
  "alice_env = demo_env alice bob alice_engine_id 1000000"

definition bob_created :: "journal sharing_result" where
  "bob_created = journal_create bob_env 1 (SocketAddrV4 [0, 0, 0, 0] 22000)
     (SocketAddrV4 [192, 0, 2, 2] 22000) \<lparr>dk_current = None, dk_staged = None, dk_fresh = 0\<rparr>"

definition bob_received :: "unit sharing_result \<times> journal" where
  "bob_received = receive_offer bob_env demo_offer 1000000 (projr bob_created)"

definition bob_removed :: "unit sharing_result \<times> journal" where
  "bob_removed = (case journal_remove bob_env (offer_offer_id demo_offer) (snd bob_received) of
     (r, j) \<Rightarrow> (rbind r (\<lambda>_. Inr ()), j))"

text \<open>
  The two journals after the exchange of offer, acceptance and commit, written out: the link is
  established and no run has started.
\<close>

definition demo_linked_acceptance :: folder_share_acceptance where
  "demo_linked_acceptance = \<lparr>acc_schema_version = 2,
     acc_offer_digest = ''6108f4f3555555555555555555555555000000000000000000000000000539c1'',
     acc_target_device_id = DeviceId 2, acc_target_engine = bob_binding,
     acc_accepted_at_unix_ms = 1000000,
     acc_signature = pad 32 ''bob'' @ ''1c935'' @ replicate 27 (CHR ''0'')\<rparr>"

definition demo_linked_commit :: folder_share_commit where
  "demo_linked_commit = \<lparr>com_schema_version = 2, com_source_device_id = DeviceId 1,
     com_offer_digest = ''6108f4f3555555555555555555555555000000000000000000000000000539c1'',
     com_acceptance_digest = ''00000000000000000000000000053931000000000000000000000000000002f2'',
     com_signature = pad 32 ''alice'' @ ''2f2'' @ replicate 29 (CHR ''0'')\<rparr>"

definition demo_linked_share :: "device_identity \<Rightarrow> path \<Rightarrow> share" where
  "demo_linked_share peer root = \<lparr>sh_peer_identity = device_public_identity demo_ext peer,
     sh_peer_transport = demo_transport peer, sh_peer_confirmed_at_unix_ms = 5,
     sh_offer = demo_offer, sh_acceptance = Some demo_linked_acceptance,
     sh_commit = Some demo_linked_commit,
     sh_root = Some \<lparr>root_path = root, root_device = 1, root_inode = 2, root_grant_id = None\<rparr>,
     sh_paused = False, sh_removed = False, sh_superseded_offers = []\<rparr>"

definition demo_world :: store_world where
  "demo_world = (\<lparr>st_current = 0, st_digest = u64_be_bytes 1 @ ''{}'', st_revision = 1,
      st_payload = ''{}'', st_uncertain = False\<rparr>,
     \<lparr>dk_current = Some (0, u64_be_bytes 1 @ ''{}''), dk_staged = None, dk_fresh = 1\<rparr>)"

definition demo_settings :: "bool \<Rightarrow> link_settings_state" where
  "demo_settings confirmed = \<lparr>lss_revision = 0,
     lss_settings = \<lparr>fls_deletion_policy = default_link_policy, fls_paused = False,
       fls_cadence = Continuous, fls_android_conditions = default_conditions\<rparr>,
     lss_change_id = 0, lss_changed_by = DeviceId 1, lss_accepted_at_unix_ms = 1000000,
     lss_confirmed = confirmed, lss_pending_change = None, lss_conflicted_change = None\<rparr>"

definition alice_linked :: journal where
  "alice_linked = journal_new demo_world
     ((empty_snapshot alice_env alice_binding (SocketAddrV4 [0, 0, 0, 0] 22000))\<lparr>
       sn_shares := [demo_linked_share bob ''/srv/photos''],
       sn_current_peer_routes := fmap_of_list [(DeviceId 2, bob_binding)],
       sn_link_settings := fmap_of_list [(7, demo_settings True)]\<rparr>) 2"

definition bob_linked :: journal where
  "bob_linked = journal_new demo_world
     ((empty_snapshot bob_env bob_binding (SocketAddrV4 [0, 0, 0, 0] 22000))\<lparr>
       sn_shares := [demo_linked_share alice ''/home/photos''],
       sn_current_peer_routes := fmap_of_list [(DeviceId 1, alice_binding)],
       sn_link_settings := fmap_of_list [(7, demo_settings False)]\<rparr>) 1"

text \<open>Alice with a run in preparation.\<close>

definition demo_run :: link_run_state where
  "demo_run = \<lparr>lrs_generation = 1, lrs_state_revision = 1, lrs_settings_revision = 0,
     lrs_request_id = 9, lrs_requested_by = DeviceId 1, lrs_phase = Preparing,
     lrs_started_at_unix_ms = 1015000, lrs_deadline_unix_ms = 87415000,
     lrs_ended_at_unix_ms = None, lrs_source_index = None,
     lrs_destinations = fmap_of_list [(DeviceId 2, pending_destination)]\<rparr>"

definition alice_running :: journal where
  "alice_running = alice_linked\<lparr>j_snapshot := set_run 7 demo_run (j_snapshot alice_linked)\<rparr>"

end
