(* ===== verification/Journal_Consent.thy ===== *)
theory Journal_Consent
  imports Journal_Demo
begin

text \<open>
  What consent means over time. Identifiers of removed and superseded invitations are refused
  for good, the freshness floor never falls, and refusals a peer asked for are never forgotten,
  whatever sequence of calls is made and however they fail.
\<close>

section \<open>Identifiers of a snapshot\<close>

definition share_ids :: "share \<Rightarrow> uuid list" where
  "share_ids s = offer_offer_id (sh_offer s) # superseded_ids s"

definition tombstone_ids :: "tombstone \<Rightarrow> uuid set" where
  "tombstone_ids t = insert (tomb_offer_id t) (set (tomb_superseded_offer_ids t))"

text \<open>The identifiers an invitation can no longer use.\<close>

definition refused :: "snapshot \<Rightarrow> uuid set" where
  "refused sn = (\<Union>t \<in> set (sn_tombstones sn). tombstone_ids t)
     \<union> (\<Union>s \<in> set (sn_shares sn). set (superseded_ids s))"

definition live :: "snapshot \<Rightarrow> uuid set" where
  "live sn = (\<lambda>s. offer_offer_id (sh_offer s)) ` set (sn_shares sn)"

text \<open>A tombstone that heads a chain is in no other chain.\<close>

definition chains_ok :: "tombstone list \<Rightarrow> bool" where
  "chains_ok ts \<longleftrightarrow> (\<forall>t \<in> set ts. \<forall>t' \<in> set ts.
     tomb_offer_id t \<in> set (tomb_superseded_offer_ids t') \<longrightarrow> tomb_superseded_offer_ids t = [])"

definition wf_snapshot :: "snapshot \<Rightarrow> bool" where
  "wf_snapshot sn \<longleftrightarrow>
     (\<forall>s \<in> set (sn_shares sn). \<not> sh_removed s)
     \<and> distinct (concat (map share_ids (sn_shares sn)))
     \<and> (\<forall>s \<in> set (sn_shares sn). \<forall>t \<in> set (sn_tombstones sn).
          set (share_ids s) \<inter> tombstone_ids t = {})
     \<and> chains_ok (sn_tombstones sn)"

lemma live_refused_disjoint:
  assumes "wf_snapshot sn" shows "live sn \<inter> refused sn = {}"
proof -
  have "offer_offer_id (sh_offer s) \<notin> set (superseded_ids s')"
    if s: "s \<in> set (sn_shares sn)" and s': "s' \<in> set (sn_shares sn)" for s s'
  proof (cases "share_ids s = share_ids s'")
    case True
    have "distinct (share_ids s)"
      using assms s unfolding wf_snapshot_def by (auto simp: distinct_concat_iff)
    with True show ?thesis by (simp add: share_ids_def)
  next
    case False
    then have "set (share_ids s) \<inter> set (share_ids s') = {}"
      using assms s s' unfolding wf_snapshot_def distinct_concat_iff by auto
    then show ?thesis by (auto simp: share_ids_def)
  qed
  then show ?thesis
    using assms unfolding live_def refused_def wf_snapshot_def by (fastforce simp: share_ids_def)
qed

section \<open>What validation guarantees\<close>

lemma rfold_fresh:
  assumes "\<And>x s s'. x \<in> set xs \<Longrightarrow> f x s = Inr s' \<Longrightarrow>
      distinct (ids x) \<and> set (ids x) \<inter> seen s = {} \<and> seen s' = seen s \<union> set (ids x)"
    and "rfold f xs s = Inr t"
  shows "distinct (concat (map ids xs)) \<and> set (concat (map ids xs)) \<inter> seen s = {}
    \<and> seen t = seen s \<union> set (concat (map ids xs))"
  using assms
proof (induction xs arbitrary: s)
  case (Cons x xs)
  from Cons.prems(2) obtain s' where s': "f x s = Inr s'" "rfold f xs s' = Inr t" by auto
  have "distinct (concat (map ids xs)) \<and> set (concat (map ids xs)) \<inter> seen s' = {}
    \<and> seen t = seen s' \<union> set (concat (map ids xs))"
    by (rule Cons.IH) (use Cons.prems(1) s'(2) in auto)
  with Cons.prems(1)[OF _ s'(1)] show ?case by auto
qed simp

lemma validate_tombstone_fresh:
  assumes "validate_tombstone E t acc = Inr acc'"
  shows "tomb_offer_id t \<notin> set (fst acc) \<and> set (fst acc') = set (fst acc) \<union> {tomb_offer_id t}"
  using assms by (cases acc) (auto simp: validate_tombstone_def)

lemma validate_superseded_fresh:
  assumes "validate_superseded s old acc = Inr acc'"
  shows "so_offer_id old \<notin> set (fst acc) \<and> set (fst acc') = set (fst acc) \<union> {so_offer_id old}"
  using assms by (cases acc) (auto simp: validate_superseded_def)

lemma scan_keeps_offers:
  "scan_policy s sc = Inr sc' \<Longrightarrow> sc_offers sc' = sc_offers sc"
  "scan_engine E b s sc = Inr sc' \<Longrightarrow> sc_offers sc' = sc_offers sc"
  "scan_membership s sc = Inr sc' \<Longrightarrow> sc_offers sc' = sc_offers sc"
  "scan_root E s sc = Inr sc' \<Longrightarrow> sc_offers sc' = sc_offers sc"
  by (auto simp: scan_policy_def scan_engine_def scan_membership_def scan_root_def Let_def
      split: option.splits)

lemma validate_shareE:
  assumes "validate_share E sn s sc = Inr sc'"
  obtains offers last where
    "offer_offer_id (sh_offer s) \<notin> set (sc_offers sc)"
    "rfold (validate_superseded s) (sh_superseded_offers s)
       (offer_offer_id (sh_offer s) # sc_offers sc, 0) = Inr (offers, last)"
    "sc_offers sc' = offers"
  using assms unfolding validate_share_def Let_def
  apply (elim rbindE)
  subgoal for _ _ _ acc
    by (cases acc) (auto elim!: rbindE dest!: scan_keeps_offers split: if_splits simp del: rbind_Inr_iff)
  done

lemma validate_superseded_all_fresh:
  assumes "rfold (validate_superseded s) olds (seen, n) = Inr (offers, n')"
  shows "distinct (map so_offer_id olds) \<and> so_offer_id ` set olds \<inter> set seen = {}
    \<and> set offers = set seen \<union> so_offer_id ` set olds"
proof -
  have "concat (map (\<lambda>old. [so_offer_id old]) olds) = map so_offer_id olds"
    by (induction olds) auto
  with rfold_fresh[where seen = "\<lambda>acc. set (fst acc)" and ids = "\<lambda>old. [so_offer_id old]", OF _ assms]
  show ?thesis by (auto dest: validate_superseded_fresh)
qed

lemma validate_share_fresh:
  assumes "validate_share E sn s sc = Inr sc'"
  shows "distinct (share_ids s) \<and> set (share_ids s) \<inter> set (sc_offers sc) = {}
    \<and> set (sc_offers sc') = set (sc_offers sc) \<union> set (share_ids s)"
  using assms by (elim validate_shareE)
    (auto dest!: validate_superseded_all_fresh simp: share_ids_def superseded_ids_def)

lemma validated_ids:
  assumes "validate_snapshot E sn = Inr ()"
  shows "distinct (concat (map share_ids (sn_shares sn)))"
    and "s \<in> set (sn_shares sn) \<Longrightarrow> t \<in> set (sn_tombstones sn) \<Longrightarrow>
      set (share_ids s) \<inter> tombstone_ids t = {}"
proof -
  obtain offers chain scan where
    tombs: "rfold (validate_tombstone E) (sn_tombstones sn) ([], 0) = Inr (offers, chain)"
    and shares: "rfold (validate_share E sn) (sn_shares sn) (empty_scan offers) = Inr scan"
    and chains: "validate_removed_chains sn = Inr ()"
    using assms unfolding validate_snapshot_def by (auto elim!: rbindE)
  have offers: "set offers = tomb_offer_id ` set (sn_tombstones sn)"
    using rfold_fresh[where seen = "\<lambda>acc. set (fst acc)" and ids = "\<lambda>t. [tomb_offer_id t]", OF _ tombs]
      validate_tombstone_fresh by fastforce
  have fresh: "distinct (concat (map share_ids (sn_shares sn)))
      \<and> set (concat (map share_ids (sn_shares sn))) \<inter> set (sc_offers (empty_scan offers)) = {}"
    using rfold_fresh[where seen = "\<lambda>sc. set (sc_offers sc)" and ids = share_ids, OF _ shares]
      validate_share_fresh by blast
  then show "distinct (concat (map share_ids (sn_shares sn)))" ..
  show "set (share_ids s) \<inter> tombstone_ids t = {}"
    if s: "s \<in> set (sn_shares sn)" and t: "t \<in> set (sn_tombstones sn)"
  proof -
    have "tomb_offer_id t \<notin> set (share_ids s)"
      using fresh offers s t by (auto simp: empty_scan_def)
    moreover have "offer \<notin> set (share_ids s)" if "offer \<in> set (tomb_superseded_offer_ids t)" for offer
      using chains s t that unfolding validate_removed_chains_def
      by (fastforce simp: list_ex_iff share_ids_def)
    ultimately show ?thesis by (auto simp: tombstone_ids_def)
  qed
qed

section \<open>Methods that leave the consents alone\<close>

definition without_links :: "snapshot \<Rightarrow> snapshot" where
  "without_links sn =
     sn\<lparr>sn_link_settings := fmempty, sn_link_runs := fmempty, sn_endpoint_rosters := fmempty\<rparr>"

lemma without_links_setters [simp]:
  "without_links (set_link_state folder st sn) = without_links sn"
  "without_links (set_roster folder r sn) = without_links sn"
  "without_links (set_slot folder slot sn) = without_links sn"
  "without_links (set_run folder run sn) = without_links sn"
  "without_links (roster_reconcile sn) = without_links sn"
  "without_links (reconcile_run_states sn) = without_links sn"
  "without_links (reconcile_link_states sn) = without_links sn"
  by (simp_all add: without_links_def set_link_state_def set_roster_def set_slot_def set_run_def
      roster_reconcile_def reconcile_run_states_def reconcile_link_states_def Let_def)

lemma without_links_eqD:
  assumes "without_links c = without_links sn"
  shows "sn_shares c = sn_shares sn" "sn_tombstones c = sn_tombstones sn" "sn_owner c = sn_owner sn"
    "sn_freshness_floor_unix_ms c = sn_freshness_floor_unix_ms sn"
    "sn_pending_remote_removals c = sn_pending_remote_removals sn"
    "sn_remote_removal_tombstones c = sn_remote_removal_tombstones sn"
  using assms by (cases c; cases sn; simp add: without_links_def)+

lemma without_links_reconcile_membership:
  "reconcile_membership sn owner now = Inr (c, b) \<Longrightarrow> without_links c = without_links sn"
  by (auto simp: reconcile_membership_def without_links_def)

lemma without_links_sweep_runs:
  "sweep_runs sn owner P f = Inr (c, b) \<Longrightarrow> without_links c = without_links sn"
  by (auto simp: sweep_runs_def without_links_def)

lemma without_links_cancel:
  "cancel_for_settings_change sn folder now = Inr c \<Longrightarrow> without_links c = without_links sn"
  by (auto simp: cancel_for_settings_change_def Let_def split: option.splits if_splits)

lemma without_links_commit:
  "commit_link_candidate sn request now = Inr c \<Longrightarrow> without_links c = without_links sn"
  unfolding commit_link_candidate_def by (auto elim!: rbindE dest!: without_links_cancel)

lemma without_links_admit:
  "admit_source_request sn request now automatic = Inr (c, a, b) \<Longrightarrow> without_links c = without_links sn"
  by (auto simp: admit_source_request_def start_run_def Let_def split: if_splits option.splits)

lemma without_links_admits: "admits sn c \<Longrightarrow> without_links c = without_links sn"
  by (induction rule: admits.induct) (auto dest: without_links_admit)

lemma without_links_rosters:
  assumes "rfold (roster_round E config names sn shares) folders (c, b, ds) = Inr (c', b', ds')"
  shows "without_links c' = without_links c"
  using assms
proof (induction folders arbitrary: c b ds)
  case (Cons folder folders)
  then show ?case by (auto simp: roster_round_def Let_def split: if_splits)
qed simp

lemmas without_links_candidates = without_links_reconcile_membership without_links_sweep_runs
  without_links_cancel without_links_commit without_links_admits without_links_rosters

section \<open>What a candidate may do to the consents\<close>

definition refusal_key :: "remote_removal_tombstone \<Rightarrow> device_id \<times> device_id \<times> uuid" where
  "refusal_key r = (rrt_peer_id r, rrt_offer_source_id r, rrt_folder_id r)"

definition refusal_keys :: "snapshot \<Rightarrow> (device_id \<times> device_id \<times> uuid) set" where
  "refusal_keys sn = refusal_key ` set (sn_remote_removal_tombstones sn)"

definition removed_ids :: "snapshot \<Rightarrow> uuid set" where
  "removed_ids sn = (\<Union>t \<in> set (sn_tombstones sn). tombstone_ids t)"

text \<open>
  Chains only grow at their end, a tombstone is dropped only when the head of its chain keeps its
  identifier, and only a share of the old snapshot can be marked as removed.
\<close>

definition consent_step :: "snapshot \<Rightarrow> snapshot \<Rightarrow> bool" where
  "consent_step sn c \<longleftrightarrow>
     sn_owner c = sn_owner sn
     \<and> sn_freshness_floor_unix_ms sn \<le> sn_freshness_floor_unix_ms c
     \<and> refusal_keys sn \<subseteq> refusal_keys c
     \<and> set (sn_tombstones c) \<subseteq> set (sn_tombstones sn)
     \<and> removed_ids sn \<subseteq> removed_ids c
     \<and> (\<forall>s \<in> set (sn_shares sn). \<exists>s' \<in> set (sn_shares c).
          set (share_ids s) \<subseteq> set (share_ids s') \<and> set (superseded_ids s) \<subseteq> set (superseded_ids s'))
     \<and> (\<forall>s' \<in> set (sn_shares c). sh_removed s' \<longrightarrow>
          (\<exists>s \<in> set (sn_shares sn). share_ids s' = share_ids s))"

lemma consent_step_refl: "consent_step sn sn"
  unfolding consent_step_def by auto

text \<open>The shares are rewritten one by one, with the same identifiers.\<close>

lemma consent_step_shares:
  assumes "list_all2 (\<lambda>s' s. share_ids s' = share_ids s) (sn_shares c) (sn_shares sn)"
    and "sn_owner c = sn_owner sn" "sn_freshness_floor_unix_ms c = sn_freshness_floor_unix_ms sn"
    and "sn_tombstones c = sn_tombstones sn" "refusal_keys sn \<subseteq> refusal_keys c"
  shows "consent_step sn c"
proof -
  have ids: "map share_ids (sn_shares c) = map share_ids (sn_shares sn)"
    using assms(1) by (auto simp: list_all2_conv_all_nth intro: nth_equalityI)
  have kept: "\<exists>s' \<in> set (sn_shares c). share_ids s' = share_ids s" if "s \<in> set (sn_shares sn)" for s
    using that arg_cong[OF ids, of set] by (simp add: set_eq_iff image_iff) metis
  have "\<exists>s' \<in> set (sn_shares c). set (share_ids s) \<subseteq> set (share_ids s')
      \<and> set (superseded_ids s) \<subseteq> set (superseded_ids s')" if s: "s \<in> set (sn_shares sn)" for s
  proof -
    obtain s' where "s' \<in> set (sn_shares c)" "share_ids s' = share_ids s" using kept[OF s] by auto
    then show ?thesis by (intro bexI[of _ s']) (auto simp: share_ids_def)
  qed
  moreover have "\<exists>s \<in> set (sn_shares sn). share_ids s' = share_ids s" if "s' \<in> set (sn_shares c)" for s'
    using that arg_cong[OF ids, of set] by (simp add: set_eq_iff image_iff) metis
  ultimately show ?thesis
    using assms(2-) unfolding consent_step_def removed_ids_def by simp
qed

lemma consent_step_links: "without_links c = without_links sn \<Longrightarrow> consent_step sn c"
  by (rule consent_step_shares) (auto dest: without_links_eqD simp: refusal_keys_def list_all2_refl)

lemma same_ids_update:
  "i < length xs \<Longrightarrow> share_ids s = share_ids (xs ! i) \<Longrightarrow>
   list_all2 (\<lambda>s' s. share_ids s' = share_ids s) (xs[i := s]) xs"
  by (auto simp: list_all2_conv_all_nth nth_list_update)

text \<open>
  The floor rises and drops old tombstones; each identifier stays in the chain of a kept one.
\<close>

lemma advance_floor_fields:
  "sn_owner (advance_freshness_floor_candidate sn now) = sn_owner sn"
  "sn_shares (advance_freshness_floor_candidate sn now) = sn_shares sn"
  "sn_remote_removal_tombstones (advance_freshness_floor_candidate sn now)
     = sn_remote_removal_tombstones sn"
  "set (sn_tombstones (advance_freshness_floor_candidate sn now)) \<subseteq> set (sn_tombstones sn)"
  "sn_freshness_floor_unix_ms sn \<le> sn_freshness_floor_unix_ms (advance_freshness_floor_candidate sn now)"
  by (auto simp: advance_freshness_floor_candidate_def Let_def)

lemma advance_floor_keeps_heads:
  assumes "t \<in> set (sn_tombstones sn)"
    and "\<forall>t' \<in> set (sn_tombstones sn). tomb_offer_id t \<notin> set (tomb_superseded_offer_ids t')"
  shows "t \<in> set (sn_tombstones (advance_freshness_floor_candidate sn now))"
  using assms by (auto simp: advance_freshness_floor_candidate_def Let_def)

lemma advance_floor_removed_ids:
  assumes "chains_ok (sn_tombstones sn)"
  shows "removed_ids sn \<subseteq> removed_ids (advance_freshness_floor_candidate sn now)"
proof -
  have "tombstone_ids t \<subseteq> removed_ids (advance_freshness_floor_candidate sn now)"
    if t: "t \<in> set (sn_tombstones sn)" for t
  proof (cases "\<forall>t' \<in> set (sn_tombstones sn). tomb_offer_id t \<notin> set (tomb_superseded_offer_ids t')")
    case True
    with advance_floor_keeps_heads[OF t] show ?thesis by (auto simp: removed_ids_def)
  next
    case False
    then obtain t' where t': "t' \<in> set (sn_tombstones sn)"
      "tomb_offer_id t \<in> set (tomb_superseded_offer_ids t')" by blast
    have "\<forall>u \<in> set (sn_tombstones sn). tomb_offer_id t' \<notin> set (tomb_superseded_offer_ids u)"
      using assms t' unfolding chains_ok_def by (metis empty_iff empty_set)
    from advance_floor_keeps_heads[OF t'(1) this]
    have "t' \<in> set (sn_tombstones (advance_freshness_floor_candidate sn now))" .
    moreover have "tombstone_ids t \<subseteq> tombstone_ids t'"
      using assms t t' unfolding chains_ok_def tombstone_ids_def by auto
    ultimately show ?thesis by (auto simp: removed_ids_def)
  qed
  then show ?thesis unfolding removed_ids_def[of sn] by blast
qed

lemma consent_step_floor:
  assumes "wf_snapshot sn"
  shows "consent_step sn (advance_freshness_floor_candidate sn now)"
  using assms advance_floor_removed_ids[of sn now]
  unfolding consent_step_def wf_snapshot_def by (auto simp: advance_floor_fields refusal_keys_def)

lemma consent_step_push:
  assumes "wf_snapshot sn" "sn_shares c = sn_shares sn @ [new_share peer offer root]"
    and "sn_owner c = sn_owner sn" "sn_freshness_floor_unix_ms c = sn_freshness_floor_unix_ms sn"
    and "sn_tombstones c = sn_tombstones sn"
    and "sn_remote_removal_tombstones c = sn_remote_removal_tombstones sn"
  shows "consent_step sn c"
  using assms unfolding consent_step_def refusal_keys_def removed_ids_def
  by (auto simp: new_share_def)

text \<open>A renewal or replacement adds the old identifier to the chain of the share.\<close>

lemma consent_step_extend:
  assumes "index < length (sn_shares sn)" "sn_shares c = (sn_shares sn)[index := s]"
    and "\<not> sh_removed s"
    and "sh_superseded_offers s = sh_superseded_offers (sn_shares sn ! index)
          @ [superseded_offer_of (sn_shares sn ! index)]"
    and "\<forall>s \<in> set (sn_shares sn). \<not> sh_removed s"
    and "sn_owner c = sn_owner sn" "sn_freshness_floor_unix_ms sn \<le> sn_freshness_floor_unix_ms c"
    and "set (sn_tombstones c) \<subseteq> set (sn_tombstones sn)" "removed_ids sn \<subseteq> removed_ids c"
    and "sn_remote_removal_tombstones c = sn_remote_removal_tombstones sn"
  shows "consent_step sn c"
proof -
  have old: "set (share_ids (sn_shares sn ! index)) \<subseteq> set (superseded_ids s)"
    using assms(4) by (auto simp: share_ids_def superseded_ids_def superseded_offer_of_def)
  have "\<exists>s' \<in> set (sn_shares c). set (share_ids u) \<subseteq> set (share_ids s')
      \<and> set (superseded_ids u) \<subseteq> set (superseded_ids s')" if "u \<in> set (sn_shares sn)" for u
  proof -
    from that obtain i where i: "i < length (sn_shares sn)" "u = sn_shares sn ! i"
      by (auto simp: in_set_conv_nth)
    show ?thesis
    proof (cases "i = index")
      case True
      with i old assms(1,2) show ?thesis
        by (intro bexI[of _ s]) (auto simp: share_ids_def set_update_memI)
    next
      case False
      with i assms(2) have "sn_shares c ! i = u" "i < length (sn_shares c)" by auto
      then show ?thesis by (metis nth_mem subset_refl)
    qed
  qed
  moreover have "\<not> sh_removed u" if "u \<in> set (sn_shares c)" for u
    using that assms(2,3,5) set_update_subset_insert[of "sn_shares sn" index s] by auto
  ultimately show ?thesis
    using assms(6-) unfolding consent_step_def refusal_keys_def by simp
qed

lemma share_ids_frame [simp]:
  "share_ids (s\<lparr>sh_removed := b\<rparr>) = share_ids s"
  "share_ids (s\<lparr>sh_paused := b\<rparr>) = share_ids s"
  "share_ids (s\<lparr>sh_root := root\<rparr>) = share_ids s"
  "share_ids (s\<lparr>sh_acceptance := a\<rparr>) = share_ids s"
  "share_ids (s\<lparr>sh_commit := commit\<rparr>) = share_ids s"
  "share_ids (s\<lparr>sh_peer_transport := t\<rparr>) = share_ids s"
  by (simp_all add: share_ids_def superseded_ids_def)

lemma rmap_trust_ids:
  "rmap (\<lambda>s. rbind (trusted s) (\<lambda>keep. Inr (if keep then s else s\<lparr>sh_removed := True\<rparr>))) xs = Inr shares
   \<Longrightarrow> list_all2 (\<lambda>s' s. share_ids s' = share_ids s) shares xs"
  by (induction xs arbitrary: shares) auto

lemma trust_candidate_shares:
  assumes "trust_candidate E config sn = Inr (c, b)"
  shows "list_all2 (\<lambda>s' s. share_ids s' = share_ids s) (sn_shares c) (sn_shares sn)"
    and "sn_owner c = sn_owner sn" "sn_freshness_floor_unix_ms c = sn_freshness_floor_unix_ms sn"
    and "sn_tombstones c = sn_tombstones sn"
    and "sn_remote_removal_tombstones c = sn_remote_removal_tombstones sn"
  using assms unfolding trust_candidate_def Let_def by (elim rbindE; auto dest: rmap_trust_ids)+

lemma refusal_keys_record:
  assumes "\<forall>i. matching = Some i \<longrightarrow> i < length (sn_remote_removal_tombstones sn)"
  shows "refusal_keys sn \<subseteq> refusal_keys (record_refusal notice matching ids sn)"
proof (cases matching)
  case (Some i)
  let ?rs = "sn_remote_removal_tombstones sn"
  have "map refusal_key (?rs[i := (?rs ! i)\<lparr>rrt_offer_ids := ids\<rparr>]) = map refusal_key ?rs"
    using assms Some by (intro nth_equalityI) (auto simp: nth_list_update refusal_key_def)
  then have "refusal_key ` set (?rs[i := (?rs ! i)\<lparr>rrt_offer_ids := ids\<rparr>]) = refusal_key ` set ?rs"
    by (metis set_map)
  with Some show ?thesis by (simp add: record_refusal_def refusal_keys_def Let_def)
qed (auto simp: record_refusal_def refusal_keys_def Let_def)

lemma consent_step_removal:
  assumes "\<forall>index. shared = Some index \<longrightarrow> index < length (sn_shares sn)"
    and "\<forall>i. matching = Some i \<longrightarrow> i < length (sn_remote_removal_tombstones sn)"
  shows "consent_step sn (removal_candidate notice matching shared ids sn)"
proof (rule consent_step_shares)
  let ?c = "case shared of None \<Rightarrow> sn | Some index \<Rightarrow> remove_share_at index sn"
  have same: "sn_remote_removal_tombstones ?c = sn_remote_removal_tombstones sn"
    by (auto simp: remove_share_at_def set_share_def split: option.splits)
  then have "refusal_keys sn = refusal_keys ?c" by (simp add: refusal_keys_def)
  with refusal_keys_record[of matching ?c] assms(2) same
  show "refusal_keys sn \<subseteq> refusal_keys (removal_candidate notice matching shared ids sn)"
    by (simp add: removal_candidate_def)
  show "list_all2 (\<lambda>s' s. share_ids s' = share_ids s)
      (sn_shares (removal_candidate notice matching shared ids sn)) (sn_shares sn)"
    using assms(1) by (auto simp: removal_candidate_def record_refusal_def Let_def remove_share_at_def
        set_share_def same_ids_update list_all2_refl split: option.splits)
qed (auto simp: removal_candidate_def record_refusal_def Let_def remove_share_at_def
        set_share_def split: option.splits)

lemma list_all2_map_ids:
  "(\<And>s. share_ids (f s) = share_ids s) \<Longrightarrow>
   list_all2 (\<lambda>s' s. share_ids s' = share_ids s) (map f xs) xs"
  by (induction xs) auto

lemmas consent_step_simps = set_share_def push_share_def insert_route_def remove_share_at_def
  refusal_keys_def same_ids_update list_all2_refl

lemma candidate_consent:
  assumes "candidate E sn c" and "wf_snapshot sn"
  shows "consent_step sn c"
  using assms(1)
proof (cases rule: candidate.cases)
  case (cand_route listener binding)
  then show ?thesis by (intro consent_step_shares) (auto simp: consent_step_simps)
next
  case (cand_trust config)
  from trust_candidate_shares[OF cand_trust(2)] show ?thesis
    by (intro consent_step_shares) (auto simp: refusal_keys_def)
next
  case (cand_floor now)
  with assms(2) show ?thesis by (simp add: consent_step_floor)
next
  case (cand_offer peer_id peer now folder initial offer root)
  with assms(2) show ?thesis by (intro consent_step_push)
      (auto simp: offer_candidate_def push_share_def Let_def split: option.splits)
next
  case (cand_received offer peer)
  with assms(2) show ?thesis by (intro consent_step_push) (auto simp: push_share_def insert_route_def)
next
  case (cand_replaced offer peer index now)
  with assms(2) show ?thesis
    by (intro consent_step_extend[where index = index
          and s = "replaced_invitation offer (sn_shares sn ! index)"])
       (auto simp: wf_snapshot_def set_share_def insert_route_def replaced_invitation_def removed_ids_def)
next
  case (cand_renewed index offer now)
  with assms(2) show ?thesis
    using advance_floor_removed_ids[of sn now] advance_floor_fields[of sn now]
    by (intro consent_step_extend[where index = index and s = "renewed_share offer (sn_shares sn ! index)"])
       (auto simp: wf_snapshot_def set_share_def renewed_share_def removed_ids_def)
next
  case (cand_removal_received shared matching ids notice)
  then show ?thesis by (simp add: consent_step_removal)
next
  case (cand_peer_removed peer)
  then show ?thesis by (intro consent_step_shares)
      (auto simp: consent_step_simps remove_peer_candidate_def intro!: list_all2_map_ids)
next
  case (cand_refresh_done pending peer)
  then show ?thesis by (intro consent_step_shares)
      (auto simp: consent_step_simps completed_candidate_def intro!: list_all2_map_ids)
qed ((rule consent_step_links, fastforce dest: without_links_candidates)
      | (rule consent_step_shares; force simp: consent_step_simps))+

section \<open>One move\<close>

lemma finalize_fields:
  assumes "finalize_candidate E now c = Inr sn'"
  shows "sn_shares sn' = filter (\<lambda>s. \<not> sh_removed s) (sn_shares c)"
    and "sn_tombstones sn' = sn_tombstones c
          @ concat (map (share_tombstones (pi_device_id (sn_owner c)) (sn_freshness_floor_unix_ms c)
              (pending_removal_ids c)) (filter sh_removed (sn_shares c)))"
    and "sn_owner sn' = sn_owner c"
    and "sn_freshness_floor_unix_ms sn' = sn_freshness_floor_unix_ms c"
    and "refusal_keys sn' = refusal_keys c"
proof -
  obtain c1 b where c1: "reconcile_membership (drop_stale_reset c) (own_id E) now = Inr (c1, b)"
    and sn': "sn' = reconcile_run_states (reconcile_link_states (roster_reconcile (compact_removed c1)))"
    using assms unfolding finalize_candidate_def by (elim rbindE) auto
  have "without_links sn' = without_links (compact_removed c1)" by (simp add: sn')
  note final = without_links_eqD[OF this]
  note first = without_links_eqD[OF without_links_reconcile_membership[OF c1]]
  have stale: "sn_shares (drop_stale_reset c) = sn_shares c"
    "sn_tombstones (drop_stale_reset c) = sn_tombstones c" "sn_owner (drop_stale_reset c) = sn_owner c"
    "sn_freshness_floor_unix_ms (drop_stale_reset c) = sn_freshness_floor_unix_ms c"
    "sn_pending_remote_removals (drop_stale_reset c) = sn_pending_remote_removals c"
    "sn_remote_removal_tombstones (drop_stale_reset c) = sn_remote_removal_tombstones c"
    by (simp_all add: drop_stale_reset_def)
  show "sn_shares sn' = filter (\<lambda>s. \<not> sh_removed s) (sn_shares c)"
    "sn_tombstones sn' = sn_tombstones c
       @ concat (map (share_tombstones (pi_device_id (sn_owner c)) (sn_freshness_floor_unix_ms c)
            (pending_removal_ids c)) (filter sh_removed (sn_shares c)))"
    "sn_owner sn' = sn_owner c" "sn_freshness_floor_unix_ms sn' = sn_freshness_floor_unix_ms c"
    "refusal_keys sn' = refusal_keys c"
    using final first stale by (simp_all add: compact_removed_def pending_removal_ids_def refusal_keys_def)
qed

lemma share_tombstones_ids:
  "t \<in> set (share_tombstones owner freshness pending s) \<Longrightarrow>
     tomb_superseded_offer_ids t = [] \<and> tomb_offer_id t \<in> set (superseded_ids s)
     \<or> tomb_superseded_offer_ids t = superseded_ids s \<and> tomb_offer_id t = offer_offer_id (sh_offer s)"
  by (auto simp: share_tombstones_def Let_def superseded_ids_def)

lemma share_tombstones_head:
  "\<exists>t \<in> set (share_tombstones owner freshness pending s). tombstone_ids t = set (share_ids s)"
  by (auto simp: share_tombstones_def Let_def tombstone_ids_def share_ids_def)

text \<open>The chains of a snapshot whose removed shares come from a well-formed one.\<close>

lemma chains_ok_compact:
  assumes wf: "wf_snapshot sn" and step: "consent_step sn c"
    and ts: "set ts \<subseteq> set (sn_tombstones c)
      \<union> (\<Union>s \<in> {s \<in> set (sn_shares c). sh_removed s}. set (share_tombstones owner freshness pending s))"
  shows "chains_ok ts"
proof -
  have origin: "t \<in> set (sn_tombstones sn) \<or> (\<exists>s \<in> set (sn_shares sn).
      tomb_superseded_offer_ids t = [] \<and> tomb_offer_id t \<in> set (superseded_ids s)
      \<or> tomb_superseded_offer_ids t = superseded_ids s \<and> tomb_offer_id t = offer_offer_id (sh_offer s))"
    if "t \<in> set ts" for t
  proof -
    consider "t \<in> set (sn_tombstones c)" | s where "s \<in> set (sn_shares c)" "sh_removed s"
      "t \<in> set (share_tombstones owner freshness pending s)"
      using \<open>t \<in> set ts\<close> ts by auto
    then show ?thesis
    proof cases
      case 1
      with step show ?thesis unfolding consent_step_def by auto
    next
      case 2
      with step obtain s0 where "s0 \<in> set (sn_shares sn)" "share_ids s = share_ids s0"
        unfolding consent_step_def by blast
      with share_tombstones_ids[OF 2(3)] show ?thesis by (auto simp: share_ids_def)
    qed
  qed
  have "tomb_superseded_offer_ids t = []"
    if t: "t \<in> set ts" and t': "t' \<in> set ts" and mem: "tomb_offer_id t \<in> set (tomb_superseded_offer_ids t')"
    for t t'
  proof -
    have apart: "x \<notin> tombstone_ids u" if "s \<in> set (sn_shares sn)" "x \<in> set (share_ids s)"
      "u \<in> set (sn_tombstones sn)" for x s u
      using wf that unfolding wf_snapshot_def by blast
    consider "t \<in> set (sn_tombstones sn)" | "tomb_superseded_offer_ids t = []"
      | s where "s \<in> set (sn_shares sn)" "tomb_offer_id t = offer_offer_id (sh_offer s)"
      using origin[OF t] by blast
    then show ?thesis
    proof cases
      case 1
      then have "t' \<in> set (sn_tombstones sn)"
        using origin[OF t'] mem apart[of _ "tomb_offer_id t" t]
        by (simp add: tombstone_ids_def share_ids_def) (metis empty_iff empty_set)
      with wf 1 mem show ?thesis unfolding wf_snapshot_def chains_ok_def by blast
    next
      case (3 s)
      then have live: "tomb_offer_id t \<in> live sn" by (auto simp: live_def)
      have "t' \<in> set (sn_tombstones sn) \<Longrightarrow> False"
        using apart[OF 3(1), of "tomb_offer_id t" t'] 3(2) mem
        by (auto simp: tombstone_ids_def share_ids_def)
      then have "tomb_offer_id t \<in> refused sn"
        using origin[OF t'] mem by (auto simp: refused_def)
      with live live_refused_disjoint[OF wf] show ?thesis by blast
    qed simp
  qed
  then show ?thesis unfolding chains_ok_def by blast
qed

text \<open>What every method guarantees between the snapshot it finds and the one it leaves.\<close>

definition consent_kept :: "snapshot \<Rightarrow> snapshot \<Rightarrow> bool" where
  "consent_kept sn sn' \<longleftrightarrow> (wf_snapshot sn \<longrightarrow>
     wf_snapshot sn'
     \<and> sn_owner sn' = sn_owner sn
     \<and> sn_freshness_floor_unix_ms sn \<le> sn_freshness_floor_unix_ms sn'
     \<and> refused sn \<subseteq> refused sn'
     \<and> live sn \<subseteq> live sn' \<union> refused sn'
     \<and> refusal_keys sn \<subseteq> refusal_keys sn')"

lemma consent_kept_refl: "consent_kept sn sn"
  by (auto simp: consent_kept_def)

lemma consent_kept_trans: "consent_kept a b \<Longrightarrow> consent_kept b c \<Longrightarrow> consent_kept a c"
  unfolding consent_kept_def by (auto intro: order_trans)

lemma finalize_ids:
  assumes "finalize_candidate E now c = Inr sn'" and "s \<in> set (sn_shares c)"
  shows "set (share_ids s) \<subseteq> live sn' \<union> refused sn'" "set (superseded_ids s) \<subseteq> refused sn'"
proof -
  note f = finalize_fields[OF assms(1)]
  have "set (share_ids s) \<subseteq> live sn' \<union> refused sn' \<and> set (superseded_ids s) \<subseteq> refused sn'"
  proof (cases "sh_removed s")
    case True
    obtain t where "t \<in> set (share_tombstones (pi_device_id (sn_owner c))
        (sn_freshness_floor_unix_ms c) (pending_removal_ids c) s)" "tombstone_ids t = set (share_ids s)"
      using share_tombstones_head by blast
    then have "t \<in> set (sn_tombstones sn')" using True assms(2) by (auto simp: f(2))
    then have "set (share_ids s) \<subseteq> refused sn'"
      unfolding refused_def using \<open>tombstone_ids t = _\<close> by blast
    then show ?thesis
      by (auto simp: share_ids_def)
  next
    case False
    then have "s \<in> set (sn_shares sn')" using assms(2) by (simp add: f(1))
    then show ?thesis
      by (auto simp: share_ids_def live_def refused_def)
  qed
  then show "set (share_ids s) \<subseteq> live sn' \<union> refused sn'" "set (superseded_ids s) \<subseteq> refused sn'"
    by simp_all
qed

lemma move_consent:
  assumes "move E sn sn'" shows "consent_kept sn sn'"
  unfolding consent_kept_def
proof
  assume wf: "wf_snapshot sn"
  from assms obtain c now where c: "candidate E sn c" "finalize_candidate E now c = Inr sn'"
    "validate_snapshot E sn' = Inr ()"
    unfolding move_def finalized_def by blast
  note step = candidate_consent[OF c(1) wf] and f = finalize_fields[OF c(2)]
  have "chains_ok (sn_tombstones sn')"
    by (rule chains_ok_compact[OF wf step]) (auto simp: f(2))
  with validated_ids[OF c(3)] have wf': "wf_snapshot sn'"
    unfolding wf_snapshot_def by (auto simp: f(1))
  have removed: "removed_ids c \<subseteq> refused sn'"
    by (auto simp: removed_ids_def refused_def f(2))
  have ids: "set (share_ids s) \<subseteq> live sn' \<union> refused sn'" "set (superseded_ids s) \<subseteq> refused sn'"
    if "s \<in> set (sn_shares sn)" for s
    using step that finalize_ids[OF c(2)] unfolding consent_step_def by (meson subset_trans)+
  have "refused sn \<subseteq> refused sn'"
    using step removed ids(2) unfolding consent_step_def refused_def[of sn] removed_ids_def[symmetric]
    by blast
  moreover have "live sn \<subseteq> live sn' \<union> refused sn'"
    using ids(1) unfolding live_def[of sn] share_ids_def by auto
  ultimately show "wf_snapshot sn' \<and> sn_owner sn' = sn_owner sn
     \<and> sn_freshness_floor_unix_ms sn \<le> sn_freshness_floor_unix_ms sn'
     \<and> refused sn \<subseteq> refused sn' \<and> live sn \<subseteq> live sn' \<union> refused sn'
     \<and> refusal_keys sn \<subseteq> refusal_keys sn'"
    using wf' step f unfolding consent_step_def by simp
qed

lemma moves_consent: "moves E sn sn' \<Longrightarrow> consent_kept sn sn'"
  by (induction rule: rtranclp_induct) (auto intro: consent_kept_refl consent_kept_trans move_consent)

text \<open>
  A journal only moves forward in this order, whichever method is called and whichever way its
  environment (clock, random numbers, disk, configuration) behaves.
\<close>

interpretation journal_object: forward_object "\<lambda>j j'. consent_kept (j_snapshot j) (j_snapshot j')"
  "\<lambda>m. \<exists>E call. m = run_call E call"
proof
  fix m :: "unit journal_step" and j :: journal
  assume "\<exists>E call. m = run_call E call"
  then obtain E call where m: "m = run_call E call" by blast
  show "swp m (\<lambda>_ j'. consent_kept (j_snapshot j) (j_snapshot j')) j"
  proof (rule swpI)
    fix r j' assume "m j = (r, j')"
    then show "consent_kept (j_snapshot j) (j_snapshot j')"
      using keeps_run[OF moving_run_call] m moves_consent by blast
  qed
qed (auto intro: consent_kept_refl consent_kept_trans)

definition run_calls :: "(env \<times> journal_call) list \<Rightarrow> journal \<Rightarrow> journal" where
  "run_calls calls = srun (map (\<lambda>(E, call). run_call E call) calls)"

lemma run_calls_consent: "consent_kept (j_snapshot j) (j_snapshot (run_calls calls j))"
  unfolding run_calls_def by (rule journal_object.srun_forward) auto

section \<open>Refusals hold\<close>

lemma swp_reconcile_trust_consent:
  "swp (reconcile_trust E) (\<lambda>_ j'. consent_kept (j_snapshot j) (j_snapshot j')) j"
  by (rule swpI) (blast intro: moves_consent keeps_run[OF moving_reconcile_trust])

lemma check_known_offer_refused:
  assumes "wf_snapshot sn" "offer_offer_id offer \<in> refused sn"
  shows "\<exists>e. check_known_offer sn offer = Inl e"
proof -
  have "offer_offer_id offer \<notin> live sn" using live_refused_disjoint[OF assms(1)] assms(2) by blast
  then have none: "find (\<lambda>s. offer_offer_id (sh_offer s) = offer_offer_id offer) (sn_shares sn) = None"
    by (auto simp: find_None_iff live_def image_iff)
  have "tombstoned sn (offer_offer_id offer) \<or> list_ex (superseded_by (offer_offer_id offer)) (sn_shares sn)"
    using assms(2) by (auto simp: refused_def tombstoned_def superseded_by_def tombstone_ids_def
        list_ex_iff)
  then show ?thesis by (auto simp: check_known_offer_def none rbind_fail_if)
qed

lemma receive_offer_rejects:
  assumes "\<And>sn. consent_kept (j_snapshot j) sn \<Longrightarrow> \<exists>e. check_known_offer sn offer = Inl e"
  shows "\<exists>e. fst (receive_offer E offer now j) = Inl e"
proof -
  have "swp (receive_offer E offer now) (\<lambda>r _. \<exists>e. r = Inl e) j"
    unfolding receive_offer_def
    apply (rule swp_bind_step[OF swp_reconcile_trust_consent])
     apply simp
    apply (unfold jsnapshot_def)
    apply (intro swp_intros)
       apply (auto dest: assms)
    done
  then show ?thesis by (cases "receive_offer E offer now j") (auto simp: swp_def)
qed

text \<open>
  C8. Consent that was withdrawn or replaced cannot be replayed. Once an invitation's identifier is
  refused (its share was removed, or a renewal superseded it), it names no share of the journal
  after any sequence of calls, failing ones included, and a signed offer with this identifier is
  then rejected whatever the environment.
\<close>

theorem refused_forever:
  assumes "wf_snapshot (j_snapshot j)" "offer_offer_id offer \<in> refused (j_snapshot j)"
  shows "offer_offer_id offer \<notin> live (j_snapshot (run_calls calls j))
    \<and> (\<exists>e. fst (receive_offer E offer now (run_calls calls j)) = Inl e)"
proof -
  let ?j = "run_calls calls j"
  have kept: "wf_snapshot (j_snapshot ?j)" "offer_offer_id offer \<in> refused (j_snapshot ?j)"
    using run_calls_consent[of j calls] assms by (auto simp: consent_kept_def)
  moreover have "\<exists>e. check_known_offer sn offer = Inl e" if "consent_kept (j_snapshot ?j) sn" for sn
    using that kept by (intro check_known_offer_refused) (auto simp: consent_kept_def)
  ultimately show ?thesis
    using live_refused_disjoint[of "j_snapshot ?j"] receive_offer_rejects[of ?j offer] by blast
qed

theorem refused_forever_witness:
  "offer_offer_id demo_offer \<notin> live (j_snapshot (run_calls [] (snd bob_removed)))
    \<and> (\<exists>e. fst (receive_offer bob_env demo_offer 1000000 (run_calls [] (snd bob_removed))) = Inl e)"
proof (rule refused_forever)
  show "wf_snapshot (j_snapshot (snd bob_removed))"
    "offer_offer_id demo_offer \<in> refused (j_snapshot (snd bob_removed))"
    by code_simp+
qed

section \<open>From the first snapshot on\<close>

lemma created_snapshot:
  assumes "journal_create E instance_id listener advertised d = Inr j"
  obtains binding where "j_snapshot j = empty_snapshot E binding listener"
  using assms unfolding journal_create_def Let_def by (elim rbindE) (auto simp: journal_new_def)

lemma created_wf:
  "journal_create E instance_id listener advertised d = Inr j \<Longrightarrow> wf_snapshot (j_snapshot j)"
  by (elim created_snapshot) (simp add: wf_snapshot_def chains_ok_def empty_snapshot_def)

text \<open>
  C9. The invariant of the journal. A journal that was created and then driven by any sequence of
  calls holds no removed share, no two of its shares have an identifier in common, current or
  superseded, no identifier is both in use and refused, and its owner is the one it was created
  for.
\<close>

theorem created_journal_invariant:
  assumes "journal_create E instance_id listener advertised d = Inr j"
  shows "wf_snapshot (j_snapshot (run_calls calls j))
    \<and> live (j_snapshot (run_calls calls j)) \<inter> refused (j_snapshot (run_calls calls j)) = {}
    \<and> sn_owner (j_snapshot (run_calls calls j)) = device_public_identity E (env_identity E)"
proof -
  have "sn_owner (j_snapshot j) = device_public_identity E (env_identity E)"
    using assms by (elim created_snapshot) (simp add: empty_snapshot_def)
  moreover have "wf_snapshot (j_snapshot (run_calls calls j))"
    "sn_owner (j_snapshot (run_calls calls j)) = sn_owner (j_snapshot j)"
    using run_calls_consent[of j calls] created_wf[OF assms] by (auto simp: consent_kept_def)
  ultimately show ?thesis by (simp add: live_refused_disjoint)
qed

theorem created_journal_invariant_witness:
  "\<exists>j. bob_created = Inr j
    \<and> wf_snapshot (j_snapshot (run_calls [(bob_env, CallReceiveOffer demo_offer 1000000)] j))"
proof -
  have "\<not> isl bob_created" by code_simp
  then obtain j where "bob_created = Inr j" by (metis sum.collapse(2))
  then show ?thesis
    using created_journal_invariant[of bob_env 1 "SocketAddrV4 [0, 0, 0, 0] 22000"
        "SocketAddrV4 [192, 0, 2, 2] 22000" "\<lparr>dk_current = None, dk_staged = None, dk_fresh = 0\<rparr>" j
        "[(bob_env, CallReceiveOffer demo_offer 1000000)]"]
    unfolding bob_created_def by blast
qed

text \<open>
  C10. Consents are never lost silently. Across any sequence of calls an invitation in use stays in
  use or becomes refused, a refused identifier stays refused, and the freshness floor below which
  invitations are not accepted never falls.
\<close>

theorem consents_accounted:
  assumes "wf_snapshot (j_snapshot j)"
  shows "live (j_snapshot j)
      \<subseteq> live (j_snapshot (run_calls calls j)) \<union> refused (j_snapshot (run_calls calls j))
    \<and> refused (j_snapshot j) \<subseteq> refused (j_snapshot (run_calls calls j))
    \<and> sn_freshness_floor_unix_ms (j_snapshot j)
      \<le> sn_freshness_floor_unix_ms (j_snapshot (run_calls calls j))"
  using run_calls_consent[of j calls] assms by (auto simp: consent_kept_def)

theorem consents_accounted_witness:
  "live (j_snapshot (snd bob_received))
    \<subseteq> live (j_snapshot (run_calls [(bob_env, CallRemove (offer_offer_id demo_offer))] (snd bob_received)))
     \<union> refused (j_snapshot (run_calls [(bob_env, CallRemove (offer_offer_id demo_offer))] (snd bob_received)))"
proof -
  have "wf_snapshot (j_snapshot (snd bob_received))" by code_simp
  from consents_accounted[OF this] show ?thesis by blast
qed

text \<open>
  C11. A removal a peer asked for holds for good. Once the journal has recorded that a peer withdrew
  its folder, no later offer of that folder by that peer is accepted, under whatever identifier,
  after any sequence of calls.
\<close>

theorem withdrawn_folder_refused:
  assumes "wf_snapshot (j_snapshot j)"
    and "(offer_source_device_id offer, offer_source_device_id offer, offer_folder_id offer)
      \<in> refusal_keys (j_snapshot j)"
  shows "\<exists>e. fst (receive_offer E offer now (run_calls calls j)) = Inl e"
proof (rule receive_offer_rejects)
  fix sn assume "consent_kept (j_snapshot (run_calls calls j)) sn"
  then have "consent_kept (j_snapshot j) sn" using run_calls_consent consent_kept_trans by blast
  with assms have "(offer_source_device_id offer, offer_source_device_id offer, offer_folder_id offer)
      \<in> refusal_keys sn"
    by (auto simp: consent_kept_def)
  then show "\<exists>e. check_known_offer sn offer = Inl e"
    by (auto simp: check_known_offer_def refusal_keys_def refusal_key_def list_ex_iff rbind_fail_if)
qed

definition demo_removal_notice :: folder_removal_notice where
  "demo_removal_notice = \<lparr>frn_requester_id = DeviceId 1, frn_target_id = DeviceId 2,
     frn_offer_source_id = DeviceId 1, frn_folder_id = 7,
     frn_offer_ids = [offer_offer_id demo_offer]\<rparr>"

definition bob_notified :: "unit sharing_result \<times> journal" where
  "bob_notified = receive_removal bob_env demo_removal_notice (snd bob_received)"

theorem withdrawn_folder_refused_witness:
  "\<exists>e. fst (receive_offer bob_env (demo_offer\<lparr>offer_offer_id := 77\<rparr>) 1000000
     (run_calls [] (snd bob_notified))) = Inl e"
proof (rule withdrawn_folder_refused)
  show "wf_snapshot (j_snapshot (snd bob_notified))"
    "(offer_source_device_id (demo_offer\<lparr>offer_offer_id := 77\<rparr>),
      offer_source_device_id (demo_offer\<lparr>offer_offer_id := 77\<rparr>),
      offer_folder_id (demo_offer\<lparr>offer_offer_id := 77\<rparr>)) \<in> refusal_keys (j_snapshot (snd bob_notified))"
    by code_simp+
qed

end
