(* ===== verification/Journal_Order.thy ===== *)
theory Journal_Order
  imports Journal_Consent
begin

text \<open>
  What the journal keeps per folder and only moves forward: the settings of a link, its endpoint
  roster, and the run this device is the source of. One locale carries the argument from single
  durable writes to any sequence of calls; it is interpreted for the three maps of a snapshot.
\<close>

section \<open>Durable writes\<close>

abbreviation durable :: "snapshot \<Rightarrow> snapshot \<Rightarrow> bool" where
  "durable \<equiv> (\<lambda>sn sn'. \<exists>E. move E sn sn')\<^sup>*\<^sup>*"

lemma moves_durable: "moves E sn sn' \<Longrightarrow> durable sn sn'"
  by (rule rtranclp_mono[THEN predicate2D, rotated]) auto

lemma run_calls_simps [simp]:
  "run_calls [] j = j"
  "run_calls ((E, call) # calls) j = run_calls calls (snd (run_call E call j))"
  by (simp_all add: run_calls_def)

lemma run_call_durable: "durable (j_snapshot j) (j_snapshot (snd (run_call E call j)))"
  by (rule moves_durable[of E], rule keeps_run[OF moving_run_call]) (rule surjective_pairing)

lemma run_calls_durable: "durable (j_snapshot j) (j_snapshot (run_calls calls j))"
proof (induction calls arbitrary: j)
  case (Cons c calls)
  obtain E call where "c = (E, call)" by (cases c)
  with Cons[of "snd (run_call E call j)"] run_call_durable[of j E call] show ?case by simp
qed simp

text \<open>
  An entry of the snapshot that every durable write either drops or moves forward. A sequence of
  calls then moves it forward too, unless one of the snapshots on the way did not have it.
\<close>

locale kept_entries =
  fixes entry :: "snapshot \<Rightarrow> uuid \<Rightarrow> 'v option"
    and forward :: "'v \<Rightarrow> 'v \<Rightarrow> bool"
  assumes forward_refl: "forward x x"
    and forward_trans: "forward x y \<Longrightarrow> forward y z \<Longrightarrow> forward x z"
    and move_forward: "move E sn sn' \<Longrightarrow> entry sn k = Some x \<Longrightarrow> entry sn' k = Some y \<Longrightarrow> forward x y"
begin

lemma durable_forward:
  assumes "durable sn sn'" "entry sn k = Some x" "entry sn' k = Some y"
  shows "forward x y \<or> (\<exists>sn0. durable sn sn0 \<and> entry sn0 k = None \<and> durable sn0 sn')"
  using assms
proof (induction arbitrary: y rule: rtranclp_induct)
  case base
  then show ?case by (simp add: forward_refl)
next
  case (step mid sn')
  then obtain E where move: "move E mid sn'" by blast
  show ?case
  proof (cases "entry mid k")
    case None
    have "durable mid sn'" using move by blast
    with step.hyps(1) None show ?thesis by blast
  next
    case (Some z)
    with step.IH[OF step.prems(1)] consider "forward x z"
      | sn0 where "durable sn sn0" "entry sn0 k = None" "durable sn0 mid" by blast
    then show ?thesis
    proof cases
      case 1
      with move_forward[OF move Some step.prems(2)] show ?thesis by (blast intro: forward_trans)
    next
      case 2
      then have "durable sn0 sn'" using step.hyps(2) by (auto intro: rtranclp.rtrancl_into_rtrancl)
      with 2 show ?thesis by blast
    qed
  qed
qed

lemmas run_calls_forward = durable_forward[OF run_calls_durable]

end

section \<open>The settings of a link\<close>

definition settings_forward :: "link_settings_state \<Rightarrow> link_settings_state \<Rightarrow> bool" where
  "settings_forward st st' \<longleftrightarrow>
     lss_revision st \<le> lss_revision st'
     \<and> (lss_confirmed st \<longrightarrow>
          lss_confirmed st' \<and> lss_accepted_at_unix_ms st \<le> lss_accepted_at_unix_ms st'
          \<and> (lss_revision st' = lss_revision st \<longrightarrow>
               lss_settings st' = lss_settings st \<and> lss_change_id st' = lss_change_id st
               \<and> lss_changed_by st' = lss_changed_by st))"

lemma insert_link_states_keeps:
  "fmlookup m f = Some st \<Longrightarrow> fmlookup (insert_link_states owner ss m) f = Some st"
proof (induction ss arbitrary: m)
  case (Cons s ss)
  show ?case unfolding insert_link_states.simps
    by (rule Cons.IH) (use Cons.prems in \<open>auto split: option.splits\<close>)
qed simp

lemma insert_link_states_other:
  assumes "\<forall>s \<in> set ss. \<not> is_link_share f s"
  shows "fmlookup (insert_link_states owner ss m) f = fmlookup m f"
  using assms
proof (induction ss arbitrary: m)
  case (Cons s ss)
  then have rest: "fmlookup (insert_link_states owner ss m') f = fmlookup m' f" for m' by simp
  from Cons.prems have "\<not> is_link_share f s" by simp
  then show ?case
    by (cases "offer_link_policy (sh_offer s)") (auto simp: is_link_share_def rest)
qed simp

lemma reconcile_link_states_entry:
  assumes "fmlookup (sn_link_settings sn) f = Some st"
  shows "fmlookup (sn_link_settings (reconcile_link_states sn)) f
    = (if \<exists>s \<in> set (sn_shares sn). is_link_share f s then Some st else None)"
proof -
  let ?retained = "bt_retain (\<lambda>folder _. folder \<in> set (map (\<lambda>s. offer_folder_id (sh_offer s))
      (filter (\<lambda>s. \<not> sh_removed s \<and> offer_link_policy (sh_offer s) \<noteq> None) (sn_shares sn))))
      (sn_link_settings sn)"
  have "fmlookup ?retained f = (if \<exists>s \<in> set (sn_shares sn). is_link_share f s then Some st else None)"
    using assms by (auto simp: is_link_share_def)
  then show ?thesis
    unfolding reconcile_link_states_def Let_def
    by (auto simp: insert_link_states_keeps insert_link_states_other)
qed

lemma finalizeE:
  assumes "finalize_candidate E now c = Inr sn'"
  obtains c1 b where "reconcile_membership (drop_stale_reset c) (own_id E) now = Inr (c1, b)"
    "sn' = reconcile_run_states (reconcile_link_states (roster_reconcile (compact_removed c1)))"
  using assms unfolding finalize_candidate_def by (elim rbindE) auto

lemma reconcile_membership_runs_only:
  "reconcile_membership sn owner now = Inr (c, b) \<Longrightarrow> \<exists>runs. c = sn\<lparr>sn_link_runs := runs\<rparr>"
  by (auto simp: reconcile_membership_def)

lemma finalize_settings:
  assumes "finalize_candidate E now c = Inr sn'" "fmlookup (sn_link_settings c) f = Some st"
  shows "fmlookup (sn_link_settings sn') f \<in> {None, Some st}"
proof -
  obtain c1 b where c1: "reconcile_membership (drop_stale_reset c) (own_id E) now = Inr (c1, b)"
    and sn': "sn' = reconcile_run_states (reconcile_link_states (roster_reconcile (compact_removed c1)))"
    using finalizeE[OF assms(1)] .
  from reconcile_membership_runs_only[OF c1] have "sn_link_settings c1 = sn_link_settings c"
    by (auto simp: drop_stale_reset_def)
  then have "fmlookup (sn_link_settings (roster_reconcile (compact_removed c1))) f = Some st"
    using assms(2) by (simp add: roster_reconcile_def compact_removed_def)
  from reconcile_link_states_entry[OF this] show ?thesis
    by (auto simp: sn' reconcile_run_states_def)
qed


text \<open>Which of the three maps an operation on a snapshot leaves alone.\<close>

lemma runs_only:
  "sweep_runs sn owner P f = Inr (c, b) \<Longrightarrow> \<exists>runs. c = sn\<lparr>sn_link_runs := runs\<rparr>"
  "cancel_for_settings_change sn folder now = Inr c \<Longrightarrow> \<exists>runs. c = sn\<lparr>sn_link_runs := runs\<rparr>"
  "admit_source_request sn request now automatic = Inr (c, a, b) \<Longrightarrow> \<exists>runs. c = sn\<lparr>sn_link_runs := runs\<rparr>"
proof -
  have "\<exists>runs. sn = sn\<lparr>sn_link_runs := runs\<rparr>" by (rule exI[of _ "sn_link_runs sn"]) simp
  then show
    "sweep_runs sn owner P f = Inr (c, b) \<Longrightarrow> \<exists>runs. c = sn\<lparr>sn_link_runs := runs\<rparr>"
    "cancel_for_settings_change sn folder now = Inr c \<Longrightarrow> \<exists>runs. c = sn\<lparr>sn_link_runs := runs\<rparr>"
    "admit_source_request sn request now automatic = Inr (c, a, b) \<Longrightarrow> \<exists>runs. c = sn\<lparr>sn_link_runs := runs\<rparr>"
    by (auto simp: sweep_runs_def cancel_for_settings_change_def admit_source_request_def start_run_def
        set_slot_def Let_def split: option.splits if_splits)
qed

lemma runs_only_admits: "admits sn c \<Longrightarrow> \<exists>runs. c = sn\<lparr>sn_link_runs := runs\<rparr>"
proof (induction rule: admits.induct)
  case (admits_refl sn)
  show ?case by (rule exI[of _ "sn_link_runs sn"]) simp
next
  case (admits_step sn c request now automatic c' admission changed)
  with runs_only(3)[OF admits_step(2)] show ?case by auto
qed

lemma trust_candidate_links:
  assumes "trust_candidate E config sn = Inr (c, b)"
  shows "sn_link_settings c = sn_link_settings sn" "sn_link_runs c = sn_link_runs sn"
    "sn_endpoint_rosters c = sn_endpoint_rosters sn"
  using assms unfolding trust_candidate_def Let_def by (elim rbindE; auto)+

lemma advance_floor_links:
  "sn_link_settings (advance_freshness_floor_candidate sn now) = sn_link_settings sn"
  "sn_link_runs (advance_freshness_floor_candidate sn now) = sn_link_runs sn"
  "sn_endpoint_rosters (advance_freshness_floor_candidate sn now) = sn_endpoint_rosters sn"
  by (simp_all add: advance_freshness_floor_candidate_def Let_def)

lemma roster_round_one:
  "roster_round E config names sn shares folder (c, b, ds) = Inr (c1, b1, ds1) \<Longrightarrow>
   \<exists>members r. next_roster E config names sn folder members = Inr r
     \<and> (c1 = set_roster folder r c \<or> c1 = c)"
  unfolding roster_round_def Let_def prod.case by (elim rbindE) (auto split: if_splits)

lemma rosters_derived:
  assumes "rfold (roster_round E config names sn shares) folders (c, b, ds) = Inr (c', b', ds')"
  shows "sn_link_settings c' = sn_link_settings c \<and> sn_link_runs c' = sn_link_runs c
    \<and> (fmlookup (sn_endpoint_rosters c') f = fmlookup (sn_endpoint_rosters c) f
       \<or> (\<exists>members r. next_roster E config names sn f members = Inr r
            \<and> fmlookup (sn_endpoint_rosters c') f = Some r))"
  using assms
proof (induction folders arbitrary: c b ds)
  case (Cons folder folders)
  from Cons.prems obtain acc where acc: "roster_round E config names sn shares folder (c, b, ds) = Inr acc"
    and rest: "rfold (roster_round E config names sn shares) folders acc = Inr (c', b', ds')"
    by auto
  obtain c1 b1 ds1 where c1: "acc = (c1, b1, ds1)" by (cases acc)
  from roster_round_one[OF acc[unfolded c1]] obtain members r where
    r: "next_roster E config names sn folder members = Inr r" and "c1 = set_roster folder r c \<or> c1 = c"
    by blast
  with Cons.IH[OF rest[unfolded c1]] show ?case by (auto simp: set_roster_def split: if_splits)
qed simp

lemmas link_setters = set_link_state_def set_roster_def set_slot_def set_run_def set_share_def
  push_share_def insert_route_def remove_share_at_def record_refusal_def removal_candidate_def
  remove_peer_candidate_def completed_candidate_def offer_candidate_def Let_def advance_floor_links

lemma settings_forward_refl [simp]: "settings_forward st st"
  by (simp add: settings_forward_def)

lemma commit_link_candidateE:
  assumes "commit_link_candidate sn request now = Inr c"
  obtains st revision where "fmlookup (sn_link_settings sn) (lsq_folder_id request) = Some st"
    "lss_revision st = lsq_expected_revision request" "lss_accepted_at_unix_ms st \<le> now"
    "checked_add (lss_revision st) 1 = Some revision" "now \<noteq> 0"
    "cancel_for_settings_change (set_link_state (lsq_folder_id request)
       (committed_state st request revision now) sn) (lsq_folder_id request) now = Inr c"
  using assms unfolding commit_link_candidate_def
  by (elim rbindE) (auto simp: ok_or_def fail_if_def split: option.splits if_splits)

lemma committed_forward:
  "checked_add (lss_revision st) 1 = Some revision \<Longrightarrow> lss_accepted_at_unix_ms st \<le> now \<Longrightarrow>
   settings_forward st (committed_state st request revision now)"
  using checked_add_1_less[of "lss_revision st" revision]
  by (auto simp: settings_forward_def committed_state_def)

lemma settle_pending_change_fields:
  assumes "settle_pending_change commit st = Inr st'"
  shows "lss_revision st' = lss_revision st \<and> lss_settings st' = lss_settings st
    \<and> lss_change_id st' = lss_change_id st \<and> lss_changed_by st' = lss_changed_by st
    \<and> lss_accepted_at_unix_ms st' = lss_accepted_at_unix_ms st \<and> lss_confirmed st' = lss_confirmed st"
  using assms by (auto simp: settle_pending_change_def fail_if_def split: option.splits if_splits)

lemma adopt_settings_commitE:
  assumes "adopt_settings_commit st commit = Inr (Some st')"
  obtains "lss_revision st \<le> lsc_revision commit"
    "settle_pending_change commit (adopted_state st commit) = Inr st'"
    "lss_confirmed st \<Longrightarrow> lsc_revision commit > lss_revision st \<Longrightarrow>
       lss_accepted_at_unix_ms st \<le> lsc_accepted_at_unix_ms commit"
    "lss_confirmed st \<Longrightarrow> lsc_revision commit = lss_revision st \<Longrightarrow>
       lsc_settings commit = lss_settings st \<and> lsc_change_id commit = lss_change_id st
       \<and> lsc_changed_by commit = lss_changed_by st
       \<and> lsc_accepted_at_unix_ms commit = lss_accepted_at_unix_ms st"
proof -
  have le: "\<not> lsc_revision commit < lss_revision st"
    using assms by (auto simp: adopt_settings_commit_def)
  with assms show ?thesis
    unfolding adopt_settings_commit_def
    apply (simp only: if_False)
    apply (elim rguardE rbindE)
    subgoal for st1 by (rule that) (auto split: if_splits)
    done
qed

lemma adopt_settings_forward:
  assumes "adopt_settings_commit st commit = Inr (Some st')"
  shows "settings_forward st st'"
  using assms
proof (rule adopt_settings_commitE)
  assume le: "lss_revision st \<le> lsc_revision commit"
    and st': "settle_pending_change commit (adopted_state st commit) = Inr st'"
    and later: "lss_confirmed st \<Longrightarrow> lsc_revision commit > lss_revision st \<Longrightarrow>
       lss_accepted_at_unix_ms st \<le> lsc_accepted_at_unix_ms commit"
    and same: "lss_confirmed st \<Longrightarrow> lsc_revision commit = lss_revision st \<Longrightarrow>
       lsc_settings commit = lss_settings st \<and> lsc_change_id commit = lss_change_id st
       \<and> lsc_changed_by commit = lss_changed_by st
       \<and> lsc_accepted_at_unix_ms commit = lss_accepted_at_unix_ms st"
  have "lss_accepted_at_unix_ms st \<le> lsc_accepted_at_unix_ms commit" if "lss_confirmed st"
    using that le later same by (cases "lsc_revision commit = lss_revision st") auto
  with settle_pending_change_fields[OF st'] le same show ?thesis
    by (auto simp: settings_forward_def adopted_state_def)
qed

lemma candidate_settings:
  assumes "candidate E sn c" "fmlookup (sn_link_settings sn) f = Some st"
  shows "\<exists>st'. fmlookup (sn_link_settings c) f = Some st' \<and> settings_forward st st'"
  using assms(1)
proof (cases rule: candidate.cases)
  case (cand_trust config)
  with assms(2) show ?thesis by (simp add: trust_candidate_links)
next
  case (cand_settings_commit request now)
  from cand_settings_commit(3) obtain st0 revision where
    st0: "fmlookup (sn_link_settings sn) (lsq_folder_id request) = Some st0"
      "lss_accepted_at_unix_ms st0 \<le> now" "checked_add (lss_revision st0) 1 = Some revision"
    and cancel: "cancel_for_settings_change (set_link_state (lsq_folder_id request)
      (committed_state st0 request revision now) sn) (lsq_folder_id request) now = Inr c"
    by (rule commit_link_candidateE)
  from runs_only(2)[OF cancel] have "sn_link_settings c
      = fmupd (lsq_folder_id request) (committed_state st0 request revision now) (sn_link_settings sn)"
    by (auto simp: set_link_state_def)
  with assms(2) st0 committed_forward[OF st0(3,2), of request] show ?thesis by auto
next
  case (cand_settings_adopt commit st0 st')
  from runs_only(2)[OF cand_settings_adopt(5)]
  have "sn_link_settings c = fmupd (lsc_folder_id commit) st' (sn_link_settings sn)"
    by (auto simp: set_link_state_def)
  with assms(2) cand_settings_adopt(1) adopt_settings_forward[OF cand_settings_adopt(4)]
  show ?thesis by auto
next
  case (cand_settings_pending folder st0 source request)
  with assms(2) show ?thesis by (auto simp: set_link_state_def settings_forward_def)
next
  case (cand_rosters_derived config names shares deliveries)
  from rosters_derived[OF this] assms(2) show ?thesis by simp
next
  case cand_runs_admitted
  from runs_only_admits[OF this] assms(2) show ?thesis by auto
next
  case (cand_expire now)
  from runs_only(1)[OF this] assms(2) show ?thesis by auto
next
  case (cand_interrupt now)
  from runs_only(1)[OF this] assms(2) show ?thesis by auto
next
  case (cand_membership now)
  from reconcile_membership_runs_only[OF this] assms(2) show ?thesis by auto
next
  case (cand_offer peer_id peer now folder initial offer root)
  with assms(2) show ?thesis by (auto simp: link_setters split: option.splits)
qed (use assms(2) in \<open>simp_all add: link_setters split: option.splits\<close>)

interpretation link_settings_kept: kept_entries "\<lambda>sn. fmlookup (sn_link_settings sn)" settings_forward
proof
  fix E sn sn' k x y
  assume "move E sn sn'" "fmlookup (sn_link_settings sn) k = Some x"
    "fmlookup (sn_link_settings sn') k = Some y"
  then show "settings_forward x y"
    unfolding move_def finalized_def using candidate_settings finalize_settings by fastforce
qed (auto simp: settings_forward_def)

section \<open>Endpoint rosters\<close>

definition roster_forward :: "endpoint_roster \<Rightarrow> endpoint_roster \<Rightarrow> bool" where
  "roster_forward r r' \<longleftrightarrow> er_revision r < er_revision r' \<or> r' = r"


lemma roster_forward_refl [simp]: "roster_forward r r"
  by (simp add: roster_forward_def)



section \<open>The runs this device is the source of\<close>

definition own_run :: "snapshot \<Rightarrow> uuid \<Rightarrow> link_run_state option" where
  "own_run sn folder =
     (if link_source_in_snapshot (sn_shares sn) folder = Some (pi_device_id (sn_owner sn))
      then authoritative_run sn folder else None)"

text \<open>
  Progress of one run: its request and its times are fixed, a destination's result is recorded
  once, a running transfer keeps the source index it started with, and a finished run is final.
\<close>

definition run_progress :: "link_run_state \<Rightarrow> link_run_state \<Rightarrow> bool" where
  "run_progress st st' \<longleftrightarrow>
     lrs_generation st' = lrs_generation st
     \<and> lrs_request_id st' = lrs_request_id st \<and> lrs_requested_by st' = lrs_requested_by st
     \<and> lrs_settings_revision st' = lrs_settings_revision st
     \<and> lrs_started_at_unix_ms st' = lrs_started_at_unix_ms st
     \<and> lrs_deadline_unix_ms st' = lrs_deadline_unix_ms st
     \<and> (lrs_state_revision st < lrs_state_revision st' \<or> st' = st)
     \<and> (phase_active (lrs_phase st) \<or> st' = st)
     \<and> (lrs_phase st = Running \<longrightarrow>
          lrs_phase st' \<noteq> Preparing \<and> lrs_source_index st' = lrs_source_index st)
     \<and> fmdom' (lrs_destinations st') = fmdom' (lrs_destinations st)
     \<and> (\<forall>peer d. fmlookup (lrs_destinations st) peer = Some d \<and> result_terminal (lrd_result d)
          \<longrightarrow> fmlookup (lrs_destinations st') peer = Some d)"

definition run_forward :: "link_run_state \<Rightarrow> link_run_state \<Rightarrow> bool" where
  "run_forward st st' \<longleftrightarrow> run_progress st st'
     \<or> lrs_generation st < lrs_generation st' \<and> lrs_state_revision st < lrs_state_revision st'"

lemma run_progress_refl [simp]: "run_progress st st"
  by (simp add: run_progress_def)

lemma run_forward_refl [simp]: "run_forward st st"
  by (simp add: run_forward_def)

lemma run_progress_trans: "run_progress a b \<Longrightarrow> run_progress b c \<Longrightarrow> run_progress a c"
  unfolding run_progress_def by (auto simp: phase_active_def)

lemma run_forward_trans:
  assumes "run_forward a b" "run_forward b c" shows "run_forward a c"
proof -
  have rev: "lrs_generation x = lrs_generation y" "lrs_state_revision x \<le> lrs_state_revision y"
    if "run_progress x y" for x y
    using that by (auto simp: run_progress_def)
  from assms show ?thesis
    unfolding run_forward_def by (elim disjE) (auto dest: rev run_progress_trans)
qed

lemma end_run_progress:
  assumes "end_run result phase now st = Inr st'" "phase_active (lrs_phase st)" "phase \<noteq> Preparing"
  shows "run_progress st st'"
proof -
  obtain revision where revision: "checked_add (lrs_state_revision st) 1 = Some revision"
    and st': "st' = st\<lparr>lrs_destinations := fmmap (end_pending result now) (lrs_destinations st),
             lrs_phase := phase, lrs_ended_at_unix_ms := Some now, lrs_state_revision := revision\<rparr>"
    using assms(1) unfolding end_run_def next_state_revision_def
    by (elim rbindE) (auto simp: ok_or_def split: option.splits)
  show ?thesis
    using assms(2,3) checked_add_1_less[OF revision]
    by (auto simp: st' run_progress_def end_pending_def result_terminal_def fmdom'_alt_def)
qed

lemma finish_if_terminal_fields:
  "lrs_generation (finish_if_terminal st now) = lrs_generation st"
  "lrs_request_id (finish_if_terminal st now) = lrs_request_id st"
  "lrs_requested_by (finish_if_terminal st now) = lrs_requested_by st"
  "lrs_settings_revision (finish_if_terminal st now) = lrs_settings_revision st"
  "lrs_started_at_unix_ms (finish_if_terminal st now) = lrs_started_at_unix_ms st"
  "lrs_deadline_unix_ms (finish_if_terminal st now) = lrs_deadline_unix_ms st"
  "lrs_state_revision (finish_if_terminal st now) = lrs_state_revision st"
  "lrs_source_index (finish_if_terminal st now) = lrs_source_index st"
  "lrs_destinations (finish_if_terminal st now) = lrs_destinations st"
  "lrs_phase st \<noteq> Preparing \<Longrightarrow> lrs_phase (finish_if_terminal st now) \<noteq> Preparing"
  by (simp_all add: finish_if_terminal_def)

lemma drop_members_progress:
  assumes "drop_members sn owner now folder st = Inr st'" "phase_active (lrs_phase st)"
  shows "run_progress st st'"
proof -
  let ?ds = "fmmap_keys (\<lambda>peer d.
      if lost_destination sn owner folder peer d then end_pending Cancelled now d else d)
      (lrs_destinations st)"
  obtain revision where revision: "checked_add (lrs_state_revision st) 1 = Some revision"
    and st': "st' = finish_if_terminal (st\<lparr>lrs_destinations := ?ds, lrs_state_revision := revision\<rparr>) now"
    using assms(1) unfolding drop_members_def next_state_revision_def
    by (elim rbindE) (auto simp: ok_or_def split: option.splits)
  show ?thesis
    using assms(2) checked_add_1_less[OF revision]
    by (auto simp: st' run_progress_def finish_if_terminal_fields lost_destination_def
        result_terminal_def fmdom'_alt_def fmlookup_dom_iff split: option.splits)
qed

lemma started_run_progress:
  assumes "started_run st generation index now = Inr st'" shows "run_progress st st'"
  using assms unfolding started_run_def next_state_revision_def
  by (elim rguardE rbindE) (auto simp: ok_or_def run_progress_def phase_active_def
      dest: checked_add_1_less split: option.splits)

lemma reported_run_progress:
  assumes "reported_run st report now = Inr (Some st')" shows "run_progress st st'"
proof -
  have active: "phase_active (lrs_phase st)" if "lrs_generation st = lrr_generation report"
    using assms that unfolding reported_run_def by (auto split: if_splits)
  obtain d revision where d: "lrs_generation st = lrr_generation report"
      "fmlookup (lrs_destinations st) (lrr_reporter_id report) = Some d" "\<not> result_terminal (lrd_result d)"
      "lrs_phase st = Running" "checked_add (lrs_state_revision st) 1 = Some revision"
    and st': "st' = finish_if_terminal
            (st\<lparr>lrs_destinations := fmupd (lrr_reporter_id report)
                   \<lparr>lrd_result = lrr_result report,
                    lrd_ended_at_unix_ms = Some (lrr_ended_at_unix_ms report)\<rparr>
                   (lrs_destinations st),
                lrs_state_revision := revision\<rparr>) now"
    using assms unfolding reported_run_def next_state_revision_def
    by (auto elim!: rguardE rbindE simp: ok_or_def split: option.splits if_splits)
  show ?thesis
    using d active checked_add_1_less[OF d(5)]
    by (auto simp: st' run_progress_def finish_if_terminal_fields fmdom'_alt_def fmlookup_dom_iff
        intro: fmdomI)
qed

lemma run_step_progress: "run_step st st' \<Longrightarrow> run_progress st st'"
proof (induction rule: run_step.induct)
  case (run_interrupted st generation now st')
  then show ?case unfolding interrupted_run_def
    by (auto elim!: rguardE intro: end_run_progress simp: phase_active_def)
qed (auto intro: started_run_progress reported_run_progress)

lemma authoritative_run_set_slot:
  "authoritative_run (set_slot folder slot sn) f
     = (if f = folder then slot_authoritative slot else authoritative_run sn f)"
  by (simp add: authoritative_run_def set_slot_def)

lemma authoritative_run_set_run:
  "authoritative_run (set_run folder st sn) f = (if f = folder then Some st else authoritative_run sn f)"
  by (simp add: set_run_def authoritative_run_set_slot)

lemma authoritative_run_slot_of:
  "slot_authoritative (slot_of sn f) = authoritative_run sn f"
  by (simp add: slot_of_def authoritative_run_def default_slot_def split: option.splits)

lemma authoritative_run_cong: "sn_link_runs c = sn_link_runs sn \<Longrightarrow> authoritative_run c f = authoritative_run sn f"
  by (simp add: authoritative_run_def)

lemma cancel_run:
  assumes "cancel_for_settings_change sn folder now = Inr c" "authoritative_run sn f = Some st"
  shows "\<exists>st'. authoritative_run c f = Some st' \<and> run_progress st st'"
proof (cases "fmlookup (sn_link_runs sn) folder")
  case None
  with assms show ?thesis by (auto simp: cancel_for_settings_change_def)
next
  case (Some slot)
  show ?thesis
  proof (cases "f = folder")
    case True
    then have slot: "slot_authoritative slot = Some st" using assms(2) Some
      by (simp add: authoritative_run_def)
    show ?thesis
    proof (cases "phase_active (lrs_phase st)")
      case active: True
      with assms(1) Some slot True obtain st' where "end_run Cancelled PhaseCancelled now st = Inr st'"
        "authoritative_run c f = Some st'"
        by (auto simp: cancel_for_settings_change_def Let_def authoritative_run_set_slot)
      with active show ?thesis by (auto intro: end_run_progress)
    qed (use assms(1) Some slot True in
        \<open>auto simp: cancel_for_settings_change_def Let_def authoritative_run_set_slot\<close>)
  qed (use assms Some in \<open>auto simp: cancel_for_settings_change_def Let_def
      authoritative_run_set_slot split: option.splits if_splits\<close>)
qed

lemma start_run_forward:
  assumes "start_run sn request now = Inr (c, new)"
    and "current_generation sn (lrq_folder_id request) = lrq_expected_generation request"
    and "authoritative_run sn f = Some st"
  shows "\<exists>st'. authoritative_run c f = Some st' \<and> run_forward st st'"
proof (cases "f = lrq_folder_id request")
  case True
  then have auth: "slot_authoritative (slot_of sn f) = Some st"
    using assms(3) by (simp add: authoritative_run_slot_of)
  moreover have "lrs_generation st = lrq_expected_generation request"
    using assms(2,3) True by (auto simp: current_generation_def slot_generation_def
        authoritative_run_def bind_eq_Some_conv split: option.splits)
  ultimately show ?thesis
    using assms(1) True unfolding start_run_def Let_def next_state_revision_def
    by (elim rbindE) (auto simp: ok_or_def authoritative_run_set_slot run_forward_def
        dest: checked_add_1_less split: option.splits)
qed (use assms in \<open>auto simp: start_run_def Let_def authoritative_run_set_slot elim!: rbindE\<close>)

lemma admit_run_forward:
  assumes "admit_source_request sn request now automatic = Inr (c, a, b)" "authoritative_run sn f = Some st"
  shows "\<exists>st'. authoritative_run c f = Some st' \<and> run_forward st st'"
proof -
  have gen: "current_generation sn (lrq_folder_id request) = lrq_expected_generation request"
    if "rejection_reason sn request revision = None" for revision
    using that by (simp add: rejection_reason_def split: if_splits)
  show ?thesis
    using assms(1) unfolding admit_source_request_def Let_def
    apply (elim rguardE rbindE)
    subgoal for _ settings
      using assms(2) start_run_forward[OF _ gen]
      by (auto simp: authoritative_run_set_slot authoritative_run_slot_of split: if_splits option.splits)
    done
qed

lemma admits_forward:
  assumes "admits sn c" "authoritative_run sn f = Some st"
  shows "\<exists>st'. authoritative_run c f = Some st' \<and> run_forward st st'"
  using assms
proof (induction rule: admits.induct)
  case (admits_step sn c request now automatic c' admission changed)
  then show ?case using admit_run_forward[OF admits_step(2)] run_forward_trans by blast
qed simp

text \<open>Both sweeps and the reconciliation of members rewrite the slots one by one.\<close>

lemma try_map_runs:
  assumes "bt_try_map g (sn_link_runs sn) = Inr runs" "authoritative_run sn f = Some st"
    and "\<And>slot slot'. g f slot = Inr slot' \<Longrightarrow> slot_authoritative slot = Some st \<Longrightarrow>
      \<exists>st'. slot_authoritative slot' = Some st' \<and> run_progress st st'"
  shows "\<exists>st'. authoritative_run (sn\<lparr>sn_link_runs := runs\<rparr>) f = Some st' \<and> run_progress st st'"
proof -
  obtain slot where "fmlookup (sn_link_runs sn) f = Some slot" "slot_authoritative slot = Some st"
    using assms(2) by (auto simp: authoritative_run_def bind_eq_Some_conv)
  with bt_try_map_ok[OF assms(1)] assms(3) show ?thesis
    by (fastforce simp: authoritative_run_def)
qed

lemma sweep_runs_progress:
  assumes "sweep_runs sn owner P g = Inr (c, b)" "authoritative_run sn f = Some st"
    and "\<And>st'. g st = Inr st' \<Longrightarrow> phase_active (lrs_phase st) \<Longrightarrow> run_progress st st'"
  shows "\<exists>st'. authoritative_run c f = Some st' \<and> run_progress st st'"
proof -
  obtain runs where runs: "bt_try_map (\<lambda>folder slot.
         if sweeps sn owner P folder slot
         then rbind (g (the (slot_authoritative slot))) (\<lambda>st.
              Inr (slot\<lparr>slot_authoritative := Some st\<rparr>))
         else Inr slot) (sn_link_runs sn) = Inr runs" and c: "c = sn\<lparr>sn_link_runs := runs\<rparr>"
    using assms(1) unfolding sweep_runs_def by (elim rbindE) auto
  show ?thesis unfolding c
    by (rule try_map_runs[OF runs assms(2)])
       (use assms(3) in \<open>auto simp: sweeps_def split: if_splits\<close>)
qed

lemma reconcile_membership_progress:
  assumes "reconcile_membership sn owner now = Inr (c, b)" "authoritative_run sn f = Some st"
  shows "\<exists>st'. authoritative_run c f = Some st' \<and> run_progress st st'"
proof -
  obtain runs where runs: "bt_try_map (reconcile_slot sn owner now) (sn_link_runs sn) = Inr runs"
    and c: "c = sn\<lparr>sn_link_runs := runs\<rparr>"
    using assms(1) unfolding reconcile_membership_def by (elim rbindE) auto
  show ?thesis unfolding c
    by (rule try_map_runs[OF runs assms(2)])
       (auto simp: reconcile_slot_def loses_members_def intro: drop_members_progress split: if_splits)
qed

lemma candidate_owner: "candidate E sn c \<Longrightarrow> sn_owner c = sn_owner sn"
proof (induction rule: candidate.induct)
  case (cand_trust config sn c)
  then show ?case by (simp add: trust_candidate_shares)
qed (auto simp: link_setters advance_floor_fields dest!: without_links_candidates without_links_eqD(3)
    split: option.splits)

lemma candidate_own_run:
  assumes "candidate E sn c" "authoritative_run sn f = Some st"
    and "link_source_in_snapshot (sn_shares sn) f = Some (own_id E)"
  shows "\<exists>st'. authoritative_run c f = Some st' \<and> run_forward st st'"
  using assms(1)
proof (cases rule: candidate.cases)
  case (cand_trust config)
  with assms(2) show ?thesis by (simp add: authoritative_run_cong[OF trust_candidate_links(2)])
next
  case (cand_settings_commit request now)
  from cand_settings_commit(3) obtain st0 revision where
    cancel: "cancel_for_settings_change (set_link_state (lsq_folder_id request)
      (committed_state st0 request revision now) sn) (lsq_folder_id request) now = Inr c"
    by (rule commit_link_candidateE)
  show ?thesis
    using cancel_run[OF cancel] assms(2)
    by (auto simp: authoritative_run_def set_link_state_def run_forward_def)
next
  case (cand_settings_adopt commit st0 st')
  show ?thesis
    using cancel_run[OF cand_settings_adopt(5)] assms(2)
    by (auto simp: authoritative_run_def set_link_state_def run_forward_def)
next
  case (cand_rosters_derived config names shares deliveries)
  from rosters_derived[OF this] assms(2) show ?thesis
    by (simp add: authoritative_run_cong[of c sn])
next
  case cand_runs_admitted
  from admits_forward[OF this assms(2)] show ?thesis .
next
  case (cand_slot slot folder)
  with assms(2) show ?thesis by (auto simp: authoritative_run_set_slot authoritative_run_slot_of)
next
  case (cand_run folder st0 st')
  with assms(2) show ?thesis
    by (auto simp: authoritative_run_set_run run_forward_def dest: run_step_progress)
next
  case (cand_expire now)
  from sweep_runs_progress[OF this assms(2)] show ?thesis
    by (auto simp: run_forward_def expire_run_def intro: end_run_progress)
next
  case (cand_interrupt now)
  from sweep_runs_progress[OF this assms(2)] show ?thesis
    by (auto simp: run_forward_def interrupt_run_def elim!: rguardE intro: end_run_progress)
next
  case (cand_membership now)
  from reconcile_membership_progress[OF this assms(2)] show ?thesis by (auto simp: run_forward_def)
next
  case (cand_run_commit commit)
  then have "f \<noteq> lrc_folder_id commit"
    using assms(3) unfolding validate_commit_for_local_def by (auto elim!: rguardE)
  with cand_run_commit assms(2) show ?thesis by (simp add: authoritative_run_set_slot)
qed (use assms(2) in \<open>simp_all add: authoritative_run_def link_setters split: option.splits\<close>)

lemma finalize_runs:
  assumes "finalize_candidate E now c = Inr sn'" "authoritative_run c f = Some st"
    and "authoritative_run sn' f = Some st'"
  shows "run_progress st st'"
proof -
  obtain c1 b where c1: "reconcile_membership (drop_stale_reset c) (own_id E) now = Inr (c1, b)"
    and sn': "sn' = reconcile_run_states (reconcile_link_states (roster_reconcile (compact_removed c1)))"
    using finalizeE[OF assms(1)] .
  have "authoritative_run (drop_stale_reset c) f = Some st"
    using assms(2) by (simp add: authoritative_run_def drop_stale_reset_def)
  from reconcile_membership_progress[OF c1 this] obtain st1 where
    st1: "authoritative_run c1 f = Some st1" "run_progress st st1" by blast
  have "authoritative_run sn' f = None \<or> authoritative_run sn' f = authoritative_run c1 f"
    by (simp add: sn' authoritative_run_def reconcile_run_states_def reconcile_link_states_def
        roster_reconcile_def compact_removed_def Let_def split: option.splits)
  with st1 assms(3) show ?thesis by simp
qed

lemma validated_owner:
  assumes "validate_snapshot E sn = Inr ()" shows "pi_device_id (sn_owner sn) = own_id E"
proof -
  have "validate_header E sn = Inr ()"
    using assms unfolding validate_snapshot_def by (elim rbindE) auto
  then have "sn_owner sn = device_public_identity E (env_identity E)"
    unfolding validate_header_def by (elim rbindE rguardE) auto
  then show ?thesis by (simp add: device_public_identity_def Let_def)
qed

interpretation own_runs_kept: kept_entries own_run run_forward
proof
  fix E sn sn' k x y
  assume move: "move E sn sn'" and x: "own_run sn k = Some x" and y: "own_run sn' k = Some y"
  from move obtain c now where c: "candidate E sn c" "finalize_candidate E now c = Inr sn'"
    "validate_snapshot E sn' = Inr ()"
    unfolding move_def finalized_def by blast
  have "pi_device_id (sn_owner sn) = own_id E"
    using validated_owner[OF c(3)] candidate_owner[OF c(1)] finalize_fields(3)[OF c(2)] by simp
  then have run: "authoritative_run sn k = Some x"
    "link_source_in_snapshot (sn_shares sn) k = Some (own_id E)"
    using x by (auto simp: own_run_def split: if_splits)
  obtain z where z: "authoritative_run c k = Some z" "run_forward x z"
    using candidate_own_run[OF c(1) run] by blast
  have "run_progress z y"
    using finalize_runs[OF c(2) z(1)] y by (auto simp: own_run_def split: if_splits)
  with z(2) show "run_forward x y" by (blast intro: run_forward_trans run_forward_def[THEN iffD2])
qed (auto intro: run_forward_trans)

section \<open>Properties\<close>

text \<open>
  C12. The settings of a link never roll back. Whatever is called and however the calls fail, as
  long as no durable snapshot on the way was without the link, its revision does not decrease,
  confirmed settings stay confirmed, and at one revision there is one setting.
\<close>

theorem settings_never_roll_back:
  assumes "fmlookup (sn_link_settings (j_snapshot j)) folder = Some st"
    and "fmlookup (sn_link_settings (j_snapshot (run_calls calls j))) folder = Some st'"
  shows "settings_forward st st'
    \<or> (\<exists>sn. durable (j_snapshot j) sn \<and> fmlookup (sn_link_settings sn) folder = None
         \<and> durable sn (j_snapshot (run_calls calls j)))"
  by (rule link_settings_kept.run_calls_forward[OF assms])

definition demo_change :: link_settings_request where
  "demo_change = \<lparr>lsq_folder_id = 7, lsq_source_id = DeviceId 1, lsq_requester_id = DeviceId 2,
     lsq_change_id = 3, lsq_expected_revision = 0,
     lsq_settings = \<lparr>fls_deletion_policy = default_link_policy, fls_paused = False,
       fls_cadence = Manual, fls_android_conditions = default_conditions\<rparr>\<rparr>"

definition alice_changed :: journal where
  "alice_changed = run_calls [(alice_env, CallReceiveSettingsRequest demo_change 1020000)] alice_running"

lemma alice_changed_settings:
  "fmlookup (sn_link_settings (j_snapshot alice_changed)) 7
     = Some (committed_state (demo_settings True) demo_change 1 1020000)"
  by code_simp

theorem settings_never_roll_back_witness:
  "settings_forward (demo_settings True) (committed_state (demo_settings True) demo_change 1 1020000)
    \<or> (\<exists>sn. durable (j_snapshot alice_running) sn \<and> fmlookup (sn_link_settings sn) 7 = None
         \<and> durable sn (j_snapshot alice_changed))"
proof -
  have "fmlookup (sn_link_settings (j_snapshot alice_running)) 7 = Some (demo_settings True)"
    by code_simp
  from settings_never_roll_back[OF this] alice_changed_settings show ?thesis
    unfolding alice_changed_def by blast
qed

text \<open>
  C13. The run of a link this device is the source of. Over any calls, as long as the link was not
  dropped, the run only makes progress (request and times fixed, a destination's result recorded
  once, a finished run final) or gives way to a run of a higher generation; the state revision
  never decreases.
\<close>

theorem own_run_progresses:
  assumes "own_run (j_snapshot j) folder = Some st"
    and "own_run (j_snapshot (run_calls calls j)) folder = Some st'"
  shows "run_progress st st'
    \<or> lrs_generation st < lrs_generation st' \<and> lrs_state_revision st < lrs_state_revision st'
    \<or> (\<exists>sn. durable (j_snapshot j) sn \<and> own_run sn folder = None
         \<and> durable sn (j_snapshot (run_calls calls j)))"
  using own_runs_kept.run_calls_forward[OF assms] by (auto simp: run_forward_def)

theorem own_run_progresses_witness:
  "\<exists>st'. own_run (j_snapshot (run_calls [(alice_env, CallExpireRuns 90000000)] alice_running)) 7 = Some st'
    \<and> \<not> phase_active (lrs_phase st')
    \<and> (run_progress demo_run st'
       \<or> lrs_generation demo_run < lrs_generation st' \<and> lrs_state_revision demo_run < lrs_state_revision st'
       \<or> (\<exists>sn. durable (j_snapshot alice_running) sn \<and> own_run sn 7 = None
         \<and> durable sn (j_snapshot (run_calls [(alice_env, CallExpireRuns 90000000)] alice_running))))"
proof -
  have "own_run (j_snapshot alice_running) 7 = Some demo_run"
    by code_simp
  moreover have "map_option (\<lambda>st. phase_active (lrs_phase st))
      (own_run (j_snapshot (run_calls [(alice_env, CallExpireRuns 90000000)] alice_running)) 7) = Some False"
    by code_simp
  ultimately show ?thesis
    using own_run_progresses[of alice_running 7 demo_run "[(alice_env, CallExpireRuns 90000000)]"] by auto
qed






end
