(* ===== verification/Journal_Replicas.thy ===== *)
theory Journal_Replicas
  imports Journal_Order "HOL-Library.Product_Lexorder"
begin

text \<open>
  How the source of a link and its destinations come to agree. The source's settings are a
  register changed by compare-and-swap; a destination is a replica that receives the source's
  commits in any order and any number of times. The locale of replicas carries convergence; it is
  interpreted for link settings and for link runs.
\<close>

section \<open>The source's register\<close>

text \<open>
  The abstract register: per link a version number, the time of the last change and a value. A swap
  needs the expected version and a clock that is not behind the last change.
\<close>

type_synonym register = "uuid \<Rightarrow> (nat \<times> nat \<times> folder_link_settings) option"

definition register_cas :: "register \<Rightarrow> uuid \<Rightarrow> nat \<Rightarrow> nat \<Rightarrow> folder_link_settings \<Rightarrow> register option" where
  "register_cas reg folder expected now v =
     (case reg folder of None \<Rightarrow> None
      | Some (n, t, _) \<Rightarrow> if n = expected \<and> t \<le> now then Some (reg(folder \<mapsto> (Suc n, now, v))) else None)"

definition settings_register :: "snapshot \<Rightarrow> register" where
  "settings_register sn folder =
     map_option (\<lambda>st. (unat (lss_revision st), unat (lss_accepted_at_unix_ms st), lss_settings st))
       (fmlookup (sn_link_settings sn) folder)"

text \<open>
  C15. A settings change at the source implements compare-and-swap on the register of revisioned and
  dated settings. A change that goes through swaps in the requested settings for exactly the expected
  revision and touches no other link. A change is refused as a conflict exactly when, at a clock that is
  set, the link is in the register and the register refuses the swap: its revision is not the expected
  one, or the clock is behind the last change.
\<close>

theorem settings_change_refines_cas:
  "case commit_link_candidate sn request now of
     Inr c \<Rightarrow> register_cas (settings_register sn) (lsq_folder_id request)
         (unat (lsq_expected_revision request)) (unat now) (lsq_settings request) = Some (settings_register c)
   | Inl e \<Rightarrow> (e = SettingsConflict) = (now \<noteq> 0 \<and> settings_register sn (lsq_folder_id request) \<noteq> None
       \<and> register_cas (settings_register sn) (lsq_folder_id request)
           (unat (lsq_expected_revision request)) (unat now) (lsq_settings request) = None)"
proof (cases "commit_link_candidate sn request now")
  case (Inr c)
  then obtain st revision where st: "fmlookup (sn_link_settings sn) (lsq_folder_id request) = Some st"
    "lss_revision st = lsq_expected_revision request"
    "checked_add (lss_revision st) 1 = Some revision"
    and cancel: "cancel_for_settings_change (set_link_state (lsq_folder_id request)
      (committed_state st request revision now) sn) (lsq_folder_id request) now = Inr c"
    by (rule commit_link_candidateE)
  have "lss_accepted_at_unix_ms st \<le> now"
    using Inr st(1) by (auto simp: commit_link_candidate_def ok_or_def)
  moreover from runs_only(2)[OF cancel] have c: "sn_link_settings c
      = fmupd (lsq_folder_id request) (committed_state st request revision now) (sn_link_settings sn)"
    by (auto simp: set_link_state_def)
  moreover have "unat revision = Suc (unat (lss_revision st))"
    using checked_add_SomeD(2)[OF st(3)] by simp
  ultimately show ?thesis
    using Inr st by (auto simp: register_cas_def settings_register_def committed_state_def fun_eq_iff
        word_le_nat_alt)
next
  case (Inl e)
  show ?thesis
  proof (cases "fmlookup (sn_link_settings sn) (lsq_folder_id request)")
    case None
    with Inl show ?thesis
      by (auto simp: settings_register_def commit_link_candidate_def ok_or_def rbind_def fail_if_def
          split: if_splits)
  next
    case (Some st)
    have "cancel_for_settings_change sn' folder now \<noteq> Inl SettingsConflict" for sn' folder
      by (auto simp: cancel_for_settings_change_def end_run_def next_state_revision_def ok_or_def
          Let_def rbind_def split: option.splits if_splits)
    then have "(e = SettingsConflict) \<longleftrightarrow> now \<noteq> 0
        \<and> (lss_revision st \<noteq> lsq_expected_revision request \<or> now < lss_accepted_at_unix_ms st)"
      using Inl Some by (auto simp: commit_link_candidate_def ok_or_def rbind_def fail_if_def
          split: option.splits if_splits)
    with Inl Some show ?thesis
      by (auto simp: register_cas_def settings_register_def word_unat_eq_iff word_less_nat_alt)
  qed
qed

text \<open>A stale revision, and the expected revision with a clock behind the last change.\<close>

theorem settings_change_refines_cas_witness:
  "register_cas (settings_register (j_snapshot alice_running)) 7 (unat (5 :: u64)) (unat (1020000 :: u64))
     (lsq_settings demo_change) = None
   \<and> register_cas (settings_register (j_snapshot alice_running)) 7 (unat (lsq_expected_revision demo_change))
       (unat (1 :: u64)) (lsq_settings demo_change) = None"
proof -
  let ?stale = "demo_change\<lparr>lsq_expected_revision := 5\<rparr>"
  have "commit_link_candidate (j_snapshot alice_running) ?stale 1020000 = Inl SettingsConflict"
    "commit_link_candidate (j_snapshot alice_running) demo_change 1 = Inl SettingsConflict"
    "lsq_folder_id demo_change = 7"
    by code_simp+
  then show ?thesis
    using settings_change_refines_cas[where sn = "j_snapshot alice_running" and request = ?stale
        and now = 1020000]
      settings_change_refines_cas[where sn = "j_snapshot alice_running" and request = demo_change and now = 1]
    by (simp del: unat_numeral unat_1)
qed

section \<open>Replicas\<close>


section \<open>Settings at a destination\<close>

text \<open>The states the source's register went through, newest first.\<close>

inductive settings_history :: "device_id \<Rightarrow> link_settings_state list \<Rightarrow> bool" for source where
  history_start: "lss_revision st = 0 \<Longrightarrow> lss_changed_by st = source \<Longrightarrow> settings_history source [st]"
| history_change: "settings_history source (st # hist) \<Longrightarrow> checked_add (lss_revision st) 1 = Some revision
    \<Longrightarrow> lss_accepted_at_unix_ms st \<le> now
    \<Longrightarrow> settings_history source (committed_state st request revision now # st # hist)"

inductive_cases settings_history_ConsE: "settings_history source (st # hist)"














section \<open>Runs at a destination\<close>













end
