(* ===== verification/Journal_Durable.thy ===== *)
theory Journal_Durable
  imports Journal_Replicas
begin

text \<open>
  The journal and its store together. Every method touches its state only by \<open>persist\<close>, by drawing
  from the environment and by the two setters of host conditions; the locale of journal invariants
  says so once for all methods. It is interpreted for the agreement of the snapshot in memory with
  the record on disk.
\<close>

section \<open>Invariants of all methods\<close>

lemmas sharing_methods = offer_with_settings_inner_def offer_with_policy_def offer_with_settings_def
  record_offer_def receive_offer_def renew_at_def renew_offer_def journal_accept_def
  receive_acceptance_def receive_commit_def set_paused_def journal_remove_def receive_removal_def
  acknowledge_removal_def remove_peer_def prepare_root_repair_def commit_root_repair_def
  repair_root_def complete_root_reset_def

lemmas link_methods = commit_link_request_def request_link_settings_at_def
  receive_link_settings_request_at_def receive_link_settings_commit_def receive_endpoint_roster_def
  endpoint_roster_records_def request_link_run_def receive_link_run_request_def start_link_run_def
  interrupt_link_run_def receive_link_run_report_def expire_link_runs_def
  interrupt_unfinished_link_runs_def reconcile_link_run_membership_def admit_due_link_runs_def
  complete_link_run_def receive_link_run_commit_def set_android_host_def
  observe_android_conditions_def

lemmas view_methods = reconcile_trust_def advance_freshness_floor_def check_trust_or_refresh_def
  prepare_peer_address_refresh_def begin_peer_address_refresh_def complete_peer_address_refresh_def
  outbound_records_def summaries_def reconciled_summaries_def
  desired_settings_at_def active_batch_generations_def desired_settings_and_runs_def
  jsnapshot_def jpayload_def jcapture_def jissue_def

locale journal_invariant =
  fixes E :: env and I :: "journal \<Rightarrow> bool"
  assumes persist_keeps: "I j \<Longrightarrow> swp (persist E c) (\<lambda>_. I) j"
    and ticks_keep: "I j \<Longrightarrow> I (j\<lparr>j_ticks := n\<rparr>)"
    and host_keeps: "I j \<Longrightarrow> I (j\<lparr>j_android_host := h, j_android_condition_observation := w\<rparr>)"
    and conditions_keep: "I j \<Longrightarrow> I (j\<lparr>j_android_condition_observation := w\<rparr>)"
begin

definition steady :: "'a journal_step \<Rightarrow> bool" where
  "steady m \<longleftrightarrow> (\<forall>j. I j \<longrightarrow> swp m (\<lambda>_. I) j)"

lemma steady_pure: "steady (sret x)" "steady (sfail e)" "steady (slift r)" "steady (sget g)"
  by (simp_all add: steady_def)

lemma steady_effects:
  "steady (persist E c)" "steady jtick"
  "steady (smodify (\<lambda>j. j\<lparr>j_android_host := h j, j_android_condition_observation := w j\<rparr>))"
  "steady (smodify (\<lambda>j. j\<lparr>j_android_condition_observation := w j\<rparr>))"
  by (simp_all add: steady_def persist_keeps host_keeps conditions_keep)
     (simp add: jtick_def swp_def ticks_keep)

lemma steady_bind: "steady m \<Longrightarrow> (\<And>x. steady (f x)) \<Longrightarrow> steady (sbind m f)"
  unfolding steady_def by (auto intro!: swp_bind_step)

lemma steady_branches:
  "steady a \<Longrightarrow> steady b \<Longrightarrow> steady (if c then a else b)"
  "steady a \<Longrightarrow> (\<And>x. steady (f x)) \<Longrightarrow> steady (case v of None \<Rightarrow> a | Some x \<Rightarrow> f x)"
  "(\<And>x y. steady (g x y)) \<Longrightarrow> steady (case p of (x, y) \<Rightarrow> g x y)"
  "steady (f x) \<Longrightarrow> steady (Let x f)"
  by (auto split: option.splits prod.splits)

lemma steady_sfold: "(\<And>x b. steady (f x b)) \<Longrightarrow> steady (sfold f xs b)"
  by (induction xs arbitrary: b) (auto intro: steady_pure steady_bind)

lemmas steady_rules = steady_pure steady_effects steady_bind steady_branches steady_sfold

lemma steady_rounds: "steady (admit_due_round E now folder b)" "steady (desired_round E config s acc)"
  unfolding admit_due_round_def desired_round_def view_methods by (intro steady_rules)+

lemma steady_run_call: "steady (run_call E call)"
  by (cases call)
     (simp_all only: run_call.simps forget_def sharing_methods link_methods view_methods,
      (intro steady_rules steady_rounds)+)

end

text \<open>Calls in environments that agree on what the invariant refers to.\<close>

lemma run_calls_invariant:
  assumes "\<And>E call. (E, call) \<in> set calls \<Longrightarrow> journal_invariant E I" and "I j"
  shows "I (run_calls calls j)"
  using assms
proof (induction calls arbitrary: j)
  case (Cons c calls)
  obtain E call where c: "c = (E, call)" by (cases c)
  with Cons.prems have inv: "journal_invariant E I" by auto
  have "swp (run_call E call) (\<lambda>_. I) j"
    using journal_invariant.steady_run_call[OF inv] Cons.prems(2)
    by (simp add: journal_invariant.steady_def[OF inv])
  then have "I (snd (run_call E call j))"
    by (cases "run_call E call j") (simp add: swp_def)
  then have "I (run_calls calls (snd (run_call E call j)))"
    by (intro Cons.IH) (use Cons.prems(1) in auto)
  with c show ?case by simp
qed simp

section \<open>Memory and disk agree\<close>

definition on_disk :: "store_ext \<Rightarrow> engine_state_store \<Rightarrow> disk \<Rightarrow> bool" where
  "on_disk X st d \<longleftrightarrow> (\<exists>bs. dk_current d = Some (st_current st, bs)
     \<and> decode_record X bs = Inr (st_revision st, st_payload st))"

definition synced :: "store_ext \<Rightarrow> (snapshot \<Rightarrow> bytes option) \<Rightarrow> journal \<Rightarrow> bool" where
  "synced X encode j \<longleftrightarrow> st_uncertain (j_store j)
     \<or> encode (j_snapshot j) = Some (st_payload (j_store j)) \<and> on_disk X (j_store j) (j_disk j)"

lemma jreplace_spec:
  assumes "store_ext_ok (env_store E)"
  shows "swp (jreplace E payload) (\<lambda>r j'. j_snapshot j' = j_snapshot j
      \<and> (case r of Inr _ \<Rightarrow> st_payload (j_store j') = payload \<and> on_disk (env_store E) (j_store j') (j_disk j')
         | Inl _ \<Rightarrow> st_uncertain (j_store j') \<or> j_store j' = j_store j \<and> j_disk j' = j_disk j)) j"
proof (rule swpI)
  fix r j' assume run: "jreplace E payload j = (r, j')"
  obtain r0 w where w: "store_replace (env_store E) (env_io E (j_ticks j)) payload (j_store j, j_disk j) = (r0, w)"
    by (cases "store_replace (env_store E) (env_io E (j_ticks j)) payload (j_store j, j_disk j)")
  have j': "r = map_err (\<lambda>_. PersistenceUncertain) r0" "j_snapshot j' = j_snapshot j"
    "j_store j' = fst w" "j_disk j' = snd w"
    using run w by (auto simp: jreplace_def sbind_def jtick_def)
  note spec = swpD[OF store_replace_spec[of "env_store E" "env_io E (j_ticks j)" payload "(j_store j, j_disk j)"] w]
  show "j_snapshot j' = j_snapshot j
      \<and> (case r of Inr _ \<Rightarrow> st_payload (j_store j') = payload \<and> on_disk (env_store E) (j_store j') (j_disk j')
         | Inl _ \<Rightarrow> st_uncertain (j_store j') \<or> j_store j' = j_store j \<and> j_disk j' = j_disk j)"
  proof (cases r0)
    case (Inl e)
    with spec j' show ?thesis by (auto simp: same_entry_def)
  next
    case (Inr u)
    with spec obtain revision bs where new: "replaced (env_store E) (env_io E (j_ticks j)) payload (j_store j, j_disk j) revision bs"
      "fst w = \<lparr>st_current = dk_fresh (j_disk j), st_digest = sha256 (env_store E) bs,
                st_revision = revision, st_payload = payload, st_uncertain = False\<rparr>"
      "dk_current (snd w) = Some (dk_fresh (j_disk j), bs)" by auto
    then have "decode_record (env_store E) bs = Inr (revision, payload)"
      by (auto simp: replaced_def intro!: decode_encode_record[OF assms] dest: checked_add_1_pos)
    with new Inr j' show ?thesis by (simp add: on_disk_def)
  qed
qed

lemma persist_synced:
  assumes "store_ext_ok (env_store E)" "synced (env_store E) (json_snapshot E) j"
  shows "swp (persist E c) (\<lambda>_. synced (env_store E) (json_snapshot E)) j"
  unfolding persist_def
  apply (rule swp_bind_step[where P = "\<lambda>_ j'. j_snapshot j' = j_snapshot j \<and> j_store j' = j_store j \<and> j_disk j' = j_disk j"])
    apply (simp add: swp_def jtick_def)
   apply (use assms(2) in \<open>simp add: synced_def\<close>)
  apply (intro swp_intros)
     apply (use assms(2) in \<open>auto simp: synced_def\<close>)[3]
  apply (rule swp_bind_step[OF jreplace_spec[OF assms(1)]])
   apply (use assms(2) in \<open>auto simp: synced_def\<close>)[1]
  apply (auto simp: synced_def ok_or_def split: option.splits)
  done

text \<open>The law of the store and of the codec is part of the invariant: without it nothing is claimed.\<close>

interpretation synced_journal: journal_invariant E
  "\<lambda>j. store_ext_ok (env_store E) \<longrightarrow> synced (env_store E) (json_snapshot E) j" for E
proof
  fix j c
  assume "store_ext_ok (env_store E) \<longrightarrow> synced (env_store E) (json_snapshot E) j"
  then show "swp (persist E c) (\<lambda>_ j. store_ext_ok (env_store E) \<longrightarrow> synced (env_store E) (json_snapshot E) j) j"
    by (cases "store_ext_ok (env_store E)") (auto intro: persist_synced swpI)
qed (simp_all add: synced_def)

lemma run_calls_synced:
  assumes "store_ext_ok X" "synced X encode j"
    and "\<And>E call. (E, call) \<in> set calls \<Longrightarrow> env_store E = X \<and> json_snapshot E = encode"
  shows "synced X encode (run_calls calls j)"
proof -
  have "store_ext_ok X \<longrightarrow> synced X encode (run_calls calls j)"
  proof (rule run_calls_invariant)
    fix E call assume "(E, call) \<in> set calls"
    then have "env_store E = X" "json_snapshot E = encode" using assms(3) by blast+
    with synced_journal.journal_invariant_axioms[of E]
    show "journal_invariant E (\<lambda>j. store_ext_ok X \<longrightarrow> synced X encode j)" by simp
  qed (use assms(2) in simp)
  with assms(1) show ?thesis by simp
qed

lemma created_synced:
  assumes "journal_create E n listener advertised d = Inr j" "store_ext_ok (env_store E)"
  shows "synced (env_store E) (json_snapshot E) j"
proof -
  obtain sn payload w where w: "json_snapshot E sn = Some payload"
    "store_create (env_store E) (env_io E 0) (env_io E 1) payload d = Inr w" "j = journal_new w sn n"
    using assms(1) unfolding journal_create_def Let_def
    by (elim rbindE) (auto simp: ok_or_def map_err_def split: option.splits sum.splits)
  obtain bs where bs: "encode_record (env_store E) 1 payload = Inr bs"
    and opened: "store_open (env_store E) (env_io E 1)
      (d\<lparr>dk_current := Some (dk_fresh d, bs), dk_fresh := Suc (dk_fresh d)\<rparr>) = Inr w"
    using w(2) unfolding store_create_def by (elim rbindE) auto
  obtain st d' where "w = (st, d')" by (cases w)
  from store_open_fields[OF opened[unfolded this]] \<open>w = _\<close> w decode_encode_record[OF assms(2) bs]
  show ?thesis by (auto simp: synced_def on_disk_def journal_new_def)
qed

text \<open>
  C18. A restart loses nothing. Create a journal, make any calls (failing ones included), and reopen
  what is then on disk: unless the last write was left uncertain, the reopened snapshot is exactly
  the one in memory. Relied on: the store's codec and secret box decode what they encoded, and so
  does the codec of snapshots.
\<close>

theorem reopened_is_memory:
  assumes "store_ext_ok X"
    and "journal_create E0 n listener advertised d = Inr j"
    and "\<forall>(E, call) \<in> insert (E0, first) (set calls). env_store E = X \<and> json_snapshot E = encode"
    and "\<not> st_uncertain (j_store (run_calls calls j))"
    and "env_store E = X" "\<forall>sn bs. encode sn = Some bs \<longrightarrow> json_snapshot_decode E bs = Some sn"
    and "journal_load E n' (j_disk (run_calls calls j)) = Inr j'"
  shows "j_snapshot j' = j_snapshot (run_calls calls j)"
proof -
  let ?j = "run_calls calls j"
  have envs: "env_store E0 = X" "json_snapshot E0 = encode" using assms(3) by auto
  have "synced X encode j" using created_synced[OF assms(2)] assms(1) envs by simp
  then have "synced X encode ?j"
    using run_calls_synced[OF assms(1)] assms(3) by fast
  with assms(4) obtain bs where disk: "encode (j_snapshot ?j) = Some (st_payload (j_store ?j))"
    "dk_current (j_disk ?j) = Some (st_current (j_store ?j), bs)"
    "decode_record X bs = Inr (st_revision (j_store ?j), st_payload (j_store ?j))"
    unfolding synced_def on_disk_def by blast
  obtain st d' sn where opened: "store_open X (env_io E 0) (j_disk ?j) = Inr (st, d')"
    and sn: "json_snapshot_decode E (st_payload st) = Some sn" "j_snapshot j' = sn"
    using assms(7) unfolding journal_load_def assms(5)
    by (elim rbindE) (auto simp: map_err_def ok_or_def store_get_payload_def journal_new_def
        split: sum.splits option.splits elim!: rbindE)
  from store_open_fields[OF opened] disk(2,3) have "st_payload st = st_payload (j_store ?j)" by simp
  with sn assms(6) disk(1) show ?thesis by simp
qed

text \<open>A codec for the two snapshots of the witness.\<close>

definition demo_first :: snapshot where
  "demo_first = empty_snapshot bob_env bob_binding (SocketAddrV4 [0, 0, 0, 0] 22000)"

definition demo_second :: snapshot where
  "demo_second = demo_first\<lparr>sn_freshness_floor_unix_ms := 100000\<rparr>"

definition demo_encode :: "snapshot \<Rightarrow> bytes option" where
  "demo_encode sn = (if sn = demo_first then Some ''1'' else if sn = demo_second then Some ''2'' else None)"

definition durable_env :: env where
  "durable_env = bob_env\<lparr>json_snapshot := demo_encode,
     json_snapshot_decode := (\<lambda>bs. if bs = ''1'' then Some demo_first
       else if bs = ''2'' then Some demo_second else None)\<rparr>"

definition durable_created :: "journal sharing_result" where
  "durable_created = journal_create durable_env 1 (SocketAddrV4 [0, 0, 0, 0] 22000)
     (SocketAddrV4 [192, 0, 2, 2] 22000) \<lparr>dk_current = None, dk_staged = None, dk_fresh = 0\<rparr>"

definition durable_call :: "env \<times> journal_call" where
  "durable_call = (durable_env, CallReceiveOffer demo_offer 1300000)"

theorem reopened_is_memory_witness:
  "\<exists>j j'. durable_created = Inr j
    \<and> journal_load durable_env 2 (j_disk (run_calls [durable_call] j)) = Inr j'
    \<and> sn_freshness_floor_unix_ms (j_snapshot (run_calls [durable_call] j)) = 100000
    \<and> j_snapshot j' = j_snapshot (run_calls [durable_call] j)"
proof -
  have "\<not> isl durable_created" by code_simp
  then obtain j where j: "durable_created = Inr j" by (metis sum.collapse(2))
  have "\<not> st_uncertain (j_store (run_calls [durable_call] (projr durable_created)))
      \<and> sn_freshness_floor_unix_ms (j_snapshot (run_calls [durable_call] (projr durable_created))) = 100000
      \<and> \<not> isl (journal_load durable_env 2 (j_disk (run_calls [durable_call] (projr durable_created))))"
    by code_simp
  then obtain j' where run: "\<not> st_uncertain (j_store (run_calls [durable_call] j))"
    "sn_freshness_floor_unix_ms (j_snapshot (run_calls [durable_call] j)) = 100000"
    "journal_load durable_env 2 (j_disk (run_calls [durable_call] j)) = Inr j'"
    unfolding j sum.sel by (metis sum.collapse(2))
  have "store_ext_ok (env_store durable_env)"
    by (auto simp: store_ext_ok_def durable_env_def bob_env_def demo_env_def demo_engine_store_def
        demo_store_ext_def sharing_ext.defs split: if_splits)
  moreover have "\<forall>sn bs. json_snapshot durable_env sn = Some bs \<longrightarrow> json_snapshot_decode durable_env bs = Some sn"
    by (auto simp: durable_env_def demo_encode_def split: if_splits)
  ultimately have "j_snapshot j' = j_snapshot (run_calls [durable_call] j)"
    using run(1,3) j unfolding durable_created_def
    by (intro reopened_is_memory[where E = durable_env and E0 = durable_env]) (auto simp: durable_call_def)
  with j run show ?thesis by blast
qed

section \<open>Uncertain writes\<close>

lemma jreplace_uncertain:
  assumes "st_uncertain (j_store j)"
  shows "swp (jreplace E payload) (\<lambda>r j'. (\<exists>e. r = Inl e) \<and> j_store j' = j_store j
    \<and> j_disk j' = j_disk j \<and> j_snapshot j' = j_snapshot j) j"
proof (rule swpI)
  fix r j' assume run: "jreplace E payload j = (r, j')"
  obtain r0 w where w: "store_replace (env_store E) (env_io E (j_ticks j)) payload (j_store j, j_disk j) = (r0, w)"
    by (cases "store_replace (env_store E) (env_io E (j_ticks j)) payload (j_store j, j_disk j)")
  have "w = (j_store j, j_disk j) \<and> (r0 = Inl Unavailable \<or> r0 = Inl engine_state_error.PersistenceUncertain)"
    using swpD[OF store_replace_uncertain w] assms by simp
  then show "(\<exists>e. r = Inl e) \<and> j_store j' = j_store j \<and> j_disk j' = j_disk j \<and> j_snapshot j' = j_snapshot j"
    using run w by (auto simp: jreplace_def sbind_def jtick_def)
qed

lemma persist_uncertain:
  assumes "st_uncertain (j_store j)"
  shows "swp (persist E c) (\<lambda>r j'. (\<exists>e. r = Inl e) \<and> j_store j' = j_store j
    \<and> j_disk j' = j_disk j \<and> j_snapshot j' = j_snapshot j) j"
  unfolding persist_def
  apply (rule swp_bind_step[where P = "\<lambda>_ j'. j_snapshot j' = j_snapshot j \<and> j_store j' = j_store j \<and> j_disk j' = j_disk j"])
    apply (simp add: swp_def jtick_def)
   apply simp
  apply (intro swp_intros)
     apply auto[3]
  apply (rule swp_bind_step[OF jreplace_uncertain])
    apply (use assms in auto)
  done

definition frozen :: "engine_state_store \<Rightarrow> disk \<Rightarrow> snapshot \<Rightarrow> journal \<Rightarrow> bool" where
  "frozen st d sn j \<longleftrightarrow> st_uncertain st \<and> j_store j = st \<and> j_disk j = d \<and> j_snapshot j = sn"

interpretation frozen_journal: journal_invariant E "frozen st d sn" for E st d sn
proof
  fix j c assume "frozen st d sn j"
  then show "swp (persist E c) (\<lambda>_. frozen st d sn) j"
    by (intro swp_mono[OF persist_uncertain]) (auto simp: frozen_def)
qed (simp_all add: frozen_def)

text \<open>
  C19. After a write whose outcome is unknown the journal stops. Whatever is called on it from then
  on, in whatever environment, neither the snapshot in memory nor the disk changes, and no later
  write succeeds: the state can only be taken up again by reopening the record.
\<close>

theorem uncertain_write_stops_journal:
  assumes "st_uncertain (j_store j)"
  shows "j_snapshot (run_calls calls j) = j_snapshot j \<and> j_disk (run_calls calls j) = j_disk j
    \<and> st_uncertain (j_store (run_calls calls j)) \<and> (\<exists>e. fst (persist E c (run_calls calls j)) = Inl e)"
proof -
  have "frozen (j_store j) (j_disk j) (j_snapshot j) (run_calls calls j)"
    by (rule run_calls_invariant[OF frozen_journal.journal_invariant_axioms])
       (use assms in \<open>simp add: frozen_def\<close>)
  then have run: "j_store (run_calls calls j) = j_store j" "j_disk (run_calls calls j) = j_disk j"
    "j_snapshot (run_calls calls j) = j_snapshot j" by (simp_all add: frozen_def)
  have "\<exists>e. fst (persist E c (run_calls calls j)) = Inl e"
    using persist_uncertain[of "run_calls calls j" E c] assms run
    by (cases "persist E c (run_calls calls j)") (simp add: swp_def)
  with run assms show ?thesis by simp
qed

definition bob_uncertain :: journal where
  "bob_uncertain = bob_linked\<lparr>j_store := (j_store bob_linked)\<lparr>st_uncertain := True\<rparr>\<rparr>"

theorem uncertain_write_stops_journal_witness:
  "j_snapshot (run_calls [(bob_env, CallRemove (offer_offer_id demo_offer))] bob_uncertain) = j_snapshot bob_linked"
  using uncertain_write_stops_journal[of bob_uncertain "[(bob_env, CallRemove (offer_offer_id demo_offer))]"]
  by (simp add: bob_uncertain_def)

end
