(* ===== verification/Journal_Release.thy ===== *)
theory Journal_Release
  imports Journal_Durable
begin

text \<open>
  What the journal releases to the transfer engine and to other devices. A folder, a member or a
  peer appears in the engine's settings only for a share both sides signed, that is neither paused
  nor removed, whose peer is trusted now with the identity of the share, and whose link allows a
  transfer at this moment; a destination of a run is shown its own result only.
\<close>

section \<open>The settings of the engine\<close>

text \<open>Why the engine of a peer may be a member of a folder.\<close>

definition backs ::
    "env \<Rightarrow> node_config \<Rightarrow> snapshot \<Rightarrow> share \<Rightarrow> uuid \<Rightarrow> string \<Rightarrow> bool" where
  "backs E config sn s folder engine \<longleftrightarrow>
     offer_folder_id (sh_offer s) = folder
     \<and> (\<exists>trust. observe_trust E config (pi_device_id (sh_peer_identity s)) = Inr (Some trust)
          \<and> trust_matches trust s)
     \<and> (\<exists>root. sh_root s = Some root \<and> validate_current_root E root = Inr ())
     \<and> (\<exists>fresh peer. desired_peer E config sn fresh s = Inr peer \<and> epc_id peer = engine)"

definition plans_backed ::
    "env \<Rightarrow> node_config \<Rightarrow> snapshot \<Rightarrow> share set \<Rightarrow> (uuid, folder_plan) fmap \<Rightarrow> bool" where
  "plans_backed E config sn shares folders \<longleftrightarrow>
     (\<forall>folder plan. fmlookup folders folder = Some plan \<longrightarrow>
        (\<forall>engine \<in> set (fp_members plan). engine = installation_id E
           \<or> (\<exists>s \<in> shares. backs E config sn s folder engine)))"

definition peers_backed ::
    "env \<Rightarrow> node_config \<Rightarrow> snapshot \<Rightarrow> share set \<Rightarrow> (device_id, engine_peer_config) fmap \<Rightarrow> bool" where
  "peers_backed E config sn shares peers \<longleftrightarrow>
     (\<forall>peer_id peer. fmlookup peers peer_id = Some peer \<longrightarrow>
        (\<exists>s \<in> shares. pi_device_id (sh_peer_identity s) = peer_id
           \<and> backs E config sn s (offer_folder_id (sh_offer s)) (epc_id peer)))"

lemma plan_folder_backed:
  assumes "plan_folder E sn s root engine folders = Inr folders'"
    and "plans_backed E config sn shares folders" "s \<in> shares"
    and "backs E config sn s (offer_folder_id (sh_offer s)) engine"
  shows "plans_backed E config sn shares folders'"
proof -
  let ?folder = "offer_folder_id (sh_offer s)"
  define plan where "plan = (case fmlookup folders ?folder of Some plan \<Rightarrow> plan
      | None \<Rightarrow> \<lparr>fp_label = offer_label (sh_offer s), fp_root = root_path root,
          fp_members = [installation_id E], fp_role = desired_role E sn s\<rparr>)"
  have "folders' = fmupd ?folder (plan\<lparr>fp_members := List.insert engine (fp_members plan)\<rparr>) folders"
    using assms(1) unfolding plan_folder_def Let_def plan_def by (elim rguardE) simp
  moreover have "fmlookup folders ?folder = Some plan \<or> fp_members plan = [installation_id E]"
    by (simp add: plan_def split: option.splits)
  ultimately show ?thesis
    using assms(2-) unfolding plans_backed_def by (auto split: if_splits)
qed

lemma desired_share_backed:
  assumes "desired_share E config sn fresh s (peers, folders) = Inr (peers', folders')"
    and "plans_backed E config sn shares folders" "peers_backed E config sn shares peers" "s \<in> shares"
  shows "plans_backed E config sn shares folders' \<and> peers_backed E config sn shares peers'"
proof -
  obtain trust root peer where steps:
    "observe_trust E config (pi_device_id (sh_peer_identity s)) = Inr (Some trust)" "trust_matches trust s"
    "sh_root s = Some root" "validate_current_root E root = Inr ()"
    "desired_peer E config sn fresh s = Inr peer"
    "plan_folder E sn s root (epc_id peer) folders = Inr folders'"
    "peers' = fmupd (pi_device_id (sh_peer_identity s)) peer peers"
    using assms(1) unfolding desired_share_def Let_def prod.case
    by (elim rguardE rbindE) (auto simp: ok_or_def split: option.splits)
  then have backs: "backs E config sn s (offer_folder_id (sh_offer s)) (epc_id peer)"
    unfolding backs_def by blast
  have "peers_backed E config sn shares peers'"
    using assms(3,4) backs steps(7) unfolding peers_backed_def by auto
  with plan_folder_backed[OF steps(6) assms(2,4) backs] show ?thesis by simp
qed

text \<open>The loop reads the clock, so only the count of readings changes.\<close>

lemma desired_round_backed:
  assumes "j_snapshot j = sn" "s \<in> eligible"
    and "plans_backed E config sn eligible (snd acc)" "peers_backed E config sn eligible (fst acc)"
  shows "swp (desired_round E config s acc) (\<lambda>r j'. (\<exists>n. j' = j\<lparr>j_ticks := n\<rparr>) \<and> (\<forall>acc'. r = Inr acc' \<longrightarrow>
      plans_backed E config sn eligible (snd acc') \<and> peers_backed E config sn eligible (fst acc'))) j"
proof -
  obtain peers folders where "acc = (peers, folders)" by (cases acc)
  with assms desired_share_backed[of E config sn _ s peers folders _ _ eligible] show ?thesis
    unfolding desired_round_def
    by (auto simp: swp_def sbind_def jtick_def jsnapshot_def sget_def slift_def split: sum.splits)
qed

lemma desired_rounds_backed:
  assumes "j_snapshot j = sn" "set shares \<subseteq> eligible"
  shows "swp (sfold (desired_round E config) shares (fmempty, fmempty)) (\<lambda>r j'.
      (\<exists>n. j' = j\<lparr>j_ticks := n\<rparr>) \<and> (\<forall>acc. r = Inr acc \<longrightarrow>
        plans_backed E config sn eligible (snd acc) \<and> peers_backed E config sn eligible (fst acc))) j"
proof (rule swp_sfold[where I = "\<lambda>acc j'. (\<exists>n. j' = j\<lparr>j_ticks := n\<rparr>)
      \<and> plans_backed E config sn eligible (snd acc) \<and> peers_backed E config sn eligible (fst acc)"])
  fix s acc and j' :: journal
  assume s: "s \<in> set shares" and I: "(\<exists>n. j' = j\<lparr>j_ticks := n\<rparr>)
      \<and> plans_backed E config sn eligible (snd acc) \<and> peers_backed E config sn eligible (fst acc)"
  then have "j_snapshot j' = sn" using assms(1) by auto
  with s I assms(2) show "swp (desired_round E config s acc) (\<lambda>r t. case r of
        Inl e \<Rightarrow> (\<exists>n. t = j\<lparr>j_ticks := n\<rparr>) \<and> (\<forall>acc. Inl e = Inr acc \<longrightarrow>
          plans_backed E config sn eligible (snd acc) \<and> peers_backed E config sn eligible (fst acc))
      | Inr acc' \<Rightarrow> (\<exists>n. t = j\<lparr>j_ticks := n\<rparr>) \<and> plans_backed E config sn eligible (snd acc')
          \<and> peers_backed E config sn eligible (fst acc')) j'"
    by (intro swp_mono[OF desired_round_backed[where eligible = eligible and sn = sn]])
       (auto split: sum.splits)
next
  show "(\<exists>n. j = j\<lparr>j_ticks := n\<rparr>) \<and> plans_backed E config sn eligible (snd (fmempty, fmempty))
      \<and> peers_backed E config sn eligible (fst (fmempty, fmempty))"
    by (auto simp: plans_backed_def peers_backed_def intro: exI[of _ "j_ticks j"])
qed auto

lemma plan_config_fields:
  assumes "plan_config E (folder, plan) = Inr config"
  shows "efc_id config = folder" "set (efc_members config) = set (fp_members plan)"
  using assms unfolding plan_config_def prod.case
  by (auto simp: map_err_def folder_config_new_def folder_with_role_def split: sum.splits elim!: rbindE rguardE)

lemma planned_members:
  assumes "rmap (plan_config E) (sorted_list_of_fmap folders) = Inr configs" "f \<in> set configs"
  shows "\<exists>plan. fmlookup folders (efc_id f) = Some plan \<and> set (efc_members f) = set (fp_members plan)"
proof -
  obtain i where "i < length configs" "f = configs ! i" using assms(2) by (auto simp: in_set_conv_nth)
  moreover note rmap_InrD[OF assms(1)]
  ultimately have "sorted_list_of_fmap folders ! i \<in> set (sorted_list_of_fmap folders)"
    "plan_config E (sorted_list_of_fmap folders ! i) = Inr f"
    by (auto simp: list_all2_conv_all_nth)
  moreover obtain folder plan where "sorted_list_of_fmap folders ! i = (folder, plan)"
    by (cases "sorted_list_of_fmap folders ! i")
  ultimately have "fmlookup folders folder = Some plan" "plan_config E (folder, plan) = Inr f"
    by (simp_all add: set_sorted_list_of_fmap)
  with plan_config_fields show ?thesis by blast
qed

text \<open>What may transfer: consent, no pause, a link that allows it now.\<close>

definition transfer_shares :: "env \<Rightarrow> journal \<Rightarrow> u64 \<Rightarrow> int \<Rightarrow> share set" where
  "transfer_shares E j now observed_at =
     {s \<in> set (sn_shares (j_snapshot j)). transfer_eligible E j now observed_at s}"

lemma conditions_ticks [simp]:
  "conditions_allow (j\<lparr>j_ticks := n\<rparr>) required observed_at = conditions_allow j required observed_at"
  by (simp add: conditions_allow_def)

lemma local_run_ticks [simp]:
  "local_run_is_active E (j\<lparr>j_ticks := n\<rparr>) folder st now observed_at
     = local_run_is_active E j folder st now observed_at"
  by (simp add: local_run_is_active_def Let_def split: sum.split option.split)

lemma link_allows_ticks [simp]:
  "link_allows_transfer_at E (j\<lparr>j_ticks := n\<rparr>) s now observed_at
     = link_allows_transfer_at E j s now observed_at"
  by (simp add: link_allows_transfer_at_def local_batch_allows_transfer_at_def cong: if_cong)

lemma transfer_shares_ticks [simp]:
  "transfer_shares E (j\<lparr>j_ticks := n\<rparr>) now observed_at = transfer_shares E j now observed_at"
  by (simp add: transfer_shares_def transfer_eligible_def)

lemma sbindE:
  assumes "sbind m f s = (Inr y, t)" obtains x u where "m s = (Inr x, u)" "f x u = (Inr y, t)"
  using assms by (auto simp: sbind_def split: prod.splits sum.splits)

lemma desired_settings_at_steps:
  assumes "desired_settings_at E now observed_at j = (Inr settings, j')"
  obtains config peers folders where "env_config E = Some config"
    "plans_backed E config (j_snapshot j') (transfer_shares E j' now observed_at) folders"
    "peers_backed E config (j_snapshot j') (transfer_shares E j' now observed_at) peers"
    "rmap (plan_config E) (sorted_list_of_fmap folders) = Inr (ess_folders settings)"
    "ess_peers settings = map snd (sorted_list_of_fmap peers)"
proof -
  obtain config j0 acc j1 where config: "engine_config E = Inr config"
    and fold: "sfold (desired_round E config)
       (filter (transfer_eligible E j0 now observed_at) (sn_shares (j_snapshot j0)))
       (fmempty, fmempty) j0 = (Inr acc, j1)"
    and rest: "(case acc of (peers, folders) \<Rightarrow>
       sbind (slift (rmap (plan_config E) (sorted_list_of_fmap folders))) (\<lambda>configs.
       sret \<lparr>ess_device_name = nc_device_name config,
           ess_listener = (if configs = [] then None else Some (sn_listener (j_snapshot j0))),
           ess_peers = map snd (sorted_list_of_fmap peers), ess_folders = configs\<rparr>)) j1 = (Inr settings, j')"
    using assms unfolding desired_settings_at_def jsnapshot_def
    by (elim sbindE) (auto simp: step_simps)
  obtain peers folders where acc: "acc = (peers, folders)" by (cases acc)
  have "set (filter (transfer_eligible E j0 now observed_at) (sn_shares (j_snapshot j0)))
      \<subseteq> transfer_shares E j0 now observed_at"
    by (auto simp: transfer_shares_def)
  note backed = swpD[OF desired_rounds_backed[OF refl this] fold]
  then obtain n where "j1 = j0\<lparr>j_ticks := n\<rparr>" by blast
  moreover have "rmap (plan_config E) (sorted_list_of_fmap folders) = Inr (ess_folders settings)"
    "ess_peers settings = map snd (sorted_list_of_fmap peers)" "j' = j1"
    using rest unfolding acc prod.case by (auto elim!: sbindE simp: step_simps)
  moreover have "env_config E = Some config"
    using config by (simp add: engine_config_def ok_or_def split: option.splits)
  ultimately show ?thesis
    using that[of config folders peers] backed acc by simp
qed

section \<open>Who may transfer\<close>

text \<open>
  What a transfer needs, in terms of the records: the node configuration holds an unrevoked grant and
  the transport recorded in the share, the link is confirmed and not paused and, unless it is
  continuous, has a run that is not over, and the folder is still the directory that was selected.
\<close>

definition trusted_now :: "node_config \<Rightarrow> share \<Rightarrow> bool" where
  "trusted_now config s \<longleftrightarrow> (\<exists>grant.
     fmlookup (nc_trusted_peers config) (pi_device_id (sh_peer_identity s)) = Some grant
     \<and> \<not> pg_revoked grant
     \<and> pg_peer_device_id grant = pi_device_id (sh_peer_identity s)
     \<and> pg_public_key grant = pi_public_key (sh_peer_identity s)
     \<and> pg_confirmed_at_unix_ms grant = sh_peer_confirmed_at_unix_ms s
     \<and> fmlookup (nc_trusted_peer_transports config) (pi_device_id (sh_peer_identity s)) = Some (sh_peer_transport s)
     \<and> tb_peer_id (sh_peer_transport s) = pi_device_id (sh_peer_identity s))"

definition host_permits :: "journal \<Rightarrow> android_link_conditions \<Rightarrow> int \<Rightarrow> bool" where
  "host_permits j required at \<longleftrightarrow>
     (j_android_host j \<and> (alc_wifi_only required \<or> alc_charging_only required) \<longrightarrow>
        (\<exists>seen. j_android_condition_observation j = Some seen \<and> at - aco_observed_at seen \<le> 90000000000
           \<and> (alc_wifi_only required \<longrightarrow> aco_wifi_connected seen)
           \<and> (alc_charging_only required \<longrightarrow> aco_charging seen)))"

definition run_in_time :: "snapshot \<Rightarrow> uuid \<Rightarrow> link_settings_state \<Rightarrow> u64 \<Rightarrow> bool" where
  "run_in_time sn folder st now \<longleftrightarrow> (\<exists>slot run.
     fmlookup (sn_link_runs sn) folder = Some slot \<and> slot_authoritative slot = Some run
     \<and> (lrs_phase run = Preparing \<or> lrs_phase run = Running)
     \<and> unat now < unat (lrs_deadline_unix_ms run) \<and> lrs_settings_revision run = lss_revision st)"

definition link_open :: "journal \<Rightarrow> uuid \<Rightarrow> u64 \<Rightarrow> int \<Rightarrow> bool" where
  "link_open j folder now at \<longleftrightarrow> (\<exists>st.
     fmlookup (sn_link_settings (j_snapshot j)) folder = Some st
     \<and> lss_confirmed st \<and> \<not> fls_paused (lss_settings st)
     \<and> host_permits j (fls_android_conditions (lss_settings st)) at
     \<and> (fls_cadence (lss_settings st) = Continuous \<or> run_in_time (j_snapshot j) folder st now))"

definition root_in_place :: "env \<Rightarrow> local_root \<Rightarrow> bool" where
  "root_in_place E root \<longleftrightarrow>
     (\<exists>grant. root_grant_id root = Some grant \<and> parse_token E (root_path root) = Inr (Some grant))
     \<or> (\<exists>canonical metadata. env_canonicalize E (root_path root) = Some canonical
          \<and> path_components canonical = path_components (root_path root)
          \<and> env_symlink_metadata E (root_path root) = Some metadata \<and> fm_is_dir metadata
          \<and> fm_device metadata = root_device root \<and> fm_inode metadata = root_inode root)"

text \<open>The engine the peer announced: its current route, or the binding of the record it signed.\<close>

definition engine_of_peer :: "env \<Rightarrow> snapshot \<Rightarrow> share \<Rightarrow> string \<Rightarrow> bool" where
  "engine_of_peer E sn s engine \<longleftrightarrow> (\<exists>binding i.
     (case fmlookup (sn_current_peer_routes sn) (pi_device_id (sh_peer_identity s)) of
        Some current \<Rightarrow> binding = current
      | None \<Rightarrow> if offer_source_device_id (sh_offer s) = own_id E
          then \<exists>acceptance. sh_acceptance s = Some acceptance \<and> binding = acc_target_engine acceptance
          else binding = offer_source_engine (sh_offer s))
     \<and> parse_engine_device_id (engine_id_str (seb_engine_device_id binding)) = Inr i
     \<and> engine = engine_id_str i)"

definition may_transfer :: "env \<Rightarrow> node_config \<Rightarrow> journal \<Rightarrow> u64 \<Rightarrow> int \<Rightarrow> share \<Rightarrow> string \<Rightarrow> bool" where
  "may_transfer E config j now at s engine \<longleftrightarrow>
     \<not> sh_removed s \<and> \<not> sh_paused s \<and> sh_commit s \<noteq> None \<and> offer_link_policy (sh_offer s) \<noteq> None
     \<and> link_open j (offer_folder_id (sh_offer s)) now at
     \<and> trusted_now config s
     \<and> (\<exists>root. sh_root s = Some root \<and> root_in_place E root)
     \<and> engine_of_peer E (j_snapshot j) s engine"

lemma observe_trusted_now:
  assumes "observe_trust E config (pi_device_id (sh_peer_identity s)) = Inr (Some trust)" "trust_matches trust s"
  shows "trusted_now config s"
  using assms unfolding observe_trust_def trusted_now_def trust_matches_def
  by (auto simp: identity_from_encoded_def map_err_def split: option.splits if_splits sum.splits
      elim!: rbindE dest: arg_cong[where f = pi_public_key])

lemma conditions_host_permits: "conditions_allow j required at \<Longrightarrow> host_permits j required at"
  by (auto simp: conditions_allow_def host_permits_def saturating_duration_since_def ANDROID_CONDITION_TTL_def
      split: if_splits option.splits)

lemma active_run_settings:
  assumes "local_run_is_active E j folder run now at"
  obtains st where "fmlookup (sn_link_settings (j_snapshot j)) folder = Some st"
    "lrs_settings_revision run = lss_revision st"
    "conditions_allow j (fls_android_conditions (lss_settings st)) at"
  using assms unfolding local_run_is_active_def Let_def
  by (auto split: sum.splits option.splits if_splits)

lemma batch_run_in_time:
  assumes "local_batch_allows_transfer_at E j folder now at" "fmlookup (sn_link_settings (j_snapshot j)) folder = Some st"
  shows "run_in_time (j_snapshot j) folder st now \<and> host_permits j (fls_android_conditions (lss_settings st)) at"
proof -
  obtain run where run: "authoritative_run (j_snapshot j) folder = Some run" "phase_active (lrs_phase run)"
    "now < lrs_deadline_unix_ms run" "local_run_is_active E j folder run now at"
    using assms(1) by (auto simp: local_batch_allows_transfer_at_def opt_any_iff)
  from active_run_settings[OF run(4)] assms(2) have "lrs_settings_revision run = lss_revision st"
    "conditions_allow j (fls_android_conditions (lss_settings st)) at" by auto
  with run conditions_host_permits show ?thesis
    by (auto simp: run_in_time_def authoritative_run_def bind_eq_Some_conv phase_active_def word_less_nat_alt)
qed

lemma allowed_link_open:
  assumes "link_allows_transfer_at E j s now at" "offer_link_policy (sh_offer s) \<noteq> None"
  shows "link_open j (offer_folder_id (sh_offer s)) now at"
  using assms conditions_host_permits batch_run_in_time
  by (auto simp: link_allows_transfer_at_def link_open_def opt_any_iff split: if_splits)

lemma validated_root_in_place: "validate_current_root E root = Inr () \<Longrightarrow> root_in_place E root"
  unfolding validate_current_root_def root_in_place_def
  by (elim rbindE) (auto simp: map_err_def ok_or_def path_eq_def split: if_splits sum.splits option.splits elim!: rbindE)

lemma desired_engine_of_peer:
  assumes "desired_peer E config sn fresh s = Inr peer"
  shows "engine_of_peer E sn s (epc_id peer)"
proof -
  obtain historical binding engine where h: "historical_binding E s = Some historical"
    and b: "binding = (case fmlookup (sn_current_peer_routes sn) (pi_device_id (sh_peer_identity s)) of
            Some current \<Rightarrow> current | None \<Rightarrow> historical)"
    and e: "parse_engine_id (engine_id_str (seb_engine_device_id binding)) = Inr engine" "epc_id peer = engine"
    using assms unfolding desired_peer_def Let_def
    by (elim rbindE) (auto simp: map_err_def ok_or_def peer_config_new_def peer_with_ssh_public_key_def
        split: sum.splits option.splits elim!: rbindE)
  from e(1) obtain i where "parse_engine_device_id (engine_id_str (seb_engine_device_id binding)) = Inr i"
    "engine = engine_id_str i"
    by (auto simp: parse_engine_id_def map_err_def split: sum.splits elim!: rbindE)
  with h b e(2) show ?thesis unfolding engine_of_peer_def
    by (intro exI[of _ binding] exI[of _ i]) (auto simp: historical_binding_def split: option.splits if_splits)
qed

lemma backed_may_transfer:
  assumes "s \<in> transfer_shares E j now at" "backs E config (j_snapshot j) s folder engine"
  shows "s \<in> set (sn_shares (j_snapshot j)) \<and> offer_folder_id (sh_offer s) = folder
    \<and> may_transfer E config j now at s engine"
proof -
  from assms(1) have s: "s \<in> set (sn_shares (j_snapshot j))" "share_consented s"
    "link_allows_transfer_at E j s now at" "offer_link_policy (sh_offer s) \<noteq> None"
    by (auto simp: transfer_shares_def transfer_eligible_def pairing_upgrade_required_def split: if_splits)
  from assms(2) obtain trust root fresh peer where b: "offer_folder_id (sh_offer s) = folder"
    "observe_trust E config (pi_device_id (sh_peer_identity s)) = Inr (Some trust)" "trust_matches trust s"
    "sh_root s = Some root" "validate_current_root E root = Inr ()"
    "desired_peer E config (j_snapshot j) fresh s = Inr peer" "epc_id peer = engine"
    by (auto simp: backs_def)
  from s b allowed_link_open[OF s(3,4)] observe_trusted_now[OF b(2,3)] validated_root_in_place[OF b(5)]
    desired_engine_of_peer[OF b(6)] show ?thesis
    by (auto simp: may_transfer_def share_consented_def)
qed

text \<open>
  C20. Nothing is transferred without mutual consent. In the settings the journal hands to the
  transfer engine, every member of a folder other than this installation, and every peer, is the engine
  of the peer of some share of the journal that has a commit and is neither paused nor removed; the link
  of that share is confirmed and not paused, the conditions it sets on an Android host are observed to
  hold, and unless it is continuous it has a run under its current settings whose deadline has not passed;
  the node configuration holds an unrevoked grant for the peer with the key, confirmation and transport
  recorded in the share; and the folder on disk still is the one selected.
\<close>

theorem released_only_with_consent:
  assumes "desired_settings_at E now observed_at j = (Inr settings, j')"
  shows "\<exists>config. env_config E = Some config
    \<and> (\<forall>f \<in> set (ess_folders settings). \<forall>engine \<in> set (efc_members f). engine = installation_id E
         \<or> (\<exists>s \<in> set (sn_shares (j_snapshot j')). offer_folder_id (sh_offer s) = efc_id f
              \<and> may_transfer E config j' now observed_at s engine))
    \<and> (\<forall>p \<in> set (ess_peers settings). \<exists>s \<in> set (sn_shares (j_snapshot j')).
         may_transfer E config j' now observed_at s (epc_id p))"
  using assms
proof (rule desired_settings_at_steps)
  fix config peers folders
  assume config: "env_config E = Some config"
    and folders: "plans_backed E config (j_snapshot j') (transfer_shares E j' now observed_at) folders"
    and peers: "peers_backed E config (j_snapshot j') (transfer_shares E j' now observed_at) peers"
    and configs: "rmap (plan_config E) (sorted_list_of_fmap folders) = Inr (ess_folders settings)"
    and ess: "ess_peers settings = map snd (sorted_list_of_fmap peers)"
  have "engine = installation_id E
      \<or> (\<exists>s \<in> set (sn_shares (j_snapshot j')). offer_folder_id (sh_offer s) = efc_id f
           \<and> may_transfer E config j' now observed_at s engine)"
    if "f \<in> set (ess_folders settings)" "engine \<in> set (efc_members f)" for f engine
    using planned_members[OF configs that(1)] that(2) folders backed_may_transfer
    unfolding plans_backed_def by blast
  moreover have "\<exists>s \<in> set (sn_shares (j_snapshot j')). may_transfer E config j' now observed_at s (epc_id p)"
    if "p \<in> set (ess_peers settings)" for p
  proof -
    from that obtain peer_id where "fmlookup peers peer_id = Some p"
      unfolding ess by (auto simp: set_sorted_list_of_fmap)
    with peers show ?thesis unfolding peers_backed_def using backed_may_transfer by blast
  qed
  ultimately show ?thesis using config by blast
qed

theorem released_only_with_consent_witness:
  "\<exists>config settings j'. desired_settings_at alice_env 1015000 0 alice_linked = (Inr settings, j')
     \<and> length (ess_peers settings) = 1 \<and> env_config alice_env = Some config
     \<and> (\<forall>p \<in> set (ess_peers settings). \<exists>s \<in> set (sn_shares (j_snapshot j')).
          may_transfer alice_env config j' 1015000 0 s (epc_id p))"
proof -
  have "case fst (desired_settings_at alice_env 1015000 0 alice_linked) of
      Inl _ \<Rightarrow> False | Inr settings \<Rightarrow> length (ess_peers settings) = 1"
    by code_simp
  then obtain settings j' where run: "desired_settings_at alice_env 1015000 0 alice_linked = (Inr settings, j')"
    and len: "length (ess_peers settings) = 1"
    by (cases "desired_settings_at alice_env 1015000 0 alice_linked") (auto split: sum.splits)
  from released_only_with_consent[OF run] run len show ?thesis by blast
qed

end
