(* ===== verification/Journal_Guards.thy ===== *)
theory Journal_Guards
  imports Journal_Release
begin

text \<open>
  What single methods of the journal guarantee: trust is re-read before anything is done for a peer
  and a peer that lost it loses its shares; in every snapshot a journal ever holds the linked
  folders are apart on disk and from the installation; an overdue run is ended and a run is
  only admitted when it is due; a run commit shows a destination its own row and no other.
\<close>

section \<open>Trust\<close>

text \<open>The peer is trusted now, or its address refresh is in progress.\<close>

definition share_trusted :: "node_config \<Rightarrow> snapshot \<Rightarrow> share \<Rightarrow> bool" where
  "share_trusted config sn s \<longleftrightarrow>
     Some (pi_device_id (sh_peer_identity s))
       = map_option (\<lambda>p. pi_device_id (par_peer_identity p)) (sn_pending_peer_address_refresh sn)
     \<or> trusted_now config s"

lemma trust_keeps_shareD:
  assumes "trust_keeps_share E config
      (map_option (\<lambda>p. pi_device_id (par_peer_identity p)) (sn_pending_peer_address_refresh sn)) s = Inr True"
    and "\<not> sh_removed s"
  shows "share_trusted config sn s"
  using assms observe_trusted_now unfolding trust_keeps_share_def share_trusted_def
  by (auto simp: opt_any_def split: if_splits option.splits)

lemma rmap_trust:
  assumes "rmap (\<lambda>s. rbind (f s) (\<lambda>keep. Inr (if keep then s else s\<lparr>sh_removed := True\<rparr>))) xs = Inr ys"
    and "s \<in> set ys" "\<not> sh_removed s"
  shows "s \<in> set xs \<and> f s = Inr True"
  using assms
proof (induction xs arbitrary: ys)
  case (Cons x xs)
  then obtain keep zs where "f x = Inr keep"
    and zs: "rmap (\<lambda>s. rbind (f s) (\<lambda>keep. Inr (if keep then s else s\<lparr>sh_removed := True\<rparr>))) xs = Inr zs"
    and ys: "ys = (if keep then x else x\<lparr>sh_removed := True\<rparr>) # zs"
    by (auto elim!: rbindE simp del: rbind_Inr_iff split: if_splits)
  with Cons show ?case by (cases keep) auto
qed simp

lemma trust_candidate_trusted:
  assumes "trust_candidate E config sn = Inr (c, b)" "s \<in> set (sn_shares c)" "\<not> sh_removed s"
  shows "share_trusted config sn s"
proof -
  let ?keeps = "trust_keeps_share E config
      (map_option (\<lambda>p. pi_device_id (par_peer_identity p)) (sn_pending_peer_address_refresh sn))"
  have "rmap (\<lambda>s. rbind (?keeps s) (\<lambda>keep. Inr (if keep then s else s\<lparr>sh_removed := True\<rparr>))) (sn_shares sn)
      = Inr (sn_shares c)"
    using assms(1) unfolding trust_candidate_def Let_def by (elim rbindE) auto
  from rmap_trust[OF this assms(2,3)] assms(3) show ?thesis
    by (intro trust_keeps_shareD) auto
qed

lemma rmap_trust_unchanged:
  assumes "rmap (\<lambda>s. rbind (f s) (\<lambda>keep. Inr (if keep then s else s\<lparr>sh_removed := True\<rparr>))) xs = Inr ys"
    and "map sh_removed ys = map sh_removed xs"
  shows "ys = xs"
  using assms
proof (induction xs arbitrary: ys)
  case (Cons x xs)
  then obtain keep zs where
    zs: "rmap (\<lambda>s. rbind (f s) (\<lambda>keep. Inr (if keep then s else s\<lparr>sh_removed := True\<rparr>))) xs = Inr zs"
    and ys: "ys = (if keep then x else x\<lparr>sh_removed := True\<rparr>) # zs"
    by (auto elim!: rbindE simp del: rbind_Inr_iff split: if_splits)
  with Cons show ?case by (cases keep) (auto intro: share.equality)
qed simp

lemma trust_candidate_unchanged:
  assumes "trust_candidate E config sn = Inr (c, False)"
  shows "sn_shares c = sn_shares sn"
  using assms unfolding trust_candidate_def Let_def
  by (elim rbindE) (auto dest: rmap_trust_unchanged)

lemma trust_candidate_pending:
  assumes "trust_candidate E config sn = Inr (c, b)"
  shows "sn_pending_peer_address_refresh c = sn_pending_peer_address_refresh sn"
  using assms unfolding trust_candidate_def Let_def by (elim rbindE) auto

lemma finalize_pending:
  assumes "finalize_candidate E now c = Inr sn'"
  shows "sn_pending_peer_address_refresh sn' = sn_pending_peer_address_refresh c"
proof -
  obtain c1 b where c1: "reconcile_membership (drop_stale_reset c) (own_id E) now = Inr (c1, b)"
    and sn': "sn' = reconcile_run_states (reconcile_link_states (roster_reconcile (compact_removed c1)))"
    using finalizeE[OF assms] .
  show ?thesis using reconcile_membership_runs_only[OF c1]
    by (auto simp: sn' drop_stale_reset_def reconcile_run_states_def reconcile_link_states_def
        roster_reconcile_def compact_removed_def Let_def)
qed

lemma reconcile_trustE:
  assumes "reconcile_trust E j = (Inr (), j')"
  obtains config c changed where "env_config E = Some config"
    "trust_candidate E config (j_snapshot j) = Inr (c, changed)"
    "if changed then finalized E c (j_snapshot j') else j_snapshot j' = j_snapshot j"
proof -
  obtain x j1 config c changed where first: "jpayload E j = (Inr x, j1)"
    and config: "env_config E = Some config"
    and cand: "trust_candidate E config (j_snapshot j1) = Inr (c, changed)"
    and rest: "(if changed then persist E c else sret ()) j1 = (Inr (), j')"
    using assms unfolding reconcile_trust_def
    by (elim sbindE) (auto simp: slift_def sret_def jsnapshot_def sget_def engine_config_def
        split: sum.splits option.splits elim!: rbindE)
  have same: "j_snapshot j1 = j_snapshot j"
    using keeps_run[OF frames_jpayload first] by simp
  have "if changed then finalized E c (j_snapshot j') else j_snapshot j' = j_snapshot j"
    using rest persist_spec[of E c j1] same by (auto simp: swp_def sret_def split: if_splits)
  with config cand same show thesis using that by simp
qed

text \<open>
  C21. Revoked trust takes effect at once. When \<open>reconcile_trust\<close>, which every sharing method
  runs first, succeeds, each share that is still in the journal belongs to a peer for which the node
  configuration holds a grant that is not revoked and has the key and confirmation recorded in the share,
  together with the transport recorded there; the one exception is the peer whose address refresh is in
  progress.
\<close>

theorem revoked_peer_dropped:
  assumes "reconcile_trust E j = (Inr (), j')" "s \<in> set (sn_shares (j_snapshot j'))" "\<not> sh_removed s"
  shows "\<exists>config. env_config E = Some config \<and> share_trusted config (j_snapshot j') s"
  using assms(1)
proof (rule reconcile_trustE)
  fix config c changed
  assume config: "env_config E = Some config"
    and cand: "trust_candidate E config (j_snapshot j) = Inr (c, changed)"
    and step: "if changed then finalized E c (j_snapshot j') else j_snapshot j' = j_snapshot j"
  have "s \<in> set (sn_shares c)
      \<and> sn_pending_peer_address_refresh (j_snapshot j') = sn_pending_peer_address_refresh (j_snapshot j)"
  proof (cases changed)
    case True
    with step obtain now where "finalize_candidate E now c = Inr (j_snapshot j')"
      by (auto simp: finalized_def)
    with assms(2) finalize_fields(1) finalize_pending trust_candidate_pending[OF cand] show ?thesis
      by fastforce
  next
    case False
    with step cand assms(2) trust_candidate_unchanged show ?thesis by auto
  qed
  with trust_candidate_trusted[OF cand _ assms(3)] config show ?thesis
    by (auto simp: share_trusted_def)
qed

text \<open>Bob revokes the grant of Alice: her share is dropped.\<close>

definition bob_revoking_env :: env where
  "bob_revoking_env = bob_env\<lparr>env_config := Some ((demo_config alice)\<lparr>nc_trusted_peers :=
     fmmap (\<lambda>grant. grant\<lparr>pg_revoked := True\<rparr>) (nc_trusted_peers (demo_config alice))\<rparr>)\<rparr>"

theorem revoked_peer_dropped_witness:
  "(\<exists>j'. reconcile_trust bob_env bob_linked = (Inr (), j')
      \<and> length (sn_shares (j_snapshot j')) = 1
      \<and> (\<forall>s \<in> set (sn_shares (j_snapshot j')). \<not> sh_removed s \<longrightarrow>
           (\<exists>config. env_config bob_env = Some config \<and> share_trusted config (j_snapshot j') s)))
   \<and> (case reconcile_trust bob_revoking_env bob_linked of (r, j') \<Rightarrow>
        r = Inr () \<and> sn_shares (j_snapshot j') = [])"
proof -
  have "case reconcile_trust bob_env bob_linked of (r, j') \<Rightarrow>
      r = Inr () \<and> length (sn_shares (j_snapshot j')) = 1"
    by code_simp
  then obtain j' where run: "reconcile_trust bob_env bob_linked = (Inr (), j')"
    and len: "length (sn_shares (j_snapshot j')) = 1"
    by (cases "reconcile_trust bob_env bob_linked") auto
  have "case reconcile_trust bob_revoking_env bob_linked of (r, j') \<Rightarrow>
        r = Inr () \<and> sn_shares (j_snapshot j') = []"
    by code_simp
  with run len revoked_peer_dropped[OF run] show ?thesis by blast
qed

section \<open>Folders on disk\<close>

lemma same_root_sym: "same_root a b \<Longrightarrow> same_root b a"
  by (simp add: same_root_def path_eq_def)

lemma same_root_trans: "same_root a b \<Longrightarrow> same_root b c \<Longrightarrow> same_root a c"
  by (simp add: same_root_def path_eq_def)

lemma roots_overlap_same:
  "same_root a a' \<Longrightarrow> same_root b b' \<Longrightarrow> roots_overlap a b \<longleftrightarrow> roots_overlap a' b'"
  by (simp add: roots_overlap_def same_root_def path_eq_def path_starts_with_def)

text \<open>The roots the share loop has seen so far, up to \<open>same_root\<close>.\<close>

definition root_seen :: "share_scan \<Rightarrow> share \<Rightarrow> bool" where
  "root_seen sc s \<longleftrightarrow> (\<forall>root. sh_root s = Some root \<longrightarrow>
     (\<exists>kept. fmlookup (sc_roots sc) (offer_folder_id (sh_offer s)) = Some kept \<and> same_root root kept))"

lemma scan_keeps_roots:
  "scan_policy s sc = Inr sc' \<Longrightarrow> sc_roots sc' = sc_roots sc"
  "scan_engine E b s sc = Inr sc' \<Longrightarrow> sc_roots sc' = sc_roots sc"
  "scan_membership s sc = Inr sc' \<Longrightarrow> sc_roots sc' = sc_roots sc"
  by (auto simp: scan_policy_def scan_engine_def scan_membership_def Let_def split: option.splits)

lemma scan_root_cases:
  assumes "scan_root E s sc = Inr sc'"
  obtains "sh_root s = None" "sc' = sc"
  | root where "sh_root s = Some root"
      "sc_roots sc' = fmupd (offer_folder_id (sh_offer s)) root (sc_roots sc)"
      "\<And>old. fmlookup (sc_roots sc) (offer_folder_id (sh_offer s)) = Some old \<Longrightarrow> same_root old root"
      "root_grant_id root = None \<Longrightarrow>
        \<not> path_starts_with (root_path root) (env_installation_root E)
        \<and> \<not> path_starts_with (env_installation_root E) (root_path root)"
proof (cases "sh_root s")
  case None
  with assms that(1) show thesis by (simp add: scan_root_def)
next
  case (Some root)
  show thesis
    by (rule that(2)[OF Some])
       (use assms Some in \<open>auto simp: scan_root_def elim!: rbindE rguardE simp del: rbind_Inr_iff\<close>)
qed

lemma validate_share_root:
  assumes "validate_share E sn s sc = Inr sc'" "\<not> sh_removed s"
  obtains mid where "sc_roots mid = sc_roots sc" "scan_root E s mid = Inr sc'"
  using assms unfolding validate_share_def Let_def
  apply (elim rbindE)
  subgoal for _ _ _ acc
    by (cases acc) (auto elim!: rbindE dest!: scan_keeps_roots simp del: rbind_Inr_iff)
  done

lemma validate_share_roots:
  assumes "validate_share E sn s sc = Inr sc'"
  shows "root_seen sc t \<Longrightarrow> root_seen sc' t" and "\<not> sh_removed s \<Longrightarrow> root_seen sc' s"
proof -
  have "(root_seen sc t \<longrightarrow> root_seen sc' t) \<and> (\<not> sh_removed s \<longrightarrow> root_seen sc' s)"
  proof (cases "sh_removed s")
    case True
    with assms have "sc_roots sc' = sc_roots sc"
      unfolding validate_share_def Let_def
      by (elim rbindE) (auto elim!: rbindE simp del: rbind_Inr_iff)
    with True show ?thesis by (simp add: root_seen_def)
  next
    case False
    then obtain mid where mid: "sc_roots mid = sc_roots sc" "scan_root E s mid = Inr sc'"
      using validate_share_root[OF assms] by blast
    from mid(2) show ?thesis
    proof (cases rule: scan_root_cases)
      case 1
      with mid(1) show ?thesis by (simp add: root_seen_def)
    next
      case (2 root)
      then show ?thesis using mid(1)
        by (auto simp: root_seen_def same_root_def path_eq_def)
    qed
  qed
  then show "root_seen sc t \<Longrightarrow> root_seen sc' t" "\<not> sh_removed s \<Longrightarrow> root_seen sc' s" by blast+
qed

lemma scanned_roots:
  assumes "rfold (validate_share E sn) shares sc = Inr sc'"
  shows "root_seen sc t \<or> t \<in> set shares \<and> \<not> sh_removed t \<Longrightarrow> root_seen sc' t"
  using assms
proof (induction shares arbitrary: sc)
  case (Cons s shares)
  then obtain mid where mid: "validate_share E sn s sc = Inr mid"
    "rfold (validate_share E sn) shares mid = Inr sc'"
    by (auto elim!: rbindE simp del: rbind_Inr_iff)
  from validate_share_roots[OF mid(1)] Cons.prems(1) have "root_seen mid t \<or> t \<in> set shares \<and> \<not> sh_removed t"
    by auto
  with Cons.IH mid(2) show ?case by blast
qed simp

lemma rcheck_all: "rcheck f xs = Inr () \<Longrightarrow> x \<in> set xs \<Longrightarrow> f x = Inr ()"
  by (induction xs) (auto elim!: rbindE simp del: rbind_Inr_iff)

lemma scanned_separate:
  assumes "validate_roots sc = Inr ()" "fmlookup (sc_roots sc) f = Some a" "fmlookup (sc_roots sc) g = Some b"
    and "f \<noteq> g"
  shows "\<not> roots_overlap a b"
proof -
  let ?roots = "sorted_list_of_fmap (sc_roots sc)"
  have "rcheck (\<lambda>(folder, root). fail_if
      (list_ex (\<lambda>(other, path). folder \<noteq> other \<and> roots_overlap root path) ?roots) FolderUnavailable) ?roots
      = Inr ()"
    using assms(1) unfolding validate_roots_def Let_def by (elim rbindE) auto
  from rcheck_all[OF this, of "(f, a)"] assms(2) have
    "\<not> list_ex (\<lambda>(other, path). f \<noteq> other \<and> roots_overlap a path) ?roots"
    by (simp add: set_sorted_list_of_fmap fail_if_def split: if_splits)
  with assms(3,4) show ?thesis
    by (auto simp: list_ex_iff set_sorted_list_of_fmap)
qed

text \<open>A root of an ordinary folder neither contains nor lies in the directory of the installation.\<close>

definition root_outside :: "path \<Rightarrow> share \<Rightarrow> bool" where
  "root_outside installation s \<longleftrightarrow> (\<forall>root. sh_root s = Some root \<and> root_grant_id root = None \<longrightarrow>
     \<not> prefix (path_components installation) (path_components (root_path root))
     \<and> \<not> prefix (path_components (root_path root)) (path_components installation))"

lemma validate_share_outside:
  assumes "validate_share E sn s sc = Inr sc'" "\<not> sh_removed s"
  shows "root_outside (env_installation_root E) s"
proof -
  obtain mid where "scan_root E s mid = Inr sc'" using validate_share_root[OF assms] by blast
  then show ?thesis
    by (cases rule: scan_root_cases) (auto simp: root_outside_def path_starts_with_def)
qed

lemma scanned_outside:
  assumes "rfold (validate_share E sn) shares sc = Inr sc'" "t \<in> set shares" "\<not> sh_removed t"
  shows "root_outside (env_installation_root E) t"
  using assms
proof (induction shares arbitrary: sc)
  case (Cons s shares)
  then obtain mid where "validate_share E sn s sc = Inr mid" "rfold (validate_share E sn) shares mid = Inr sc'"
    by (auto elim!: rbindE simp del: rbind_Inr_iff)
  with Cons validate_share_outside show ?case by auto
qed simp

text \<open>
  Where linked folders are: the shares of one folder name one directory, those of two folders name
  directories neither of which contains the other, and none touches the directory of the installation.
\<close>

definition roots_apart :: "path \<Rightarrow> snapshot \<Rightarrow> bool" where
  "roots_apart installation sn \<longleftrightarrow>
     (\<forall>s \<in> set (sn_shares sn). \<forall>t \<in> set (sn_shares sn). \<forall>a b.
        \<not> sh_removed s \<and> \<not> sh_removed t \<and> sh_root s = Some a \<and> sh_root t = Some b \<longrightarrow>
        (if offer_folder_id (sh_offer s) = offer_folder_id (sh_offer t)
         then path_components (root_path a) = path_components (root_path b)
           \<and> root_device a = root_device b \<and> root_inode a = root_inode b
         else \<not> prefix (path_components (root_path a)) (path_components (root_path b))))
     \<and> (\<forall>s \<in> set (sn_shares sn). \<not> sh_removed s \<longrightarrow> root_outside installation s)"

lemma valid_roots_apart:
  assumes "validate_snapshot E sn = Inr ()"
  shows "roots_apart (env_installation_root E) sn"
proof -
  obtain offers scan where scan: "rfold (validate_share E sn) (sn_shares sn) (empty_scan offers) = Inr scan"
    and roots: "validate_roots scan = Inr ()"
    using assms unfolding validate_snapshot_def by (auto elim!: rbindE)
  have seen: "root_seen scan s" if "s \<in> set (sn_shares sn)" "\<not> sh_removed s" for s
    using scanned_roots[OF scan] that by blast
  have "if offer_folder_id (sh_offer s) = offer_folder_id (sh_offer t)
      then path_components (root_path a) = path_components (root_path b)
        \<and> root_device a = root_device b \<and> root_inode a = root_inode b
      else \<not> prefix (path_components (root_path a)) (path_components (root_path b))"
    if st: "s \<in> set (sn_shares sn)" "t \<in> set (sn_shares sn)"
      and live: "\<not> sh_removed s \<and> \<not> sh_removed t \<and> sh_root s = Some a \<and> sh_root t = Some b" for s t a b
  proof -
    from seen[OF st(1)] live obtain a' where
      a': "fmlookup (sc_roots scan) (offer_folder_id (sh_offer s)) = Some a'" "same_root a a'"
      by (auto simp: root_seen_def)
    from seen[OF st(2)] live obtain b' where
      b': "fmlookup (sc_roots scan) (offer_folder_id (sh_offer t)) = Some b'" "same_root b b'"
      by (auto simp: root_seen_def)
    show ?thesis
    proof (cases "offer_folder_id (sh_offer s) = offer_folder_id (sh_offer t)")
      case True
      with a' b' have "same_root a b" using same_root_trans[OF a'(2) same_root_sym[of b a']] by simp
      with True show ?thesis by (simp add: same_root_def path_eq_def)
    next
      case False
      with scanned_separate[OF roots a'(1) b'(1)] roots_overlap_same[OF a'(2) b'(2)] show ?thesis
        by (simp add: roots_overlap_def path_starts_with_def)
    qed
  qed
  with scanned_outside[OF scan] show ?thesis unfolding roots_apart_def by blast
qed

lemma journal_invariant_roots:
  assumes "env_installation_root E = installation"
  shows "journal_invariant E (\<lambda>j. roots_apart installation (j_snapshot j))"
proof
  fix j :: journal and c assume "roots_apart installation (j_snapshot j)"
  then show "swp (persist E c) (\<lambda>_ j. roots_apart installation (j_snapshot j)) j"
    by (intro swp_mono[OF persist_spec])
       (use assms valid_roots_apart in \<open>auto simp: finalized_def split: sum.splits\<close>)
qed simp_all

text \<open>
  C22. Linked folders are kept apart on disk. From the moment a journal is created, through every
  sequence of its methods, whatever they return and in whatever environment of the same installation,
  the shares in memory that are not removed satisfy: those of one folder have one local directory, the
  directories of two different folders never contain one another, and no ordinary folder contains or lies
  in the directory of the installation.
\<close>

theorem linked_roots_stay_apart:
  assumes "journal_create E ticks listener local disk = Inr j"
    and "\<And>E' call. (E', call) \<in> set calls \<Longrightarrow> env_installation_root E' = env_installation_root E"
  shows "roots_apart (env_installation_root E) (j_snapshot (run_calls calls j))"
proof -
  have "validate_snapshot E (j_snapshot j) = Inr ()"
    using assms(1) unfolding journal_create_def Let_def by (elim rbindE) (clarsimp simp: journal_new_def)
  from run_calls_invariant[where I = "\<lambda>j. roots_apart (env_installation_root E) (j_snapshot j)" and calls = calls,
      OF journal_invariant_roots[OF assms(2)] valid_roots_apart[OF this]]
  show ?thesis .
qed

theorem linked_roots_stay_apart_witness:
  "roots_apart (env_installation_root bob_env) (j_snapshot (run_calls
       [(bob_env, CallReceiveOffer demo_offer 1000000)] (projr bob_created)))"
proof -
  have "\<not> isl bob_created" by code_simp
  then have "bob_created = Inr (projr bob_created)" by (cases bob_created) simp_all
  from linked_roots_stay_apart[OF this[unfolded bob_created_def], folded bob_created_def,
      of "[(bob_env, CallReceiveOffer demo_offer 1000000)]"]
  show ?thesis by simp
qed

section \<open>Runs\<close>

lemma expire_run_inactive: "expire_run st = Inr st' \<Longrightarrow> \<not> phase_active (lrs_phase st')"
  by (auto simp: expire_run_def end_run_def phase_active_def)

lemma try_map_run_origin:
  assumes "bt_try_map g (sn_link_runs sn) = Inr runs"
    and "authoritative_run (sn\<lparr>sn_link_runs := runs\<rparr>) f = Some st'"
  obtains slot slot' where "fmlookup (sn_link_runs sn) f = Some slot" "g f slot = Inr slot'"
    "slot_authoritative slot' = Some st'"
  using assms(2) fmlookup_bt_try_map[OF assms(1), of f]
  by (auto simp: authoritative_run_def bind_eq_Some_conv split: option.splits sum.splits)

lemma finalize_run_origin:
  assumes "finalize_candidate E now c = Inr sn'" "authoritative_run sn' f = Some st'"
  obtains st where "authoritative_run c f = Some st" "run_progress st st'"
proof -
  obtain c1 b where c1: "reconcile_membership (drop_stale_reset c) (own_id E) now = Inr (c1, b)"
    and sn': "sn' = reconcile_run_states (reconcile_link_states (roster_reconcile (compact_removed c1)))"
    using finalizeE[OF assms(1)] .
  have "authoritative_run sn' f = None \<or> authoritative_run sn' f = authoritative_run c1 f"
    by (simp add: sn' authoritative_run_def reconcile_run_states_def reconcile_link_states_def
        roster_reconcile_def compact_removed_def Let_def split: option.splits)
  with assms(2) have st': "authoritative_run c1 f = Some st'" by auto
  obtain runs where runs: "bt_try_map (reconcile_slot (drop_stale_reset c) (own_id E) now)
      (sn_link_runs (drop_stale_reset c)) = Inr runs"
    and "c1 = (drop_stale_reset c)\<lparr>sn_link_runs := runs\<rparr>"
    using c1 unfolding reconcile_membership_def by (elim rbindE) auto
  with st' obtain slot slot' where "fmlookup (sn_link_runs (drop_stale_reset c)) f = Some slot"
    and "reconcile_slot (drop_stale_reset c) (own_id E) now f slot = Inr slot'" "slot_authoritative slot' = Some st'"
    using try_map_run_origin[OF runs] by blast
  then have "\<exists>st. slot_authoritative slot = Some st \<and> fmlookup (sn_link_runs c) f = Some slot"
    by (auto simp: reconcile_slot_def drop_stale_reset_def loses_members_def opt_any_iff split: if_splits option.splits)
  then obtain st where "authoritative_run c f = Some st" by (auto simp: authoritative_run_def)
  with finalize_runs[OF assms(1) _ assms(2)] that show thesis by blast
qed

lemma expire_link_runsE:
  assumes "expire_link_runs E now j = (Inr changed, j')"
  obtains c where "sweep_runs (j_snapshot j) (own_id E) (overdue now) expire_run = Inr (c, changed)"
    "if changed then finalized E c (j_snapshot j') else j_snapshot j' = j_snapshot j"
proof -
  obtain c where c: "sweep_runs (j_snapshot j) (own_id E) (overdue now) expire_run = Inr (c, changed)"
    and rest: "(if changed then persist E c else sret ()) j = (Inr (), j')"
    using assms unfolding expire_link_runs_def
    by (elim sbindE) (auto simp: slift_def sret_def jsnapshot_def sget_def sbind_def split: sum.splits if_splits prod.splits)
  have "if changed then finalized E c (j_snapshot j') else j_snapshot j' = j_snapshot j"
    using rest persist_spec[of E c j] by (auto simp: swp_def sret_def split: if_splits)
  with c that show thesis by blast
qed

lemma swept_not_overdue:
  assumes "sweep_runs sn owner (overdue now) expire_run = Inr (c, changed)"
    and "active_source_folder sn owner f" "authoritative_run c f = Some st" "phase_active (lrs_phase st)"
  shows "now < lrs_deadline_unix_ms st"
proof -
  obtain runs where runs: "bt_try_map (\<lambda>folder slot.
         if sweeps sn owner (overdue now) folder slot
         then rbind (expire_run (the (slot_authoritative slot))) (\<lambda>st.
              Inr (slot\<lparr>slot_authoritative := Some st\<rparr>))
         else Inr slot) (sn_link_runs sn) = Inr runs" and c: "c = sn\<lparr>sn_link_runs := runs\<rparr>"
    using assms(1) unfolding sweep_runs_def by (elim rbindE) auto
  from try_map_run_origin[OF runs] assms(3) c obtain slot slot' where
    "(if sweeps sn owner (overdue now) f slot
      then rbind (expire_run (the (slot_authoritative slot))) (\<lambda>st. Inr (slot\<lparr>slot_authoritative := Some st\<rparr>))
      else Inr slot) = Inr slot'" "slot_authoritative slot' = Some st"
    by blast
  with assms(2,4) show ?thesis
    by (auto simp: sweeps_def overdue_def dest: expire_run_inactive split: if_splits)
qed

lemma unswept_same:
  assumes "sweep_runs sn owner P g = Inr (c, False)"
  shows "authoritative_run c f = authoritative_run sn f"
proof -
  obtain runs where runs: "bt_try_map (\<lambda>folder slot.
         if sweeps sn owner P folder slot
         then rbind (g (the (slot_authoritative slot))) (\<lambda>st.
              Inr (slot\<lparr>slot_authoritative := Some st\<rparr>))
         else Inr slot) (sn_link_runs sn) = Inr runs" and c: "c = sn\<lparr>sn_link_runs := runs\<rparr>"
    and none: "\<not> list_ex (\<lambda>(folder, slot). sweeps sn owner P folder slot) (sorted_list_of_fmap (sn_link_runs sn))"
    using assms unfolding sweep_runs_def by (elim rbindE) auto
  have "fmlookup runs f = fmlookup (sn_link_runs sn) f"
  proof (cases "fmlookup (sn_link_runs sn) f")
    case (Some slot)
    with none have "\<not> sweeps sn owner P f slot"
      by (auto simp: list_ex_iff set_sorted_list_of_fmap)
    with Some fmlookup_bt_try_map[OF runs, of f] show ?thesis by simp
  qed (simp add: fmlookup_bt_try_map[OF runs, of f])
  then show ?thesis by (simp add: c authoritative_run_def)
qed

text \<open>
  C23. No run outlives its deadline unnoticed. After \<open>expire_link_runs\<close> at some time has succeeded, no
  run of a folder this device is the source of is active past its deadline.
\<close>

theorem no_overdue_run:
  assumes "expire_link_runs E now j = (Inr changed, j')"
    and "active_source_folder (j_snapshot j') (own_id E) folder"
    and "authoritative_run (j_snapshot j') folder = Some st" "phase_active (lrs_phase st)"
  shows "now < lrs_deadline_unix_ms st"
  using assms(1)
proof (rule expire_link_runsE)
  fix c
  assume sweep: "sweep_runs (j_snapshot j) (own_id E) (overdue now) expire_run = Inr (c, changed)"
    and step: "if changed then finalized E c (j_snapshot j') else j_snapshot j' = j_snapshot j"
  have shares: "sn_shares c = sn_shares (j_snapshot j)"
    using runs_only(1)[OF sweep] by auto
  show ?thesis
  proof (cases changed)
    case True
    with step obtain t where fin: "finalize_candidate E t c = Inr (j_snapshot j')"
      by (auto simp: finalized_def)
    obtain st0 where st0: "authoritative_run c folder = Some st0" "run_progress st0 st"
      using finalize_run_origin[OF fin assms(3)] .
    then have "phase_active (lrs_phase st0)" "lrs_deadline_unix_ms st = lrs_deadline_unix_ms st0"
      using assms(4) by (auto simp: run_progress_def)
    moreover have "active_source_folder (j_snapshot j) (own_id E) folder"
      using assms(2) finalize_fields(1)[OF fin] shares by (auto simp: active_source_folder_def list_ex_iff)
    ultimately show ?thesis using swept_not_overdue[OF sweep _ st0(1)] by simp
  next
    case False
    with step sweep assms(2-4) swept_not_overdue[OF sweep, of folder st] unswept_same show ?thesis by auto
  qed
qed

theorem no_overdue_run_witness:
  "(\<exists>changed j'. expire_link_runs alice_env 2000000 alice_running = (Inr changed, j')
      \<and> (\<exists>st. authoritative_run (j_snapshot j') 7 = Some st \<and> phase_active (lrs_phase st)
           \<and> 2000000 < lrs_deadline_unix_ms st))"
proof -
  have "case expire_link_runs alice_env 2000000 alice_running of (r, j') \<Rightarrow>
      r = Inr False \<and> active_source_folder (j_snapshot j') (own_id alice_env) 7
      \<and> opt_any (\<lambda>st. phase_active (lrs_phase st)) (authoritative_run (j_snapshot j') 7)"
    by code_simp
  then obtain j' st where run: "expire_link_runs alice_env 2000000 alice_running = (Inr False, j')"
    and "active_source_folder (j_snapshot j') (own_id alice_env) 7"
    and "authoritative_run (j_snapshot j') 7 = Some st" "phase_active (lrs_phase st)"
    by (cases "expire_link_runs alice_env 2000000 alice_running") (auto simp: opt_any_iff)
  with no_overdue_run[OF run] show ?thesis by blast
qed

text \<open>
  When the link of a folder is due: it is confirmed and not paused, and since the end of the last run, or
  since the settings were accepted when no run has ended, fifteen seconds have passed for a continuous
  link and the scheduled minutes for a scheduled one. A manual link is never due.
\<close>

definition last_activity :: "snapshot \<Rightarrow> uuid \<Rightarrow> link_settings_state \<Rightarrow> int" where
  "last_activity sn folder settings =
     (case fmlookup (sn_link_runs sn) folder of
        None \<Rightarrow> uint (lss_accepted_at_unix_ms settings)
      | Some slot \<Rightarrow>
          (case slot_authoritative slot of
             None \<Rightarrow> uint (lss_accepted_at_unix_ms settings)
           | Some st \<Rightarrow>
               (case lrs_ended_at_unix_ms st of
                  None \<Rightarrow> uint (lss_accepted_at_unix_ms settings)
                | Some ended \<Rightarrow> uint ended)))"

definition due_at :: "snapshot \<Rightarrow> uuid \<Rightarrow> u64 \<Rightarrow> bool" where
  "due_at sn folder now \<longleftrightarrow>
     (case fmlookup (sn_link_settings sn) folder of
        None \<Rightarrow> False
      | Some settings \<Rightarrow>
          lss_confirmed settings \<and> \<not> fls_paused (lss_settings settings)
          \<and> (case fls_cadence (lss_settings settings) of
               Manual \<Rightarrow> False
             | Continuous \<Rightarrow> last_activity sn folder settings + 15 * 1000 \<le> uint now
             | Scheduled minutes \<Rightarrow> last_activity sn folder settings + uint minutes * 60 * 1000 \<le> uint now))"

lemma due_base_activity: "uint (due_base sn folder settings) = last_activity sn folder settings"
  by (simp add: last_activity_def due_base_def authoritative_run_def split: option.splits)

lemma scheduled_minutes: "uint (ucast minutes * 60000 :: u64) = uint (minutes :: u32) * 60000"
proof -
  have "uint minutes < 4294967296" using uint_lt2p[of minutes] by simp
  then have "uint (ucast minutes :: u64) = uint minutes" "uint minutes * 60000 < 2 ^ 64"
    by (simp_all add: uint_up_ucast is_up_def source_size_def target_size_def word_size)
  then show ?thesis by (simp add: uint_mult_lem[THEN iffD1])
qed

lemma due_links_due:
  assumes "folder \<in> set (due_links sn owner now)"
  shows "due_at sn folder now"
proof -
  obtain settings where settings: "fmlookup (sn_link_settings sn) folder = Some settings"
    and due: "link_is_due sn owner now folder settings"
    using assms by (auto simp: due_links_def set_sorted_list_of_fmap)
  from due obtain interval d where
    interval: "cadence_interval_ms (fls_cadence (lss_settings settings)) = Some interval"
    and d: "checked_add (due_base sn folder settings) interval = Some d" "d \<le> now"
    by (auto simp: link_is_due_def Let_def opt_any_iff split: if_splits option.splits)
  have "uint (due_base sn folder settings) + uint interval \<le> uint now"
    using checked_add_SomeD(2)[OF d(1)] d(2)
    by (metis of_nat_add uint_nat word_le_def)
  moreover have "lss_confirmed settings" "\<not> fls_paused (lss_settings settings)"
    using due by (auto simp: link_is_due_def split: if_splits)
  ultimately show ?thesis
    using settings interval scheduled_minutes due_base_activity[of sn folder settings] unfolding due_at_def
    by (cases "fls_cadence (lss_settings settings)") (auto simp: CONTINUOUS_CHECK_INTERVAL_MS_def mult.commute)
qed

lemma admit_other_run:
  assumes "admit_source_request sn request now automatic = Inr (c, admission, changed)"
    and "lrq_folder_id request \<noteq> folder"
  shows "authoritative_run c folder = authoritative_run sn folder"
  using assms unfolding admit_source_request_def Let_def
  by (elim rbindE) (auto simp: start_run_def Let_def authoritative_run_set_slot split: if_splits option.splits)

lemma admit_due_rounds_other:
  assumes "folder \<notin> set folders" "j_snapshot j = sn"
  shows "swp (sfold (admit_due_round E now) folders (sn, []))
    (\<lambda>r j'. j_snapshot j' = sn
       \<and> (\<forall>x. r = Inr x \<longrightarrow> authoritative_run (fst x) folder = authoritative_run sn folder)) j"
proof (rule swp_sfold[where I = "\<lambda>b j'. j_snapshot j' = sn
      \<and> authoritative_run (fst b) folder = authoritative_run sn folder"])
  fix other and b :: "snapshot \<times> link_run_state list" and j' :: journal
  assume other: "other \<in> set folders"
    and b: "j_snapshot j' = sn \<and> authoritative_run (fst b) folder = authoritative_run sn folder"
  obtain c admitted where [simp]: "b = (c, admitted)" by (cases b)
  have "other \<noteq> folder" using other assms(1) by blast
  with b show "swp (admit_due_round E now other b) (\<lambda>r t. case r of
      Inl e \<Rightarrow> j_snapshot t = sn
        \<and> (\<forall>x. Inl e = Inr x \<longrightarrow> authoritative_run (fst x) folder = authoritative_run sn folder)
    | Inr b' \<Rightarrow> j_snapshot t = sn \<and> authoritative_run (fst b') folder = authoritative_run sn folder) j'"
    by (auto simp: admit_due_round_def swp_def jtick_def sbind_def slift_def sret_def due_request_def
        dest!: admit_other_run split: sum.splits prod.splits)
qed (use assms(2) in auto)

text \<open>
  C24. The scheduler never runs a link early. When \<open>admit_due_link_runs\<close> has re-read the trust of
  the peers, a folder whose link is not confirmed, is paused, is manual, or whose interval since the
  end of the last run (or since the settings were accepted) has not passed, keeps the run it had: no
  new run is started for it, whatever the call returns.
\<close>

theorem never_admitted_early:
  assumes "reconcile_trust E j = (Inr (), j1)" "admit_due_link_runs E now j = (r, j')"
    and "\<not> due_at (j_snapshot j1) folder now"
    and "authoritative_run (j_snapshot j') folder = Some st'"
  shows "\<exists>st. authoritative_run (j_snapshot j1) folder = Some st \<and> run_progress st st'"
proof -
  let ?sn = "j_snapshot j1"
  let ?f = "\<lambda>x. case x of (next, admitted) \<Rightarrow>
    sbind (if admitted = [] then sret () else persist E next) (\<lambda>_. sret admitted)"
  have "folder \<notin> set (due_links ?sn (own_id E) now)" using due_links_due assms(3) by blast
  note rounds = admit_due_rounds_other[OF this refl, of E now]
  let ?Q = "\<lambda>_ t. j_snapshot t = ?sn \<or> (\<exists>c. finalized E c (j_snapshot t)
         \<and> authoritative_run c folder = authoritative_run ?sn folder)"
  have tail: "swp (?f x) ?Q i"
    if "j_snapshot i = ?sn" "authoritative_run (fst x) folder = authoritative_run ?sn folder" for x i
    using that persist_spec[of E "fst x" i]
    by (auto simp: swp_def sbind_def sret_def split: sum.splits prod.splits)
  have spec: "swp (sbind (sfold (admit_due_round E now) (due_links ?sn (own_id E) now) (?sn, [])) ?f) ?Q j1"
    by (rule swp_bind_step[OF rounds], simp, rule tail, simp_all)
  have "sbind (sfold (admit_due_round E now) (due_links ?sn (own_id E) now) (?sn, [])) ?f j1 = (r, j')"
    using assms(1,2) by (simp add: admit_due_link_runs_def sbind_def jsnapshot_def sget_def)
  from swpD[OF spec this] show ?thesis
  proof (elim disjE exE conjE)
    fix c assume "finalized E c (j_snapshot j')" "authoritative_run c folder = authoritative_run ?sn folder"
    then show ?thesis using finalize_run_origin[OF _ assms(4)] by (metis finalized_def)
  qed (use assms(4) in auto)
qed

text \<open>Alice's link is checked continuously; one second after the settings were accepted it is not due.\<close>

theorem never_admitted_early_witness:
  "\<exists>j1 r j'. reconcile_trust alice_env alice_running = (Inr (), j1)
     \<and> admit_due_link_runs alice_env 1001000 alice_running = (r, j')
     \<and> (\<exists>st st'. authoritative_run (j_snapshot j1) 7 = Some st \<and> authoritative_run (j_snapshot j') 7 = Some st'
          \<and> run_progress st st')"
proof -
  have "case reconcile_trust alice_env alice_running of (r, j1) \<Rightarrow> r = Inr () \<and> \<not> due_at (j_snapshot j1) 7 1001000"
    by code_simp
  then obtain j1 where j1: "reconcile_trust alice_env alice_running = (Inr (), j1)"
    "\<not> due_at (j_snapshot j1) 7 1001000"
    by (cases "reconcile_trust alice_env alice_running") auto
  obtain r j' where run: "admit_due_link_runs alice_env 1001000 alice_running = (r, j')"
    by (cases "admit_due_link_runs alice_env 1001000 alice_running")
  have "opt_any (\<lambda>_. True)
      (authoritative_run (j_snapshot (snd (admit_due_link_runs alice_env 1001000 alice_running))) 7)"
    by code_simp
  then obtain st' where "authoritative_run (j_snapshot j') 7 = Some st'"
    using run by (auto simp: opt_any_iff)
  with never_admitted_early[OF j1(1) run j1(2) this] j1(1) run show ?thesis by blast
qed

section \<open>What a destination is told\<close>

lemma in_option_list: "x \<in> set (option_list xs) \<longleftrightarrow> (\<exists>y \<in> set xs. y = Some x)"
  by (auto simp: option_list_def split: option.splits)

text \<open>
  C25. A destination learns nothing of the others. Every run commit the source queues goes to the
  transport of a committed share with that destination and names it as the target; the run state in
  it has one row, the target's own, and a rejected request in it is the target's own.
\<close>

theorem run_commit_private:
  assumes "d \<in> set (run_deliveries sn owner)" "fsd_record d = RecordRunCommit commit"
  shows "(\<exists>s \<in> set (sn_shares sn). \<not> sh_removed s \<and> sh_commit s \<noteq> None
        \<and> fsd_peer_transport d = sh_peer_transport s
        \<and> offer_source_device_id (sh_offer s) = owner
        \<and> lrc_folder_id commit = offer_folder_id (sh_offer s)
        \<and> lrc_target_id commit = offer_target_device_id (sh_offer s))
    \<and> (\<forall>st. lrc_state commit = Some st \<longrightarrow> fmdom' (lrs_destinations st) = {lrc_target_id commit})
    \<and> (\<forall>r. lrc_rejected_request commit = Some r \<longrightarrow> lrj_requester_id r = lrc_target_id commit)"
proof -
  obtain s where s: "s \<in> set (sn_shares sn)" "\<not> sh_removed s" "sh_commit s \<noteq> None"
    and d: "fsd_peer_transport d = sh_peer_transport s" "run_delivery sn owner s = Some (RecordRunCommit commit)"
    using assms unfolding run_deliveries_def in_option_list
    by (auto simp: map_option_eq_Some dest!: sym[of "Some _" "map_option _ _"])
  from d(2) have owner: "offer_source_device_id (sh_offer s) = owner"
    and commit: "commit_for_target sn (offer_folder_id (sh_offer s)) (offer_target_device_id (sh_offer s)) = Inr commit"
    by (auto simp: run_delivery_def split: option.splits if_splits sum.splits)
  then have "lrc_folder_id commit = offer_folder_id (sh_offer s)"
    "lrc_target_id commit = offer_target_device_id (sh_offer s)"
    "\<forall>st. lrc_state commit = Some st \<longrightarrow> fmdom' (lrs_destinations st) = {offer_target_device_id (sh_offer s)}"
    "\<forall>r. lrc_rejected_request commit = Some r \<longrightarrow> lrj_requester_id r = offer_target_device_id (sh_offer s)"
    unfolding commit_for_target_def Let_def
    by (elim rbindE; auto simp: restrict_to_target_def opt_any_iff split: option.splits if_splits)+
  with s d(1) owner show ?thesis by auto
qed

theorem run_commit_private_witness:
  "\<exists>d commit. d \<in> set (run_deliveries (j_snapshot alice_running) (DeviceId 1))
     \<and> fsd_record d = RecordRunCommit commit \<and> lrc_state commit \<noteq> None
     \<and> (\<forall>st. lrc_state commit = Some st \<longrightarrow> fmdom' (lrs_destinations st) = {lrc_target_id commit})"
proof -
  have "case run_deliveries (j_snapshot alice_running) (DeviceId 1) of
      d # _ \<Rightarrow> (case fsd_record d of RecordRunCommit commit \<Rightarrow> opt_any (\<lambda>_. True) (lrc_state commit) | _ \<Rightarrow> False)
    | [] \<Rightarrow> False"
    by code_simp
  then obtain d ds commit where ds: "run_deliveries (j_snapshot alice_running) (DeviceId 1) = d # ds"
    and d: "fsd_record d = RecordRunCommit commit" "lrc_state commit \<noteq> None"
    by (auto simp: opt_any_iff split: list.splits folder_share_record.splits)
  then have "d \<in> set (run_deliveries (j_snapshot alice_running) (DeviceId 1))" by simp
  with run_commit_private[OF this d(1)] d show ?thesis by blast
qed

end
