(* ===== verification/Byte_Codec.thy ===== *)
theory Byte_Codec
  imports Prelude
begin

text \<open>Big-endian integers of a fixed width, as \<open>to_be_bytes\<close> and \<open>from_be_bytes\<close> have them.\<close>

fun be_bytes :: "nat \<Rightarrow> int \<Rightarrow> bytes" where
  "be_bytes 0 v = []"
| "be_bytes (Suc n) v = be_bytes n (v div 256) @ [char_of (v mod 256)]"

definition be_value :: "bytes \<Rightarrow> int" where
  "be_value bs = foldl (\<lambda>v b. v * 256 + of_char b) 0 bs"

lemma of_char_range: "0 \<le> (of_char b :: int)" "(of_char b :: int) < 256"
proof -
  have "(of_char b :: int) = int (of_char b)" by (simp add: of_nat_of_char)
  moreover have "(of_char b :: nat) < 256" by simp
  ultimately show "0 \<le> (of_char b :: int)" "(of_char b :: int) < 256" by simp_all
qed

lemma length_be_bytes [simp]: "length (be_bytes n v) = n"
  by (induction n arbitrary: v) simp_all

lemma be_value_snoc: "be_value (bs @ [b]) = be_value bs * 256 + of_char b"
  by (simp add: be_value_def)

lemma be_value_Nil [simp]: "be_value [] = 0"
  by (simp add: be_value_def)

lemma be_value_be_bytes:
  assumes "0 \<le> v" "v < 256 ^ n"
  shows "be_value (be_bytes n v) = v"
  using assms
proof (induction n arbitrary: v)
  case (Suc n)
  have "v div 256 < 256 ^ n"
    using Suc.prems by (simp add: div_less_iff_less_mult mult.commute)
  with Suc.IH[of "v div 256"] Suc.prems show ?case
    by (simp add: be_value_snoc)
qed simp

lemma be_value_bounds: "0 \<le> be_value bs \<and> be_value bs < 256 ^ length bs"
proof (induction bs rule: rev_induct)
  case (snoc b bs)
  with of_char_range[of b] show ?case by (simp add: be_value_snoc)
qed simp

lemma byte_div_mod:
  fixes v c :: int
  assumes "0 \<le> c" "c < 256"
  shows "(v * 256 + c) div 256 = v" "(v * 256 + c) mod 256 = c"
  using assms by simp_all

lemma be_bytes_be_value: "be_bytes (length bs) (be_value bs) = bs"
proof (induction bs rule: rev_induct)
  case (snoc b bs)
  show ?case
    by (simp only: be_value_snoc length_append_singleton be_bytes.simps byte_div_mod of_char_range
        snoc.IH char_of_char)
qed simp

end
