(* ===== verification/Record_Log.thy ===== *)
theory Record_Log
  imports Core_Error Byte_Codec
begin

text \<open>
  The files of \<open>covalent-core/src/atomic.rs\<close>: bounded reads, atomic replacement, creation that never
  replaces, and the append-only record log in which backup jobs keep their checkpoints (a header, then
  frames of length, payload and checksum). The state is the content of one file, \<open>None\<close> when there is
  none; each system call that can fail is a field of an I/O record. The hash is an argument.
\<close>

section \<open>Files\<close>

text \<open>
  \<open>fi_room\<close> is the size at which writing the file fails, \<open>fi_fault\<close> the offset from which reading it
  does; \<open>fi_grown\<close> is what another process appends between the size check and the read.
\<close>

record file_io =
  fi_parent :: bool
  fi_open :: bool
  fi_metadata :: bool
  fi_regular :: bool
  fi_permissions :: bool
  fi_room :: "nat option"
  fi_fault :: "nat option"
  fi_grown :: bytes
  fi_sync :: bool
  fi_set_len :: bool
  fi_staging :: bool
  fi_rename :: bool
  fi_sync_directory :: bool

definition healthy_io :: file_io where
  "healthy_io = \<lparr> fi_parent = True, fi_open = True, fi_metadata = True, fi_regular = True,
     fi_permissions = True, fi_room = None, fi_fault = None, fi_grown = [], fi_sync = True,
     fi_set_len = True, fi_staging = True, fi_rename = True, fi_sync_directory = True \<rparr>"

type_synonym 'a file_step = "(bytes option, core_error, 'a) step"

definition io_check :: "bool \<Rightarrow> string \<Rightarrow> core_error + unit" where
  "io_check ok operation = fail_if (\<not> ok) (CoreIo operation)"

definition u64_sat :: "int \<Rightarrow> int" where
  "u64_sat n = min n 18446744073709551615"

text \<open>\<open>write_all\<close> on an open file: when it fails, what fits is written.\<close>

definition write_all :: "file_io \<Rightarrow> string \<Rightarrow> bytes \<Rightarrow> (bytes, core_error, unit) step" where
  "write_all io operation data =
     (\<lambda>bs. if opt_any (\<lambda>n. n < length (bs @ data)) (fi_room io)
       then (Inl (CoreIo operation), take (max (length bs) (the (fi_room io))) (bs @ data))
       else (Inr (), bs @ data))"

text \<open>A step on the content of a file that is open.\<close>

definition on_file :: "(bytes, core_error, 'a) step \<Rightarrow> 'a file_step" where
  "on_file m = (\<lambda>f. case m (case f of None \<Rightarrow> [] | Some bs \<Rightarrow> bs) of (r, bs) \<Rightarrow> (r, Some bs))"

definition file_len :: "bytes option \<Rightarrow> int" where
  "file_len f = (case f of None \<Rightarrow> 0 | Some bs \<Rightarrow> vec_len bs)"

text \<open>Whether reading \<open>n\<close> bytes from an offset meets the fault before the end of the file.\<close>

definition read_faults :: "file_io \<Rightarrow> int \<Rightarrow> int \<Rightarrow> int \<Rightarrow> bool" where
  "read_faults io file_length offset n =
     opt_any (\<lambda>k. int k < offset + n \<and> int k \<le> file_length) (fi_fault io)"

definition sync_directory :: "file_io \<Rightarrow> core_error + unit" where
  "sync_directory io = io_check (fi_sync_directory io) ''sync parent directory''"

section \<open>Bounded reads and atomic replacement\<close>

definition read_bounded :: "file_io \<Rightarrow> int \<Rightarrow> bytes file_step" where
  "read_bounded io maximum =
     sbind (sget id) (\<lambda>f.
     case f of
       None \<Rightarrow> sfail (CoreIo ''open bounded file without following links'')
     | Some bs \<Rightarrow>
         sbind (slift (io_check (fi_open io) ''open bounded file without following links'')) (\<lambda>_.
         sbind (slift (io_check (fi_metadata io) ''inspect bounded file handle'')) (\<lambda>_.
         sbind (slift (fail_if (\<not> fi_regular io) (CoreInvalidState ''bounded input is not a regular file''))) (\<lambda>_.
         sbind (slift (fail_if (vec_len bs > maximum) (ResourceLimit ''persisted file size''))) (\<lambda>_.
         let bytes = take (nat (maximum + 1)) (bs @ fi_grown io) in
         sbind (slift (io_check (\<not> read_faults io (vec_len (bs @ fi_grown io)) 0 (maximum + 1))
           ''read bounded file'')) (\<lambda>_.
         sbind (slift (fail_if (vec_len bytes > maximum) (ResourceLimit ''persisted file size''))) (\<lambda>_.
         sret bytes)))))))"

text \<open>The staging file of an atomic write, up to the point where it is moved to its name.\<close>

definition stage_atomic :: "file_io \<Rightarrow> path \<Rightarrow> bytes \<Rightarrow> bool \<Rightarrow> core_error + bytes" where
  "stage_atomic io path bytes private =
     rbind (fail_if (\<not> path_has_parent path) (CoreInvalidState ''atomic target has no parent'')) (\<lambda>_.
     rbind (io_check (fi_parent io) ''create atomic parent'') (\<lambda>_.
     rbind (io_check (fi_staging io) ''create atomic staging file'') (\<lambda>_.
     case write_all io ''sync atomic staging file'' bytes [] of (written, staged) \<Rightarrow>
     rbind written (\<lambda>_.
     rbind (io_check (fi_sync io) ''sync atomic staging file'') (\<lambda>_.
     rbind (io_check (private \<longrightarrow> fi_permissions io) ''protect atomic staging file'') (\<lambda>_.
     Inr staged))))))"

definition write_atomic :: "file_io \<Rightarrow> path \<Rightarrow> bytes \<Rightarrow> bool \<Rightarrow> unit file_step" where
  "write_atomic io path bytes private =
     sbind (slift (stage_atomic io path bytes private)) (\<lambda>staged.
     sbind (slift (io_check (fi_rename io) ''commit atomic file'')) (\<lambda>_.
     sbind (smodify (\<lambda>_. Some staged)) (\<lambda>_.
     slift (sync_directory io))))"

definition write_atomic_noclobber :: "file_io \<Rightarrow> path \<Rightarrow> bytes \<Rightarrow> bool \<Rightarrow> bool file_step" where
  "write_atomic_noclobber io path bytes private =
     sbind (slift (stage_atomic io path bytes private)) (\<lambda>staged.
     sbind (sget id) (\<lambda>f.
     case f of
       Some _ \<Rightarrow> sret False
     | None \<Rightarrow>
         sbind (slift (io_check (fi_rename io) ''commit immutable atomic file'')) (\<lambda>_.
         sbind (smodify (\<lambda>_. Some staged)) (\<lambda>_.
         sbind (slift (sync_directory io)) (\<lambda>_. sret True)))))"

section \<open>The record log\<close>

definition RECORD_LOG_MAGIC :: bytes where
  "RECORD_LOG_MAGIC = ''CVWL'' @ [CHR 0x01]"

definition RECORD_CHECKSUM_BYTES :: nat where
  "RECORD_CHECKSUM_BYTES = 32"

definition record_checksum :: "(bytes \<Rightarrow> bytes) \<Rightarrow> bytes \<Rightarrow> bytes \<Rightarrow> bytes" where
  "record_checksum H len payload = H (''covalent/checkpoint-record/v1'' @ [CHR 0x00] @ len @ payload)"

definition record_frame :: "(bytes \<Rightarrow> bytes) \<Rightarrow> bytes \<Rightarrow> bytes" where
  "record_frame H payload =
     (let len = be_bytes 4 (vec_len payload) in len @ payload @ record_checksum H len payload)"

definition write_record_frame ::
    "(bytes \<Rightarrow> bytes) \<Rightarrow> file_io \<Rightarrow> bytes \<Rightarrow> (bytes, core_error, unit) step" where
  "write_record_frame H io payload =
     sbind (slift (fail_if (vec_len payload > 4294967295) (ResourceLimit ''checkpoint record''))) (\<lambda>_.
     write_all io ''append checkpoint record'' (record_frame H payload))"

definition open_record_log :: "file_io \<Rightarrow> bool \<Rightarrow> unit file_step" where
  "open_record_log io appending =
     sbind (sget id) (\<lambda>f.
     sbind (slift (io_check (fi_open io \<and> (appending \<or> f \<noteq> None)) ''open checkpoint record log'')) (\<lambda>_.
     smodify (\<lambda>_. Some (case f of None \<Rightarrow> [] | Some bs \<Rightarrow> bs))))"

definition append_record_log ::
    "(bytes \<Rightarrow> bytes) \<Rightarrow> file_io \<Rightarrow> path \<Rightarrow> bytes \<Rightarrow> int \<Rightarrow> int \<Rightarrow> bool \<Rightarrow> bool \<Rightarrow> unit file_step" where
  "append_record_log H io path payload maximum_record_bytes maximum_log_bytes private durable =
     sbind (slift (fail_if (payload = [] \<or> vec_len payload > maximum_record_bytes
       \<or> vec_len payload > 4294967295) (ResourceLimit ''checkpoint record''))) (\<lambda>_.
     sbind (slift (fail_if (\<not> path_has_parent path) (CoreInvalidState ''record log has no parent''))) (\<lambda>_.
     sbind (slift (io_check (fi_parent io) ''create record log parent'')) (\<lambda>_.
     sbind (sget (\<lambda>f. f \<noteq> None)) (\<lambda>existed.
     sbind (open_record_log io True) (\<lambda>_.
     sbind (slift (io_check (fi_metadata io) ''inspect record log'')) (\<lambda>_.
     sbind (slift (fail_if (\<not> fi_regular io) (CoreInvalidState ''record log is not a regular file''))) (\<lambda>_.
     sbind (sget file_len) (\<lambda>len.
     sbind (slift (fail_if (len \<noteq> 0 \<and> len < vec_len RECORD_LOG_MAGIC)
       (CoreInvalidState ''truncated record log header''))) (\<lambda>_.
     let prefix_bytes = (if len = 0 then vec_len RECORD_LOG_MAGIC else 0);
         frame_bytes = u64_sat (u64_sat (4 + vec_len payload) + int RECORD_CHECKSUM_BYTES)
     in
     sbind (slift (fail_if (u64_sat (u64_sat (len + prefix_bytes) + frame_bytes) > maximum_log_bytes)
       (ResourceLimit ''job checkpoint log''))) (\<lambda>_.
     sbind (slift (io_check (private \<longrightarrow> fi_permissions io) ''protect record log'')) (\<lambda>_.
     sbind (if len = 0 then on_file (write_all io ''write record log header'' RECORD_LOG_MAGIC)
       else sret ()) (\<lambda>_.
     sbind (on_file (write_record_frame H io payload)) (\<lambda>_.
     sbind (slift (io_check (durable \<longrightarrow> fi_sync io) ''sync record log'')) (\<lambda>_.
     slift (if \<not> existed \<and> durable then sync_directory io else Inr ())))))))))))))))"

definition sync_record_log :: "file_io \<Rightarrow> unit file_step" where
  "sync_record_log io =
     sbind (open_record_log io False) (\<lambda>_.
     slift (io_check (fi_sync io) ''sync record log''))"

text \<open>
  The loop of \<open>read_record_log\<close> over the rest of the file. The result has the records and, when the
  tail is torn, the length up to which the log is valid. Every sum is at most the length of the file,
  so none saturates.
\<close>

function parse_frames ::
    "(bytes \<Rightarrow> bytes) \<Rightarrow> file_io \<Rightarrow> int \<Rightarrow> int \<Rightarrow> int \<Rightarrow> bytes \<Rightarrow> core_error + bytes list \<times> int option" where
  "parse_frames H io maximum_record_bytes file_length valid_length bs =
     (if read_faults io file_length valid_length 4 then Inl (CoreIo ''read record length'')
      else if bs = [] then Inr ([], None)
      else if length bs < 4 then Inr ([], Some valid_length)
      else
        let length_bytes = take 4 bs; len = be_value length_bytes; rest = drop 4 bs in
        if len = 0 \<or> len > maximum_record_bytes
        then Inl (CoreInvalidState ''invalid checkpoint record length'')
        else if read_faults io file_length (valid_length + 4) (len + int RECORD_CHECKSUM_BYTES)
        then Inl (CoreIo ''read checkpoint record'')
        else if vec_len rest < len + int RECORD_CHECKSUM_BYTES then Inr ([], Some valid_length)
        else
          let payload = take (nat len) rest;
              checksum = take RECORD_CHECKSUM_BYTES (drop (nat len) rest);
              frame_end = valid_length + 4 + len + int RECORD_CHECKSUM_BYTES
          in
          if checksum \<noteq> record_checksum H length_bytes payload
          then if frame_end = file_length then Inr ([], Some valid_length)
               else Inl (CoreInvalidState ''checkpoint record checksum mismatch'')
          else
            rbind (parse_frames H io maximum_record_bytes file_length frame_end
              (drop (nat len + RECORD_CHECKSUM_BYTES) rest)) (\<lambda>(records, torn).
            Inr (payload # records, torn)))"
  by pat_completeness auto
termination
  by (relation "measure (\<lambda>(H, io, m, l, v, bs). length bs)") auto

declare parse_frames.simps [simp del]

definition truncate_record_log_tail :: "file_io \<Rightarrow> int \<Rightarrow> unit file_step" where
  "truncate_record_log_tail io valid_length =
     sbind (slift (io_check (fi_set_len io) ''recover partial checkpoint record'')) (\<lambda>_.
     sbind (smodify (map_option (take (nat valid_length)))) (\<lambda>_.
     slift (io_check (fi_sync io) ''recover partial checkpoint record'')))"

definition read_record_log ::
    "(bytes \<Rightarrow> bytes) \<Rightarrow> file_io \<Rightarrow> int \<Rightarrow> int \<Rightarrow> bytes list option file_step" where
  "read_record_log H io maximum_record_bytes maximum_log_bytes =
     sbind (sget id) (\<lambda>f.
     case f of
       None \<Rightarrow>
         sbind (slift (io_check (fi_open io) ''open checkpoint record log'')) (\<lambda>_. sret None)
     | Some bs \<Rightarrow>
         sbind (open_record_log io False) (\<lambda>_.
         sbind (slift (io_check (fi_metadata io) ''inspect record log'')) (\<lambda>_.
         sbind (slift (fail_if (\<not> fi_regular io \<or> vec_len bs > maximum_log_bytes)
           (ResourceLimit ''job checkpoint log''))) (\<lambda>_.
         sbind (slift (io_check (\<not> read_faults io (vec_len bs) 0 (vec_len RECORD_LOG_MAGIC)
           \<and> vec_len RECORD_LOG_MAGIC \<le> vec_len bs) ''read record log header'')) (\<lambda>_.
         sbind (slift (fail_if (take (length RECORD_LOG_MAGIC) bs \<noteq> RECORD_LOG_MAGIC)
           (CoreInvalidState ''invalid record log header''))) (\<lambda>_.
         sbind (slift (parse_frames H io maximum_record_bytes (vec_len bs) (vec_len RECORD_LOG_MAGIC)
           (drop (length RECORD_LOG_MAGIC) bs))) (\<lambda>(records, torn).
         sbind (case torn of None \<Rightarrow> sret () | Some valid_length \<Rightarrow> truncate_record_log_tail io valid_length) (\<lambda>_.
         sret (Some records)))))))))"

text \<open>The size a rewritten log will have, with the checks of the first loop.\<close>

definition rewrite_size :: "bytes list \<Rightarrow> int \<Rightarrow> core_error + int" where
  "rewrite_size records maximum_record_bytes =
     rfold (\<lambda>record size.
         rbind (fail_if (record = [] \<or> vec_len record > maximum_record_bytes)
           (ResourceLimit ''checkpoint record'')) (\<lambda>_.
         Inr (u64_sat (u64_sat (u64_sat (size + 4) + vec_len record) + int RECORD_CHECKSUM_BYTES))))
       records (vec_len RECORD_LOG_MAGIC)"

definition rewrite_record_log ::
    "(bytes \<Rightarrow> bytes) \<Rightarrow> file_io \<Rightarrow> path \<Rightarrow> bytes list \<Rightarrow> int \<Rightarrow> int \<Rightarrow> bool \<Rightarrow> unit file_step" where
  "rewrite_record_log H io path records maximum_record_bytes maximum_log_bytes private =
     sbind (slift (fail_if (\<not> path_has_parent path) (CoreInvalidState ''record log has no parent''))) (\<lambda>_.
     sbind (slift (io_check (fi_parent io) ''create record log parent'')) (\<lambda>_.
     sbind (slift (rewrite_size records maximum_record_bytes)) (\<lambda>size.
     sbind (slift (fail_if (size > maximum_log_bytes) (ResourceLimit ''job checkpoint log''))) (\<lambda>_.
     sbind (slift (io_check (fi_staging io) ''create record log staging file'')) (\<lambda>_.
     let (written, staged) =
       sbind (write_all io ''write record log header'' RECORD_LOG_MAGIC) (\<lambda>_.
       sfold (\<lambda>record _. write_record_frame H io record) records ()) []
     in
     sbind (slift written) (\<lambda>_.
     sbind (slift (io_check (fi_sync io) ''sync record log staging file'')) (\<lambda>_.
     sbind (slift (io_check (private \<longrightarrow> fi_permissions io) ''protect record log staging file'')) (\<lambda>_.
     sbind (slift (io_check (fi_rename io) ''commit record log'')) (\<lambda>_.
     sbind (smodify (\<lambda>_. Some staged)) (\<lambda>_.
     slift (sync_directory io)))))))))))"

section \<open>Reading what was written\<close>

text \<open>The content of a log that holds the given records and nothing else.\<close>

definition log_bytes :: "(bytes \<Rightarrow> bytes) \<Rightarrow> bytes list \<Rightarrow> bytes" where
  "log_bytes H records = RECORD_LOG_MAGIC @ concat (map (record_frame H) records)"

definition record_fits :: "int \<Rightarrow> bytes \<Rightarrow> bool" where
  "record_fits maximum_record_bytes record \<longleftrightarrow>
     record \<noteq> [] \<and> vec_len record \<le> maximum_record_bytes \<and> vec_len record \<le> 4294967295"

definition hash_width :: "(bytes \<Rightarrow> bytes) \<Rightarrow> bool" where
  "hash_width H \<longleftrightarrow> (\<forall>x. length (H x) = RECORD_CHECKSUM_BYTES)"

lemma io_check_simps [simp]:
  "io_check True operation = Inr ()" "io_check False operation = Inl (CoreIo operation)"
  "io_check ok operation = Inr u \<longleftrightarrow> ok" "io_check ok operation = Inl e \<longleftrightarrow> \<not> ok \<and> e = CoreIo operation"
  by (auto simp: io_check_def)

lemma healthy_io_simps [simp]:
  "fi_parent healthy_io" "fi_open healthy_io" "fi_metadata healthy_io" "fi_regular healthy_io"
  "fi_permissions healthy_io" "fi_room healthy_io = None" "fi_fault healthy_io = None"
  "fi_grown healthy_io = []" "fi_sync healthy_io" "fi_set_len healthy_io" "fi_staging healthy_io"
  "fi_rename healthy_io" "fi_sync_directory healthy_io"
  by (simp_all add: healthy_io_def)

lemma read_faults_none [simp]: "fi_fault io = None \<Longrightarrow> \<not> read_faults io l p n"
  by (simp add: read_faults_def)

lemma sbind_smodify [simp]: "sbind (smodify h) f s = f () (h s)"
  by (simp add: sbind_def smodify_def)

lemma length_record_frame:
  assumes "hash_width H"
  shows "length (record_frame H r) = 4 + length r + RECORD_CHECKSUM_BYTES"
  using assms by (simp add: record_frame_def Let_def record_checksum_def hash_width_def)

lemma frame_length_value:
  assumes "record_fits m r" shows "be_value (be_bytes 4 (vec_len r)) = vec_len r"
  using assms by (intro be_value_be_bytes) (simp_all add: record_fits_def vec_len_def)

lemma parse_frame_whole:
  assumes "hash_width H" "record_fits m r" "fi_fault io = None"
  shows "parse_frames H io m l v (record_frame H r @ bs) =
    rbind (parse_frames H io m l (v + int (length (record_frame H r))) bs) (\<lambda>(records, torn).
      Inr (r # records, torn))"
  using assms frame_length_value[OF assms(2)]
  by (subst parse_frames.simps)
    (simp add: length_record_frame, simp add: record_frame_def Let_def hash_width_def
      record_checksum_def record_fits_def vec_len_def add.assoc)

lemma parse_frames_whole:
  assumes "hash_width H" "\<forall>r \<in> set rs. record_fits m r" "fi_fault io = None"
  shows "parse_frames H io m l v (concat (map (record_frame H) rs) @ bs) =
    rbind (parse_frames H io m l (v + int (length (concat (map (record_frame H) rs)))) bs)
      (\<lambda>(records, torn). Inr (rs @ records, torn))"
  using assms(2)
proof (induction rs arbitrary: v)
  case Nil
  show ?case by (cases "parse_frames H io m l v bs") auto
next
  case (Cons r rs)
  then show ?case
    by (simp add: parse_frame_whole[OF assms(1) _ assms(3)] add.assoc)
      (cases "parse_frames H io m l (v + (int (length (record_frame H r))
        + int (length (concat (map (record_frame H) rs))))) bs", auto)
qed

lemma parse_frame_torn:
  assumes "hash_width H" "record_fits m r" "fi_fault io = None" "k < length (record_frame H r)"
  shows "parse_frames H io m l v (take k (record_frame H r)) = Inr ([], if k = 0 then None else Some v)"
proof (cases "k < 4")
  case True
  moreover have "record_frame H r \<noteq> []" using assms(4) by auto
  ultimately show ?thesis using assms
    by (subst parse_frames.simps) (auto simp: length_record_frame)
next
  case False
  then have "take 4 (take k (record_frame H r)) = be_bytes 4 (vec_len r)"
    by (simp add: record_frame_def Let_def min_def)
  with False show ?thesis
    using assms frame_length_value[OF assms(2)]
    by (subst parse_frames.simps)
      (auto simp: Let_def length_record_frame record_fits_def vec_len_def)
qed

lemma parse_log_bytes:
  assumes "hash_width H" "\<forall>r \<in> set rs. record_fits m r" "fi_fault io = None" "record_fits m r"
    "k < length (record_frame H r)"
  shows "parse_frames H io m l v (concat (map (record_frame H) rs) @ take k (record_frame H r)) =
    Inr (rs, if k = 0 then None else Some (v + int (length (concat (map (record_frame H) rs)))))"
  by (simp add: parse_frames_whole[OF assms(1-3)] parse_frame_torn[OF assms(1,4,3,5)])

lemmas log_steps = sbind_steps step_simps

lemma open_record_log_Some [simp]:
  "fi_open io \<Longrightarrow> open_record_log io appending (Some bs) = (Inr (), Some bs)"
  by (simp add: open_record_log_def log_steps smodify_def)

lemma truncate_healthy [simp]:
  "truncate_record_log_tail healthy_io n (Some bs) = (Inr (), Some (take (nat n) bs))"
  by (simp add: truncate_record_log_tail_def log_steps)

text \<open>Reading a log whose last frame is incomplete returns the complete ones and cuts the rest off.\<close>

lemma read_recovers:
  assumes "hash_width H" "\<forall>r \<in> set rs. record_fits m r" "record_fits m r"
    "k < length (record_frame H r)" "vec_len (log_bytes H rs @ take k (record_frame H r)) \<le> L"
  shows "read_record_log H healthy_io m L (Some (log_bytes H rs @ take k (record_frame H r))) =
    (Inr (Some rs), Some (log_bytes H rs))"
  using assms(5) parse_log_bytes[OF assms(1,2) _ assms(3,4), of healthy_io]
  by (simp add: read_record_log_def log_bytes_def sbind_def[of "open_record_log _ _"]
      sbind_def[of "truncate_record_log_tail _ _"] log_steps vec_len_def)

lemma read_clean:
  assumes "hash_width H" "\<forall>r \<in> set rs. record_fits m r" "vec_len (log_bytes H rs) \<le> L"
  shows "read_record_log H healthy_io m L (Some (log_bytes H rs)) = (Inr (Some rs), Some (log_bytes H rs))"
proof -
  have "parse_frames H healthy_io m l v [] = Inr ([], None)" for l v
    by (subst parse_frames.simps) simp
  with parse_frames_whole[OF assms(1,2), of healthy_io _ _ "[]"] assms(3) show ?thesis
    by (simp add: read_record_log_def log_bytes_def sbind_def[of "open_record_log _ _"] log_steps vec_len_def)
qed

lemma swp_write_all:
  "swp (write_all io operation data) (\<lambda>res t. \<exists>k \<le> length data. t = bs @ take k data
     \<and> (res = Inr () \<longrightarrow> k = length data)) bs"
proof (cases "opt_any (\<lambda>n. n < length (bs @ data)) (fi_room io)")
  case True
  then obtain n where n: "fi_room io = Some n" "n < length (bs @ data)"
    by (auto simp: opt_any_iff)
  then show ?thesis
    by (auto simp: swp_def write_all_def max_def intro!: exI[of _ "n - length bs"])
qed (simp add: swp_def write_all_def exI[of _ "length data"])

lemma on_file_Some: "on_file m (Some bs) = (case m bs of (r, t) \<Rightarrow> (r, Some t))"
  by (simp add: on_file_def)

lemma swp_on_file:
  "swp m (\<lambda>r t. Q r (Some t)) bs \<Longrightarrow> swp (on_file m) Q (Some bs)"
  by (simp add: swp_def on_file_def split: prod.splits)

lemma swp_write_record_frame:
  assumes "record_fits m r"
  shows "swp (write_record_frame H io r) (\<lambda>res t. \<exists>k \<le> length (record_frame H r).
    t = bs @ take k (record_frame H r) \<and> (res = Inr () \<longrightarrow> k = length (record_frame H r))) bs"
  using assms swp_write_all by (simp add: write_record_frame_def sbind_steps record_fits_def)

lemma swp_open_Some:
  assumes "\<And>e. Q (Inl e) (Some bs)" "swp (f ()) Q (Some bs)"
  shows "swp (sbind (open_record_log io appending) f) Q (Some bs)"
  using assms by (cases "fi_open io") (simp_all add: open_record_log_def swp_sbind)

text \<open>An append to a log with a header adds a prefix of one frame, all of it when it succeeds.\<close>

lemma append_extends:
  assumes "length RECORD_LOG_MAGIC \<le> length bs" "L < 18446744073709551615" "hash_width H"
  shows "swp (append_record_log H io path r m L private durable) (\<lambda>res t.
    \<exists>k \<le> length (record_frame H r). t = Some (bs @ take k (record_frame H r))
      \<and> (k = 0 \<or> record_fits m r \<and> vec_len (bs @ record_frame H r) \<le> L)
      \<and> (res = Inr () \<longrightarrow> k = length (record_frame H r))) (Some bs)"
    (is "swp _ ?Q _")
proof -
  have fail: "?Q (Inl e) (Some bs)" for e by (intro exI[of _ 0]) simp
  have len: "file_len (Some bs) \<noteq> 0"
    using assms(1) by (auto simp: file_len_def vec_len_def RECORD_LOG_MAGIC_def)
  show ?thesis
    unfolding append_record_log_def Let_def
  proof (intro swp_intros swp_open_Some fail, goal_cases)
    case 1
    then have fits: "record_fits m r" "vec_len (bs @ record_frame H r) \<le> L"
      using assms len
      by (auto simp: record_fits_def u64_sat_def file_len_def vec_len_def length_record_frame
          split: if_splits)
    show ?case
      using swp_write_record_frame[OF fits(1), of H io bs] fits len
      by (auto simp: sbind_steps intro!: swp_bind_step[OF swp_on_file] swp_intros)
  qed
qed

lemma read_extension:
  assumes "hash_width H" "\<forall>r \<in> set rs. record_fits m r" "vec_len (log_bytes H rs) \<le> L"
    "k \<le> length (record_frame H r)"
    "k = 0 \<or> record_fits m r \<and> vec_len (log_bytes H rs @ record_frame H r) \<le> L"
  defines "rs' \<equiv> if k = length (record_frame H r) then rs @ [r] else rs"
  shows "read_record_log H healthy_io m L (Some (log_bytes H rs @ take k (record_frame H r))) =
    (Inr (Some rs'), Some (log_bytes H rs'))"
proof -
  have frame: "0 < length (record_frame H r)"
    using length_record_frame[OF assms(1)] by simp
  consider "k = 0" | "0 < k" "k < length (record_frame H r)" | "k = length (record_frame H r)"
    using assms(4) by linarith
  then show ?thesis
  proof cases
    case 1
    with frame read_clean[OF assms(1-3)] show ?thesis by (simp add: rs'_def)
  next
    case 2
    then have "vec_len (log_bytes H rs @ take k (record_frame H r)) \<le> L" "record_fits m r"
      using assms(5) by (auto simp: vec_len_def)
    with 2 read_recovers[OF assms(1,2) this(2) 2(2)] show ?thesis by (simp add: rs'_def)
  next
    case 3
    then have "record_fits m r" "vec_len (log_bytes H (rs @ [r])) \<le> L"
      using assms(5) frame by (auto simp: log_bytes_def)
    with 3 read_clean[OF assms(1), of "rs @ [r]"] assms(2) show ?thesis
      by (simp add: rs'_def log_bytes_def)
  qed
qed

text \<open>
  C29. An append is atomic across faults and restarts. Whatever system call fails in the append of a
  record to a log, and however many bytes of the frame reach the file, the next read returns either the
  records from before or these and the new one, and the new one for sure when the append returned Ok;
  the read also leaves a log that holds just the records it returned.
\<close>

theorem append_crash_safe:
  assumes "hash_width H" "\<forall>r \<in> set rs. record_fits m r" "vec_len (log_bytes H rs) \<le> L"
    "L < 18446744073709551615"
    "append_record_log H io path r m L private durable (Some (log_bytes H rs)) = (res, f)"
  shows "\<exists>rs'. read_record_log H healthy_io m L f = (Inr (Some rs'), Some (log_bytes H rs'))
    \<and> (rs' = rs \<or> rs' = rs @ [r]) \<and> (res = Inr () \<longrightarrow> rs' = rs @ [r])"
proof -
  have "length RECORD_LOG_MAGIC \<le> length (log_bytes H rs)" by (simp add: log_bytes_def)
  from swpD[OF append_extends[OF this assms(4,1)] assms(5)]
  obtain k where "k \<le> length (record_frame H r)"
    "f = Some (log_bytes H rs @ take k (record_frame H r))"
    "k = 0 \<or> record_fits m r \<and> vec_len (log_bytes H rs @ record_frame H r) \<le> L"
    "res = Inr () \<longrightarrow> k = length (record_frame H r)"
    by auto
  with read_extension[OF assms(1-3) this(1,3)] show ?thesis by auto
qed

theorem append_crash_safe_witness:
  "append_record_log (\<lambda>_. replicate 32 (CHR 0x00)) (healthy_io\<lparr>fi_room := Some 50\<rparr>) ''/job.wal'' ''b'' 100 1000 True True
     (Some (log_bytes (\<lambda>_. replicate 32 (CHR 0x00)) [''a''])) =
     (Inl (CoreIo ''append checkpoint record''), Some (take 50 (log_bytes (\<lambda>_. replicate 32 (CHR 0x00)) [''a'', ''b''])))
   \<and> (\<exists>rs'. read_record_log (\<lambda>_. replicate 32 (CHR 0x00)) healthy_io 100 1000
        (Some (take 50 (log_bytes (\<lambda>_. replicate 32 (CHR 0x00)) [''a'', ''b'']))) =
        (Inr (Some rs'), Some (log_bytes (\<lambda>_. replicate 32 (CHR 0x00)) rs'))
      \<and> (rs' = [''a''] \<or> rs' = [''a''] @ [''b'']))"
proof -
  have append: "append_record_log (\<lambda>_. replicate 32 (CHR 0x00)) (healthy_io\<lparr>fi_room := Some 50\<rparr>) ''/job.wal'' ''b'' 100 1000 True True
     (Some (log_bytes (\<lambda>_. replicate 32 (CHR 0x00)) [''a''])) =
     (Inl (CoreIo ''append checkpoint record''), Some (take 50 (log_bytes (\<lambda>_. replicate 32 (CHR 0x00)) [''a'', ''b''])))"
    by code_simp
  have "hash_width (\<lambda>_. replicate 32 (CHR 0x00))" by (simp add: hash_width_def RECORD_CHECKSUM_BYTES_def)
  moreover have "\<forall>r \<in> set [''a'']. record_fits 100 r" by code_simp
  moreover have "vec_len (log_bytes (\<lambda>_. replicate 32 (CHR 0x00)) [''a'']) \<le> 1000" by code_simp
  ultimately show ?thesis
    using append_crash_safe[OF _ _ _ _ append] append by auto
qed

section \<open>What a read can return\<close>

text \<open>The records returned are the frames the input starts with, each with its own checksum.\<close>

lemma parse_frames_sound:
  assumes "parse_frames H io m l v bs = Inr (rs, torn)" "hash_width H" "m \<le> 4294967295"
  shows "(\<forall>r \<in> set rs. record_fits m r) \<and> (\<exists>rest. bs = concat (map (record_frame H) rs) @ rest
    \<and> (case torn of None \<Rightarrow> rest = []
       | Some n \<Rightarrow> n = v + int (length (concat (map (record_frame H) rs)))))"
  using assms
proof (induction H io m l v bs arbitrary: rs rule: parse_frames.induct)
  case (1 H io m l v bs)
  let ?len = "be_value (take 4 bs)"
  let ?rest = "drop 4 bs"
  show ?case
  proof (cases "rs = []")
    case True
    with "1.prems" show ?thesis
      by (subst (asm) parse_frames.simps)
        (auto simp: Let_def split: if_splits prod.splits sum.splits)
  next
    case False
    with "1.prems"(1) obtain rs' where ok: "4 \<le> length bs" "?len \<noteq> 0" "?len \<le> m"
        "\<not> vec_len ?rest < ?len + int RECORD_CHECKSUM_BYTES" "rs = take (nat ?len) ?rest # rs'"
        "take RECORD_CHECKSUM_BYTES (drop (nat ?len) ?rest) =
           record_checksum H (take 4 bs) (take (nat ?len) ?rest)"
      and rec: "parse_frames H io m l (v + 4 + ?len + int RECORD_CHECKSUM_BYTES)
        (drop (nat ?len + RECORD_CHECKSUM_BYTES) ?rest) = Inr (rs', torn)"
      and path: "\<not> read_faults io l v 4" "bs \<noteq> []"
        "\<not> read_faults io l (v + 4) (?len + int RECORD_CHECKSUM_BYTES)"
      by (subst (asm) parse_frames.simps)
        (auto simp: Let_def not_less split: if_splits prod.splits)
    let ?p = "take (nat ?len) ?rest"
    have len: "0 < ?len" "vec_len ?p = ?len"
      using be_value_bounds[of "take 4 bs"] ok(1,2,4) by (auto simp: vec_len_def)
    have four: "length (take 4 bs) = 4" using ok(1) by simp
    have "be_bytes 4 (vec_len ?p) = take 4 bs"
      using be_bytes_be_value[of "take 4 bs"] unfolding four len(2) .
    then have frame: "bs = record_frame H ?p @ drop (nat ?len + RECORD_CHECKSUM_BYTES) ?rest"
      using ok(6) by (simp add: record_frame_def Let_def)
        (metis append.assoc append_take_drop_id drop_drop add.commute)
    have fits: "record_fits m ?p"
      using ok(3) len "1.prems"(3) by (auto simp: record_fits_def vec_len_def)
    have "(\<forall>r \<in> set rs'. record_fits m r) \<and> (\<exists>rest. drop (nat ?len + RECORD_CHECKSUM_BYTES) ?rest =
        concat (map (record_frame H) rs') @ rest \<and> (case torn of None \<Rightarrow> rest = []
        | Some n \<Rightarrow> n = v + 4 + ?len + int RECORD_CHECKSUM_BYTES + int (length (concat (map (record_frame H) rs')))))"
      by (rule "1.IH"[OF path(1,2) _ refl refl refl _ path(3) _ refl refl refl _ rec "1.prems"(2,3)])
        (use ok in auto)
    then obtain rest where ih: "\<forall>r \<in> set rs'. record_fits m r"
        "drop (nat ?len + RECORD_CHECKSUM_BYTES) ?rest = concat (map (record_frame H) rs') @ rest"
        "case torn of None \<Rightarrow> rest = [] | Some n \<Rightarrow> n = v + 4 + ?len + int RECORD_CHECKSUM_BYTES
           + int (length (concat (map (record_frame H) rs')))"
      by blast
    have "int (length (record_frame H ?p)) = 4 + ?len + int RECORD_CHECKSUM_BYTES"
      using length_record_frame[OF "1.prems"(2), of ?p] len(2) by (simp add: vec_len_def)
    then have "int (length (concat (map (record_frame H) rs)))
        = 4 + ?len + int RECORD_CHECKSUM_BYTES + int (length (concat (map (record_frame H) rs')))"
      unfolding ok(5) by simp
    with ih(3) have "case torn of None \<Rightarrow> rest = []
        | Some n \<Rightarrow> n = v + int (length (concat (map (record_frame H) rs)))"
      by (cases torn) (simp_all only: option.case add.assoc)
    moreover have "bs = concat (map (record_frame H) rs) @ rest"
      using frame unfolding ih(2) by (simp only: ok(5) list.map concat.simps append.assoc)
    moreover have "\<forall>r \<in> set rs. record_fits m r"
      using fits ih(1) unfolding ok(5) by simp
    ultimately show ?thesis by blast
  qed
qed

lemma parse_frames_leaves:
  assumes "hash_width H" "m \<le> 4294967295"
    "parse_frames H io m (vec_len bs) (vec_len RECORD_LOG_MAGIC) (drop (length RECORD_LOG_MAGIC) bs) = Inr (rs, torn)"
    "take (length RECORD_LOG_MAGIC) bs = RECORD_LOG_MAGIC"
    "(case torn of None \<Rightarrow> sret () | Some n \<Rightarrow> truncate_record_log_tail io n) (Some bs) = (Inr g, f)"
  shows "f = Some (log_bytes H rs) \<and> prefix (log_bytes H rs) bs \<and> (\<forall>r \<in> set rs. record_fits m r)"
proof -
  from parse_frames_sound[OF assms(3,1,2)] obtain rest where
    fits: "\<forall>r \<in> set rs. record_fits m r"
    and rest: "drop (length RECORD_LOG_MAGIC) bs = concat (map (record_frame H) rs) @ rest"
      "case torn of None \<Rightarrow> rest = []
       | Some n \<Rightarrow> n = vec_len RECORD_LOG_MAGIC + int (length (concat (map (record_frame H) rs)))"
    by blast
  have bs: "bs = log_bytes H rs @ rest"
    using assms(4) rest(1) by (metis log_bytes_def append.assoc append_take_drop_id)
  have "f = Some (log_bytes H rs)"
  proof (cases torn)
    case None
    with assms(5) rest(2) bs show ?thesis by (simp add: step_simps)
  next
    case (Some n)
    with rest(2) have "nat n = length (log_bytes H rs)"
      by (simp add: log_bytes_def vec_len_def)
    with assms(5) Some bs show ?thesis
      by (auto simp: truncate_record_log_tail_def sbind_def step_simps smodify_def split: sum.splits)
  qed
  with bs fits show ?thesis by simp
qed

text \<open>
  C30. A read never invents, reorders or skips a record. Whatever bytes the file held and whatever
  fails, a read that returns records leaves a file that is exactly the log of these records, and that
  is a prefix of what the file was: in particular a damaged frame followed by others is never passed
  over, and reading again returns the same records.
\<close>

theorem read_returns_valid_prefix:
  assumes "hash_width H" "m \<le> 4294967295"
    "read_record_log H io m L (Some bs) = (Inr (Some rs), f)"
  shows "f = Some (log_bytes H rs) \<and> prefix (log_bytes H rs) bs
    \<and> read_record_log H healthy_io m L f = (Inr (Some rs), f)"
proof -
  from assms(3) obtain torn g where header: "take (length RECORD_LOG_MAGIC) bs = RECORD_LOG_MAGIC"
      "vec_len bs \<le> L"
    and parsed: "parse_frames H io m (vec_len bs) (vec_len RECORD_LOG_MAGIC)
      (drop (length RECORD_LOG_MAGIC) bs) = Inr (rs, torn)"
    and cut: "(case torn of None \<Rightarrow> sret () | Some n \<Rightarrow> truncate_record_log_tail io n) (Some bs) = (Inr g, f)"
    by (cases "fi_open io")
      (auto simp: read_record_log_def open_record_log_def sbind_def step_simps smodify_def id_def
        split: sum.splits prod.splits if_splits)
  from parse_frames_leaves[OF assms(1,2) parsed header(1) cut]
  have log: "f = Some (log_bytes H rs)" "prefix (log_bytes H rs) bs" "\<forall>r \<in> set rs. record_fits m r"
    by blast+
  moreover have "vec_len (log_bytes H rs) \<le> L"
    using header(2) prefix_length_le[OF log(2)] by (simp add: vec_len_def)
  ultimately show ?thesis
    using read_clean[OF assms(1) log(3)] by simp
qed

theorem read_returns_valid_prefix_witness:
  "read_record_log (\<lambda>_. replicate 32 (CHR 0x00)) healthy_io 100 1000
     (Some (log_bytes (\<lambda>_. replicate 32 (CHR 0x00)) [''a''] @ ''junk'' @ replicate 40 (CHR 0x01)))
   = (Inl (CoreInvalidState ''invalid checkpoint record length''),
      Some (log_bytes (\<lambda>_. replicate 32 (CHR 0x00)) [''a''] @ ''junk'' @ replicate 40 (CHR 0x01)))
   \<and> prefix (log_bytes (\<lambda>_. replicate 32 (CHR 0x00)) [''a'']) (log_bytes (\<lambda>_. replicate 32 (CHR 0x00)) [''a''] @ ''ju'')"
proof -
  have read: "read_record_log (\<lambda>_. replicate 32 (CHR 0x00)) healthy_io 100 1000
     (Some (log_bytes (\<lambda>_. replicate 32 (CHR 0x00)) [''a''] @ ''ju'')) =
     (Inr (Some [''a'']), Some (log_bytes (\<lambda>_. replicate 32 (CHR 0x00)) [''a'']))"
    by code_simp
  have "read_record_log (\<lambda>_. replicate 32 (CHR 0x00)) healthy_io 100 1000
     (Some (log_bytes (\<lambda>_. replicate 32 (CHR 0x00)) [''a''] @ ''junk'' @ replicate 40 (CHR 0x01)))
   = (Inl (CoreInvalidState ''invalid checkpoint record length''),
      Some (log_bytes (\<lambda>_. replicate 32 (CHR 0x00)) [''a''] @ ''junk'' @ replicate 40 (CHR 0x01)))"
    by code_simp
  then show ?thesis
    using read_returns_valid_prefix[OF _ _ read]
    by (simp add: hash_width_def RECORD_CHECKSUM_BYTES_def)
qed

section \<open>Creating and rewriting a log\<close>

text \<open>A log of the given size has room for the frames of the records, with the sums of the code.\<close>

lemma rewrite_size_exact:
  assumes "hash_width H" "\<forall>r \<in> set rs. record_fits m r" "L < 18446744073709551615"
    "0 \<le> n" "n + int (length (concat (map (record_frame H) rs))) \<le> L"
  shows "rfold (\<lambda>record size.
         rbind (fail_if (record = [] \<or> vec_len record > m) (ResourceLimit ''checkpoint record'')) (\<lambda>_.
         Inr (u64_sat (u64_sat (u64_sat (size + 4) + vec_len record) + int RECORD_CHECKSUM_BYTES))))
       rs n = Inr (n + int (length (concat (map (record_frame H) rs))))"
  using assms(2,4,5)
proof (induction rs arbitrary: n)
  case (Cons r rs)
  let ?n = "n + 4 + vec_len r + int RECORD_CHECKSUM_BYTES"
  have len: "int (length (record_frame H r)) = 4 + vec_len r + int RECORD_CHECKSUM_BYTES"
    using length_record_frame[OF assms(1)] by (simp add: vec_len_def)
  have "u64_sat (u64_sat (u64_sat (n + 4) + vec_len r) + int RECORD_CHECKSUM_BYTES) = ?n"
    using Cons.prems(2,3) assms(3) len by (simp add: u64_sat_def vec_len_def)
  moreover have "r \<noteq> []" "\<not> m < vec_len r"
    using Cons.prems(1) by (simp_all add: record_fits_def)
  moreover have "0 \<le> ?n" "?n + int (length (concat (map (record_frame H) rs))) \<le> L"
    using Cons.prems len by (simp_all add: vec_len_def)
  ultimately show ?case
    using Cons.IH[of ?n] Cons.prems(1) len by (simp add: add.assoc)
qed simp

lemma write_frames_healthy:
  assumes "\<forall>r \<in> set rs. record_fits m r"
  shows "sfold (\<lambda>record _. write_record_frame H healthy_io record) rs () bs =
    (Inr (), bs @ concat (map (record_frame H) rs))"
  using assms
proof (induction rs arbitrary: bs)
  case (Cons r rs)
  then have "write_record_frame H healthy_io r bs = (Inr (), bs @ record_frame H r)"
    by (simp add: write_record_frame_def write_all_def sbind_steps record_fits_def)
  with Cons show ?case by (simp add: sbind_def)
qed (simp add: step_simps)

lemma append_healthy:
  assumes "hash_width H" "record_fits m r" "path_has_parent path" "L < 18446744073709551615"
    "length RECORD_LOG_MAGIC \<le> length bs" "vec_len (bs @ record_frame H r) \<le> L"
  shows "append_record_log H healthy_io path r m L private durable (Some bs) =
    (Inr (), Some (bs @ record_frame H r))"
proof -
  have "file_len (Some bs) \<noteq> 0"
    using assms(5) by (auto simp: file_len_def vec_len_def RECORD_LOG_MAGIC_def)
  moreover have "write_record_frame H healthy_io r bs = (Inr (), bs @ record_frame H r)"
    using assms(2) by (simp add: write_record_frame_def write_all_def sbind_steps record_fits_def)
  ultimately show ?thesis
    using assms
    by (simp add: append_record_log_def sbind_def[of "open_record_log _ _"] sbind_def[of "on_file _"]
      log_steps on_file_Some record_fits_def file_len_def vec_len_def u64_sat_def length_record_frame)
qed

lemma append_creates:
  assumes "hash_width H" "record_fits m r" "path_has_parent path" "L < 18446744073709551615"
    "vec_len (log_bytes H [r]) \<le> L"
  shows "append_record_log H healthy_io path r m L private durable None = (Inr (), Some (log_bytes H [r]))"
proof -
  have "write_record_frame H healthy_io r bs = (Inr (), bs @ record_frame H r)" for bs
    using assms(2) by (simp add: write_record_frame_def write_all_def sbind_steps record_fits_def)
  moreover have "write_all healthy_io operation d [] = (Inr (), d)" for operation d
    by (simp add: write_all_def)
  ultimately show ?thesis
    using assms
    by (simp add: append_record_log_def open_record_log_def sbind_def[of "on_file _"] sbind_def[of "sbind _ _"]
      log_steps on_file_Some record_fits_def file_len_def vec_len_def u64_sat_def length_record_frame
      log_bytes_def sync_directory_def smodify_def)
qed

lemma append_all_healthy:
  assumes "hash_width H" "\<forall>r \<in> set rs. record_fits m r" "path_has_parent path" "L < 18446744073709551615"
    "length RECORD_LOG_MAGIC \<le> length bs" "vec_len (bs @ concat (map (record_frame H) rs)) \<le> L"
  shows "sfold (\<lambda>r _. append_record_log H healthy_io path r m L private durable) rs () (Some bs) =
    (Inr (), Some (bs @ concat (map (record_frame H) rs)))"
  using assms(2,5,6)
proof (induction rs arbitrary: bs)
  case (Cons r rs)
  have "append_record_log H healthy_io path r m L private durable (Some bs) =
      (Inr (), Some (bs @ record_frame H r))"
    by (rule append_healthy[OF assms(1) _ assms(3,4)]) (use Cons.prems in \<open>auto simp: vec_len_def\<close>)
  with Cons show ?case by (simp add: sbind_def)
qed (simp add: step_simps)

text \<open>
  C31. Compaction is equivalent to starting over. Rewriting a log with a list of records produces, byte
  for byte, the file that appending them one by one to a fresh log produces, whatever the file held;
  and reading that file returns the list.
\<close>

theorem rewrite_equals_appends:
  assumes "hash_width H" "rs \<noteq> []" "\<forall>r \<in> set rs. record_fits m r" "path_has_parent path"
    "L < 18446744073709551615" "vec_len (log_bytes H rs) \<le> L"
  shows "rewrite_record_log H healthy_io path rs m L private f =
      sfold (\<lambda>r _. append_record_log H healthy_io path r m L private durable) rs () None
    \<and> rewrite_record_log H healthy_io path rs m L private f = (Inr (), Some (log_bytes H rs))
    \<and> read_record_log H healthy_io m L (Some (log_bytes H rs)) = (Inr (Some rs), Some (log_bytes H rs))"
proof -
  have "rewrite_size rs m = Inr (vec_len (log_bytes H rs))"
    using rewrite_size_exact[OF assms(1,3,5), of "vec_len RECORD_LOG_MAGIC"] assms(6)
    by (simp add: rewrite_size_def log_bytes_def vec_len_def)
  moreover have "sbind (write_all healthy_io ''write record log header'' RECORD_LOG_MAGIC) (\<lambda>_.
      sfold (\<lambda>record _. write_record_frame H healthy_io record) rs ()) [] = (Inr (), log_bytes H rs)"
    using write_frames_healthy[OF assms(3)] by (simp add: sbind_def write_all_def log_bytes_def)
  ultimately have rewrite: "rewrite_record_log H healthy_io path rs m L private f = (Inr (), Some (log_bytes H rs))"
    using assms(4,6) by (simp add: rewrite_record_log_def log_steps sync_directory_def)
  obtain r rs' where rs: "rs = r # rs'" using assms(2) by (cases rs) auto
  have "append_record_log H healthy_io path r m L private durable None = (Inr (), Some (log_bytes H [r]))"
    by (rule append_creates[OF assms(1) _ assms(4,5)])
      (use assms(3,6) rs in \<open>auto simp: log_bytes_def vec_len_def\<close>)
  moreover have "sfold (\<lambda>r _. append_record_log H healthy_io path r m L private durable) rs' ()
      (Some (log_bytes H [r])) = (Inr (), Some (log_bytes H [r] @ concat (map (record_frame H) rs')))"
    by (rule append_all_healthy[OF assms(1) _ assms(4,5)])
      (use assms(3,6) rs in \<open>auto simp: log_bytes_def vec_len_def\<close>)
  ultimately have "sfold (\<lambda>r _. append_record_log H healthy_io path r m L private durable) rs () None =
      (Inr (), Some (log_bytes H rs))"
    using rs by (simp add: sbind_def log_bytes_def)
  with rewrite read_clean[OF assms(1,3,6)] show ?thesis by simp
qed

theorem rewrite_equals_appends_witness:
  "hash_width (\<lambda>_. replicate 32 (CHR 0x00))
   \<and> rewrite_record_log (\<lambda>_. replicate 32 (CHR 0x00)) healthy_io ''/job.wal'' [''a'', ''b''] 100 1000 True (Some ''junk'') =
     sfold (\<lambda>r _. append_record_log (\<lambda>_. replicate 32 (CHR 0x00)) healthy_io ''/job.wal'' r 100 1000 True False)
       [''a'', ''b''] () None"
proof -
  have "hash_width (\<lambda>_. replicate 32 (CHR 0x00))" by (simp add: hash_width_def RECORD_CHECKSUM_BYTES_def)
  moreover have "path_has_parent ''/job.wal''" by code_simp
  moreover have "vec_len (log_bytes (\<lambda>_. replicate 32 (CHR 0x00)) [''a'', ''b'']) \<le> 1000" by code_simp
  ultimately show ?thesis
    using rewrite_equals_appends[of "\<lambda>_. replicate 32 (CHR 0x00)" "[''a'', ''b'']" 100 "''/job.wal''" 1000 True "Some ''junk''" False]
    by (simp add: record_fits_def vec_len_def)
qed

text \<open>A rewrite replaces the whole file or leaves it alone.\<close>

lemma write_frames_Inr:
  assumes "sfold (\<lambda>record _. write_record_frame H io record) rs () bs = (Inr u, bs')"
  shows "bs' = bs @ concat (map (record_frame H) rs)"
  using assms
proof (induction rs arbitrary: bs)
  case (Cons r rs)
  then obtain t where "write_record_frame H io r bs = (Inr (), t)"
      "sfold (\<lambda>record _. write_record_frame H io record) rs () t = (Inr u, bs')"
    by (auto simp: sbind_def split: prod.splits sum.splits)
  with Cons.IH[of t] show ?case
    by (auto simp: write_record_frame_def write_all_def sbind_def step_simps fail_if_def
        split: if_splits)
qed (simp add: step_simps)

lemma rewrite_size_saturates:
  assumes "hash_width H" "n \<le> 18446744073709551615"
    "rfold (\<lambda>record size.
         rbind (fail_if (record = [] \<or> vec_len record > m) (ResourceLimit ''checkpoint record'')) (\<lambda>_.
         Inr (u64_sat (u64_sat (u64_sat (size + 4) + vec_len record) + int RECORD_CHECKSUM_BYTES))))
       rs n = Inr z"
  shows "z = u64_sat (n + int (length (concat (map (record_frame H) rs))))"
  using assms(2,3)
proof (induction rs arbitrary: n)
  case (Cons r rs)
  let ?n = "u64_sat (u64_sat (u64_sat (n + 4) + vec_len r) + int RECORD_CHECKSUM_BYTES)"
  have len: "int (length (record_frame H r)) = 4 + vec_len r + int RECORD_CHECKSUM_BYTES"
    using length_record_frame[OF assms(1)] by (simp add: vec_len_def)
  have "?n \<le> 18446744073709551615" by (simp add: u64_sat_def)
  from Cons.IH[OF this] Cons.prems(2)
  have "z = u64_sat (?n + int (length (concat (map (record_frame H) rs))))"
    by (auto split: if_splits)
  then show ?case
    using len by (auto simp: u64_sat_def vec_len_def)
qed (simp add: u64_sat_def)

lemma rewrite_atomic:
  assumes "hash_width H" "L < 18446744073709551615"
  shows "swp (rewrite_record_log H io path rs m L private) (\<lambda>res f'.
     (f' = f \<or> f' = Some (log_bytes H rs) \<and> vec_len (log_bytes H rs) \<le> L)
     \<and> (res = Inr () \<longrightarrow> f' = Some (log_bytes H rs) \<and> vec_len (log_bytes H rs) \<le> L)) f"
proof -
  let ?staging = "sbind (write_all io ''write record log header'' RECORD_LOG_MAGIC) (\<lambda>_.
    sfold (\<lambda>record _. write_record_frame H io record) rs ()) []"
  obtain written staged where w: "?staging = (written, staged)" by (cases ?staging)
  then have "staged = log_bytes H rs" if "written = Inr u" for u
    using that by (auto simp: sbind_def write_all_def log_bytes_def dest!: write_frames_Inr
        split: prod.splits sum.splits if_splits)
  moreover have "vec_len (log_bytes H rs) \<le> L" if "rewrite_size rs m = Inr z" "\<not> L < z" for z
    using rewrite_size_saturates[OF assms(1) _ that(1)[unfolded rewrite_size_def]] that(2) assms(2)
    by (simp add: u64_sat_def vec_len_def log_bytes_def RECORD_LOG_MAGIC_def split: if_splits)
  ultimately show ?thesis
    unfolding rewrite_record_log_def w Let_def prod.case
    by (intro swp_intros) (auto simp: sync_directory_def)
qed

text \<open>The creation of a log can stop after any number of bytes.\<close>

lemma append_creating_cut:
  assumes "hash_width H" "record_fits m r" "path_has_parent path" "L < 18446744073709551615"
    "vec_len (log_bytes H [r]) \<le> L" "n < length (log_bytes H [r])"
  shows "\<exists>e. append_record_log H (healthy_io\<lparr>fi_room := Some n\<rparr>) path r m L private durable None =
    (Inl e, Some (take n (log_bytes H [r])))"
proof -
  let ?io = "healthy_io\<lparr>fi_room := Some n\<rparr>"
  have "write_all ?io operation RECORD_LOG_MAGIC [] =
      (if n < length RECORD_LOG_MAGIC then (Inl (CoreIo operation), take n (log_bytes H [r]))
       else (Inr (), RECORD_LOG_MAGIC))" for operation
    by (auto simp: write_all_def log_bytes_def)
  moreover have "write_record_frame H ?io r RECORD_LOG_MAGIC =
      (Inl (CoreIo ''append checkpoint record''), take n (log_bytes H [r]))" if "\<not> n < length RECORD_LOG_MAGIC"
    using assms(2,6) that
    by (simp add: write_record_frame_def write_all_def sbind_steps record_fits_def log_bytes_def max_def)
  ultimately show ?thesis
    using assms
    by (cases "n < length RECORD_LOG_MAGIC")
      (simp_all add: append_record_log_def open_record_log_def sbind_def[of "on_file _"] sbind_def[of "sbind _ _"]
        log_steps on_file_Some record_fits_def file_len_def vec_len_def u64_sat_def length_record_frame
        log_bytes_def smodify_def)
qed

lemma parse_frame_torn_any:
  assumes "hash_width H" "record_fits m r" "k < length (record_frame H r)"
  shows "parse_frames H io m l v (take k (record_frame H r)) \<in> range Inl \<union> {Inr ([], None), Inr ([], Some v)}"
proof (cases "k < 4")
  case True
  then show ?thesis using assms
    by (subst parse_frames.simps) (auto simp: length_record_frame)
next
  case False
  then have "take 4 (take k (record_frame H r)) = be_bytes 4 (vec_len r)"
    by (simp add: record_frame_def Let_def min_def)
  with False show ?thesis
    using assms frame_length_value[OF assms(2)]
    by (subst parse_frames.simps)
      (auto simp: Let_def length_record_frame record_fits_def vec_len_def)
qed

text \<open>Reading such a log fails or returns no record, whatever the operating system does.\<close>

lemma read_cut_log:
  assumes "hash_width H" "record_fits m r" "n < length (log_bytes H [r])"
  shows "swp (read_record_log H io m L) (\<lambda>res f. ((\<exists>e. res = Inl e) \<or> res = Inr (Some []))
    \<and> (\<exists>n' \<le> n. f = Some (take n' (log_bytes H [r])))) (Some (take n (log_bytes H [r])))"
    (is "swp _ ?Q ?s")
proof -
  have stop: "?Q (Inl e) ?s" for e by blast
  have parsed: "parse_frames H io m l v (drop (length RECORD_LOG_MAGIC) (take n (log_bytes H [r])))
      \<in> range Inl \<union> {Inr ([], None), Inr ([], Some v)}" for l v
  proof -
    have "drop (length RECORD_LOG_MAGIC) (take n (log_bytes H [r])) =
        take (n - length RECORD_LOG_MAGIC) (record_frame H r)"
      unfolding drop_take by (simp add: log_bytes_def)
    moreover have "n - length RECORD_LOG_MAGIC < length (record_frame H r)"
      using assms(3) length_record_frame[OF assms(1), of r] by (simp add: log_bytes_def)
    ultimately show ?thesis using parse_frame_torn_any[OF assms(1,2)] by simp
  qed
  have trunc: "swp (truncate_record_log_tail io (vec_len RECORD_LOG_MAGIC)) (\<lambda>res f. \<exists>n' \<le> n.
      f = Some (take n' (log_bytes H [r]))) ?s"
    unfolding truncate_record_log_tail_def
    by (intro swp_intros) (auto intro: exI[of _ n] exI[of _ "min (nat (vec_len RECORD_LOG_MAGIC)) n"])
  show ?thesis
    unfolding read_record_log_def
    apply (intro swp_bind_sget)
    apply (simp only: id_apply option.case)
    apply (intro swp_intros swp_open_Some stop)
    subgoal for _ _ _ _ x
      using parsed[of "vec_len (take n (log_bytes H [r]))" "vec_len RECORD_LOG_MAGIC"]
      by (auto simp: swp_sbind intro!: swp_mono[OF trunc] split: sum.splits)
    done
qed

section \<open>What an operation leaves, whatever fails\<close>

text \<open>A read that returns records leaves a log of exactly these, whatever the system does.\<close>

lemma read_leaves:
  assumes "hash_width H" "m \<le> 4294967295"
  shows "swp (read_record_log H io m L) (\<lambda>res f'. (\<forall>raws. res = Inr (Some raws) \<longrightarrow>
      f' = Some (log_bytes H raws) \<and> (\<forall>r \<in> set raws. record_fits m r) \<and> vec_len (log_bytes H raws) \<le> L)
    \<and> (res = Inr None \<longrightarrow> f' = None)) f"
proof (cases f)
  case (Some bs)
  have "f' = Some (log_bytes H raws) \<and> (\<forall>r \<in> set raws. record_fits m r) \<and> vec_len (log_bytes H raws) \<le> L"
    if ret: "read_record_log H io m L (Some bs) = (Inr (Some raws), f')" for raws f'
  proof -
    from ret obtain torn g where header: "take (length RECORD_LOG_MAGIC) bs = RECORD_LOG_MAGIC" "vec_len bs \<le> L"
      and parsed: "parse_frames H io m (vec_len bs) (vec_len RECORD_LOG_MAGIC)
        (drop (length RECORD_LOG_MAGIC) bs) = Inr (raws, torn)"
      and cut: "(case torn of None \<Rightarrow> sret () | Some n \<Rightarrow> truncate_record_log_tail io n) (Some bs) = (Inr g, f')"
      by (cases "fi_open io")
        (auto simp: read_record_log_def open_record_log_def sbind_def step_simps smodify_def id_def
          split: sum.splits prod.splits if_splits)
    from parse_frames_leaves[OF assms parsed header(1) cut] header(2) show ?thesis
      by (auto simp: vec_len_def dest!: prefix_length_le)
  qed
  moreover have "fst (read_record_log H io m L (Some bs)) \<noteq> Inr None"
    by (cases "fi_open io")
      (auto simp: read_record_log_def open_record_log_def sbind_def step_simps smodify_def id_def
        split: sum.splits prod.splits if_splits)
  ultimately show ?thesis
    by (auto simp: swp_def Some split: prod.splits)
next
  case None
  then show ?thesis
    by (cases "fi_open io")
      (auto simp: swp_def read_record_log_def open_record_log_def sbind_def step_simps smodify_def id_def
        split: sum.splits prod.splits if_splits)
qed

text \<open>Creating a log with its first record, and rewriting one, leave whole frames of records that fit.\<close>

lemma append_to_none:
  assumes "hash_width H" "L < 18446744073709551615"
  shows "swp (append_record_log H io path r m L private durable) (\<lambda>res f'. res = Inr () \<longrightarrow>
    f' = Some (log_bytes H [r]) \<and> record_fits m r \<and> vec_len (log_bytes H [r]) \<le> L) None"
    (is "swp _ ?Q _")
proof -
  have opened: "swp (sbind (open_record_log io True) f) ?Q None" if "swp (f ()) ?Q (Some [])" for f
    using that by (cases "fi_open io") (simp_all add: open_record_log_def swp_sbind)
  have created: "swp (on_file (write_all io ''write record log header'' RECORD_LOG_MAGIC))
      (\<lambda>res t. res = Inr () \<longrightarrow> t = Some RECORD_LOG_MAGIC) (Some [])"
    by (rule swp_on_file, rule swp_mono[OF swp_write_all]) auto
  have framed: "swp (on_file (write_record_frame H io r))
      (\<lambda>res t. res = Inr () \<longrightarrow> t = Some (RECORD_LOG_MAGIC @ record_frame H r)) (Some RECORD_LOG_MAGIC)"
    if "record_fits m r"
    by (rule swp_on_file, rule swp_mono[OF swp_write_record_frame[OF that]]) auto
  have fail: "?Q (Inl e) t" for e t by simp
  show ?thesis
    unfolding append_record_log_def Let_def
  proof (intro swp_intros opened fail, goal_cases)
    case 1
    then have fits: "record_fits m r" "vec_len (RECORD_LOG_MAGIC @ record_frame H r) \<le> L" "file_len (Some []) = 0"
      using assms
      by (auto simp: record_fits_def u64_sat_def file_len_def vec_len_def length_record_frame
          split: if_splits)
    then show ?case
      using framed[OF fits(1)]
      by (auto simp: log_bytes_def intro!: swp_bind_step[OF created] swp_bind_step[OF framed] swp_intros)
  qed
qed

lemma rewrite_size_fits:
  assumes "rewrite_size rs m = Inr n" "m \<le> 4294967295"
  shows "\<forall>r \<in> set rs. record_fits m r"
proof -
  have "\<forall>r \<in> set rs. r \<noteq> [] \<and> vec_len r \<le> m"
    if "rfold (\<lambda>record size.
         rbind (fail_if (record = [] \<or> vec_len record > m) (ResourceLimit ''checkpoint record'')) (\<lambda>_.
         Inr (u64_sat (u64_sat (u64_sat (size + 4) + vec_len record) + int RECORD_CHECKSUM_BYTES))))
       rs k = Inr n" for k
    using that by (induction rs arbitrary: k) (auto simp: fail_if_def not_less split: if_splits)
  with assms show ?thesis by (force simp: rewrite_size_def record_fits_def)
qed

lemma rewrite_leaves:
  assumes "hash_width H" "L < 18446744073709551615" "m \<le> 4294967295"
  shows "swp (rewrite_record_log H io path rs m L private) (\<lambda>res f'.
     f' = f \<and> res \<noteq> Inr () \<or> f' = Some (log_bytes H rs) \<and> vec_len (log_bytes H rs) \<le> L
       \<and> (\<forall>r \<in> set rs. record_fits m r)) f"
proof (cases "rewrite_size rs m")
  case (Inl e)
  then show ?thesis
    by (auto simp: swp_def rewrite_record_log_def sbind_def step_simps split: sum.splits)
next
  case (Inr n)
  from rewrite_size_fits[OF this assms(3)] show ?thesis
    by (intro swp_mono[OF rewrite_atomic[OF assms(1,2)]]) auto
qed

end
