(* ===== verification/Manifest_Contract.thy ===== *)
theory Manifest_Contract
  imports Core_Error
begin

text \<open>
  The backup contract of \<open>covalent-protocol/src/lib.rs\<close>: relative paths and their validation, the
  decrypted manifest with its entries, chunk references and sparse extents, and \<open>Manifest::validate\<close>.
  A \<open>BTreeSet\<close> is the list of its elements in order.
\<close>

section \<open>Relative paths\<close>

text \<open>A \<open>RelativePath\<close> is its string; ordering is that of the bytes.\<close>

type_synonym relative_path = string

definition component_error :: "string \<Rightarrow> contract_error + unit" where
  "component_error component =
     rbind (fail_if (component = [] \<or> component = ''.'' \<or> component = ''..'')
       (InvalidRelativePath ''empty, dot, and parent components are forbidden'')) (\<lambda>_.
     fail_if (length component > 255) (InvalidRelativePath ''a component exceeds 255 bytes''))"

definition validate_relative_path :: "string \<Rightarrow> contract_error + unit" where
  "validate_relative_path value =
     rbind (fail_if (value = []) (InvalidRelativePath ''path is empty'')) (\<lambda>_.
     rbind (fail_if (length value > 4096) (InvalidRelativePath ''path exceeds 4096 bytes'')) (\<lambda>_.
     rbind (fail_if (prefix ''/'' value) (InvalidRelativePath ''absolute paths are forbidden'')) (\<lambda>_.
     rbind (fail_if (list_ex (\<lambda>c. c = CHR 0x5C \<or> c = CHR 0x00) value)
       (InvalidRelativePath ''backslash and NUL are forbidden'')) (\<lambda>_.
     rcheck component_error (split_at (CHR ''/'') value)))))"

definition relative_path_new :: "string \<Rightarrow> contract_error + relative_path" where
  "relative_path_new value = rbind (validate_relative_path value) (\<lambda>_. Inr value)"

text \<open>Joining a relative path to a directory with \<open>Path::join\<close>.\<close>

definition path_join :: "path \<Rightarrow> relative_path \<Rightarrow> path" where
  "path_join root relative =
     (if path_is_absolute relative then relative
      else if root = [] \<or> last root = CHR ''/'' then root @ relative
      else root @ ''/'' @ relative)"

section \<open>Manifests\<close>

record chunk_reference =
  cr_plaintext_digest :: string
  cr_opaque_locator :: string
  cr_plaintext_length :: u32
  cr_ciphertext_length :: u32

datatype entry_kind = File | Directory

record entry_metadata =
  em_modified_at_unix_ms :: "u64 option"
  em_unix_mode :: "u32 option"
  em_sparse :: bool

record sparse_extent =
  se_offset :: u64
  se_length :: u64

record manifest_entry =
  me_path :: relative_path
  me_kind :: entry_kind
  me_length :: u64
  me_chunks :: "chunk_reference list"
  me_metadata :: entry_metadata
  me_sparse_extents :: "sparse_extent list"

record replica_intent =
  selected_providers :: "device_id list"

definition replica_intent_contains :: "replica_intent \<Rightarrow> device_id \<Rightarrow> bool" where
  "replica_intent_contains intent provider \<longleftrightarrow> provider \<in> set (selected_providers intent)"

record manifest =
  mf_protocol_version :: u16
  mf_backup_id :: uuid
  mf_snapshot_id :: string
  mf_created_at_unix_ms :: u64
  mf_replica_intent :: replica_intent
  mf_entries :: "manifest_entry list"
  mf_provider_acknowledgements :: "(device_id, string list) fmap"

definition PROTOCOL_VERSION :: u16 where
  "PROTOCOL_VERSION = 1"

definition MAX_MANIFEST_ENTRIES :: nat where
  "MAX_MANIFEST_ENTRIES = 1000000"

definition MAX_CHUNK_PLAINTEXT_BYTES :: u32 where
  "MAX_CHUNK_PLAINTEXT_BYTES = 8388608"

definition is_ascii_alphanumeric :: "char \<Rightarrow> bool" where
  "is_ascii_alphanumeric c \<longleftrightarrow> is_ascii_digit c \<or> is_ascii_uppercase c
     \<or> (97 \<le> byte_val c \<and> byte_val c \<le> 122)"

definition snapshot_id_byte :: "char \<Rightarrow> bool" where
  "snapshot_id_byte b \<longleftrightarrow> is_ascii_alphanumeric b \<or> b = CHR ''-'' \<or> b = CHR ''_''"

text \<open>The closure over the extents of a sparse file, which carries \<open>previous_end\<close>.\<close>

fun extents_ok :: "u64 \<Rightarrow> u64 \<Rightarrow> sparse_extent list \<Rightarrow> bool" where
  "extents_ok len previous_end [] = True"
| "extents_ok len previous_end (e # es) \<longleftrightarrow>
     \<not> (se_length e = 0 \<or> se_offset e < previous_end
        \<or> checked_add (se_offset e) (se_length e) = None
        \<or> saturating_add (se_offset e) (se_length e) > len)
     \<and> extents_ok len (saturating_add (se_offset e) (se_length e)) es"

definition chunk_reference_ok :: "chunk_reference \<Rightarrow> bool" where
  "chunk_reference_ok chunk \<longleftrightarrow>
     \<not> (length (cr_plaintext_digest chunk) \<noteq> 64 \<or> length (cr_opaque_locator chunk) \<noteq> 64
        \<or> \<not> list_all is_ascii_hexdigit (cr_plaintext_digest chunk)
        \<or> \<not> list_all is_ascii_hexdigit (cr_opaque_locator chunk)
        \<or> list_ex is_ascii_uppercase (cr_plaintext_digest chunk)
        \<or> list_ex is_ascii_uppercase (cr_opaque_locator chunk)
        \<or> cr_plaintext_length chunk = 0
        \<or> cr_plaintext_length chunk > MAX_CHUNK_PLAINTEXT_BYTES
        \<or> cr_ciphertext_length chunk \<noteq> saturating_add (cr_plaintext_length chunk) 16)"

text \<open>The sums wrap at 64 bits, as \<open>Iterator::sum\<close> does in a release build.\<close>

definition chunk_length :: "manifest_entry \<Rightarrow> u64" where
  "chunk_length entry = sum_list (map (\<lambda>c. ucast (cr_plaintext_length c)) (me_chunks entry))"

definition extent_length :: "manifest_entry \<Rightarrow> u64" where
  "extent_length entry = sum_list (map se_length (me_sparse_extents entry))"

definition validate_manifest_entry :: "manifest_entry \<Rightarrow> contract_error + unit" where
  "validate_manifest_entry entry =
     rbind (fail_if (me_kind entry = Directory \<and> (me_length entry \<noteq> 0 \<or> me_chunks entry \<noteq> []))
       InvalidManifestEntry) (\<lambda>_.
     rbind (fail_if (me_kind entry = Directory
       \<and> (em_sparse (me_metadata entry) \<or> me_sparse_extents entry \<noteq> [])) InvalidManifestEntry) (\<lambda>_.
     rbind (fail_if (me_kind entry = File \<and> \<not> em_sparse (me_metadata entry)
       \<and> me_sparse_extents entry = [] \<and> chunk_length entry \<noteq> me_length entry) InvalidManifestEntry) (\<lambda>_.
     rbind (fail_if (\<not> em_sparse (me_metadata entry) \<and> me_sparse_extents entry \<noteq> []) InvalidManifestEntry) (\<lambda>_.
     rbind (fail_if (em_sparse (me_metadata entry)
       \<and> (extent_length entry \<noteq> chunk_length entry
          \<or> \<not> extents_ok (me_length entry) 0 (me_sparse_extents entry))) InvalidManifestEntry) (\<lambda>_.
     rcheck (\<lambda>chunk. fail_if (\<not> chunk_reference_ok chunk) InvalidChunkReference) (me_chunks entry))))))"

fun validate_entries ::
    "relative_path option \<Rightarrow> manifest_entry list \<Rightarrow> contract_error + unit" where
  "validate_entries previous [] = Inr ()"
| "validate_entries previous (entry # entries) =
     rbind (fail_if (opt_any (\<lambda>path. path \<ge> me_path entry) previous) ManifestEntriesNotSorted) (\<lambda>_.
     rbind (validate_manifest_entry entry) (\<lambda>_.
     validate_entries (Some (me_path entry)) entries))"

definition manifest_locators :: "manifest \<Rightarrow> string set" where
  "manifest_locators m = set (concat (map (\<lambda>e. map cr_opaque_locator (me_chunks e)) (mf_entries m)))"

definition manifest_validate :: "manifest \<Rightarrow> contract_error + unit" where
  "manifest_validate m =
     rbind (fail_if (mf_protocol_version m \<noteq> PROTOCOL_VERSION) (UnsupportedProtocol (mf_protocol_version m))) (\<lambda>_.
     rbind (fail_if (length (mf_entries m) > MAX_MANIFEST_ENTRIES) ManifestTooLarge) (\<lambda>_.
     rbind (fail_if (mf_snapshot_id m = [] \<or> length (mf_snapshot_id m) > 128
       \<or> \<not> list_all snapshot_id_byte (mf_snapshot_id m)
       \<or> length (selected_providers (mf_replica_intent m)) > 128) InvalidManifestEntry) (\<lambda>_.
     rbind (validate_entries None (mf_entries m)) (\<lambda>_.
     rbind (fail_if (list_ex (\<lambda>(provider, _). \<not> replica_intent_contains (mf_replica_intent m) provider)
       (sorted_list_of_fmap (mf_provider_acknowledgements m))) UnselectedProviderAcknowledgement) (\<lambda>_.
     fail_if (list_ex (\<lambda>(_, locators). list_ex (\<lambda>locator.
         length locator \<noteq> 64
         \<or> list_ex (\<lambda>b. \<not> is_ascii_hexdigit b \<or> is_ascii_uppercase b) locator
         \<or> locator \<notin> manifest_locators m) locators)
       (sorted_list_of_fmap (mf_provider_acknowledgements m))) InvalidProviderAcknowledgement)))))"

section \<open>Accepted paths stay below the directory they are joined to\<close>

lemma split_at_nonempty [simp]: "split_at sep s \<noteq> []"
  by (cases s) (auto split: list.splits)

lemma split_at_sep: "split_at sep (a @ sep # b) = split_at sep a @ split_at sep b"
  by (induction a) (auto split: list.splits)

lemma segment_components_append:
  "segment_components (xs @ ys) = segment_components xs @ segment_components ys"
  by (induction xs) auto

lemma segment_components_normal:
  assumes "\<forall>c \<in> set cs. component_error c = Inr ()"
  shows "segment_components cs = map Normal cs"
  using assms by (induction cs) (auto simp: component_error_def)

lemma path_components_below:
  assumes "\<forall>c \<in> set (split_at (CHR ''/'') b). component_error c = Inr ()"
    and "a \<noteq> [] \<or> slash" "slash \<longrightarrow> root = a @ ''/''" "\<not> slash \<longrightarrow> root = a"
  shows "path_components (a @ ''/'' @ b) = path_components root @ map Normal (split_at (CHR ''/'') b)"
proof -
  have "split_at (CHR ''/'') (a @ ''/'' @ b) = split_at (CHR ''/'') a @ split_at (CHR ''/'') b"
    using split_at_sep[of "CHR ''/''" a b] by simp
  moreover have "split_at (CHR ''/'') (a @ ''/'') = split_at (CHR ''/'') a @ [[]]"
    using split_at_sep[of "CHR ''/''" a "[]"] by simp
  moreover have "path_is_absolute (a @ ''/'' @ b) = path_is_absolute root"
    using assms(2-4) by (cases a; cases slash) (auto simp: path_is_absolute_def)
  ultimately show ?thesis
    using assms segment_components_normal[OF assms(1)]
    by (cases slash) (auto simp: path_components_def segment_components_append)
qed

text \<open>
  C32. An accepted path cannot escape. For every string the contract accepts as a relative path, joining
  it to a non-empty directory path appends exactly its components, all of them normal: the result is
  below the directory and has no parent component of its own.
\<close>

theorem relative_path_stays_below:
  assumes "relative_path_new value = Inr relative" "root \<noteq> []"
  shows "path_components (path_join root relative) =
      path_components root @ map Normal (split_at (CHR ''/'') value)
    \<and> path_starts_with (path_join root relative) root"
proof -
  from assms(1) have valid: "\<not> prefix ''/'' value" "relative = value"
      "\<forall>c \<in> set (split_at (CHR ''/'') value). component_error c = Inr ()"
    by (auto simp: relative_path_new_def validate_relative_path_def)
  have "path_components (path_join root relative) =
      path_components root @ map Normal (split_at (CHR ''/'') value)"
  proof (cases "last root = CHR ''/''")
    case True
    then obtain a where root: "root = a @ ''/''" using assms(2) by (metis append_butlast_last_id)
    with path_components_below[OF valid(3), of a True root] valid(1,2)
    show ?thesis by (simp add: path_join_def path_is_absolute_def)
  next
    case False
    with path_components_below[OF valid(3), of root False root] valid(1,2) assms(2)
    show ?thesis by (simp add: path_join_def path_is_absolute_def)
  qed
  then show ?thesis by (simp add: path_starts_with_def)
qed

theorem relative_path_stays_below_witness:
  "relative_path_new ''docs/a.txt'' = Inr ''docs/a.txt''
   \<and> path_starts_with (path_join ''/srv/data'' ''docs/a.txt'') ''/srv/data''"
proof -
  have "relative_path_new ''docs/a.txt'' = Inr ''docs/a.txt''" by code_simp
  then show ?thesis using relative_path_stays_below[of "''docs/a.txt''" "''docs/a.txt''" "''/srv/data''"] by simp
qed

section \<open>The layout of a validated manifest\<close>

lemma unat_sum_list:
  fixes ws :: "'a::len word list"
  assumes "sum_list (map unat ws) < 2 ^ LENGTH('a)"
  shows "unat (sum_list ws) = sum_list (map unat ws)"
  using assms by (induction ws) (auto simp: unat_word_ariths)

definition extent_before :: "sparse_extent \<Rightarrow> sparse_extent \<Rightarrow> bool" where
  "extent_before x y \<longleftrightarrow> unat (se_offset x) + unat (se_length x) \<le> unat (se_offset y)"

definition extents_laid_out :: "nat \<Rightarrow> nat \<Rightarrow> sparse_extent list \<Rightarrow> bool" where
  "extents_laid_out start len es \<longleftrightarrow>
     sorted_wrt extent_before es
     \<and> (\<forall>x \<in> set es. start \<le> unat (se_offset x) \<and> 0 < unat (se_length x)
        \<and> unat (se_offset x) + unat (se_length x) \<le> len)
     \<and> start + (\<Sum>x\<leftarrow>es. unat (se_length x)) \<le> len"

lemma extents_ok_laid_out:
  assumes "extents_ok len previous_end es" "previous_end \<le> len"
  shows "extents_laid_out (unat previous_end) (unat len) es"
  using assms
proof (induction es arbitrary: previous_end)
  case (Cons e es)
  let ?finish = "saturating_add (se_offset e) (se_length e)"
  from Cons.prems(1) have e: "se_length e \<noteq> 0" "previous_end \<le> se_offset e"
      "\<not> se_offset e + se_length e < se_offset e" "?finish \<le> len" "extents_ok len ?finish es"
    by (auto simp: checked_add_def split: if_splits)
  from e(3) have "?finish = se_offset e + se_length e" by (simp add: saturating_add_def)
  moreover have "unat (se_offset e + se_length e) = unat (se_offset e) + unat (se_length e)"
    using e(3) checked_add_SomeD(2)[of "se_offset e" "se_length e"] by (simp add: checked_add_def)
  ultimately have ends: "unat ?finish = unat (se_offset e) + unat (se_length e)" by simp
  have len: "0 < unat (se_length e)" using e(1) by (simp add: unat_gt_0)
  have le: "unat previous_end \<le> unat (se_offset e)" "unat ?finish \<le> unat len"
    using e(2,4) by (simp_all add: word_le_nat_alt)
  show ?case
    using Cons.IH[OF e(5,4)] ends len le unfolding extents_laid_out_def
    by (fastforce simp: extent_before_def)
qed (simp add: extents_laid_out_def word_le_nat_alt)

lemma validate_entriesD:
  assumes "validate_entries previous es = Inr ()"
  shows "sorted_wrt (<) (map me_path es) \<and> (\<forall>e \<in> set es. validate_manifest_entry e = Inr ()
    \<and> (\<forall>p. previous = Some p \<longrightarrow> p < me_path e))"
  using assms
proof (induction es arbitrary: previous)
  case (Cons e es)
  then have "\<forall>p. previous = Some p \<longrightarrow> p < me_path e" "validate_manifest_entry e = Inr ()"
    "validate_entries (Some (me_path e)) es = Inr ()"
    by (auto simp: opt_any_iff)
  with Cons.IH[of "Some (me_path e)"] show ?case by auto
qed simp

lemma chunk_lengths_exact:
  assumes "\<forall>c \<in> set cs. chunk_reference_ok c" "length cs < 2 ^ 41"
  shows "unat (sum_list (map (\<lambda>c. ucast (cr_plaintext_length c)) cs) :: u64) =
    (\<Sum>c\<leftarrow>cs. unat (cr_plaintext_length c))"
proof -
  have each: "unat (cr_plaintext_length c) \<le> 2 ^ 23" if "c \<in> set cs" for c
    using assms(1) that
    by (auto simp: chunk_reference_ok_def MAX_CHUNK_PLAINTEXT_BYTES_def word_le_nat_alt not_less)
  have "(\<Sum>c\<leftarrow>cs. unat (cr_plaintext_length c)) \<le> length cs * 2 ^ 23"
    using each by (induction cs) fastforce+
  also have "\<dots> < 2 ^ 64" using assms(2) by simp
  finally have "(\<Sum>c\<leftarrow>cs. unat (cr_plaintext_length c)) < 2 ^ 64" .
  moreover have "unat (ucast w :: u64) = unat w" for w :: u32
    using unsigned_less[of w, where 'a = nat] by (simp add: unsigned_ucast_eq take_bit_nat_eq_self)
  ultimately show ?thesis
    using unat_sum_list[of "map (\<lambda>c. ucast (cr_plaintext_length c) :: u64) cs"] by (simp add: o_def)
qed

text \<open>
  C33. The layout a validated manifest describes is sound. Its paths are strictly increasing, so no path
  occurs twice; the chunks of a dense file add up to its length, exactly and not just modulo \<open>2^64\<close>;
  the extents of a sparse file are non-empty, in order, disjoint and inside the file, and the chunks add
  up to the extents. (An entry has fewer than \<open>2^41\<close> chunks.)
\<close>

theorem validated_manifest_layout:
  assumes "manifest_validate m = Inr ()" "e \<in> set (mf_entries m)" "me_kind e = File"
    "length (me_chunks e) < 2 ^ 41"
  shows "sorted_wrt (<) (map me_path (mf_entries m))
    \<and> (\<Sum>c\<leftarrow>me_chunks e. unat (cr_plaintext_length c)) =
        (if em_sparse (me_metadata e) then \<Sum>x\<leftarrow>me_sparse_extents e. unat (se_length x)
         else unat (me_length e))
    \<and> extents_laid_out 0 (unat (me_length e)) (me_sparse_extents e)"
proof -
  from assms(1) have "validate_entries None (mf_entries m) = Inr ()"
    by (auto simp: manifest_validate_def)
  from validate_entriesD[OF this] assms(2)
  have sorted: "sorted_wrt (<) (map me_path (mf_entries m))" and e: "validate_manifest_entry e = Inr ()"
    by auto
  from e have chunks: "\<forall>c \<in> set (me_chunks e). chunk_reference_ok c"
    by (auto simp: validate_manifest_entry_def)
  note exact = chunk_lengths_exact[OF chunks assms(4), folded chunk_length_def]
  show ?thesis
  proof (cases "em_sparse (me_metadata e)")
    case True
    with e have "extent_length e = chunk_length e" "extents_ok (me_length e) 0 (me_sparse_extents e)"
      by (auto simp: validate_manifest_entry_def)
    moreover from extents_ok_laid_out[OF this(2)]
    have laid: "extents_laid_out 0 (unat (me_length e)) (me_sparse_extents e)" by simp
    moreover have "unat (me_length e) < 2 ^ 64" using unsigned_less[of "me_length e"] by simp
    moreover from this laid have "(\<Sum>x\<leftarrow>me_sparse_extents e. unat (se_length x)) < 2 ^ 64"
      by (simp add: extents_laid_out_def)
    ultimately have "unat (chunk_length e) = (\<Sum>x\<leftarrow>me_sparse_extents e. unat (se_length x))"
      using unat_sum_list[of "map se_length (me_sparse_extents e)"]
      by (simp add: extent_length_def o_def)
    with True sorted exact laid show ?thesis by simp
  next
    case False
    with e assms(3) have "chunk_length e = me_length e" "me_sparse_extents e = []"
      by (auto simp: validate_manifest_entry_def)
    with False sorted exact show ?thesis by (simp add: extents_laid_out_def)
  qed
qed

theorem validated_manifest_layout_witness:
  "extents_laid_out 0 100 [\<lparr>se_offset = 10, se_length = 3\<rparr>, \<lparr>se_offset = 20, se_length = 2\<rparr>]"
proof -
  let ?chunk = "\<lparr>cr_plaintext_digest = replicate 64 (CHR ''a''), cr_opaque_locator = replicate 64 (CHR ''b''),
    cr_plaintext_length = 5, cr_ciphertext_length = 21\<rparr>"
  let ?e = "\<lparr>me_path = ''f'', me_kind = File, me_length = 100, me_chunks = [?chunk],
    me_metadata = \<lparr>em_modified_at_unix_ms = None, em_unix_mode = None, em_sparse = True\<rparr>,
    me_sparse_extents = [\<lparr>se_offset = 10, se_length = 3\<rparr>, \<lparr>se_offset = 20, se_length = 2\<rparr>]\<rparr>"
  let ?m = "\<lparr>mf_protocol_version = 1, mf_backup_id = 7, mf_snapshot_id = ''s-1'', mf_created_at_unix_ms = 0,
    mf_replica_intent = \<lparr>selected_providers = []\<rparr>, mf_entries = [?e], mf_provider_acknowledgements = fmempty\<rparr>"
  have "\<not> length (mf_entries ?m) > MAX_MANIFEST_ENTRIES" by (simp add: MAX_MANIFEST_ENTRIES_def)
  moreover have "validate_entries None (mf_entries ?m) = Inr ()" by code_simp
  moreover have "list_all snapshot_id_byte ''s-1''" by code_simp
  moreover have "sorted_list_of_fmap fmempty = ([] :: (device_id \<times> string list) list)" by code_simp
  ultimately have "manifest_validate ?m = Inr ()"
    by (simp add: manifest_validate_def PROTOCOL_VERSION_def)
  from validated_manifest_layout[OF this, of ?e] show ?thesis by simp
qed

end
