(* ===== verification/Chunker.thy ===== *)
theory Chunker
  imports Prelude "HOL-Library.Stream"
begin

text \<open>
  \<open>covalent-core/src/chunker.rs\<close>: the streaming content-defined chunker of the backup engine. A
  reader is the stream of what its \<open>read\<close> calls return, which need not ever end; the loops are
  partial functions, \<open>None\<close> standing for a call that never returns. The chunks are those of a
  declarative reference: each is cut at the first boundary of the remaining content, however the
  reader splits that content into reads.
\<close>

section \<open>Configuration\<close>

record chunking_config =
  minimum_size :: nat
  average_size :: nat
  maximum_size :: nat

definition is_power_of_two :: "nat \<Rightarrow> bool" where
  "is_power_of_two n \<longleftrightarrow> n \<noteq> 0 \<and> n AND (n - 1) = 0"

definition config_is_valid :: "chunking_config \<Rightarrow> bool" where
  "config_is_valid config \<longleftrightarrow>
     minimum_size config \<ge> 4 * 1024
     \<and> is_power_of_two (average_size config)
     \<and> minimum_size config < average_size config
     \<and> average_size config < maximum_size config
     \<and> maximum_size config \<le> 8 * 1024 * 1024"

definition chunking_config_new :: "nat \<Rightarrow> nat \<Rightarrow> nat \<Rightarrow> string + chunking_config" where
  "chunking_config_new minimum average maximum =
     (let config = \<lparr>minimum_size = minimum, average_size = average, maximum_size = maximum\<rparr> in
      if \<not> config_is_valid config
      then Inl ''chunk sizes require 4KiB <= min < power-of-two average < max <= 8MiB''
      else Inr config)"

definition DEFAULT_AVERAGE_CHUNK_SIZE :: nat where
  "DEFAULT_AVERAGE_CHUNK_SIZE = 512 * 1024"

definition default_chunking_config :: chunking_config where
  "default_chunking_config = \<lparr>minimum_size = 128 * 1024, average_size = DEFAULT_AVERAGE_CHUNK_SIZE,
     maximum_size = 1024 * 1024\<rparr>"

section \<open>The reader and the chunker\<close>

text \<open>
  What \<open>Read::read\<close> returns: some bytes (none at end of file), the interruption that is retried, or
  another error.
\<close>

datatype read_event = ReadOk bytes | ReadInterrupted | ReadError string

record chunker =
  ck_reader :: "read_event stream"
  ck_config :: chunking_config
  ck_read_buffer :: bytes
  ck_read_position :: nat
  ck_read_length :: nat
  ck_eof :: bool

definition chunker_new :: "read_event stream \<Rightarrow> chunking_config \<Rightarrow> chunker" where
  "chunker_new reader config = \<lparr>ck_reader = reader, ck_config = config, ck_read_buffer = [],
     ck_read_position = 0, ck_read_length = 0, ck_eof = False\<rparr>"

partial_function (option) refill_loop ::
    "read_event stream \<Rightarrow> chunker \<Rightarrow> ((string + unit) \<times> chunker) option" where
  "refill_loop reader c =
     (case shd reader of
        ReadOk bs \<Rightarrow>
          if bs = [] then Some (Inr (), c\<lparr>ck_reader := stl reader, ck_read_length := 0, ck_eof := True\<rparr>)
          else Some (Inr (), c\<lparr>ck_reader := stl reader, ck_read_buffer := bs, ck_read_length := length bs\<rparr>)
      | ReadInterrupted \<Rightarrow> refill_loop (stl reader) c
      | ReadError e \<Rightarrow> Some (Inl e, c\<lparr>ck_reader := stl reader\<rparr>))"

definition refill :: "chunker \<Rightarrow> ((string + unit) \<times> chunker) option" where
  "refill c = refill_loop (ck_reader c) (c\<lparr>ck_read_position := 0\<rparr>)"

definition gear :: "char \<Rightarrow> u64" where
  "gear byte =
     (let value = of_char byte + 0x9e3779b97f4a7c15;
          value = (value XOR drop_bit 30 value) * 0xbf58476d1ce4e5b9;
          value = (value XOR drop_bit 27 value) * 0x94d049bb133111eb
      in value XOR drop_bit 31 value)"

definition roll :: "u64 \<Rightarrow> char \<Rightarrow> u64" where
  "roll fingerprint byte = word_rotl 1 fingerprint XOR gear byte"

text \<open>The loop over the bytes of the read buffer: the chunk is cut, or all bytes are taken.\<close>

datatype scan = Cut bytes nat | Scanned bytes u64

fun scan_bytes :: "chunking_config \<Rightarrow> bytes \<Rightarrow> nat \<Rightarrow> bytes \<Rightarrow> u64 \<Rightarrow> scan" where
  "scan_bytes config [] offset chunk fingerprint = Scanned chunk fingerprint"
| "scan_bytes config (byte # bs) offset chunk fingerprint =
     (let chunk = chunk @ [byte];
          fingerprint = roll fingerprint byte;
          mask = of_nat (average_size config) - 1
      in
      if length chunk \<ge> minimum_size config \<and> fingerprint AND mask = 0 then Cut chunk (offset + 1)
      else if length chunk = maximum_size config then Cut chunk (offset + 1)
      else scan_bytes config bs (offset + 1) chunk fingerprint)"

partial_function (option) chunk_loop ::
    "chunker \<Rightarrow> bytes \<Rightarrow> u64 \<Rightarrow> ((string + bytes option) \<times> chunker) option" where
  "chunk_loop c chunk fingerprint =
     (let empty = ck_read_position c = ck_read_length c in
      Option.bind (if empty then refill c else Some (Inr (), c)) (\<lambda>(r, c).
      case r of
        Inl e \<Rightarrow> Some (Inl e, c)
      | Inr _ \<Rightarrow>
          if empty \<and> ck_eof c \<and> ck_read_length c = 0
          then Some (Inr (if chunk = [] then None else Some chunk), c)
          else
            let remaining_to_maximum = maximum_size (ck_config c) - length chunk;
                available = ck_read_length c - ck_read_position c;
                n = min remaining_to_maximum available
            in case scan_bytes (ck_config c) (take n (drop (ck_read_position c) (ck_read_buffer c))) 0
                 chunk fingerprint of
              Cut chunk k \<Rightarrow> Some (Inr (Some chunk), c\<lparr>ck_read_position := ck_read_position c + k\<rparr>)
            | Scanned chunk fingerprint \<Rightarrow>
                chunk_loop (c\<lparr>ck_read_position := ck_read_position c + n\<rparr>) chunk fingerprint))"

definition next_chunk :: "chunker \<Rightarrow> ((string + bytes option) \<times> chunker) option" where
  "next_chunk c =
     (if ck_eof c \<and> ck_read_position c = ck_read_length c then Some (Inr None, c)
      else chunk_loop c [] 0)"

text \<open>A caller's \<open>while let Some(chunk) = chunker.next_chunk()?\<close>, as in \<open>process_file\<close> of \<open>backup.rs\<close>.\<close>

partial_function (option) drain ::
    "chunker \<Rightarrow> bytes list \<Rightarrow> (string + bytes list) option" where
  "drain c chunks = Option.bind (next_chunk c) (\<lambda>(r, c).
     case r of Inl e \<Rightarrow> Some (Inl e)
     | Inr None \<Rightarrow> Some (Inr chunks)
     | Inr (Some chunk) \<Rightarrow> drain c (chunks @ [chunk]))"

section \<open>The reference\<close>

definition fingerprint_of :: "bytes \<Rightarrow> u64" where
  "fingerprint_of bs = foldl roll 0 bs"

definition boundary :: "chunking_config \<Rightarrow> bytes \<Rightarrow> nat \<Rightarrow> bool" where
  "boundary config bs n \<longleftrightarrow> 0 < n \<and> n \<le> length bs
     \<and> (minimum_size config \<le> n \<and> fingerprint_of (take n bs) AND (of_nat (average_size config) - 1) = 0
        \<or> n = maximum_size config)"

definition first_cut :: "chunking_config \<Rightarrow> bytes \<Rightarrow> nat" where
  "first_cut config bs =
     (if \<exists>n. boundary config bs n then LEAST n. boundary config bs n else length bs)"

lemma first_cut_pos:
  assumes "bs \<noteq> []" shows "0 < first_cut config bs"
proof (cases "\<exists>n. boundary config bs n")
  case True
  then have "boundary config bs (first_cut config bs)"
    unfolding first_cut_def using LeastI_ex[of "boundary config bs"] by simp
  then show ?thesis by (simp add: boundary_def)
qed (use assms in \<open>simp add: first_cut_def\<close>)

text \<open>The content-defined split of some content: cut at the first boundary and go on with the rest.\<close>

function reference_chunks :: "chunking_config \<Rightarrow> bytes \<Rightarrow> bytes list" where
  "reference_chunks config bs =
     (if bs = [] then []
      else take (first_cut config bs) bs # reference_chunks config (drop (first_cut config bs) bs))"
  by pat_completeness auto
termination
  by (relation "measure (\<lambda>(config, bs). length bs)") (simp_all add: first_cut_pos)

declare reference_chunks.simps [simp del]

section \<open>Scanning\<close>

definition stops :: "chunking_config \<Rightarrow> nat \<Rightarrow> u64 \<Rightarrow> bool" where
  "stops config n fp \<longleftrightarrow>
     minimum_size config \<le> n \<and> fp AND (of_nat (average_size config) - 1) = 0 \<or> n = maximum_size config"

lemma scan_step:
  "scan_bytes config (b # bs) offset chunk fp =
     (if stops config (Suc (length chunk)) (roll fp b) then Cut (chunk @ [b]) (Suc offset)
      else scan_bytes config bs (Suc offset) (chunk @ [b]) (roll fp b))"
  by (auto simp: stops_def Let_def)

declare scan_bytes.simps(2) [simp del] and scan_step [simp]

lemma scan_bytes_append:
  "scan_bytes config (xs @ ys) offset chunk fp =
     (case scan_bytes config xs offset chunk fp of
        Cut chunk' n \<Rightarrow> Cut chunk' n
      | Scanned chunk' fp' \<Rightarrow> scan_bytes config ys (offset + length xs) chunk' fp')"
  by (induction xs arbitrary: offset chunk fp) (auto cong: scan.case_cong)

lemma scan_bytes_offset:
  "scan_bytes config bs (offset + d) chunk fp =
     (case scan_bytes config bs offset chunk fp of Cut chunk' n \<Rightarrow> Cut chunk' (n + d) | s \<Rightarrow> s)"
proof (induction bs arbitrary: offset chunk fp)
  case (Cons b bs)
  from Cons[of "Suc offset"] show ?case by (simp cong: scan.case_cong)
qed simp

lemma scan_bytes_Scanned:
  "scan_bytes config bs offset chunk fp = Scanned chunk' fp' \<Longrightarrow>
     chunk' = chunk @ bs \<and> fp' = foldl roll fp bs"
proof (induction bs arbitrary: offset chunk fp)
  case (Cons b bs)
  then show ?case
    by (cases "stops config (Suc (length chunk)) (roll fp b)") (auto dest!: Cons.IH)
qed simp

lemma scan_bytes_Cut:
  "scan_bytes config bs offset chunk fp = Cut chunk' n \<Longrightarrow>
     offset < n \<and> n \<le> offset + length bs \<and> chunk' = chunk @ take (n - offset) bs"
proof (induction bs arbitrary: offset chunk fp)
  case (Cons b bs)
  then show ?case
    by (cases "stops config (Suc (length chunk)) (roll fp b)") (auto simp: take_Cons' dest!: Cons.IH)
qed simp

lemma scan_bytes_maximum:
  assumes "length chunk < maximum_size config" "maximum_size config \<le> length chunk + length bs"
  shows "\<exists>chunk' n. scan_bytes config bs offset chunk fp = Cut chunk' n"
  using assms by (induction bs arbitrary: offset chunk fp) (auto simp: stops_def)

lemma scan_bytes_length:
  assumes "length chunk < maximum_size config"
  shows "case scan_bytes config bs offset chunk fp of
      Cut chunk' n \<Rightarrow> length chunk' \<le> maximum_size config
    | Scanned chunk' fp' \<Rightarrow> length chunk' < maximum_size config"
  using assms by (induction bs arbitrary: offset chunk fp) (auto simp: stops_def)

text \<open>Against the declarative boundary: a scan from a state in which no boundary was passed.\<close>

lemma scan_bytes_boundary:
  assumes "fp = fingerprint_of chunk"
    and "\<forall>k \<le> length chunk. \<not> boundary config (chunk @ bs) k"
  shows "case scan_bytes config bs (length chunk) chunk fp of
      Cut chunk' n \<Rightarrow> boundary config (chunk @ bs) n \<and> (\<forall>k < n. \<not> boundary config (chunk @ bs) k)
    | Scanned _ _ \<Rightarrow> \<forall>k. \<not> boundary config (chunk @ bs) k"
  using assms
proof (induction bs arbitrary: chunk fp)
  case Nil
  then show ?case by (auto simp: boundary_def)
next
  case (Cons b bs)
  let ?chunk = "chunk @ [b]" and ?n = "Suc (length chunk)"
  let ?fp = "roll fp b"
  have fp: "?fp = fingerprint_of ?chunk" using Cons.prems(1) by (simp add: fingerprint_of_def)
  have at: "boundary config (chunk @ b # bs) ?n \<longleftrightarrow>
stops config ?n ?fp"
    by (simp add: boundary_def stops_def fp)
  show ?case
  proof (cases "boundary config (chunk @ b # bs) ?n")
    case True
    then have "scan_bytes config (b # bs) (length chunk) chunk fp = Cut ?chunk ?n"
      unfolding at by simp
    with True Cons.prems(2) show ?thesis by (auto simp: less_Suc_eq_le)
  next
    case False
    then have step: "scan_bytes config (b # bs) (length chunk) chunk fp
        = scan_bytes config bs (length ?chunk) ?chunk ?fp"
      unfolding at by simp
    have "\<forall>k \<le> length ?chunk. \<not> boundary config (?chunk @ bs) k"
      using False Cons.prems(2) by (auto simp: le_Suc_eq)
    from Cons.IH[OF fp this] show ?thesis unfolding step append.assoc append.simps .
  qed
qed

section \<open>What a reader still has\<close>

text \<open>The read that ends the loop over a reader: end of file, or an error that is not retried.\<close>

fun final :: "read_event \<Rightarrow> bool" where
  "final (ReadOk bs) \<longleftrightarrow> bs = []"
| "final ReadInterrupted \<longleftrightarrow> False"
| "final (ReadError e) \<longleftrightarrow> True"

definition reader_ends :: "read_event stream \<Rightarrow> bool" where
  "reader_ends reader \<longleftrightarrow> (\<exists>n. final (reader !! n))"

text \<open>The reads before the final one, and the final one.\<close>

definition pending_reads :: "read_event stream \<Rightarrow> read_event list" where
  "pending_reads reader = stake (LEAST n. final (reader !! n)) reader"

definition closing :: "read_event stream \<Rightarrow> read_event" where
  "closing reader = reader !! (LEAST n. final (reader !! n))"

lemma reader_ends_step: "reader_ends reader \<longleftrightarrow> final (shd reader) \<or> reader_ends (stl reader)"
proof
  assume "reader_ends reader"
  then obtain n where "final (reader !! n)" by (auto simp: reader_ends_def)
  then show "final (shd reader) \<or> reader_ends (stl reader)" by (cases n) (auto simp: reader_ends_def)
next
  assume "final (shd reader) \<or> reader_ends (stl reader)"
  then show "reader_ends reader" unfolding reader_ends_def by (metis snth.simps)
qed

lemma pending_final:
  assumes "final (shd reader)"
  shows "pending_reads reader = []" "closing reader = shd reader"
proof -
  have "(LEAST n. final (reader !! n)) = 0" using assms by (intro Least_eq_0) simp
  then show "pending_reads reader = []" "closing reader = shd reader"
    by (simp_all add: pending_reads_def closing_def)
qed

lemma pending_step:
  assumes "reader_ends reader" "\<not> final (shd reader)"
  shows "pending_reads reader = shd reader # pending_reads (stl reader)" "closing reader = closing (stl reader)"
proof -
  obtain n where "final (reader !! n)" using assms(1) by (auto simp: reader_ends_def)
  then have "(LEAST n. final (reader !! n)) = Suc (LEAST n. final (reader !! Suc n))"
    using assms(2) by (intro Least_Suc) simp_all
  then show "pending_reads reader = shd reader # pending_reads (stl reader)" "closing reader = closing (stl reader)"
    by (simp_all add: pending_reads_def closing_def)
qed

lemma reader_cases:
  assumes "reader_ends reader"
  obtains (eof) "shd reader = ReadOk []" "pending_reads reader = []" "closing reader = ReadOk []"
  | (error) e where "shd reader = ReadError e" "pending_reads reader = []" "closing reader = ReadError e"
  | (data) bs where "shd reader = ReadOk bs" "bs \<noteq> []" "reader_ends (stl reader)"
      "pending_reads reader = ReadOk bs # pending_reads (stl reader)" "closing reader = closing (stl reader)"
  | (interrupted) "shd reader = ReadInterrupted" "reader_ends (stl reader)"
      "pending_reads reader = ReadInterrupted # pending_reads (stl reader)" "closing reader = closing (stl reader)"
proof (cases "shd reader")
  case (ReadOk bs)
  with assms that(1,3) reader_ends_step[of reader] pending_final[of reader] pending_step[of reader]
  show thesis by (cases "bs = []") auto
next
  case ReadInterrupted
  with assms that(4) reader_ends_step[of reader] pending_step[of reader] show thesis by auto
next
  case (ReadError e)
  with that(2) pending_final[of reader] show thesis by auto
qed

fun script_bytes :: "read_event list \<Rightarrow> bytes" where
  "script_bytes [] = []"
| "script_bytes (ReadOk bs # reader) = (if bs = [] then [] else bs @ script_bytes reader)"
| "script_bytes (ReadInterrupted # reader) = script_bytes reader"
| "script_bytes (ReadError e # reader) = []"

definition faultless :: "read_event list \<Rightarrow> bool" where
  "faultless reader \<longleftrightarrow> (\<forall>e. ReadError e \<notin> set reader)"

lemma faultless_simps [simp]:
  "faultless []" "faultless (ReadOk bs # reader) = faultless reader"
  "faultless (ReadInterrupted # reader) = faultless reader" "\<not> faultless (ReadError e # reader)"
  by (auto simp: faultless_def)

text \<open>A reader that reports no error up to its end of file.\<close>

lemma script_reader:
  assumes "faultless script"
  shows "reader_ends (script @- ReadOk [] ## rest) \<and> closing (script @- ReadOk [] ## rest) = ReadOk []
    \<and> script_bytes (pending_reads (script @- ReadOk [] ## rest)) = script_bytes script"
  using assms
proof (induction script)
  case Nil
  show ?case using reader_ends_step[of "ReadOk [] ## rest"] by (simp add: pending_final)
next
  case (Cons e script)
  let ?r = "(e # script) @- ReadOk [] ## rest"
  show ?case
  proof (cases "final e")
    case True
    with Cons.prems have "e = ReadOk []" by (cases e) auto
    then show ?thesis using pending_final[of ?r] reader_ends_step[of ?r] by simp
  next
    case False
    with Cons reader_ends_step[of ?r] have "reader_ends ?r" "faultless script"
      by (cases e; simp)+
    with Cons.IH False pending_step[of ?r] show ?thesis by (cases e) auto
  qed
qed

definition good :: "chunker \<Rightarrow> bool" where
  "good c \<longleftrightarrow> ck_eof c \<or> reader_ends (ck_reader c) \<and> closing (ck_reader c) = ReadOk []"

lemma good_position [simp]: "good (c\<lparr>ck_read_position := n\<rparr>) = good c"
  by (simp add: good_def)

definition buffered :: "chunker \<Rightarrow> bytes" where
  "buffered c = drop (ck_read_position c) (take (ck_read_length c) (ck_read_buffer c))"

definition content :: "chunker \<Rightarrow> bytes" where
  "content c = buffered c @ (if ck_eof c then [] else script_bytes (pending_reads (ck_reader c)))"

definition chunker_ok :: "chunker \<Rightarrow> bool" where
  "chunker_ok c \<longleftrightarrow> ck_read_position c \<le> ck_read_length c \<and> ck_read_length c \<le> length (ck_read_buffer c)
     \<and> (ck_eof c \<longrightarrow> ck_read_length c = 0)"

lemma refill_loop_ok:
  assumes "reader_ends reader" "closing reader = ReadOk []" "\<not> ck_eof d" "ck_read_position d = 0"
  shows "\<exists>c'. refill_loop reader d = Some (Inr (), c') \<and> chunker_ok c' \<and> good c'
    \<and> (ck_eof c' \<longleftrightarrow> ck_read_length c' = 0)
    \<and> (\<not> ck_eof c' \<longrightarrow> length (pending_reads (ck_reader c')) < length (pending_reads reader))
    \<and> ck_config c' = ck_config d \<and> ck_read_position c' = 0
    \<and> content c' = script_bytes (pending_reads reader)"
  using assms
proof (induction "length (pending_reads reader)" arbitrary: reader rule: less_induct)
  case less
  from less.prems(1) show ?case
  proof (cases rule: reader_cases)
    case eof
    with less.prems show ?thesis
      by (subst refill_loop.simps) (simp add: chunker_ok_def content_def buffered_def good_def)
  next
    case (error e)
    with less.prems(2) show ?thesis by simp
  next
    case (data bs)
    with less.prems show ?thesis
      by (subst refill_loop.simps) (simp add: chunker_ok_def content_def buffered_def good_def)
  next
    case interrupted
    with less.hyps[of "stl reader"] less.prems show ?thesis
      by (subst refill_loop.simps) (auto simp: less_SucI)
  qed
qed

lemma refill_ok:
  assumes "good c" "\<not> ck_eof c" "ck_read_position c = ck_read_length c"
  obtains c' where "refill c = Some (Inr (), c')" "chunker_ok c'" "good c'"
    "ck_config c' = ck_config c" "ck_read_position c' = 0" "content c' = content c"
    "ck_eof c' \<longleftrightarrow> ck_read_length c' = 0"
    "\<not> ck_eof c' \<Longrightarrow> length (pending_reads (ck_reader c')) < length (pending_reads (ck_reader c))"
proof -
  have "content c = script_bytes (pending_reads (ck_reader c))"
    using assms(2,3) by (simp add: content_def buffered_def)
  then show thesis
    using that refill_loop_ok[of "ck_reader c" "c\<lparr>ck_read_position := 0\<rparr>"] assms(1,2)
    unfolding refill_def good_def by auto
qed

lemma content_advance:
  assumes "chunker_ok c" "ck_read_position c + n \<le> ck_read_length c"
  shows "content (c\<lparr>ck_read_position := ck_read_position c + n\<rparr>) = drop n (content c)"
    and "chunker_ok (c\<lparr>ck_read_position := ck_read_position c + n\<rparr>)"
  using assms by (auto simp: content_def buffered_def chunker_ok_def add.commute)

section \<open>The loop against the scan of the whole content\<close>

text \<open>
  What one call produces, from a chunk already begun: the chunk the scan of all remaining content
  cuts, or everything that is left.
\<close>

definition chunk_result :: "chunker \<Rightarrow> bytes \<Rightarrow> u64 \<Rightarrow> (string + bytes option) \<times> chunker \<Rightarrow> bool" where
  "chunk_result c chunk fp r \<longleftrightarrow>
     chunker_ok (snd r) \<and> good (snd r) \<and> ck_config (snd r) = ck_config c
     \<and> (case scan_bytes (ck_config c) (content c) 0 chunk fp of
          Cut chunk' n \<Rightarrow> fst r = Inr (Some chunk') \<and> content (snd r) = drop n (content c)
        | Scanned chunk' _ \<Rightarrow> fst r = Inr (if chunk' = [] then None else Some chunk')
            \<and> content (snd r) = [] \<and> ck_eof (snd r))"

lemma chunk_result_cong:
  "content c' = content c \<Longrightarrow> ck_config c' = ck_config c \<Longrightarrow> chunk_result c' chunk fp r = chunk_result c chunk fp r"
  by (simp add: chunk_result_def cong: scan.case_cong)

lemma take_buffered:
  assumes "chunker_ok c" "n \<le> ck_read_length c - ck_read_position c"
  shows "take n (drop (ck_read_position c) (ck_read_buffer c)) = take n (content c)"
    and "n \<le> length (content c)"
  using assms by (auto simp: content_def buffered_def chunker_ok_def drop_take min_def)

lemma chunk_result_Scanned:
  assumes "scan_bytes (ck_config c) (take n (content c)) 0 chunk fp = Scanned chunk' fp'"
    and "content d = drop n (content c)" "ck_config d = ck_config c" "n \<le> length (content c)"
    and "chunk_result d chunk' fp' r"
  shows "chunk_result c chunk fp r"
proof -
  have "scan_bytes (ck_config c) (content c) 0 chunk fp =
      scan_bytes (ck_config c) (drop n (content c)) n chunk' fp'"
    using scan_bytes_append[of "ck_config c" "take n (content c)" "drop n (content c)" 0 chunk fp] assms(1,4)
    by simp
  also have "\<dots> = (case scan_bytes (ck_config c) (drop n (content c)) 0 chunk' fp' of
      Cut chunk' k \<Rightarrow> Cut chunk' (k + n) | s \<Rightarrow> s)"
    using scan_bytes_offset[of "ck_config c" _ 0 n] by simp
  finally show ?thesis using assms(2,3,5) unfolding chunk_result_def
    by (auto split: scan.splits simp: add.commute)
qed

lemma chunk_result_Cut:
  assumes "scan_bytes (ck_config c) (take n (content c)) 0 chunk fp = Cut chunk' k"
    and "content d = drop k (content c)" "ck_config d = ck_config c" "chunker_ok d" "good d"
  shows "chunk_result c chunk fp (Inr (Some chunk'), d)"
proof -
  have "scan_bytes (ck_config c) (content c) 0 chunk fp = Cut chunk' k"
    using scan_bytes_append[of "ck_config c" "take n (content c)" "drop n (content c)" 0 chunk fp] assms(1)
    by simp
  with assms(2-) show ?thesis by (simp add: chunk_result_def)
qed

lemma loop_refill:
  assumes "ck_read_position c = ck_read_length c" "refill c = Some (Inr (), c')"
    and "ck_read_position c' = 0" "ck_read_length c' \<noteq> 0"
  shows "chunk_loop c chunk fp = chunk_loop c' chunk fp"
  using assms by (subst (1 2) chunk_loop.simps) simp

lemma loop_eof:
  assumes "ck_read_position c = ck_read_length c" "refill c = Some (Inr (), c')" "ck_eof c'" "ck_read_length c' = 0"
  shows "chunk_loop c chunk fp = Some (Inr (if chunk = [] then None else Some chunk), c')"
  using assms by (subst chunk_loop.simps) simp

lemma loop_scan:
  assumes "ck_read_position c \<noteq> ck_read_length c" "chunker_ok c"
    and "n = min (maximum_size (ck_config c) - length chunk) (ck_read_length c - ck_read_position c)"
  shows "chunk_loop c chunk fp =
    (case scan_bytes (ck_config c) (take n (content c)) 0 chunk fp of
       Cut chunk k \<Rightarrow> Some (Inr (Some chunk), c\<lparr>ck_read_position := ck_read_position c + k\<rparr>)
     | Scanned chunk fp \<Rightarrow> chunk_loop (c\<lparr>ck_read_position := ck_read_position c + n\<rparr>) chunk fp)"
  using assms(1) take_buffered[OF assms(2), of n] assms(3)
  by (subst chunk_loop.simps) (simp add: Let_def cong: scan.case_cong)

lemma chunk_loop_result:
  assumes "chunker_ok c" "good c" "\<not> ck_eof c" "length chunk < maximum_size (ck_config c)"
  shows "\<exists>r. chunk_loop c chunk fp = Some r \<and> chunk_result c chunk fp r"
  using assms
proof (induction "2 * length (pending_reads (ck_reader c)) + (if ck_read_position c = ck_read_length c then 0 else 1)"
    arbitrary: c chunk fp rule: less_induct)
  case less
  note ok = less.prems(1) and faultless = less.prems(2)
  show ?case
  proof (cases "ck_read_position c = ck_read_length c")
    case True
    from refill_ok[OF faultless less.prems(3) True] obtain c' where c': "refill c = Some (Inr (), c')"
      "chunker_ok c'" "good c'" "ck_config c' = ck_config c" "ck_read_position c' = 0"
      "content c' = content c" "ck_eof c' \<longleftrightarrow> ck_read_length c' = 0"
      "\<not> ck_eof c' \<Longrightarrow> length (pending_reads (ck_reader c')) < length (pending_reads (ck_reader c))" by blast
    show ?thesis
    proof (cases "ck_eof c'")
      case eof: True
      then have "content c' = []" using c'(7) by (simp add: content_def buffered_def)
      with eof c'(2-4,6) have "chunk_result c chunk fp (Inr (if chunk = [] then None else Some chunk), c')"
        by (simp add: chunk_result_def)
      with loop_eof[OF True c'(1) eof] eof c'(7) show ?thesis by blast
    next
      case False
      have "\<exists>r. chunk_loop c' chunk fp = Some r \<and> chunk_result c' chunk fp r"
        by (rule less.hyps[OF _ c'(2,3) False]) (use c'(4,8) False True less.prems(4) in simp_all)
      then show ?thesis
        using loop_refill[OF True c'(1,5)] c'(7) False chunk_result_cong[OF c'(6,4)] by auto
    qed
  next
    case False
    define n where "n = min (maximum_size (ck_config c) - length chunk) (ck_read_length c - ck_read_position c)"
    have n: "ck_read_position c + n \<le> ck_read_length c" "n \<le> length (content c)"
      using take_buffered(2)[OF ok, of n] ok unfolding n_def chunker_ok_def by auto
    show ?thesis
    proof (cases "scan_bytes (ck_config c) (take n (content c)) 0 chunk fp")
      case (Cut chunk' k)
      have k: "k \<le> n" using scan_bytes_Cut[OF Cut] by simp
      have "chunk_result c chunk fp (Inr (Some chunk'), c\<lparr>ck_read_position := ck_read_position c + k\<rparr>)"
        by (rule chunk_result_Cut[OF Cut]) (use content_advance[OF ok, of k] n k faultless in auto)
      with Cut show ?thesis by (simp add: loop_scan[OF False ok n_def])
    next
      case (Scanned chunk' fp')
      have short: "length chunk + n < maximum_size (ck_config c)"
        using scan_bytes_length[OF less.prems(4), of "take n (content c)" 0 fp] Scanned
          scan_bytes_Scanned[OF Scanned] n(2) by simp
      then have all: "ck_read_position c + n = ck_read_length c"
        using ok unfolding n_def chunker_ok_def by auto
      let ?c = "c\<lparr>ck_read_position := ck_read_position c + n\<rparr>"
      have "\<exists>r. chunk_loop ?c chunk' fp' = Some r \<and> chunk_result ?c chunk' fp' r"
        by (rule less.hyps[OF _ content_advance(2)[OF ok n(1)]])
           (use all False faultless less.prems(3) short scan_bytes_Scanned[OF Scanned] n(2) in simp_all)
      then obtain r where "chunk_loop ?c chunk' fp' = Some r" and r: "chunk_result ?c chunk' fp' r" by blast
      moreover have "chunk_result c chunk fp r"
        by (rule chunk_result_Scanned[OF Scanned _ _ n(2) r]) (use content_advance(1)[OF ok n(1)] in simp_all)
      ultimately show ?thesis using Scanned by (auto simp: loop_scan[OF False ok n_def])
    qed
  qed
qed

lemma next_chunk_result:
  assumes "chunker_ok c" "good c" "0 < maximum_size (ck_config c)"
  shows "\<exists>r. next_chunk c = Some r \<and> chunk_result c [] 0 r"
proof (cases "ck_eof c")
  case True
  with assms show ?thesis
    by (simp add: next_chunk_def chunk_result_def chunker_ok_def content_def buffered_def)
next
  case False
  with chunk_loop_result[OF assms(1,2) False, of "[]" 0] assms(3) show ?thesis
    by (simp add: next_chunk_def)
qed

section \<open>The chunks are those of the reference\<close>

lemma scan_first_cut:
  "case scan_bytes config bs 0 [] 0 of
     Cut chunk n \<Rightarrow> n = first_cut config bs \<and> 0 < n \<and> n \<le> length bs \<and> chunk = take n bs
   | Scanned chunk _ \<Rightarrow> first_cut config bs = length bs \<and> chunk = bs"
proof -
  have "\<forall>k \<le> length []. \<not> boundary config ([] @ bs) k" by (simp add: boundary_def)
  from scan_bytes_boundary[OF _ this, of 0] have spec: "case scan_bytes config bs 0 [] 0 of
      Cut chunk' n \<Rightarrow> boundary config bs n \<and> (\<forall>k < n. \<not> boundary config bs k)
    | Scanned _ _ \<Rightarrow> \<forall>k. \<not> boundary config bs k"
    unfolding append_Nil by (simp add: fingerprint_of_def)
  show ?thesis
  proof (cases "scan_bytes config bs 0 [] 0")
    case (Cut chunk n)
    with spec have n: "boundary config bs n" "\<forall>k < n. \<not> boundary config bs k" by simp_all
    have "(LEAST n. boundary config bs n) = n"
      using n(2) by (intro Least_equality[of "boundary config bs" n, OF n(1)]) (meson not_le)
    then have "first_cut config bs = n" unfolding first_cut_def using n(1) by presburger
    with Cut scan_bytes_Cut[OF Cut] show ?thesis by simp
  next
    case (Scanned chunk fp)
    with spec have "first_cut config bs = length bs" by (simp add: first_cut_def)
    with Scanned scan_bytes_Scanned[OF Scanned] show ?thesis by simp
  qed
qed

lemma drain_step:
  assumes "chunker_ok c" "good c" "0 < maximum_size (ck_config c)"
  obtains c' where "chunker_ok c'" "good c'" "ck_config c' = ck_config c"
    "content c' = drop (first_cut (ck_config c) (content c)) (content c)"
    "drain c chunks = (if content c = [] then Some (Inr chunks)
       else drain c' (chunks @ [take (first_cut (ck_config c) (content c)) (content c)]))"
proof -
  obtain r where r: "next_chunk c = Some r" "chunk_result c [] 0 r"
    using next_chunk_result[OF assms] by blast
  obtain x c' where [simp]: "r = (x, c')" by (cases r)
  let ?n = "first_cut (ck_config c) (content c)"
  have x: "x = Inr (if content c = [] then None else Some (take ?n (content c)))
      \<and> content c' = drop ?n (content c)"
  proof (cases "scan_bytes (ck_config c) (content c) 0 [] 0")
    case (Cut chunk n)
    with scan_first_cut[of "ck_config c" "content c"] r(2) show ?thesis
      by (auto simp: chunk_result_def)
  next
    case (Scanned chunk fp)
    with scan_first_cut[of "ck_config c" "content c"] r(2) show ?thesis
      by (simp add: chunk_result_def)
  qed
  have "drain c chunks = (if content c = [] then Some (Inr chunks)
      else drain c' (chunks @ [take (first_cut (ck_config c) (content c)) (content c)]))"
    using r(1) x by (subst drain.simps) simp
  moreover have "chunker_ok c'" "good c'" "ck_config c' = ck_config c"
    using r(2) by (simp_all add: chunk_result_def)
  ultimately show thesis using that x by blast
qed

lemma drain_reference:
  assumes "chunker_ok c" "good c" "0 < maximum_size (ck_config c)"
  shows "drain c chunks = Some (Inr (chunks @ reference_chunks (ck_config c) (content c)))"
  using assms
proof (induction "length (content c)" arbitrary: c chunks rule: less_induct)
  case less
  obtain c' where c': "chunker_ok c'" "good c'" "ck_config c' = ck_config c"
    "content c' = drop (first_cut (ck_config c) (content c)) (content c)"
    "drain c chunks = (if content c = [] then Some (Inr chunks)
       else drain c' (chunks @ [take (first_cut (ck_config c) (content c)) (content c)]))"
    using drain_step[OF less.prems] by blast
  show ?case
  proof (cases "content c = []")
    case True
    with c'(5) show ?thesis by (simp add: reference_chunks.simps)
  next
    case False
    have "length (content c') < length (content c)"
      using False first_cut_pos[OF False] c'(4) by simp
    from less.hyps[OF this c'(1,2)] less.prems(3) c'(3-5) False show ?thesis
      by (subst reference_chunks.simps) simp
  qed
qed

lemma valid_maximum_pos: "config_is_valid config \<Longrightarrow> 0 < maximum_size config"
  by (simp add: config_is_valid_def)

text \<open>
  C26. The chunker computes the content-defined split. Under any valid configuration, and for any
  reader that reports no error before its end of file, reading chunks until none is left returns, and yields exactly the
  split of the reader's content at its first boundaries; so the chunks do not depend on how the
  content arrives in reads, nor on interruptions.
\<close>

theorem chunks_are_reference:
  assumes "config_is_valid config" "faultless script"
  shows "drain (chunker_new (script @- ReadOk [] ## rest) config) []
    = Some (Inr (reference_chunks config (script_bytes script)))"
proof -
  let ?c = "chunker_new (script @- ReadOk [] ## rest) config"
  have "chunker_ok ?c" "content ?c = script_bytes script" "good ?c"
    using script_reader[OF assms(2)] by (simp_all add: chunker_new_def chunker_ok_def content_def buffered_def good_def)
  with drain_reference[of ?c "[]"] valid_maximum_pos[OF assms(1)] show ?thesis by (simp add: chunker_new_def)
qed

theorem chunks_are_reference_witness:
  "drain (chunker_new ([ReadOk ''ab'', ReadInterrupted, ReadOk ''c''] @- ReadOk [] ## sconst ReadInterrupted)
       default_chunking_config) [] = Some (Inr (reference_chunks default_chunking_config ''abc''))"
  using chunks_are_reference[of default_chunking_config "[ReadOk ''ab'', ReadInterrupted, ReadOk ''c'']"]
  by (simp add: config_is_valid_def default_chunking_config_def DEFAULT_AVERAGE_CHUNK_SIZE_def
      is_power_of_two_def)

section \<open>Sizes\<close>

lemma boundary_bounds: "boundary config bs n \<Longrightarrow> minimum_size config \<le> maximum_size config \<Longrightarrow>
    minimum_size config \<le> n"
  by (auto simp: boundary_def)

lemma first_cut_bounds:
  assumes "bs \<noteq> []" "0 < maximum_size config" "minimum_size config \<le> maximum_size config"
  shows "first_cut config bs \<le> length bs" "first_cut config bs \<le> maximum_size config"
    and "first_cut config bs < length bs \<Longrightarrow> minimum_size config \<le> first_cut config bs"
proof -
  let ?P = "boundary config bs" and ?n = "first_cut config bs"
  have least: "?P ?n" if "?P k" for k
    using that LeastI_ex[of ?P] unfolding first_cut_def by metis
  have le: "?n \<le> k" if "?P k" for k
    using that Least_le[of ?P] unfolding first_cut_def by metis
  have none: "?n = length bs" if "\<nexists>k. ?P k" using that by (simp add: first_cut_def)
  show "?n \<le> length bs" using least none by (metis boundary_def order_refl)
  show "?n \<le> maximum_size config"
  proof (cases "maximum_size config \<le> length bs")
    case True
    with assms have "?P (maximum_size config)" by (simp add: boundary_def)
    with le show ?thesis .
  next
    case False
    with \<open>?n \<le> length bs\<close> show ?thesis by simp
  qed
  show "minimum_size config \<le> ?n" if "?n < length bs"
  proof -
    obtain k where "?P k" using \<open>?n < length bs\<close> none by force
    with boundary_bounds[OF least] assms(3) show ?thesis by blast
  qed
qed

lemma reference_chunks_concat: "concat (reference_chunks config bs) = bs"
proof (induction config bs rule: reference_chunks.induct)
  case (1 config bs)
  then show ?case by (cases "bs = []") (simp_all add: reference_chunks.simps)
qed

lemma reference_chunks_sizes:
  assumes "0 < maximum_size config" "minimum_size config \<le> maximum_size config"
  shows "(\<forall>chunk \<in> set (reference_chunks config bs). chunk \<noteq> [] \<and> length chunk \<le> maximum_size config)
    \<and> (\<forall>chunk \<in> set (butlast (reference_chunks config bs)). minimum_size config \<le> length chunk)"
  using assms
proof (induction config bs rule: reference_chunks.induct)
  case (1 config bs)
  show ?case
  proof (cases "bs = []")
    case False
    note bounds = first_cut_bounds[OF False 1(2,3)]
    have rest: "reference_chunks config (drop (first_cut config bs) bs) = [] \<longleftrightarrow> length bs \<le> first_cut config bs"
      by (subst reference_chunks.simps) simp
    from 1(1)[OF False 1(2,3)] bounds first_cut_pos[OF False, of config] False rest show ?thesis
      by (subst (1 2) reference_chunks.simps) auto
  qed (simp add: reference_chunks.simps)
qed

text \<open>
  C27. Chunks lose nothing and keep to their limits. Whatever the content, the chunks concatenate to
  it, none is empty, none exceeds the maximum size, and all but the last have the minimum size.
\<close>

theorem chunks_lossless_and_bounded:
  assumes "config_is_valid config" "faultless script"
    and "drain (chunker_new (script @- ReadOk [] ## rest) config) [] = Some (Inr chunks)"
  shows "concat chunks = script_bytes script
    \<and> (\<forall>chunk \<in> set chunks. 0 < length chunk \<and> length chunk \<le> maximum_size config)
    \<and> (\<forall>chunk \<in> set (butlast chunks). minimum_size config \<le> length chunk)"
proof -
  have "chunks = reference_chunks config (script_bytes script)"
    using drain_reference[of "chunker_new (script @- ReadOk [] ## rest) config" "[]"] assms
      valid_maximum_pos[OF assms(1)] script_reader[OF assms(2), of rest]
    by (simp add: chunker_new_def chunker_ok_def content_def buffered_def good_def)
  moreover have "minimum_size config \<le> maximum_size config"
    using assms(1) by (simp add: config_is_valid_def)
  ultimately show ?thesis
    using reference_chunks_concat reference_chunks_sizes[OF valid_maximum_pos[OF assms(1)]] by auto
qed

theorem chunks_lossless_and_bounded_witness:
  "\<exists>chunks. drain (chunker_new ([ReadOk ''ab'', ReadOk ''c''] @- ReadOk [] ## sconst ReadInterrupted)
       default_chunking_config) [] = Some (Inr chunks)
     \<and> concat chunks = ''abc'' \<and> (\<forall>chunk \<in> set chunks. 0 < length chunk \<and> length chunk \<le> 1048576)"
proof -
  let ?script = "[ReadOk ''ab'', ReadOk ''c'']" and ?rest = "sconst ReadInterrupted"
  have valid: "config_is_valid default_chunking_config"
    by (simp add: config_is_valid_def default_chunking_config_def DEFAULT_AVERAGE_CHUNK_SIZE_def
        is_power_of_two_def)
  have "faultless ?script" by simp
  then have "drain (chunker_new (?script @- ReadOk [] ## ?rest) default_chunking_config) []
      = Some (Inr (reference_chunks default_chunking_config ''abc''))"
    using drain_reference[of "chunker_new (?script @- ReadOk [] ## ?rest) default_chunking_config" "[]"]
      valid_maximum_pos[OF valid] script_reader[of ?script ?rest]
    by (simp add: chunker_new_def chunker_ok_def content_def buffered_def good_def)
  with chunks_lossless_and_bounded[OF valid \<open>faultless ?script\<close> this] show ?thesis
    by (simp add: default_chunking_config_def)
qed

section \<open>Termination\<close>

text \<open>Reads the reader may still answer, and bytes it may still deliver.\<close>

fun event_weight :: "read_event \<Rightarrow> nat" where
  "event_weight (ReadOk bs) = Suc (length bs)"
| "event_weight _ = 1"

definition weight :: "chunker \<Rightarrow> nat" where
  "weight c = (ck_read_length c - ck_read_position c)
     + (if ck_eof c then 0 else sum_list (map event_weight (pending_reads (ck_reader c))))"

definition live :: "chunker \<Rightarrow> bool" where
  "live c \<longleftrightarrow> ck_eof c \<or> reader_ends (ck_reader c)"

lemma live_position [simp]: "live (c\<lparr>ck_read_position := n\<rparr>) = live c"
  by (simp add: live_def)

lemma refill_loop_weight:
  assumes "reader_ends reader" "\<not> ck_eof d" "ck_read_position d = 0" "ck_read_length d \<le> length (ck_read_buffer d)"
  shows "\<exists>x c'. refill_loop reader d = Some (x, c') \<and> (x = Inr () \<longrightarrow>
    chunker_ok c' \<and> live c' \<and> ck_config c' = ck_config d \<and> ck_read_position c' = 0
    \<and> (ck_eof c' \<longleftrightarrow> ck_read_length c' = 0)
    \<and> weight c' \<le> sum_list (map event_weight (pending_reads reader))
    \<and> (\<not> ck_eof c' \<longrightarrow> weight c' < sum_list (map event_weight (pending_reads reader))))"
  using assms
proof (induction "length (pending_reads reader)" arbitrary: reader rule: less_induct)
  case less
  from less.prems(1) show ?case
  proof (cases rule: reader_cases)
    case eof
    with less.prems show ?thesis
      by (subst refill_loop.simps) (simp add: chunker_ok_def weight_def live_def)
  next
    case (error e)
    then show ?thesis by (subst refill_loop.simps) simp
  next
    case (data bs)
    with less.prems show ?thesis
      by (subst refill_loop.simps) (simp add: chunker_ok_def weight_def live_def)
  next
    case interrupted
    with less.hyps[of "stl reader"] less.prems show ?thesis
      by (subst refill_loop.simps) (auto intro: le_SucI less_SucI)
  qed
qed

definition shrinks :: "chunker \<Rightarrow> bool \<Rightarrow> (string + bytes option) \<times> chunker \<Rightarrow> bool" where
  "shrinks c fresh r \<longleftrightarrow> (\<forall>chunk. fst r = Inr (Some chunk) \<longrightarrow>
     chunker_ok (snd r) \<and> live (snd r) \<and> ck_config (snd r) = ck_config c \<and> weight (snd r) \<le> weight c
     \<and> (fresh \<longrightarrow> weight (snd r) < weight c))"

lemma shrinks_mono:
  "shrinks d b r \<Longrightarrow> ck_config d = ck_config c \<Longrightarrow> weight d \<le> weight c \<Longrightarrow> (b' \<Longrightarrow> b \<or> weight d < weight c)
    \<Longrightarrow> shrinks c b' r"
  unfolding shrinks_def by fastforce

lemma chunk_loop_returns:
  assumes "chunker_ok c" "\<not> ck_eof c" "length chunk < maximum_size (ck_config c)" "live c"
  shows "\<exists>r. chunk_loop c chunk fp = Some r \<and> shrinks c (chunk = []) r"
  using assms
proof (induction "weight c" arbitrary: c chunk fp rule: less_induct)
  case less
  note ok = less.prems(1)
  show ?case
  proof (cases "ck_read_position c = ck_read_length c")
    case True
    have weight: "weight c = sum_list (map event_weight (pending_reads (ck_reader c)))"
      using True less.prems(2) by (simp add: weight_def)
    have "reader_ends (ck_reader c)" using less.prems(2,4) by (simp add: live_def)
    with refill_loop_weight[of "ck_reader c" "c\<lparr>ck_read_position := 0\<rparr>"] less.prems(2) ok
    obtain x c' where refill: "refill c = Some (x, c')" and ok': "x = Inr () \<longrightarrow>
        chunker_ok c' \<and> live c' \<and> ck_config c' = ck_config c \<and> ck_read_position c' = 0
        \<and> (ck_eof c' \<longleftrightarrow> ck_read_length c' = 0) \<and> weight c' \<le> weight c \<and> (\<not> ck_eof c' \<longrightarrow> weight c' < weight c)"
      unfolding weight refill_def chunker_ok_def by auto
    show ?thesis
    proof (cases x)
      case (Inl e)
      with True refill show ?thesis by (subst chunk_loop.simps) (simp add: shrinks_def)
    next
      case (Inr u)
      then have r: "refill c = Some (Inr (), c')" using refill by simp
      from ok' Inr have c': "chunker_ok c'" "ck_config c' = ck_config c" "ck_read_position c' = 0"
        "ck_eof c' \<longleftrightarrow> ck_read_length c' = 0" "weight c' \<le> weight c" "\<not> ck_eof c' \<Longrightarrow> weight c' < weight c" "live c'"
        by auto
      show ?thesis
      proof (cases "ck_eof c'")
        case eof: True
        with loop_eof[OF True r eof] c' show ?thesis by (auto simp: shrinks_def)
      next
        case False
        with less.hyps[OF c'(6)[OF False] c'(1) False, of chunk fp] less.prems(3) c'(2,7)
        obtain r' where "chunk_loop c' chunk fp = Some r'" "shrinks c' (chunk = []) r'" by auto
        moreover have "chunk_loop c chunk fp = chunk_loop c' chunk fp"
          using loop_refill[OF True r c'(3)] False c'(4) by blast
        ultimately show ?thesis using shrinks_mono c'(2,5) by metis
      qed
    qed
  next
    case False
    define n where "n = min (maximum_size (ck_config c) - length chunk) (ck_read_length c - ck_read_position c)"
    have pos: "0 < n" and n: "ck_read_position c + n \<le> ck_read_length c"
      using False ok less.prems(3) unfolding n_def chunker_ok_def by auto
    have lighter: "chunker_ok (c\<lparr>ck_read_position := ck_read_position c + k\<rparr>)"
      "weight (c\<lparr>ck_read_position := ck_read_position c + k\<rparr>) < weight c" if "0 < k" "k \<le> n" for k
      using that n content_advance(2)[OF ok, of k] by (auto simp: weight_def)
    show ?thesis
    proof (cases "scan_bytes (ck_config c) (take n (content c)) 0 chunk fp")
      case (Cut chunk' k)
      from scan_bytes_Cut[OF Cut] have "0 < k" "k \<le> n" by simp_all
      with lighter[OF this] Cut less.prems(4) show ?thesis by (simp add: loop_scan[OF False ok n_def] shrinks_def)
    next
      case (Scanned chunk' fp')
      let ?c = "c\<lparr>ck_read_position := ck_read_position c + n\<rparr>"
      have "length chunk' < maximum_size (ck_config c)"
        using scan_bytes_length[OF less.prems(3), of "take n (content c)" 0 fp] Scanned by simp
      with less.hyps[OF lighter(2)[OF pos] lighter(1)[OF pos], of chunk' fp'] less.prems(2,4)
      obtain r where "chunk_loop ?c chunk' fp' = Some r" "shrinks ?c (chunk' = []) r" by auto
      moreover from this(2) have "shrinks c (chunk = []) r"
        by (rule shrinks_mono) (use lighter(2)[OF pos] in simp_all)
      ultimately show ?thesis using Scanned by (auto simp: loop_scan[OF False ok n_def])
    qed
  qed
qed

lemma drain_returns:
  assumes "chunker_ok c" "0 < maximum_size (ck_config c)" "live c"
  shows "\<exists>r. drain c chunks = Some r"
  using assms
proof (induction "weight c" arbitrary: c chunks rule: less_induct)
  case less
  have "ck_eof c \<Longrightarrow> ck_read_position c = ck_read_length c"
    using less.prems(1) by (simp add: chunker_ok_def)
  then have "\<exists>r. next_chunk c = Some r \<and> shrinks c True r"
    using chunk_loop_returns[OF less.prems(1), of "[]" 0] less.prems(2,3)
    by (auto simp: next_chunk_def shrinks_def)
  then obtain x c' where r: "next_chunk c = Some (x, c')" "shrinks c True (x, c')" by auto
  show ?case
  proof (cases "\<exists>chunk. x = Inr (Some chunk)")
    case True
    with r(2) have "weight c' < weight c" "chunker_ok c'" "ck_config c' = ck_config c" "live c'"
      by (auto simp: shrinks_def)
    from less.hyps[OF this(1,2)] less.prems(2) this(3,4) r(1) True show ?thesis
      by (subst drain.simps) auto
  next
    case False
    with r(1) show ?thesis by (subst drain.simps) (auto split: sum.split option.split)
  qed
qed

text \<open>Conversely, a reader that never ends keeps the loop reading for ever.\<close>

lemma refill_loop_endless:
  assumes "refill_loop reader d = Some r" "\<not> reader_ends reader" "\<not> ck_eof d"
  shows "fst r = Inr () \<and> \<not> ck_eof (snd r) \<and> ck_read_length (snd r) \<noteq> 0 \<and> \<not> reader_ends (ck_reader (snd r))"
proof -
  have "\<not> reader_ends reader \<longrightarrow> \<not> ck_eof d \<longrightarrow>
    fst r = Inr () \<and> \<not> ck_eof (snd r) \<and> ck_read_length (snd r) \<noteq> 0 \<and> \<not> reader_ends (ck_reader (snd r))"
  proof (rule refill_loop.raw_induct[OF _ assms(1)], goal_cases)
    case (1 loop reader d r)
    then show ?case
      using reader_ends_step[of reader] by (cases "shd reader") (auto split: if_splits)
  qed
  with assms(2,3) show ?thesis by blast
qed

lemma chunk_loop_endless:
  assumes "chunk_loop c chunk fp = Some r" "\<not> ck_eof c" "\<not> reader_ends (ck_reader c)"
  shows "(\<exists>chunk'. fst r = Inr (Some chunk')) \<and> \<not> ck_eof (snd r) \<and> \<not> reader_ends (ck_reader (snd r))"
proof -
  have "\<not> ck_eof c \<longrightarrow> \<not> reader_ends (ck_reader c) \<longrightarrow>
    (\<exists>chunk'. fst r = Inr (Some chunk')) \<and> \<not> ck_eof (snd r) \<and> \<not> reader_ends (ck_reader (snd r))"
  proof (rule chunk_loop.raw_induct[OF _ assms(1)], goal_cases)
    case (1 loop c chunk fp r)
    let ?empty = "ck_read_position c = ck_read_length c"
    show ?case
    proof (intro impI)
      assume c: "\<not> ck_eof c" "\<not> reader_ends (ck_reader c)"
      obtain x c' where step: "(if ?empty then refill c else Some (Inr (), c)) = Some (x, c')"
        using 1(2) by (cases "if ?empty then refill c else Some (Inr (), c)") (auto simp: Let_def)
      have c': "x = Inr ()" "\<not> ck_eof c'" "\<not> reader_ends (ck_reader c')"
        using step c refill_loop_endless[of "ck_reader c" "c\<lparr>ck_read_position := 0\<rparr>"]
        by (auto simp: refill_def split: if_splits)
      have IH: "(\<exists>chunk'. fst r = Inr (Some chunk')) \<and> \<not> ck_eof (snd r) \<and> \<not> reader_ends (ck_reader (snd r))"
        if "loop (c'\<lparr>ck_read_position := n\<rparr>) chunk' fp' = Some r" for n chunk' fp'
        using 1(1)[OF that] c' by simp
      show "(\<exists>chunk'. fst r = Inr (Some chunk')) \<and> \<not> ck_eof (snd r) \<and> \<not> reader_ends (ck_reader (snd r))"
        using 1(2) unfolding Let_def step using c' IH by (auto simp: Let_def split: scan.splits)
    qed
  qed
  with assms(2,3) show ?thesis by blast
qed

lemma drain_endless:
  assumes "drain c chunks = Some r"
  shows "ck_eof c \<or> reader_ends (ck_reader c)"
proof (rule drain.raw_induct[OF _ assms], goal_cases)
  case (1 loop c chunks r)
  obtain x c' where step: "next_chunk c = Some (x, c')"
    using 1(2) by (cases "next_chunk c") auto
  show ?case
  proof (rule ccontr)
    assume "\<not> (ck_eof c \<or> reader_ends (ck_reader c))"
    with step chunk_loop_endless[of c "[]" 0 "(x, c')"] obtain chunk
      where "x = Inr (Some chunk)" "\<not> ck_eof c'" "\<not> reader_ends (ck_reader c')"
      by (auto simp: next_chunk_def)
    with 1(2) step 1(1)[of c' "chunks @ [chunk]"] show False by auto
  qed
qed

text \<open>
  C28. Reading chunks terminates exactly when the reader does. Under a valid configuration the loop
  over \<open>next_chunk\<close> returns if and only if the reader at some point reports end of file or an error
  other than an interruption: the loop does not run on after that, and it neither gives up on
  interruptions nor stops early on data.
\<close>

theorem draining_terminates:
  assumes "config_is_valid config"
  shows "(\<exists>r. drain (chunker_new reader config) [] = Some r)
    \<longleftrightarrow> (\<exists>n. reader !! n = ReadOk [] \<or> (\<exists>e. reader !! n = ReadError e))"
proof -
  let ?c = "chunker_new reader config"
  have "final e \<longleftrightarrow> e = ReadOk [] \<or> (\<exists>m. e = ReadError m)" for e by (cases e) auto
  then have ends: "reader_ends reader \<longleftrightarrow> (\<exists>n. reader !! n = ReadOk [] \<or> (\<exists>e. reader !! n = ReadError e))"
    by (simp add: reader_ends_def)
  have "\<exists>r. drain ?c [] = Some r" if "reader_ends reader"
    using drain_returns[of ?c "[]"] valid_maximum_pos[OF assms] that
    by (simp add: chunker_new_def chunker_ok_def live_def)
  moreover have "reader_ends reader" if "drain ?c [] = Some r" for r
    using drain_endless[OF that] by (simp add: chunker_new_def)
  ultimately show ?thesis using ends by blast
qed

theorem draining_terminates_witness:
  "(\<exists>r. drain (chunker_new (ReadOk ''ab'' ## ReadError ''EIO'' ## sconst ReadInterrupted) default_chunking_config) []
      = Some r)
   \<and> drain (chunker_new (sconst ReadInterrupted) default_chunking_config) [] = None"
proof -
  have valid: "config_is_valid default_chunking_config"
    by (simp add: config_is_valid_def default_chunking_config_def DEFAULT_AVERAGE_CHUNK_SIZE_def
        is_power_of_two_def)
  have "(ReadOk ''ab'' ## ReadError ''EIO'' ## sconst ReadInterrupted) !! 1 = ReadError ''EIO''" by simp
  moreover have "sconst ReadInterrupted !! n = ReadInterrupted" for n by (simp add: id_funpow)
  ultimately show ?thesis
    using draining_terminates[OF valid, of "ReadOk ''ab'' ## ReadError ''EIO'' ## sconst ReadInterrupted"]
      draining_terminates[OF valid, of "sconst ReadInterrupted"]
    by (metis not_None_eq read_event.distinct(1,5))
qed

text \<open>
  A call after a read error is not a retry: \<open>refill\<close> moves the position back to the start of the read
  buffer before it reads, so that the next call takes the bytes of the last read a second time.
\<close>

lemma read_error_repeats_buffer:
  "\<exists>c. next_chunk (chunker_new (ReadOk ''ab'' ## ReadError ''EIO'' ## ReadOk ''c'' ## ReadOk [] ## rest)
        default_chunking_config) = Some (Inl ''EIO'', c)
    \<and> (\<exists>c'. next_chunk c = Some (Inr (Some ''abc''), c'))"
  by (simp add: next_chunk_def chunker_new_def chunk_loop.simps refill_def refill_loop.simps
      default_chunking_config_def DEFAULT_AVERAGE_CHUNK_SIZE_def stops_def)

end
