(* ===== verification/Backup_Checkpoint.thy ===== *)
theory Backup_Checkpoint
  imports Record_Log Manifest_Contract Chunker
begin

text \<open>
  The resumable state of a backup job: the checkpoint of \<open>covalent-core/src/backup.rs\<close>, kept as a
  write-ahead log of one header and one record per completed entry, and the operations of
  \<open>storage.rs\<close> on the files of a job. The state is the two files a job can have, the legacy JSON file
  and the log. \<open>serde_json\<close> on the records, the digest of the options and the hash are environment fields.
\<close>

section \<open>Options, progress and checkpoints\<close>

datatype symlink_policy = Reject | Skip

record backup_options =
  bo_backup_id :: uuid
  bo_display_name :: string
  bo_snapshot_id :: string
  bo_key_epoch :: u64
  bo_replica_intent :: replica_intent
  bo_chunking :: chunking_config
  bo_exclusions :: "string list"
  bo_symlink_policy :: symlink_policy
  bo_job_id :: string
  bo_created_at_unix_ms :: u64

record backup_progress =
  bp_entries_completed :: int
  bp_bytes_read :: u64
  bp_chunks_stored :: int
  bp_chunks_deduplicated :: int
  bp_symlinks_skipped :: int
  bp_current_path :: "relative_path option"

definition default_progress :: backup_progress where
  "default_progress = \<lparr>bp_entries_completed = 0, bp_bytes_read = 0, bp_chunks_stored = 0,
     bp_chunks_deduplicated = 0, bp_symlinks_skipped = 0, bp_current_path = None\<rparr>"

record source_fingerprint =
  fp_kind :: entry_kind
  fp_length :: u64
  fp_modified_at_unix_ms :: "u64 option"
  fp_unix_device :: "u64 option"
  fp_unix_inode :: "u64 option"
  fp_unix_change_time_seconds :: "int option"
  fp_unix_change_time_nanoseconds :: "int option"
  fp_unix_mode :: "u32 option"

record backup_checkpoint =
  bc_schema_version :: u16
  bc_options_digest :: string
  bc_source_canonical :: string
  bc_entries :: "manifest_entry list"
  bc_fingerprints :: "(relative_path, source_fingerprint) fmap"
  bc_chunk_locators :: "string set"
  bc_progress :: backup_progress
  bc_record_count :: int

datatype wal_record =
    Header u16 string string
  | Entry manifest_entry source_fingerprint backup_progress

record backup_env =
  bv_hash :: "bytes \<Rightarrow> bytes"
  bv_root :: path
  bv_lock :: bool
  bv_maximum_chunk_size :: nat
  bv_to_vec :: "wal_record \<Rightarrow> bytes"
  bv_from_slice :: "bytes \<Rightarrow> wal_record option"
  bv_legacy_from_slice :: "bytes \<Rightarrow> backup_checkpoint option"
  bv_options_digest :: "backup_options \<Rightarrow> string"

definition LEGACY_BACKUP_CHECKPOINT_SCHEMA_VERSION :: u16 where
  "LEGACY_BACKUP_CHECKPOINT_SCHEMA_VERSION = 2"

definition BACKUP_WAL_SCHEMA_VERSION :: u16 where
  "BACKUP_WAL_SCHEMA_VERSION = 3"

definition BACKUP_WAL_COMPACTION_STALE_RECORDS :: int where
  "BACKUP_WAL_COMPACTION_STALE_RECORDS = 4096"

definition BACKUP_WAL_SYNC_INTERVAL :: int where
  "BACKUP_WAL_SYNC_INTERVAL = 64"

definition MAX_CHECKPOINT_BYTES :: int where
  "MAX_CHECKPOINT_BYTES = 256 * 1024 * 1024"

definition MAX_CHECKPOINT_LOG_BYTES :: int where
  "MAX_CHECKPOINT_LOG_BYTES = 512 * 1024 * 1024"

definition validate_options :: "backup_env \<Rightarrow> backup_options \<Rightarrow> core_error + unit" where
  "validate_options E options =
     fail_if (bo_key_epoch options = 0
       \<or> str_blank (bo_display_name options)
       \<or> length (bo_display_name options) > 120
       \<or> str_has_control (bo_display_name options)
       \<or> \<not> config_is_valid (bo_chunking options)
       \<or> maximum_size (bo_chunking options) > bv_maximum_chunk_size E
       \<or> bo_job_id options = [] \<or> length (bo_job_id options) > 128
       \<or> \<not> list_all snapshot_id_byte (bo_job_id options)
       \<or> bo_snapshot_id options = [] \<or> length (bo_snapshot_id options) > 128
       \<or> \<not> list_all snapshot_id_byte (bo_snapshot_id options))
     (CoreInvalidState ''invalid backup options'')"

section \<open>The files of a job\<close>

record job_files =
  jf_legacy :: "bytes option"
  jf_log :: "bytes option"

type_synonym 'a job_step = "(job_files, core_error, 'a) step"

definition on_log :: "'a file_step \<Rightarrow> 'a job_step" where
  "on_log m = (\<lambda>s. case m (jf_log s) of (r, f) \<Rightarrow> (r, s\<lparr>jf_log := f\<rparr>))"

definition on_legacy :: "'a file_step \<Rightarrow> 'a job_step" where
  "on_legacy m = (\<lambda>s. case m (jf_legacy s) of (r, f) \<Rightarrow> (r, s\<lparr>jf_legacy := f\<rparr>))"

definition validate_job_id :: "string \<Rightarrow> core_error + unit" where
  "validate_job_id value =
     fail_if (value = [] \<or> length value > 128 \<or> \<not> list_all snapshot_id_byte value)
       (CoreInvalidState ''invalid job id'')"

definition checkpoint_log_path :: "backup_env \<Rightarrow> string \<Rightarrow> path" where
  "checkpoint_log_path E job_id = path_join (path_join (bv_root E) ''jobs'') (job_id @ ''.wal'')"

definition checkpoint_path :: "backup_env \<Rightarrow> string \<Rightarrow> path" where
  "checkpoint_path E job_id = path_join (path_join (bv_root E) ''jobs'') (job_id @ ''.json'')"

definition with_lock :: "backup_env \<Rightarrow> string \<Rightarrow> 'a job_step \<Rightarrow> 'a job_step" where
  "with_lock E job_id m =
     sbind (slift (validate_job_id job_id)) (\<lambda>_.
     sbind (slift (fail_if (\<not> bv_lock E) Synchronization)) (\<lambda>_. m))"

definition write_checkpoint :: "backup_env \<Rightarrow> file_io \<Rightarrow> string \<Rightarrow> bytes \<Rightarrow> unit job_step" where
  "write_checkpoint E io job_id bytes =
     sbind (slift (validate_job_id job_id)) (\<lambda>_.
     sbind (slift (fail_if (vec_len bytes > MAX_CHECKPOINT_BYTES) (ResourceLimit ''job checkpoint''))) (\<lambda>_.
     sbind (slift (fail_if (\<not> bv_lock E) Synchronization)) (\<lambda>_.
     on_legacy (write_atomic io (checkpoint_path E job_id) bytes True))))"

definition read_checkpoint :: "file_io \<Rightarrow> string \<Rightarrow> bytes option job_step" where
  "read_checkpoint io job_id =
     sbind (slift (validate_job_id job_id)) (\<lambda>_.
     sbind (sget jf_legacy) (\<lambda>f.
     if f = None \<and> fi_open io then sret None
     else sbind (on_legacy (read_bounded io MAX_CHECKPOINT_BYTES)) (\<lambda>bytes. sret (Some bytes))))"

definition append_checkpoint_record_with_durability ::
    "backup_env \<Rightarrow> file_io \<Rightarrow> string \<Rightarrow> bytes \<Rightarrow> bool \<Rightarrow> unit job_step" where
  "append_checkpoint_record_with_durability E io job_id record durable =
     with_lock E job_id (on_log (append_record_log (bv_hash E) io (checkpoint_log_path E job_id) record
       MAX_CHECKPOINT_BYTES MAX_CHECKPOINT_LOG_BYTES True durable))"

definition sync_checkpoint_records :: "backup_env \<Rightarrow> file_io \<Rightarrow> string \<Rightarrow> unit job_step" where
  "sync_checkpoint_records E io job_id = with_lock E job_id (on_log (sync_record_log io))"

definition read_checkpoint_records :: "backup_env \<Rightarrow> file_io \<Rightarrow> string \<Rightarrow> bytes list option job_step" where
  "read_checkpoint_records E io job_id =
     with_lock E job_id (on_log (read_record_log (bv_hash E) io MAX_CHECKPOINT_BYTES MAX_CHECKPOINT_LOG_BYTES))"

definition replace_checkpoint_records :: "backup_env \<Rightarrow> file_io \<Rightarrow> string \<Rightarrow> bytes list \<Rightarrow> unit job_step" where
  "replace_checkpoint_records E io job_id records =
     with_lock E job_id (on_log (rewrite_record_log (bv_hash E) io (checkpoint_log_path E job_id) records
       MAX_CHECKPOINT_BYTES MAX_CHECKPOINT_LOG_BYTES True))"

text \<open>The loop over the two paths; a file that is there is inspected.\<close>

fun inspect_files :: "file_io \<Rightarrow> bytes option list \<Rightarrow> core_error + bool" where
  "inspect_files io [] = Inr False"
| "inspect_files io (f # fs) =
     (if \<not> fi_metadata io then Inl (CoreIo ''inspect job checkpoint'')
      else if f = None then inspect_files io fs
      else rbind (fail_if (\<not> fi_regular io) (CoreInvalidState ''checkpoint path is not a regular file''))
        (\<lambda>_. Inr True))"

definition has_checkpoint :: "file_io \<Rightarrow> string \<Rightarrow> bool job_step" where
  "has_checkpoint io job_id =
     sbind (slift (validate_job_id job_id)) (\<lambda>_.
     sbind (sget (\<lambda>s. [jf_legacy s, jf_log s])) (\<lambda>fs. slift (inspect_files io fs)))"

definition remove_checkpoint :: "backup_env \<Rightarrow> file_io \<Rightarrow> file_io \<Rightarrow> string \<Rightarrow> unit job_step" where
  "remove_checkpoint E io_legacy io_log job_id =
     with_lock E job_id (
     sbind (sget (\<lambda>s. jf_legacy s \<noteq> None)) (\<lambda>legacy.
     sbind (slift (io_check (fi_open io_legacy) ''remove job checkpoint'')) (\<lambda>_.
     sbind (smodify (\<lambda>s. s\<lparr>jf_legacy := None\<rparr>)) (\<lambda>_.
     sbind (sget (\<lambda>s. jf_log s \<noteq> None)) (\<lambda>log.
     sbind (slift (io_check (fi_open io_log) ''remove job checkpoint'')) (\<lambda>_.
     sbind (smodify (\<lambda>s. s\<lparr>jf_log := None\<rparr>)) (\<lambda>_.
     slift (if legacy \<or> log then sync_directory io_log else Inr ()))))))))"

section \<open>The write-ahead log\<close>

definition backup_checkpoint_needs_compaction :: "backup_checkpoint \<Rightarrow> bool" where
  "backup_checkpoint_needs_compaction checkpoint \<longleftrightarrow>
     (let live_records = u64_sat (vec_len (bc_entries checkpoint) + 1);
          stale_records = max 0 (bc_record_count checkpoint - live_records)
      in stale_records > max BACKUP_WAL_COMPACTION_STALE_RECORDS (vec_len (bc_entries checkpoint) div 2))"

definition wal_header :: "backup_checkpoint \<Rightarrow> wal_record" where
  "wal_header checkpoint =
     Header BACKUP_WAL_SCHEMA_VERSION (bc_options_digest checkpoint) (bc_source_canonical checkpoint)"

definition compacted_entry :: "backup_env \<Rightarrow> backup_checkpoint \<Rightarrow> manifest_entry \<Rightarrow> core_error + bytes" where
  "compacted_entry E checkpoint entry =
     rbind (ok_or (fmlookup (bc_fingerprints checkpoint) (me_path entry))
       (CoreInvalidState ''missing source fingerprint'')) (\<lambda>fingerprint.
     Inr (bv_to_vec E (Entry entry fingerprint (bc_progress checkpoint))))"

definition compact_checkpoint_log ::
    "backup_env \<Rightarrow> file_io \<Rightarrow> backup_options \<Rightarrow> backup_checkpoint \<Rightarrow> unit job_step" where
  "compact_checkpoint_log E io options checkpoint =
     sbind (slift (rmap (compacted_entry E checkpoint) (bc_entries checkpoint))) (\<lambda>records.
     replace_checkpoint_records E io (bo_job_id options) (bv_to_vec E (wal_header checkpoint) # records))"

definition migrate_legacy_checkpoint ::
    "backup_env \<Rightarrow> file_io \<Rightarrow> backup_options \<Rightarrow> backup_checkpoint \<Rightarrow> backup_checkpoint job_step" where
  "migrate_legacy_checkpoint E io options checkpoint =
     (let checkpoint = checkpoint\<lparr>bc_record_count := u64_sat (vec_len (bc_entries checkpoint) + 1)\<rparr> in
      sbind (compact_checkpoint_log E io options checkpoint) (\<lambda>_. sret checkpoint))"

type_synonym replay_acc =
  "(relative_path, manifest_entry) fmap \<times> (relative_path, source_fingerprint) fmap \<times> backup_progress \<times> int"

definition replay_record :: "backup_env \<Rightarrow> bytes \<Rightarrow> replay_acc \<Rightarrow> core_error + replay_acc" where
  "replay_record E bytes = (\<lambda>(entries, fingerprints, progress, record_count).
     rbind (ok_or (bv_from_slice E bytes) CoreJson) (\<lambda>record.
     case record of
       Entry entry fingerprint recorded_progress \<Rightarrow>
         Inr (fmupd (me_path entry) entry entries, fmupd (me_path entry) fingerprint fingerprints,
           recorded_progress, u64_sat (record_count + 1))
     | Header _ _ _ \<Rightarrow> Inl (CoreInvalidState ''duplicate backup checkpoint header'')))"

definition replay_records ::
    "backup_env \<Rightarrow> string \<Rightarrow> string \<Rightarrow> bytes list \<Rightarrow> core_error + replay_acc" where
  "replay_records E source_canonical options_digest records =
     (case records of
        [] \<Rightarrow> Inl (CoreInvalidState ''empty backup checkpoint log'')
      | first # rest \<Rightarrow>
          rbind (ok_or (bv_from_slice E first) CoreJson) (\<lambda>header.
          rbind (fail_if (header \<noteq> Header BACKUP_WAL_SCHEMA_VERSION options_digest source_canonical)
            (CoreInvalidState ''backup checkpoint does not match this job'')) (\<lambda>_.
          rfold (replay_record E) rest (fmempty, fmempty, default_progress, 1))))"

definition entry_locators :: "manifest_entry list \<Rightarrow> string set" where
  "entry_locators entries = set (concat (map (\<lambda>e. map cr_opaque_locator (me_chunks e)) entries))"

definition replay_checkpoint_log ::
    "backup_env \<Rightarrow> file_io \<Rightarrow> backup_options \<Rightarrow> string \<Rightarrow> string \<Rightarrow> bytes list \<Rightarrow> backup_checkpoint job_step" where
  "replay_checkpoint_log E io options source_canonical options_digest records =
     sbind (slift (replay_records E source_canonical options_digest records))
       (\<lambda>(entries, fingerprints, progress, record_count).
     let entries = map snd (sorted_list_of_fmap entries);
         checkpoint = \<lparr>bc_schema_version = LEGACY_BACKUP_CHECKPOINT_SCHEMA_VERSION,
           bc_options_digest = options_digest, bc_source_canonical = source_canonical,
           bc_entries = entries, bc_fingerprints = fingerprints,
           bc_chunk_locators = entry_locators entries, bc_progress = progress,
           bc_record_count = record_count\<rparr>
     in
     sbind (if backup_checkpoint_needs_compaction checkpoint
       then compact_checkpoint_log E io options checkpoint else sret ()) (\<lambda>_.
     sret checkpoint))"

definition load_checkpoint ::
    "backup_env \<Rightarrow> file_io \<Rightarrow> file_io \<Rightarrow> file_io \<Rightarrow> backup_options \<Rightarrow> string \<Rightarrow> string
      \<Rightarrow> (backup_checkpoint \<times> bool) job_step" where
  "load_checkpoint E io_log io_legacy io_write options source_canonical options_digest =
     sbind (read_checkpoint_records E io_log (bo_job_id options)) (\<lambda>found.
     case found of
       Some records \<Rightarrow>
         sbind (replay_checkpoint_log E io_write options source_canonical options_digest records)
           (\<lambda>checkpoint. sret (checkpoint, True))
     | None \<Rightarrow>
         sbind (read_checkpoint io_legacy (bo_job_id options)) (\<lambda>legacy.
         case legacy of
           Some bytes \<Rightarrow>
             sbind (slift (ok_or (bv_legacy_from_slice E bytes) CoreJson)) (\<lambda>checkpoint.
             sbind (slift (fail_if (bc_schema_version checkpoint \<noteq> LEGACY_BACKUP_CHECKPOINT_SCHEMA_VERSION
               \<or> bc_options_digest checkpoint \<noteq> options_digest
               \<or> bc_source_canonical checkpoint \<noteq> source_canonical)
               (CoreInvalidState ''backup checkpoint does not match this job''))) (\<lambda>_.
             sbind (migrate_legacy_checkpoint E io_write options checkpoint) (\<lambda>checkpoint.
             sret (checkpoint, True))))
         | None \<Rightarrow>
             sret (\<lparr>bc_schema_version = LEGACY_BACKUP_CHECKPOINT_SCHEMA_VERSION,
               bc_options_digest = options_digest, bc_source_canonical = source_canonical,
               bc_entries = [], bc_fingerprints = fmempty, bc_chunk_locators = {},
               bc_progress = default_progress, bc_record_count = 0\<rparr>, False)))"

definition initialize_checkpoint_log ::
    "backup_env \<Rightarrow> file_io \<Rightarrow> backup_options \<Rightarrow> backup_checkpoint \<Rightarrow> backup_checkpoint job_step" where
  "initialize_checkpoint_log E io options checkpoint =
     sbind (append_checkpoint_record_with_durability E io (bo_job_id options)
       (bv_to_vec E (wal_header checkpoint)) True) (\<lambda>_.
     sret (checkpoint\<lparr>bc_record_count := 1\<rparr>))"

definition append_checkpoint_entry ::
    "backup_env \<Rightarrow> file_io \<Rightarrow> file_io \<Rightarrow> backup_options \<Rightarrow> backup_checkpoint \<Rightarrow> backup_checkpoint job_step" where
  "append_checkpoint_entry E io io_compact options checkpoint =
     sbind (slift (fail_if (bc_entries checkpoint = []) (CoreInvalidState ''missing completed backup entry''))) (\<lambda>_.
     let entry = last (bc_entries checkpoint) in
     sbind (slift (ok_or (fmlookup (bc_fingerprints checkpoint) (me_path entry))
       (CoreInvalidState ''missing source fingerprint''))) (\<lambda>fingerprint.
     let next_record_count = u64_sat (bc_record_count checkpoint + 1) in
     sbind (append_checkpoint_record_with_durability E io (bo_job_id options)
       (bv_to_vec E (Entry entry fingerprint (bc_progress checkpoint)))
       (next_record_count mod BACKUP_WAL_SYNC_INTERVAL = 0)) (\<lambda>_.
     let checkpoint = checkpoint\<lparr>bc_record_count := next_record_count\<rparr> in
     if backup_checkpoint_needs_compaction checkpoint
     then sbind (compact_checkpoint_log E io_compact options checkpoint) (\<lambda>_.
       sret (checkpoint\<lparr>bc_record_count := u64_sat (vec_len (bc_entries checkpoint) + 1)\<rparr>))
     else sret checkpoint)))"

definition check_control_with_durable_checkpoint ::
    "backup_env \<Rightarrow> file_io \<Rightarrow> core_error + unit \<Rightarrow> string \<Rightarrow> unit job_step" where
  "check_control_with_durable_checkpoint E io control job_id =
     (case control of
        Inr _ \<Rightarrow> sret ()
      | Inl error \<Rightarrow>
          if error = JobPaused \<or> error = JobCancelled
          then sbind (sync_checkpoint_records E io job_id) (\<lambda>_. sfail error)
          else sfail error)"

section \<open>The scan of a backup job\<close>

text \<open>
  The parts of \<open>scan_source_with_chunk_sink\<close> that touch the checkpoint: its start, an entry taken over
  from the checkpoint, and an entry that was read. What the walk of the directory and the reading of a
  file deliver are arguments.
\<close>

definition begin_scan ::
    "backup_env \<Rightarrow> file_io \<Rightarrow> file_io \<Rightarrow> file_io \<Rightarrow> backup_options \<Rightarrow> string
      \<Rightarrow> (backup_checkpoint \<times> (relative_path, manifest_entry) fmap
          \<times> (relative_path, source_fingerprint) fmap) job_step" where
  "begin_scan E io_log io_legacy io_write options source_canonical =
     sbind (load_checkpoint E io_log io_legacy io_write options source_canonical
       (bv_options_digest E options)) (\<lambda>(checkpoint, resumed).
     let reusable = fmap_of_list (rev (map (\<lambda>e. (me_path e, e)) (bc_entries checkpoint)));
         reusable_fingerprints = bc_fingerprints checkpoint;
         checkpoint = checkpoint\<lparr>bc_entries := [], bc_fingerprints := fmempty, bc_chunk_locators := {},
           bc_progress := (bc_progress checkpoint)\<lparr>bp_current_path := None, bp_entries_completed := 0,
             bp_symlinks_skipped := 0\<rparr>\<rparr>
     in
     sbind (if resumed then sret checkpoint
       else initialize_checkpoint_log E io_write options checkpoint) (\<lambda>checkpoint.
     sret (checkpoint, reusable, reusable_fingerprints)))"

definition reusable_entry_matches :: "manifest_entry \<Rightarrow> source_fingerprint \<Rightarrow> source_fingerprint \<Rightarrow> bool" where
  "reusable_entry_matches entry fingerprint current \<longleftrightarrow>
     fp_kind current = me_kind entry \<and> fingerprint = current"

definition reuse_entry ::
    "(relative_path, manifest_entry) fmap \<Rightarrow> (relative_path, source_fingerprint) fmap
      \<Rightarrow> relative_path \<Rightarrow> source_fingerprint \<Rightarrow> backup_checkpoint \<Rightarrow> backup_checkpoint option" where
  "reuse_entry reusable reusable_fingerprints relative current checkpoint =
     (case (fmlookup reusable relative, fmlookup reusable_fingerprints relative) of
        (Some existing, Some fingerprint) \<Rightarrow>
          if reusable_entry_matches existing fingerprint current
          then Some (checkpoint\<lparr>
            bc_chunk_locators := bc_chunk_locators checkpoint \<union> entry_locators [existing],
            bc_entries := bc_entries checkpoint @ [existing],
            bc_fingerprints := fmupd relative current (bc_fingerprints checkpoint),
            bc_progress := (bc_progress checkpoint)\<lparr>
              bp_entries_completed := bp_entries_completed (bc_progress checkpoint) + 1\<rparr>\<rparr>)
          else None
      | _ \<Rightarrow> None)"

definition push_entry :: "manifest_entry \<Rightarrow> source_fingerprint \<Rightarrow> backup_checkpoint \<Rightarrow> backup_checkpoint" where
  "push_entry entry fingerprint checkpoint = checkpoint\<lparr>
     bc_chunk_locators := bc_chunk_locators checkpoint \<union> entry_locators [entry],
     bc_entries := bc_entries checkpoint @ [entry],
     bc_fingerprints := fmupd (me_path entry) fingerprint (bc_fingerprints checkpoint),
     bc_progress := (bc_progress checkpoint)\<lparr>
       bp_entries_completed := bp_entries_completed (bc_progress checkpoint) + 1, bp_current_path := None\<rparr>\<rparr>"

definition complete_entry ::
    "backup_env \<Rightarrow> file_io \<Rightarrow> file_io \<Rightarrow> backup_options \<Rightarrow> manifest_entry \<Rightarrow> source_fingerprint
      \<Rightarrow> backup_checkpoint \<Rightarrow> backup_checkpoint job_step" where
  "complete_entry E io io_compact options entry fingerprint checkpoint =
     append_checkpoint_entry E io io_compact options (push_entry entry fingerprint checkpoint)"

section \<open>What the log of a job recovers\<close>

text \<open>The documented law of \<open>serde_json\<close> on a record, and that it fits a frame.\<close>

definition codec_ok :: "backup_env \<Rightarrow> wal_record \<Rightarrow> bool" where
  "codec_ok E r \<longleftrightarrow> bv_from_slice E (bv_to_vec E r) = Some r
     \<and> record_fits MAX_CHECKPOINT_BYTES (bv_to_vec E r)"

definition run_codec_ok :: "backup_env \<Rightarrow> backup_checkpoint \<Rightarrow> bool" where
  "run_codec_ok E cp \<longleftrightarrow> codec_ok E (wal_header cp)
     \<and> (\<forall>e \<in> set (bc_entries cp). \<forall>fp. fmlookup (bc_fingerprints cp) (me_path e) = Some fp
          \<longrightarrow> codec_ok E (Entry e fp (bc_progress cp)))"

text \<open>A log without a torn tail that replays for the job, and one that the next read turns into such a log.\<close>

definition clean_log :: "backup_env \<Rightarrow> string \<Rightarrow> string \<Rightarrow> bytes option \<Rightarrow> replay_acc \<Rightarrow> bool" where
  "clean_log E source digest f acc \<longleftrightarrow> (\<exists>raws. f = Some (log_bytes (bv_hash E) raws)
     \<and> (\<forall>r \<in> set raws. record_fits MAX_CHECKPOINT_BYTES r)
     \<and> vec_len (log_bytes (bv_hash E) raws) \<le> MAX_CHECKPOINT_LOG_BYTES
     \<and> replay_records E source digest raws = Inr acc)"

definition log_recovers :: "backup_env \<Rightarrow> string \<Rightarrow> string \<Rightarrow> bytes option \<Rightarrow> replay_acc \<Rightarrow> bool" where
  "log_recovers E source digest f acc \<longleftrightarrow> (\<exists>raws f'.
     read_record_log (bv_hash E) healthy_io MAX_CHECKPOINT_BYTES MAX_CHECKPOINT_LOG_BYTES f = (Inr (Some raws), f')
     \<and> clean_log E source digest f' acc \<and> replay_records E source digest raws = Inr acc)"

text \<open>Every entry the run has completed, with its fingerprint.\<close>

definition acc_covers :: "replay_acc \<Rightarrow> backup_checkpoint \<Rightarrow> bool" where
  "acc_covers acc cp \<longleftrightarrow> (\<forall>e \<in> set (bc_entries cp). fmlookup (fst acc) (me_path e) = Some e
     \<and> fmlookup (fst (snd acc)) (me_path e) = fmlookup (bc_fingerprints cp) (me_path e))"

text \<open>The log holds, or the next read of it recovers, everything a run has completed.\<close>

definition log_records :: "backup_env \<Rightarrow> backup_checkpoint \<Rightarrow> bytes option \<Rightarrow> bool" where
  "log_records E cp f \<longleftrightarrow>
     (\<exists>acc. clean_log E (bc_source_canonical cp) (bc_options_digest cp) f acc \<and> acc_covers acc cp)"

definition log_safe :: "backup_env \<Rightarrow> backup_checkpoint \<Rightarrow> bytes option \<Rightarrow> bool" where
  "log_safe E cp f \<longleftrightarrow>
     (\<exists>acc. log_recovers E (bc_source_canonical cp) (bc_options_digest cp) f acc \<and> acc_covers acc cp)"

lemma checkpoint_limits [simp]:
  "MAX_CHECKPOINT_LOG_BYTES < 18446744073709551615" "MAX_CHECKPOINT_BYTES \<le> 4294967295"
  by (simp_all add: MAX_CHECKPOINT_LOG_BYTES_def MAX_CHECKPOINT_BYTES_def)

lemma clean_logI:
  assumes "\<forall>r \<in> set raws. record_fits MAX_CHECKPOINT_BYTES r"
    "vec_len (log_bytes (bv_hash E) raws) \<le> MAX_CHECKPOINT_LOG_BYTES"
    "replay_records E source digest raws = Inr acc"
  shows "clean_log E source digest (Some (log_bytes (bv_hash E) raws)) acc"
  using assms unfolding clean_log_def by blast

lemma clean_log_recovers:
  assumes "hash_width (bv_hash E)" "clean_log E source digest f acc"
  shows "log_recovers E source digest f acc"
proof -
  obtain raws where raws: "f = Some (log_bytes (bv_hash E) raws)"
      "\<forall>r \<in> set raws. record_fits MAX_CHECKPOINT_BYTES r"
      "vec_len (log_bytes (bv_hash E) raws) \<le> MAX_CHECKPOINT_LOG_BYTES"
      "replay_records E source digest raws = Inr acc"
    using assms(2) by (auto simp: clean_log_def)
  with read_clean[OF assms(1) raws(2,3)] assms(2) show ?thesis
    unfolding log_recovers_def by (intro exI[of _ raws] exI[of _ f]) simp
qed

lemma replay_records_snoc:
  assumes "replay_records E source digest raws = Inr (entries, fps, progress, n)"
    "codec_ok E (Entry e fp p)"
  shows "replay_records E source digest (raws @ [bv_to_vec E (Entry e fp p)]) =
    Inr (fmupd (me_path e) e entries, fmupd (me_path e) fp fps, p, u64_sat (n + 1))"
  using assms
  by (cases raws) (auto simp: replay_records_def replay_record_def rfold_append codec_ok_def)

lemma swp_with_lock:
  assumes "\<And>e. Q (Inl e) s" "swp m (\<lambda>r f. Q r (s\<lparr>jf_log := f\<rparr>)) (jf_log s)"
  shows "swp (with_lock E job_id (on_log m)) Q s"
  unfolding with_lock_def using assms
  by (intro swp_intros) (auto simp: swp_def on_log_def split: prod.splits)

text \<open>The records a compaction writes replay to exactly the entries of the run.\<close>

lemma replay_compacted:
  assumes "distinct (map me_path es)" "rmap (compacted_entry E cp) es = Inr records"
    "\<forall>e \<in> set es. \<forall>fp. fmlookup (bc_fingerprints cp) (me_path e) = Some fp
       \<longrightarrow> codec_ok E (Entry e fp (bc_progress cp))"
  shows "(\<forall>r \<in> set records. record_fits MAX_CHECKPOINT_BYTES r)
    \<and> (\<exists>acc'. rfold (replay_record E) records acc = Inr acc'
      \<and> (\<forall>e \<in> set es. fmlookup (fst acc') (me_path e) = Some e
          \<and> fmlookup (fst (snd acc')) (me_path e) = fmlookup (bc_fingerprints cp) (me_path e))
      \<and> (\<forall>x. x \<notin> me_path ` set es \<longrightarrow> fmlookup (fst acc') x = fmlookup (fst acc) x
          \<and> fmlookup (fst (snd acc')) x = fmlookup (fst (snd acc)) x))"
  using assms
proof (induction es arbitrary: records acc)
  case (Cons e es)
  obtain entries fps p n where acc: "acc = (entries, fps, p, n)" by (cases acc)
  from Cons.prems(2) obtain r rs where r: "compacted_entry E cp e = Inr r" "records = r # rs"
    and rs: "rmap (compacted_entry E cp) es = Inr rs"
    by auto
  then obtain fp where fp: "fmlookup (bc_fingerprints cp) (me_path e) = Some fp"
    and records: "records = bv_to_vec E (Entry e fp (bc_progress cp)) # rs"
    by (auto simp: compacted_entry_def)
  have codec: "codec_ok E (Entry e fp (bc_progress cp))" using Cons.prems(3) fp by simp
  let ?acc = "(fmupd (me_path e) e entries, fmupd (me_path e) fp fps, bc_progress cp, u64_sat (n + 1))"
  have step: "rfold (replay_record E) records acc = rfold (replay_record E) rs ?acc"
    using codec by (simp add: records acc replay_record_def codec_ok_def)
  have "distinct (map me_path es)" "me_path e \<notin> me_path ` set es" using Cons.prems(1) by auto
  with Cons.IH[OF this(1) rs, of ?acc] Cons.prems(3) step codec records fp acc show ?case
    by (auto simp: codec_ok_def)
qed (cases acc; simp)

lemma compaction_replays:
  assumes "distinct (map me_path (bc_entries cp))" "run_codec_ok E cp"
    "rmap (compacted_entry E cp) (bc_entries cp) = Inr records"
  shows "\<exists>acc. replay_records E (bc_source_canonical cp) (bc_options_digest cp)
      (bv_to_vec E (wal_header cp) # records) = Inr acc
    \<and> acc_covers acc cp \<and> fmdom' (fst acc) = me_path ` set (bc_entries cp)
    \<and> (\<forall>r \<in> set (bv_to_vec E (wal_header cp) # records). record_fits MAX_CHECKPOINT_BYTES r)"
proof -
  let ?acc0 = "(fmempty, fmempty, default_progress, 1) :: replay_acc"
  from replay_compacted[OF assms(1,3), of ?acc0] assms(2)
  obtain acc where acc: "rfold (replay_record E) records ?acc0 = Inr acc" "acc_covers acc cp"
    "\<forall>x. x \<notin> me_path ` set (bc_entries cp) \<longrightarrow> fmlookup (fst acc) x = None"
    "\<forall>r \<in> set records. record_fits MAX_CHECKPOINT_BYTES r"
    by (auto simp: run_codec_ok_def acc_covers_def)
  have "fmdom' (fst acc) = me_path ` set (bc_entries cp)"
    using acc(2,3) by (fastforce simp: acc_covers_def fmlookup_dom'_iff)
  with acc assms(2) show ?thesis
    by (auto simp: replay_records_def run_codec_ok_def codec_ok_def wal_header_def)
qed

text \<open>A compaction leaves the log alone or makes it hold exactly the entries of the run.\<close>

lemma compact_recovers:
  assumes "hash_width (bv_hash E)" "distinct (map me_path (bc_entries cp))" "run_codec_ok E cp"
  shows "swp (compact_checkpoint_log E io options cp) (\<lambda>res s'.
     (jf_log s' = jf_log s \<or> log_records E cp (jf_log s'))
     \<and> (res = Inr () \<longrightarrow> (\<exists>acc. clean_log E (bc_source_canonical cp) (bc_options_digest cp) (jf_log s') acc
        \<and> acc_covers acc cp \<and> fmdom' (fst acc) = me_path ` set (bc_entries cp)))) s"
    (is "swp _ ?Q s")
  unfolding compact_checkpoint_log_def
proof (intro swp_intros)
  fix records assume "rmap (compacted_entry E cp) (bc_entries cp) = Inr records"
  from compaction_replays[OF assms(2,3) this] obtain acc where acc:
    "replay_records E (bc_source_canonical cp) (bc_options_digest cp) (bv_to_vec E (wal_header cp) # records) = Inr acc"
    "acc_covers acc cp" "fmdom' (fst acc) = me_path ` set (bc_entries cp)"
    "\<forall>r \<in> set (bv_to_vec E (wal_header cp) # records). record_fits MAX_CHECKPOINT_BYTES r"
    by blast
  note written = clean_logI[OF acc(4) _ acc(1)]
  show "swp (replace_checkpoint_records E io (bo_job_id options) (bv_to_vec E (wal_header cp) # records)) ?Q s"
    unfolding replace_checkpoint_records_def
    by (rule swp_with_lock, simp, rule swp_mono[OF rewrite_atomic[OF assms(1) checkpoint_limits(1)]])
      (use written acc(2,3) in \<open>simp del: split_paired_Ex add: log_records_def, blast\<close>)
qed simp

lemma append_checkpoint_recovers:
  assumes "hash_width (bv_hash E)" "clean_log E source digest (jf_log s) acc" "acc = (entries, fps, progress, n)"
    "codec_ok E (Entry e fp p)"
  defines "acc' \<equiv> (fmupd (me_path e) e entries, fmupd (me_path e) fp fps, p, u64_sat (n + 1))"
  shows "swp (append_checkpoint_record_with_durability E io job_id (bv_to_vec E (Entry e fp p)) durable)
    (\<lambda>res s'. (log_recovers E source digest (jf_log s') acc \<or> log_recovers E source digest (jf_log s') acc')
      \<and> (res = Inr () \<longrightarrow> clean_log E source digest (jf_log s') acc')) s"
    (is "swp _ ?Q s")
proof -
  let ?H = "bv_hash E" and ?r = "bv_to_vec E (Entry e fp p)"
  obtain raws where raws: "jf_log s = Some (log_bytes ?H raws)"
      "\<forall>r \<in> set raws. record_fits MAX_CHECKPOINT_BYTES r"
      "vec_len (log_bytes ?H raws) \<le> MAX_CHECKPOINT_LOG_BYTES"
      "replay_records E source digest raws = Inr acc"
    using assms(2) by (auto simp: clean_log_def)
  have replay: "replay_records E source digest (raws @ [?r]) = Inr acc'"
    using replay_records_snoc[OF raws(4)[unfolded assms(3)] assms(4)] by (simp add: acc'_def)
  have magic: "length RECORD_LOG_MAGIC \<le> length (log_bytes ?H raws)" by (simp add: log_bytes_def)
  have grown: "?Q res (s\<lparr>jf_log := Some (log_bytes ?H raws @ take k (record_frame ?H ?r))\<rparr>)"
    if k: "k \<le> length (record_frame ?H ?r)"
      "k = 0 \<or> record_fits MAX_CHECKPOINT_BYTES ?r
        \<and> vec_len (log_bytes ?H raws @ record_frame ?H ?r) \<le> MAX_CHECKPOINT_LOG_BYTES"
      "res = Inr () \<longrightarrow> k = length (record_frame ?H ?r)" for res k
  proof (cases "k = length (record_frame ?H ?r)")
    case True
    with k(2) length_record_frame[OF assms(1), of ?r]
    have "vec_len (log_bytes ?H (raws @ [?r])) \<le> MAX_CHECKPOINT_LOG_BYTES" "record_fits MAX_CHECKPOINT_BYTES ?r"
      by (auto simp: log_bytes_def)
    then have "clean_log E source digest (Some (log_bytes ?H (raws @ [?r]))) acc'"
      using raws(2) replay by (intro clean_logI) auto
    with True clean_log_recovers[OF assms(1)] show ?thesis by (simp add: log_bytes_def)
  next
    case False
    with read_extension[OF assms(1) raws(2,3) k(1,2)] raws assms(2) k(3)
    have "log_recovers E source digest (Some (log_bytes ?H raws @ take k (record_frame ?H ?r))) acc"
      by (auto simp: log_recovers_def)
    with False k(3) show ?thesis by auto
  qed
  show ?thesis
    unfolding append_checkpoint_record_with_durability_def
  proof (rule swp_with_lock)
    show "?Q (Inl e) s" for e using clean_log_recovers[OF assms(1,2)] by simp
    show "swp (append_record_log ?H io (checkpoint_log_path E job_id) ?r MAX_CHECKPOINT_BYTES
        MAX_CHECKPOINT_LOG_BYTES True durable) (\<lambda>r f. ?Q r (s\<lparr>jf_log := f\<rparr>)) (jf_log s)"
      unfolding raws(1)
      by (rule swp_mono[OF append_extends[OF magic _ assms(1)]]) (use grown in \<open>simp, blast\<close>)
  qed
qed

lemma covers_push:
  assumes "acc_covers (entries, fps, progress, n) cp" "me_path entry \<notin> me_path ` set (bc_entries cp)"
  shows "acc_covers (fmupd (me_path entry) entry entries, fmupd (me_path entry) fp fps, p, k) cp"
    and "acc_covers (fmupd (me_path entry) entry entries, fmupd (me_path entry) fp fps, p, k) (push_entry entry fp cp)"
  using assms by (auto simp: acc_covers_def push_entry_def)

lemma push_entry_simps [simp]:
  "bc_entries (push_entry entry fp cp) = bc_entries cp @ [entry]"
  "bc_fingerprints (push_entry entry fp cp) = fmupd (me_path entry) fp (bc_fingerprints cp)"
  "bc_source_canonical (push_entry entry fp cp) = bc_source_canonical cp"
  "bc_options_digest (push_entry entry fp cp) = bc_options_digest cp"
  by (simp_all add: push_entry_def)

text \<open>Neither the covered entries nor what compaction writes depends on the record count.\<close>

lemma record_count_irrelevant [simp]:
  "acc_covers acc (cp\<lparr>bc_record_count := n\<rparr>) = acc_covers acc cp"
  "run_codec_ok E (cp\<lparr>bc_record_count := n\<rparr>) = run_codec_ok E cp"
  "log_records E (cp\<lparr>bc_record_count := n\<rparr>) f = log_records E cp f"
  "log_safe E (cp\<lparr>bc_record_count := n\<rparr>) f = log_safe E cp f"
  by (simp_all add: acc_covers_def run_codec_ok_def wal_header_def log_records_def log_safe_def)

lemma append_pushed_entry:
  assumes "hash_width (bv_hash E)" "log_records E cp (jf_log s)"
    "me_path entry \<notin> me_path ` set (bc_entries cp)" "run_codec_ok E (push_entry entry fp cp)"
  shows "swp (append_checkpoint_record_with_durability E io job_id
      (bv_to_vec E (Entry entry fp (bc_progress (push_entry entry fp cp)))) durable)
    (\<lambda>res t. log_safe E cp (jf_log t) \<and> (res = Inr () \<longrightarrow> log_records E (push_entry entry fp cp) (jf_log t))) s"
proof -
  obtain acc where clean: "clean_log E (bc_source_canonical cp) (bc_options_digest cp) (jf_log s) acc"
    and acc_cp: "acc_covers acc cp"
    using assms(2) by (auto simp: log_records_def)
  obtain entries fps progress n where acc: "acc = (entries, fps, progress, n)" by (cases acc)
  have codec: "codec_ok E (Entry entry fp (bc_progress (push_entry entry fp cp)))"
    using assms(4) by (simp add: run_codec_ok_def)
  note covers = covers_push[OF acc_cp[unfolded acc] assms(3)]
  show ?thesis
    by (rule swp_mono[OF append_checkpoint_recovers[OF assms(1) clean acc codec]])
      (use covers acc_cp in \<open>simp del: split_paired_Ex add: log_safe_def log_records_def, blast\<close>)
qed

section \<open>A small job\<close>

text \<open>One job with one file, used to show that the hypotheses above can hold.\<close>

definition demo_entry :: manifest_entry where
  "demo_entry = \<lparr>me_path = ''a'', me_kind = File, me_length = 0, me_chunks = [],
     me_metadata = \<lparr>em_modified_at_unix_ms = None, em_unix_mode = None, em_sparse = False\<rparr>,
     me_sparse_extents = []\<rparr>"

definition demo_fingerprint :: source_fingerprint where
  "demo_fingerprint = \<lparr>fp_kind = File, fp_length = 0, fp_modified_at_unix_ms = None, fp_unix_device = None,
     fp_unix_inode = None, fp_unix_change_time_seconds = None, fp_unix_change_time_nanoseconds = None,
     fp_unix_mode = None\<rparr>"

definition demo_checkpoint :: "int \<Rightarrow> backup_checkpoint" where
  "demo_checkpoint n = \<lparr>bc_schema_version = 2, bc_options_digest = ''d'', bc_source_canonical = ''/src'',
     bc_entries = [], bc_fingerprints = fmempty, bc_chunk_locators = {}, bc_progress = default_progress,
     bc_record_count = n\<rparr>"

definition demo_record :: wal_record where
  "demo_record = Entry demo_entry demo_fingerprint (default_progress\<lparr>bp_entries_completed := 1\<rparr>)"

definition demo_backup_env :: backup_env where
  "demo_backup_env = \<lparr>bv_hash = \<lambda>_. replicate 32 (CHR 0x00), bv_root = ''/store'', bv_lock = True,
     bv_maximum_chunk_size = 4,
     bv_to_vec = \<lambda>r. case r of Header _ _ _ \<Rightarrow> ''h'' | Entry _ _ _ \<Rightarrow> ''e'',
     bv_from_slice = \<lambda>bs. if bs = ''h'' then Some (Header 3 ''d'' ''/src'') else Some demo_record,
     bv_legacy_from_slice = \<lambda>_. None, bv_options_digest = \<lambda>_. ''d''\<rparr>"

definition demo_backup_options :: backup_options where
  "demo_backup_options = \<lparr>bo_backup_id = 7, bo_display_name = ''Backup'', bo_snapshot_id = ''s-1'',
     bo_key_epoch = 1, bo_replica_intent = \<lparr>selected_providers = []\<rparr>, bo_chunking = \<lparr>minimum_size = 1, average_size = 2, maximum_size = 4\<rparr>,
     bo_exclusions = [], bo_symlink_policy = Reject, bo_job_id = ''job'', bo_created_at_unix_ms = 0\<rparr>"

definition demo_files :: job_files where
  "demo_files = \<lparr>jf_legacy = None, jf_log = Some (log_bytes (\<lambda>_. replicate 32 (CHR 0x00)) [''h''])\<rparr>"

lemma demo_hash_width: "hash_width (bv_hash demo_backup_env)"
  by (simp add: demo_backup_env_def hash_width_def RECORD_CHECKSUM_BYTES_def)

lemma demo_log_size: "vec_len (log_bytes (bv_hash demo_backup_env) [bv_to_vec demo_backup_env (wal_header (demo_checkpoint n))]) = 42"
  by (simp add: demo_backup_env_def vec_len_def log_bytes_def record_frame_def Let_def record_checksum_def
      RECORD_LOG_MAGIC_def wal_header_def)

lemma demo_clean_log:
  "clean_log demo_backup_env ''/src'' ''d'' (jf_log demo_files) (fmempty, fmempty, default_progress, 1)"
proof -
  have "replay_records demo_backup_env ''/src'' ''d'' [''h''] = Inr (fmempty, fmempty, default_progress, 1)"
    by (simp add: replay_records_def demo_backup_env_def BACKUP_WAL_SCHEMA_VERSION_def)
  then show ?thesis
    using clean_logI[of "[''h'']" demo_backup_env] demo_log_size[of 0]
    by (simp add: demo_files_def demo_backup_env_def wal_header_def record_fits_def vec_len_def
        MAX_CHECKPOINT_BYTES_def MAX_CHECKPOINT_LOG_BYTES_def)
qed

lemma demo_log_records: "log_records demo_backup_env (demo_checkpoint n) (jf_log demo_files)"
  using demo_clean_log unfolding log_records_def
  by (intro exI[of _ "(fmempty, fmempty, default_progress, 1)"]) (simp add: demo_checkpoint_def acc_covers_def)

lemma demo_codec: "run_codec_ok demo_backup_env (push_entry demo_entry demo_fingerprint (demo_checkpoint n))"
  by (simp add: run_codec_ok_def codec_ok_def wal_header_def push_entry_def demo_checkpoint_def
      demo_backup_env_def demo_record_def BACKUP_WAL_SCHEMA_VERSION_def record_fits_def vec_len_def
      MAX_CHECKPOINT_BYTES_def default_progress_def)

text \<open>
  C36. Compaction keeps the entries of the current run and nothing else. When recording an entry
  compacts the log, the log afterwards recovers exactly the entries this run has completed: entries of
  the checkpoint the run resumed from that the walk has not reached yet are no longer in it.
\<close>

theorem compaction_keeps_only_this_run:
  assumes "hash_width (bv_hash E)" "log_records E cp (jf_log s)"
    "distinct (map me_path (bc_entries cp @ [entry]))" "run_codec_ok E (push_entry entry fp cp)"
    "backup_checkpoint_needs_compaction ((push_entry entry fp cp)\<lparr>bc_record_count := u64_sat (bc_record_count cp + 1)\<rparr>)"
    "complete_entry E io io_compact options entry fp cp s = (Inr cp', s')"
  shows "\<exists>acc. log_recovers E (bc_source_canonical cp) (bc_options_digest cp) (jf_log s') acc
    \<and> fmdom' (fst acc) = me_path ` set (bc_entries cp @ [entry])"
proof -
  let ?cp = "push_entry entry fp cp"
  let ?Q = "\<lambda>res t. res = Inr cp' \<longrightarrow> (\<exists>acc. log_recovers E (bc_source_canonical cp) (bc_options_digest cp) (jf_log t) acc
    \<and> fmdom' (fst acc) = me_path ` set (bc_entries cp @ [entry]))"
  have fresh: "me_path entry \<notin> me_path ` set (bc_entries cp)" using assms(3) by auto
  have compact: "swp (sbind (compact_checkpoint_log E io_compact options (?cp\<lparr>bc_record_count := j\<rparr>))
      (\<lambda>_. sret (?cp\<lparr>bc_record_count := j, bc_record_count := k\<rparr>))) ?Q t" for j k t
  proof (rule swp_bind_step[OF compact_recovers[OF assms(1)]], goal_cases)
    case (4 x t)
    then obtain acc where "clean_log E (bc_source_canonical cp) (bc_options_digest cp) (jf_log t) acc"
      "fmdom' (fst acc) = me_path ` set (bc_entries cp @ [entry])"
      by (auto simp del: split_paired_Ex)
    with clean_log_recovers[OF assms(1)] show ?case by (simp del: split_paired_Ex) blast
  qed (use assms(3,4) in simp_all)
  have count: "bc_record_count ?cp = bc_record_count cp" by (simp add: push_entry_def)
  have "swp (complete_entry E io io_compact options entry fp cp) ?Q s"
    unfolding complete_entry_def append_checkpoint_entry_def Let_def
  proof (intro swp_bind_slift, goal_cases)
    case (3 x fp')
    then have fp: "fp' = fp" "last (bc_entries ?cp) = entry" by simp_all
    show ?case unfolding fp
      by (rule swp_bind_step[OF append_pushed_entry[OF assms(1,2) fresh assms(4)]])
        (use compact assms(5) count in auto)
  qed simp_all
  from swpD[OF this assms(6)] show ?thesis by simp
qed

theorem compaction_keeps_only_this_run_witness:
  "\<exists>cp' s' acc. complete_entry demo_backup_env healthy_io healthy_io demo_backup_options demo_entry demo_fingerprint
       (demo_checkpoint 5000) demo_files = (Inr cp', s')
     \<and> log_recovers demo_backup_env ''/src'' ''d'' (jf_log s') acc \<and> fmdom' (fst acc) = {''a''}"
proof -
  have "is_ok (fst (complete_entry demo_backup_env healthy_io healthy_io demo_backup_options demo_entry
      demo_fingerprint (demo_checkpoint 5000) demo_files))"
    by code_simp
  then obtain cp' s' where run: "complete_entry demo_backup_env healthy_io healthy_io demo_backup_options demo_entry
      demo_fingerprint (demo_checkpoint 5000) demo_files = (Inr cp', s')"
    by (cases "complete_entry demo_backup_env healthy_io healthy_io demo_backup_options demo_entry
      demo_fingerprint (demo_checkpoint 5000) demo_files") (auto simp: is_ok_iff)
  have "backup_checkpoint_needs_compaction ((push_entry demo_entry demo_fingerprint (demo_checkpoint 5000))
      \<lparr>bc_record_count := u64_sat (bc_record_count (demo_checkpoint 5000) + 1)\<rparr>)"
    by code_simp
  from compaction_keeps_only_this_run[OF demo_hash_width demo_log_records _ demo_codec this run] run
  show ?thesis by (auto simp: demo_checkpoint_def demo_entry_def simp del: split_paired_Ex)
qed

text \<open>What is left of a log whose creation stopped before its first record was complete.\<close>

definition cut_log :: "backup_env \<Rightarrow> backup_checkpoint \<Rightarrow> nat \<Rightarrow> bytes option \<Rightarrow> bool" where
  "cut_log E cp n f \<longleftrightarrow> (\<exists>n' \<le> n. f = Some (take n' (log_bytes (bv_hash E) [bv_to_vec E (wal_header cp)])))"

lemma load_cut_log:
  assumes "hash_width (bv_hash E)" "record_fits MAX_CHECKPOINT_BYTES (bv_to_vec E (wal_header cp))"
    "n < length (log_bytes (bv_hash E) [bv_to_vec E (wal_header cp)])" "cut_log E cp n (jf_log s)"
  shows "swp (load_checkpoint E io_log io_legacy io_write options source digest)
    (\<lambda>res t. (\<exists>e. res = Inl e) \<and> cut_log E cp n (jf_log t)) s"
proof -
  let ?log = "log_bytes (bv_hash E) [bv_to_vec E (wal_header cp)]"
  obtain n' where n': "n' \<le> n" "jf_log s = Some (take n' ?log)" using assms(4) by (auto simp: cut_log_def)
  then have "n' < length ?log" using assms(3) by simp
  note cut = swp_mono[OF read_cut_log[OF assms(1,2) this]]
  have "cut_log E cp n (Some (take k ?log))" if "k \<le> n'" for k
    using that n'(1) by (auto simp: cut_log_def intro: order_trans)
  then have read: "swp (read_checkpoint_records E io_log (bo_job_id options)) (\<lambda>res t.
      ((\<exists>e. res = Inl e) \<or> res = Inr (Some [])) \<and> cut_log E cp n (jf_log t)) s"
    unfolding read_checkpoint_records_def
    by (intro swp_with_lock) (use assms(4) n'(2) in \<open>auto intro!: cut\<close>)
  show ?thesis
    unfolding load_checkpoint_def
    by (rule swp_bind_step[OF read])
      (auto simp: replay_checkpoint_log_def replay_records_def sbind_steps swp_sbind)
qed

text \<open>
  C37. An interrupted creation of the log blocks the job. When the first record of a new job is written
  and the write stops after any number of bytes short of all of it, a partial log stays behind; and
  with a partial log, loading the checkpoint fails whatever the operating system does, and leaves a
  partial log again.
\<close>

theorem interrupted_creation_blocks_job:
  assumes "hash_width (bv_hash E)" "record_fits MAX_CHECKPOINT_BYTES (bv_to_vec E (wal_header cp))"
    "n < length (log_bytes (bv_hash E) [bv_to_vec E (wal_header cp)])"
    "vec_len (log_bytes (bv_hash E) [bv_to_vec E (wal_header cp)]) \<le> MAX_CHECKPOINT_LOG_BYTES"
    "validate_job_id (bo_job_id options) = Inr ()" "bv_lock E"
    "path_has_parent (checkpoint_log_path E (bo_job_id options))" "jf_log s = None"
  shows "(\<exists>e t. initialize_checkpoint_log E (healthy_io\<lparr>fi_room := Some n\<rparr>) options cp s = (Inl e, t)
      \<and> cut_log E cp n (jf_log t))
    \<and> (\<forall>t io_log io_legacy io_write source digest. cut_log E cp n (jf_log t) \<longrightarrow>
        (\<exists>e t'. load_checkpoint E io_log io_legacy io_write options source digest t = (Inl e, t')
          \<and> cut_log E cp n (jf_log t')))"
proof -
  let ?r = "bv_to_vec E (wal_header cp)"
  from append_creating_cut[OF assms(1,2,7) checkpoint_limits(1) assms(4,3), of True True]
  obtain e where "append_record_log (bv_hash E) (healthy_io\<lparr>fi_room := Some n\<rparr>)
      (checkpoint_log_path E (bo_job_id options)) ?r MAX_CHECKPOINT_BYTES MAX_CHECKPOINT_LOG_BYTES True True None =
      (Inl e, Some (take n (log_bytes (bv_hash E) [?r])))"
    by blast
  then have "initialize_checkpoint_log E (healthy_io\<lparr>fi_room := Some n\<rparr>) options cp s =
      (Inl e, s\<lparr>jf_log := Some (take n (log_bytes (bv_hash E) [?r]))\<rparr>)"
    using assms(5,6,8)
    by (simp add: initialize_checkpoint_log_def append_checkpoint_record_with_durability_def
        with_lock_def step_simps on_log_def sbind_def)
  then have created: "\<exists>e t. initialize_checkpoint_log E (healthy_io\<lparr>fi_room := Some n\<rparr>) options cp s = (Inl e, t)
      \<and> cut_log E cp n (jf_log t)"
    by (auto simp: cut_log_def)
  have "\<exists>e t'. load_checkpoint E io_log io_legacy io_write options source digest t = (Inl e, t')
      \<and> cut_log E cp n (jf_log t')"
    if "cut_log E cp n (jf_log t)" for t io_log io_legacy io_write source digest
    using load_cut_log[OF assms(1-3) that, of io_log io_legacy io_write options source digest]
    by (auto simp: swp_def split: prod.splits)
  with created show ?thesis by blast
qed

theorem interrupted_creation_blocks_job_witness:
  "\<exists>e t. initialize_checkpoint_log demo_backup_env (healthy_io\<lparr>fi_room := Some 9\<rparr>) demo_backup_options
       (demo_checkpoint 0) \<lparr>jf_legacy = None, jf_log = None\<rparr> = (Inl e, t)
     \<and> (\<exists>e' t'. load_checkpoint demo_backup_env healthy_io healthy_io healthy_io demo_backup_options ''/src'' ''d'' t = (Inl e', t'))"
proof -
  have "record_fits MAX_CHECKPOINT_BYTES (bv_to_vec demo_backup_env (wal_header (demo_checkpoint 0)))"
    "validate_job_id (bo_job_id demo_backup_options) = Inr ()"
    "path_has_parent (checkpoint_log_path demo_backup_env (bo_job_id demo_backup_options))"
    by code_simp+
  moreover have "bv_lock demo_backup_env" by (simp add: demo_backup_env_def)
  moreover have "9 < length (log_bytes (bv_hash demo_backup_env) [bv_to_vec demo_backup_env (wal_header (demo_checkpoint 0))])"
    using demo_log_size[of 0] by (simp add: vec_len_def)
  ultimately show ?thesis
    using interrupted_creation_blocks_job[OF demo_hash_width, of "demo_checkpoint 0" 9 demo_backup_options
        "\<lparr>jf_legacy = None, jf_log = None\<rparr>"] demo_log_size[of 0]
    by (auto simp: MAX_CHECKPOINT_LOG_BYTES_def) blast
qed

end
