(* ===== verification/Backup_Run.thy ===== *)
theory Backup_Run
  imports Backup_Checkpoint "HOL-Library.Countable"
begin

text \<open>
  One run of \<open>scan_source_with_chunk_sink\<close> (\<open>covalent-core/src/backup.rs\<close>): the body of its loop over
  the walked directory as one step on the files of the job, and what the write-ahead log holds after
  any number of steps and any failure. The content of a log is described on its bytes, by the frames
  and the records they decode to, without the functions that read and replay it.
\<close>

section \<open>The loop over the walked directory\<close>

text \<open>
  What the walk delivers in one iteration: an entry that is passed over (the root, an excluded one), a
  symbolic link, or an entry with its path, the fingerprint of its metadata, the answer of the sink for
  the chunks of a reused entry, and what reading it yields with the progress reached by then.
\<close>

datatype walked =
    Excluded
  | Symlink relative_path path
  | Walked relative_path source_fingerprint "core_error + unit"
      "core_error + manifest_entry \<times> source_fingerprint \<times> backup_progress" file_io file_io

record scan_item =
  si_control :: "core_error + unit"
  si_control_io :: file_io
  si_walked :: "core_error + walked"

abbreviation at_path :: "relative_path \<Rightarrow> backup_checkpoint \<Rightarrow> backup_checkpoint" where
  "at_path relative checkpoint \<equiv>
     checkpoint\<lparr>bc_progress := (bc_progress checkpoint)\<lparr>bp_current_path := Some relative\<rparr>\<rparr>"

definition visit_entry ::
    "backup_env \<Rightarrow> backup_options \<Rightarrow> (relative_path, manifest_entry) fmap
      \<Rightarrow> (relative_path, source_fingerprint) fmap \<Rightarrow> relative_path \<Rightarrow> source_fingerprint \<Rightarrow> core_error + unit
      \<Rightarrow> core_error + manifest_entry \<times> source_fingerprint \<times> backup_progress \<Rightarrow> file_io \<Rightarrow> file_io
      \<Rightarrow> backup_checkpoint \<Rightarrow> backup_checkpoint job_step" where
  "visit_entry E options reusable reusable_fingerprints relative current sink delivered io io_compact checkpoint =
     (case reuse_entry reusable reusable_fingerprints relative current checkpoint of
        Some checkpoint' \<Rightarrow> sbind (slift sink) (\<lambda>_. sret checkpoint')
      | None \<Rightarrow>
          sbind (slift delivered) (\<lambda>(manifest_entry, fingerprint, progress).
          complete_entry E io io_compact options (manifest_entry\<lparr>me_path := relative\<rparr>) fingerprint
            (checkpoint\<lparr>bc_progress := progress\<rparr>)))"

definition scan_entry ::
    "backup_env \<Rightarrow> backup_options \<Rightarrow> (relative_path, manifest_entry) fmap
      \<Rightarrow> (relative_path, source_fingerprint) fmap \<Rightarrow> scan_item \<Rightarrow> backup_checkpoint \<Rightarrow> backup_checkpoint job_step" where
  "scan_entry E options reusable reusable_fingerprints item checkpoint =
     sbind (check_control_with_durable_checkpoint E (si_control_io item) (si_control item) (bo_job_id options)) (\<lambda>_.
     sbind (slift (si_walked item)) (\<lambda>entry.
     case entry of
       Excluded \<Rightarrow> sret checkpoint
     | Symlink relative path \<Rightarrow>
         (case bo_symlink_policy options of
            Reject \<Rightarrow> sfail (UnsupportedSourceEntry path)
          | Skip \<Rightarrow>
              let checkpoint = at_path relative checkpoint in
              sret (checkpoint\<lparr>bc_progress := (bc_progress checkpoint)\<lparr>
                bp_symlinks_skipped := bp_symlinks_skipped (bc_progress checkpoint) + 1\<rparr>\<rparr>))
     | Walked relative current sink delivered io io_compact \<Rightarrow>
         visit_entry E options reusable reusable_fingerprints relative current sink delivered io io_compact
           (at_path relative checkpoint)))"

definition scan_entries ::
    "backup_env \<Rightarrow> backup_options \<Rightarrow> (relative_path, manifest_entry) fmap
      \<Rightarrow> (relative_path, source_fingerprint) fmap \<Rightarrow> scan_item list \<Rightarrow> backup_checkpoint \<Rightarrow> backup_checkpoint job_step" where
  "scan_entries E options reusable reusable_fingerprints items =
     sfold (scan_entry E options reusable reusable_fingerprints) items"

text \<open>The paths of the entries an iteration or a walk reads or reuses.\<close>

definition item_paths :: "scan_item \<Rightarrow> relative_path list" where
  "item_paths item = (case si_walked item of Inr (Walked relative _ _ _ _ _) \<Rightarrow> [relative] | _ \<Rightarrow> [])"

definition walked_paths :: "scan_item list \<Rightarrow> relative_path list" where
  "walked_paths items = concat (map item_paths items)"

section \<open>The content of a log\<close>

type_synonym entry_record = "manifest_entry \<times> source_fingerprint \<times> backup_progress"

text \<open>The documented law of \<open>serde_json\<close>: a record reads back from what it was written as.\<close>

definition json_ok :: "backup_env \<Rightarrow> bool" where
  "json_ok E \<longleftrightarrow> (\<forall>r. bv_from_slice E (bv_to_vec E r) = Some r)"

text \<open>The payloads of a header of the job followed by the given entries.\<close>

definition holds_records :: "backup_env \<Rightarrow> string \<Rightarrow> string \<Rightarrow> entry_record list \<Rightarrow> bytes list \<Rightarrow> bool" where
  "holds_records E source digest recs raws \<longleftrightarrow>
     map (bv_from_slice E) raws = Some (Header 3 digest source) # map (\<lambda>(e, fp, p). Some (Entry e fp p)) recs
     \<and> (\<forall>r \<in> set raws. record_fits MAX_CHECKPOINT_BYTES r)"

definition wal_file :: "backup_env \<Rightarrow> string \<Rightarrow> string \<Rightarrow> entry_record list \<Rightarrow> bytes option \<Rightarrow> bool" where
  "wal_file E source digest recs f \<longleftrightarrow> (\<exists>raws. f = Some (log_bytes (bv_hash E) raws)
     \<and> holds_records E source digest recs raws
     \<and> vec_len (log_bytes (bv_hash E) raws) \<le> MAX_CHECKPOINT_LOG_BYTES)"

text \<open>The same with the part of one more frame that a stopped write can leave.\<close>

definition wal_holds :: "backup_env \<Rightarrow> string \<Rightarrow> string \<Rightarrow> entry_record list \<Rightarrow> bytes option \<Rightarrow> bool" where
  "wal_holds E source digest recs f \<longleftrightarrow> (\<exists>raws r k.
     f = Some (log_bytes (bv_hash E) raws @ take k (record_frame (bv_hash E) r))
     \<and> k < length (record_frame (bv_hash E) r) \<and> record_fits MAX_CHECKPOINT_BYTES r
     \<and> holds_records E source digest recs raws
     \<and> vec_len (log_bytes (bv_hash E) raws @ take k (record_frame (bv_hash E) r)) \<le> MAX_CHECKPOINT_LOG_BYTES)"

text \<open>The last record of a path.\<close>

definition latest :: "entry_record list \<Rightarrow> relative_path \<Rightarrow> (manifest_entry \<times> source_fingerprint) option" where
  "latest recs = map_of (rev (map (\<lambda>(e, fp, p). (me_path e, (e, fp))) recs))"

lemma latest_simps [simp]:
  "latest [] = Map.empty"
  "latest (recs @ [(e, fp, p)]) = (latest recs)(me_path e \<mapsto> (e, fp))"
  by (simp_all add: latest_def)

lemma latest_path: "latest recs path = Some (e, fp) \<Longrightarrow> me_path e = path"
  by (auto simp: latest_def dest!: map_of_SomeD)

lemma dom_latest: "dom (latest recs) = me_path ` fst ` set recs"
  by (auto simp: latest_def dom_map_of_conv_image_fst image_iff) force+

lemma frame_nonempty: "hash_width H \<Longrightarrow> 0 < length (record_frame H r)"
  using length_record_frame[of H r] by simp

lemma wal_file_holds:
  assumes "hash_width (bv_hash E)" "wal_file E source digest recs f"
  shows "wal_holds E source digest recs f"
proof -
  obtain raws where raws: "f = Some (log_bytes (bv_hash E) raws)" "holds_records E source digest recs raws"
      "vec_len (log_bytes (bv_hash E) raws) \<le> MAX_CHECKPOINT_LOG_BYTES"
    using assms(2) by (auto simp: wal_file_def)
  then obtain r where "record_fits MAX_CHECKPOINT_BYTES r"
    by (cases raws) (auto simp: holds_records_def)
  with raws frame_nonempty[OF assms(1)] show ?thesis
    unfolding wal_holds_def by (intro exI[of _ raws] exI[of _ r] exI[of _ 0]) simp
qed

section \<open>Resuming\<close>

lemma replay_holds_acc:
  assumes "map (bv_from_slice E) raws = map (\<lambda>(e, fp, p). Some (Entry e fp p)) recs"
  shows "\<exists>entries fps p n. rfold (replay_record E) raws (fmempty, fmempty, default_progress, 1) = Inr (entries, fps, p, n)
    \<and> (\<forall>path. fmlookup entries path = map_option fst (latest recs path))
    \<and> (\<forall>path. fmlookup fps path = map_option snd (latest recs path))
    \<and> n \<le> 1 + int (length recs) \<and> n \<le> 18446744073709551615"
  using assms
proof (induction recs arbitrary: raws rule: rev_induct)
  case (snoc x recs)
  obtain e fp p where x: "x = (e, fp, p)" by (cases x)
  from snoc.prems obtain raws' r where raws: "raws = raws' @ [r]"
      "map (bv_from_slice E) raws' = map (\<lambda>(e, fp, p). Some (Entry e fp p)) recs"
      "bv_from_slice E r = Some (Entry e fp p)"
    by (auto simp: x map_eq_append_conv)
  have step: "replay_record E r (entries, fps, q, n) =
      Inr (fmupd (me_path e) e entries, fmupd (me_path e) fp fps, p, u64_sat (n + 1))" for entries fps q n
    using raws(3) by (simp add: replay_record_def)
  from snoc.IH[OF raws(2)] obtain entries fps q n where
    "rfold (replay_record E) raws' (fmempty, fmempty, default_progress, 1) = Inr (entries, fps, q, n)"
    "\<forall>path. fmlookup entries path = map_option fst (latest recs path)"
    "\<forall>path. fmlookup fps path = map_option snd (latest recs path)"
    "n \<le> 1 + int (length recs)" "n \<le> 18446744073709551615"
    by auto
  then show ?case
    by (auto simp: x raws(1) rfold_append step u64_sat_def)
qed simp

lemma replay_holds:
  assumes "holds_records E source digest recs raws"
  shows "\<exists>entries fps p n. replay_records E source digest raws = Inr (entries, fps, p, n)
    \<and> (\<forall>path. fmlookup entries path = map_option fst (latest recs path))
    \<and> (\<forall>path. fmlookup fps path = map_option snd (latest recs path))
    \<and> n \<le> 1 + int (length recs) \<and> n \<le> 18446744073709551615"
proof -
  from assms obtain h rest where raws: "raws = h # rest" "bv_from_slice E h = Some (Header 3 digest source)"
      "map (bv_from_slice E) rest = map (\<lambda>(e, fp, p). Some (Entry e fp p)) recs"
    by (cases raws) (auto simp: holds_records_def)
  with replay_holds_acc[OF raws(3)] show ?thesis
    by (simp add: replay_records_def BACKUP_WAL_SCHEMA_VERSION_def)
qed

lemma replay_other_job:
  assumes "holds_records E source digest recs raws" "(source', digest') \<noteq> (source, digest)"
  shows "replay_records E source' digest' raws = Inl (CoreInvalidState ''backup checkpoint does not match this job'')"
  using assms by (cases raws) (auto simp: holds_records_def replay_records_def)

text \<open>The entries of the checkpoint a replay builds, one per path.\<close>

lemma length_entries:
  assumes "\<forall>path. fmlookup entries path = map_option fst (latest recs path)"
  shows "length (sorted_list_of_fmap entries) = card (me_path ` fst ` set recs)"
proof -
  have "set (map fst (sorted_list_of_fmap entries)) = dom (latest recs)"
  proof (rule set_eqI)
    fix path
    have "path \<in> set (map fst (sorted_list_of_fmap entries)) \<longleftrightarrow> (\<exists>v. (path, v) \<in> set (sorted_list_of_fmap entries))"
      by force
    then show "path \<in> set (map fst (sorted_list_of_fmap entries)) \<longleftrightarrow> path \<in> dom (latest recs)"
      using assms by (simp add: set_sorted_list_of_fmap dom_def)
  qed
  with distinct_card[OF distinct_sorted_list_of_fmap[of entries]] show ?thesis
    by (simp add: dom_latest)
qed

lemma entries_latest:
  assumes "\<forall>path. fmlookup entries path = map_option fst (latest recs path)"
  shows "distinct (map me_path (map snd (sorted_list_of_fmap entries)))"
    and "e \<in> set (map snd (sorted_list_of_fmap entries)) \<longleftrightarrow> (\<exists>fp. latest recs (me_path e) = Some (e, fp))"
proof -
  have key: "me_path v = k" if "(k, v) \<in> set (sorted_list_of_fmap entries)" for k v
    using that assms by (auto simp: set_sorted_list_of_fmap dest: latest_path)
  then have "map me_path (map snd (sorted_list_of_fmap entries)) = map fst (sorted_list_of_fmap entries)"
    by auto
  then show "distinct (map me_path (map snd (sorted_list_of_fmap entries)))"
    by (simp only: distinct_sorted_list_of_fmap)
  have "e \<in> set (map snd (sorted_list_of_fmap entries)) \<longleftrightarrow> (\<exists>k. (k, e) \<in> set (sorted_list_of_fmap entries))"
    by force
  also have "\<dots> \<longleftrightarrow> (\<exists>fp. latest recs (me_path e) = Some (e, fp))"
    using assms latest_path by (fastforce simp: set_sorted_list_of_fmap)
  finally show "e \<in> set (map snd (sorted_list_of_fmap entries)) \<longleftrightarrow> (\<exists>fp. latest recs (me_path e) = Some (e, fp))" .
qed

text \<open>
  C35. Resuming returns what was completed, and only to the job that completed it. When the log of a
  job holds the header of the job and records of entries, with or without a torn tail, loading the
  checkpoint returns for every path in them exactly the entry and the fingerprint of the last record of
  the path, and takes the torn tail off the log. For another source or other options it is refused. The
  number of superseded records is within what loading accepts without a compaction: 4096, or half the
  number of paths when this is more.
\<close>

theorem resume_returns_completed:
  assumes "hash_width (bv_hash E)" "wal_holds E source digest recs (jf_log s)"
    "length recs \<le> card (me_path ` fst ` set recs) + max 4096 (card (me_path ` fst ` set recs) div 2)"
    "validate_job_id (bo_job_id options) = Inr ()" "bv_lock E"
  shows "(\<exists>cp s'. load_checkpoint E healthy_io io_legacy io_write options source digest s = (Inr (cp, True), s')
      \<and> wal_file E source digest recs (jf_log s')
      \<and> bc_options_digest cp = digest \<and> bc_source_canonical cp = source
      \<and> distinct (map me_path (bc_entries cp))
      \<and> (\<forall>e. e \<in> set (bc_entries cp) \<longleftrightarrow> (\<exists>fp. latest recs (me_path e) = Some (e, fp)))
      \<and> (\<forall>path. fmlookup (bc_fingerprints cp) path = map_option snd (latest recs path)))
    \<and> (\<forall>source' digest'. (source', digest') \<noteq> (source, digest) \<longrightarrow>
        fst (load_checkpoint E healthy_io io_legacy io_write options source' digest' s)
          = Inl (CoreInvalidState ''backup checkpoint does not match this job''))"
proof -
  let ?H = "bv_hash E"
  obtain raws r k where log: "jf_log s = Some (log_bytes ?H raws @ take k (record_frame ?H r))"
      "k < length (record_frame ?H r)" "record_fits MAX_CHECKPOINT_BYTES r"
    and holds: "holds_records E source digest recs raws"
    and size: "vec_len (log_bytes ?H raws @ take k (record_frame ?H r)) \<le> MAX_CHECKPOINT_LOG_BYTES"
    using assms(2) by (auto simp: wal_holds_def)
  let ?s = "s\<lparr>jf_log := Some (log_bytes ?H raws)\<rparr>"
  have read: "read_checkpoint_records E healthy_io (bo_job_id options) s = (Inr (Some raws), ?s)"
    using read_recovers[OF assms(1) _ log(3,2) size] holds assms(4,5)
    by (simp add: read_checkpoint_records_def with_lock_def log_steps on_log_def log(1) holds_records_def)
  have clean: "wal_file E source digest recs (Some (log_bytes ?H raws))"
    using holds size by (auto simp: wal_file_def vec_len_def)
  from replay_holds[OF holds] obtain entries fps p n where
    replay: "replay_records E source digest raws = Inr (entries, fps, p, n)"
    and acc: "\<forall>path. fmlookup entries path = map_option fst (latest recs path)"
      "\<forall>path. fmlookup fps path = map_option snd (latest recs path)"
    and count: "n \<le> 1 + int (length recs)" "n \<le> 18446744073709551615"
    by auto
  let ?es = "map snd (sorted_list_of_fmap entries)"
  have "\<not> backup_checkpoint_needs_compaction cp" if "bc_entries cp = ?es" "bc_record_count cp = n" for cp
    using that count assms(3) length_entries[OF acc(1)]
    by (auto simp: backup_checkpoint_needs_compaction_def BACKUP_WAL_COMPACTION_STALE_RECORDS_def
        Let_def vec_len_def u64_sat_def)
  then have load: "load_checkpoint E healthy_io io_legacy io_write options source digest s =
      (Inr (\<lparr>bc_schema_version = LEGACY_BACKUP_CHECKPOINT_SCHEMA_VERSION, bc_options_digest = digest,
        bc_source_canonical = source, bc_entries = ?es, bc_fingerprints = fps,
        bc_chunk_locators = entry_locators ?es, bc_progress = p, bc_record_count = n\<rparr>, True), ?s)"
    by (simp add: load_checkpoint_def read replay_checkpoint_log_def replay sbind_def step_simps Let_def)
  have "fst (load_checkpoint E healthy_io io_legacy io_write options source' digest' s)
      = Inl (CoreInvalidState ''backup checkpoint does not match this job'')"
    if "(source', digest') \<noteq> (source, digest)" for source' digest'
    using replay_other_job[OF holds that]
    by (simp add: load_checkpoint_def read replay_checkpoint_log_def sbind_def step_simps)
  with load clean entries_latest[OF acc(1)] acc(2) show ?thesis by simp
qed

section \<open>What each operation leaves in the log\<close>

lemma decode_records:
  assumes "rfold (replay_record E) raws acc = Inr acc'"
  shows "\<exists>recs. map (bv_from_slice E) raws = map (\<lambda>(e, fp, p). Some (Entry e fp p)) recs"
  using assms
proof (induction raws arbitrary: acc)
  case (Cons r raws)
  obtain entries fps p n where acc: "acc = (entries, fps, p, n)" by (cases acc)
  from Cons.prems obtain acc'' where step: "replay_record E r (entries, fps, p, n) = Inr acc''"
    and rest: "rfold (replay_record E) raws acc'' = Inr acc'"
    by (auto simp: acc elim: rbindE)
  from step obtain e fp q where r: "bv_from_slice E r = Some (Entry e fp q)"
    by (auto simp: replay_record_def ok_or_def split: option.splits wal_record.splits)
  from Cons.IH[OF rest] obtain recs where "map (bv_from_slice E) raws = map (\<lambda>(e, fp, p). Some (Entry e fp p)) recs"
    by blast
  with r show ?case by (intro exI[of _ "(e, fp, q) # recs"]) simp
qed simp

lemma replay_decodes:
  assumes "replay_records E source digest raws = Inr acc" "\<forall>r \<in> set raws. record_fits MAX_CHECKPOINT_BYTES r"
  shows "\<exists>recs. holds_records E source digest recs raws"
proof -
  obtain h rest where raws: "raws = h # rest"
    using assms(1) by (cases raws) (auto simp: replay_records_def)
  with assms(1) have h: "bv_from_slice E h = Some (Header 3 digest source)"
    and rest: "rfold (replay_record E) rest (fmempty, fmempty, default_progress, 1) = Inr acc"
    by (auto simp: replay_records_def BACKUP_WAL_SCHEMA_VERSION_def ok_or_def fail_if_def
        split: option.splits if_splits)
  from decode_records[OF rest] h assms(2) raws show ?thesis by (auto simp: holds_records_def)
qed

lemma append_logged:
  assumes "hash_width (bv_hash E)" "json_ok E" "wal_file E source digest recs (jf_log s)"
  shows "swp (append_checkpoint_record_with_durability E io job_id (bv_to_vec E (Entry e fp p)) durable)
    (\<lambda>res t. (wal_holds E source digest recs (jf_log t) \<or> wal_file E source digest (recs @ [(e, fp, p)]) (jf_log t))
      \<and> (res = Inr () \<longrightarrow> wal_file E source digest (recs @ [(e, fp, p)]) (jf_log t))) s"
    (is "swp _ ?Q s")
proof -
  let ?H = "bv_hash E" and ?r = "bv_to_vec E (Entry e fp p)"
  obtain raws where raws: "jf_log s = Some (log_bytes ?H raws)" "holds_records E source digest recs raws"
      "vec_len (log_bytes ?H raws) \<le> MAX_CHECKPOINT_LOG_BYTES"
    using assms(3) by (auto simp: wal_file_def)
  have grown: "?Q res (s\<lparr>jf_log := Some (log_bytes ?H raws @ take k (record_frame ?H ?r))\<rparr>)"
    if k: "k \<le> length (record_frame ?H ?r)"
      "k = 0 \<or> record_fits MAX_CHECKPOINT_BYTES ?r
        \<and> vec_len (log_bytes ?H raws @ record_frame ?H ?r) \<le> MAX_CHECKPOINT_LOG_BYTES"
      "res = Inr () \<longrightarrow> k = length (record_frame ?H ?r)" for res k
  proof -
    consider "k = 0" | "0 < k" "k < length (record_frame ?H ?r)" | "0 < k" "k = length (record_frame ?H ?r)"
      using k(1) by linarith
    then show ?thesis
    proof cases
      case 1
      with k(3) frame_nonempty[OF assms(1), of ?r] wal_file_holds[OF assms(1,3)] raws(1) show ?thesis by auto
    next
      case 2
      with k(2) raws(2) have "wal_holds E source digest recs (Some (log_bytes ?H raws @ take k (record_frame ?H ?r)))"
        unfolding wal_holds_def by (intro exI[of _ raws] exI[of _ ?r] exI[of _ k]) (auto simp: vec_len_def)
      with 2 k(3) show ?thesis by auto
    next
      case 3
      with k(2) raws(2) assms(2) have "holds_records E source digest (recs @ [(e, fp, p)]) (raws @ [?r])"
        "vec_len (log_bytes ?H (raws @ [?r])) \<le> MAX_CHECKPOINT_LOG_BYTES"
        by (auto simp: holds_records_def json_ok_def log_bytes_def)
      then have "wal_file E source digest (recs @ [(e, fp, p)]) (Some (log_bytes ?H (raws @ [?r])))"
        by (auto simp: wal_file_def)
      with 3 show ?thesis by (simp add: log_bytes_def)
    qed
  qed
  have magic: "length RECORD_LOG_MAGIC \<le> length (log_bytes ?H raws)" by (simp add: log_bytes_def)
  show ?thesis
    unfolding append_checkpoint_record_with_durability_def
  proof (rule swp_with_lock)
    show "?Q (Inl e) s" for e using wal_file_holds[OF assms(1,3)] by simp
    show "swp (append_record_log ?H io (checkpoint_log_path E job_id) ?r MAX_CHECKPOINT_BYTES
        MAX_CHECKPOINT_LOG_BYTES True durable) (\<lambda>r f. ?Q r (s\<lparr>jf_log := f\<rparr>)) (jf_log s)"
      unfolding raws(1)
      by (rule swp_mono[OF append_extends[OF magic _ assms(1)]]) (use grown in \<open>simp, blast\<close>)
  qed
qed

lemma compacted_records:
  assumes "rmap (compacted_entry E cp) es = Inr records"
  shows "\<exists>recs. records = map (\<lambda>(e, fp, p). bv_to_vec E (Entry e fp p)) recs \<and> map fst recs = es
    \<and> (\<forall>(e, fp, p) \<in> set recs. fmlookup (bc_fingerprints cp) (me_path e) = Some fp)"
  using assms
proof (induction es arbitrary: records)
  case (Cons e es)
  from Cons.prems obtain x rs where x: "compacted_entry E cp e = Inr x" "records = x # rs"
    and rs: "rmap (compacted_entry E cp) es = Inr rs"
    by auto
  then obtain fp where r: "fmlookup (bc_fingerprints cp) (me_path e) = Some fp"
      "records = bv_to_vec E (Entry e fp (bc_progress cp)) # rs"
    by (auto simp: compacted_entry_def)
  from Cons.IH[OF rs] obtain recs where "rs = map (\<lambda>(e, fp, p). bv_to_vec E (Entry e fp p)) recs"
      "map fst recs = es" "\<forall>(e, fp, p) \<in> set recs. fmlookup (bc_fingerprints cp) (me_path e) = Some fp"
    by blast
  with r show ?case by (intro exI[of _ "(e, fp, bc_progress cp) # recs"]) auto
qed simp

lemma compact_leaves:
  assumes "hash_width (bv_hash E)" "json_ok E"
  shows "swp (compact_checkpoint_log E io options cp) (\<lambda>res t. jf_log t = jf_log s \<and> res \<noteq> Inr ()
     \<or> (\<exists>recs. wal_file E (bc_source_canonical cp) (bc_options_digest cp) recs (jf_log t)
        \<and> map fst recs = bc_entries cp
        \<and> (\<forall>(e, fp, p) \<in> set recs. fmlookup (bc_fingerprints cp) (me_path e) = Some fp))) s"
    (is "swp _ ?Q s")
  unfolding compact_checkpoint_log_def
proof (intro swp_intros)
  fix records assume "rmap (compacted_entry E cp) (bc_entries cp) = Inr records"
  from compacted_records[OF this] obtain recs where
    recs: "records = map (\<lambda>(e, fp, p). bv_to_vec E (Entry e fp p)) recs" "map fst recs = bc_entries cp"
      "\<forall>(e, fp, p) \<in> set recs. fmlookup (bc_fingerprints cp) (me_path e) = Some fp"
    by blast
  let ?raws = "bv_to_vec E (wal_header cp) # records"
  have decoded: "map (bv_from_slice E) ?raws = Some (Header 3 (bc_options_digest cp) (bc_source_canonical cp))
      # map (\<lambda>(e, fp, p). Some (Entry e fp p)) recs"
    using assms(2) by (auto simp: json_ok_def recs(1) wal_header_def BACKUP_WAL_SCHEMA_VERSION_def)
  have "wal_file E (bc_source_canonical cp) (bc_options_digest cp) recs (Some (log_bytes (bv_hash E) ?raws))"
    if "vec_len (log_bytes (bv_hash E) ?raws) \<le> MAX_CHECKPOINT_LOG_BYTES"
      "\<forall>r \<in> set ?raws. record_fits MAX_CHECKPOINT_BYTES r"
    using that decoded unfolding wal_file_def
    by (intro exI[of _ ?raws]) (simp only: holds_records_def simp_thms)
  then have replaced: "?Q res (s\<lparr>jf_log := Some (log_bytes (bv_hash E) ?raws)\<rparr>)"
    if "vec_len (log_bytes (bv_hash E) ?raws) \<le> MAX_CHECKPOINT_LOG_BYTES"
      "\<forall>r \<in> set ?raws. record_fits MAX_CHECKPOINT_BYTES r" for res
    using that recs(2,3) by (simp del: split_paired_Ex) blast
  show "swp (replace_checkpoint_records E io (bo_job_id options) ?raws) ?Q s"
    unfolding replace_checkpoint_records_def
    by (rule swp_with_lock, simp, rule swp_mono[OF rewrite_leaves[OF assms(1) checkpoint_limits]])
      (use replaced in \<open>fastforce simp del: split_paired_Ex\<close>)
qed simp

lemma latest_distinct:
  assumes "distinct (map me_path (map fst recs))" "(e, fp, p) \<in> set recs"
  shows "latest recs (me_path e) = Some (e, fp)"
  unfolding latest_def
proof (rule map_of_is_SomeI)
  have "map fst (map (\<lambda>(e, fp, p). (me_path e, (e, fp))) recs) = map me_path (map fst recs)" by auto
  with assms(1) show "distinct (map fst (rev (map (\<lambda>(e, fp, p). (me_path e, (e, fp))) recs)))"
    by (metis distinct_rev rev_map)
qed (use assms(2) in force)

section \<open>A run\<close>

lemma compact_logged:
  assumes "hash_width (bv_hash E)" "json_ok E"
  shows "swp (compact_checkpoint_log E io options cp) (\<lambda>res t. res = Inr () \<longrightarrow>
    (\<exists>recs. wal_file E (bc_source_canonical cp) (bc_options_digest cp) recs (jf_log t))) s"
  by (rule swp_mono[OF compact_leaves[OF assms]]) (auto simp del: split_paired_Ex)

lemma replay_logged:
  assumes "hash_width (bv_hash E)" "json_ok E" "jf_log s = Some (log_bytes (bv_hash E) raws)"
    "\<forall>r \<in> set raws. record_fits MAX_CHECKPOINT_BYTES r"
    "vec_len (log_bytes (bv_hash E) raws) \<le> MAX_CHECKPOINT_LOG_BYTES"
  shows "swp (replay_checkpoint_log E io options source digest raws) (\<lambda>res t. \<forall>cp. res = Inr cp \<longrightarrow>
    bc_source_canonical cp = source \<and> bc_options_digest cp = digest
    \<and> (\<exists>recs. wal_file E source digest recs (jf_log t))) s"
  unfolding replay_checkpoint_log_def
proof (intro swp_bind_slift, goal_cases)
  case (2 acc)
  obtain entries fps p n where acc: "acc = (entries, fps, p, n)" by (cases acc)
  from replay_decodes[OF 2 assms(4)] assms(3,5) have here: "\<exists>recs. wal_file E source digest recs (jf_log s)"
    by (auto simp: wal_file_def simp del: split_paired_Ex)
  have kept: "swp (if backup_checkpoint_needs_compaction cp then compact_checkpoint_log E io options cp else sret ())
      (\<lambda>res t. res = Inr () \<longrightarrow> (\<exists>recs. wal_file E (bc_source_canonical cp) (bc_options_digest cp) recs (jf_log t))) s"
    if "bc_source_canonical cp = source" "bc_options_digest cp = digest" for cp
    using compact_logged[OF assms(1,2), of io options cp s] here that by (simp del: split_paired_Ex)
  show ?case
    unfolding acc prod.case Let_def
    by (rule swp_bind_step[OF kept]) (auto simp del: split_paired_Ex)
qed simp

lemma load_leaves:
  assumes "hash_width (bv_hash E)" "json_ok E"
  shows "swp (load_checkpoint E io_log io_legacy io_write options source digest) (\<lambda>res t. \<forall>cp resumed.
     res = Inr (cp, resumed) \<longrightarrow> bc_source_canonical cp = source \<and> bc_options_digest cp = digest
       \<and> (if resumed then \<exists>recs. wal_file E source digest recs (jf_log t) else jf_log t = None)) s"
    (is "swp _ ?Q s")
proof -
  have read: "swp (read_checkpoint_records E io_log (bo_job_id options)) (\<lambda>res t. (\<forall>raws. res = Inr (Some raws) \<longrightarrow>
        jf_log t = Some (log_bytes (bv_hash E) raws) \<and> (\<forall>r \<in> set raws. record_fits MAX_CHECKPOINT_BYTES r)
        \<and> vec_len (log_bytes (bv_hash E) raws) \<le> MAX_CHECKPOINT_LOG_BYTES)
      \<and> (res = Inr None \<longrightarrow> jf_log t = None)) s"
    unfolding read_checkpoint_records_def
    by (rule swp_with_lock, simp, rule swp_mono[OF read_leaves[OF assms(1)]]) auto
  have legacy: "swp (read_checkpoint io_legacy (bo_job_id options)) (\<lambda>res t'. jf_log t' = jf_log t) t" for t
    by (auto simp: swp_def read_checkpoint_def on_legacy_def sbind_def step_simps split: sum.splits prod.splits if_splits)
  have migrated: "swp (sbind (migrate_legacy_checkpoint E io_write options cp) (\<lambda>checkpoint. sret (checkpoint, True))) ?Q t"
    if "bc_source_canonical cp = source" "bc_options_digest cp = digest" for cp t
    unfolding migrate_legacy_checkpoint_def Let_def swp_sbind[of _ "\<lambda>checkpoint. sret (checkpoint, True)"]
    by (rule swp_bind_step[OF compact_logged[OF assms]]) (use that in \<open>auto simp del: split_paired_Ex\<close>)
  show ?thesis
    unfolding load_checkpoint_def
  proof (rule swp_bind_step[OF read], simp, goal_cases)
    case (1 found t)
    then have none: "jf_log t = None" if "found = None" using that by simp
    from 1 show ?case
    proof (cases found)
      case None
      show ?thesis
        unfolding None option.case
      proof (rule swp_bind_step[OF legacy], simp, goal_cases)
        case (1 content t')
        show ?case
          by (cases content; simp only: option.case; (intro swp_bind_slift migrated)?)
            (use 1 none[OF None] in auto)
      qed
    next
      case (Some raws)
      then show ?thesis
        using 1 by (auto simp del: split_paired_Ex intro!: swp_bind_step[OF replay_logged[OF assms]])
    qed
  qed
qed

text \<open>A scan that has begun has a log of the job without a torn tail, and no entry yet.\<close>

lemma begin_leaves:
  assumes "hash_width (bv_hash E)" "json_ok E"
    "begin_scan E io_log io_legacy io_write options source s0 = (Inr (cp, reusable, fps), s)"
  shows "bc_source_canonical cp = source \<and> bc_options_digest cp = bv_options_digest E options \<and> bc_entries cp = []
    \<and> (\<exists>recs. wal_file E source (bv_options_digest E options) recs (jf_log s))
    \<and> (\<forall>path e. fmlookup reusable path = Some e \<longrightarrow> me_path e = path)"
proof -
  let ?digest = "bv_options_digest E options"
  let ?Q = "\<lambda>res t. \<forall>cp reusable fps. res = Inr (cp, reusable, fps) \<longrightarrow> bc_source_canonical cp = source
    \<and> bc_options_digest cp = ?digest \<and> bc_entries cp = []
    \<and> (\<exists>recs. wal_file E source ?digest recs (jf_log t))
    \<and> (\<forall>path e. fmlookup reusable path = Some e \<longrightarrow> me_path e = path)"
  have keyed: "fmlookup (fmap_of_list (rev (map (\<lambda>e. (me_path e, e)) es))) path = Some e \<Longrightarrow> me_path e = path"
    for es :: "manifest_entry list" and path e
    by (auto simp: fmlookup_of_list dest!: map_of_SomeD)
  have created: "swp (initialize_checkpoint_log E io_write options cp) (\<lambda>res t. \<forall>cp'. res = Inr cp' \<longrightarrow>
      bc_source_canonical cp' = source \<and> bc_options_digest cp' = ?digest \<and> bc_entries cp' = bc_entries cp
      \<and> (\<exists>recs. wal_file E source ?digest recs (jf_log t))) t"
    if cp: "bc_source_canonical cp = source" "bc_options_digest cp = ?digest" and none: "jf_log t = None" for cp t
  proof -
    let ?r = "bv_to_vec E (wal_header cp)"
    have "wal_file E source ?digest [] (Some (log_bytes (bv_hash E) [?r]))"
      if "record_fits MAX_CHECKPOINT_BYTES ?r" "vec_len (log_bytes (bv_hash E) [?r]) \<le> MAX_CHECKPOINT_LOG_BYTES"
      using that assms(2) cp unfolding wal_file_def
      by (intro exI[of _ "[?r]"]) (simp add: holds_records_def json_ok_def wal_header_def BACKUP_WAL_SCHEMA_VERSION_def)
    then have "swp (append_checkpoint_record_with_durability E io_write (bo_job_id options) ?r True)
        (\<lambda>res t. res = Inr () \<longrightarrow> (\<exists>recs. wal_file E source ?digest recs (jf_log t))) t"
      unfolding append_checkpoint_record_with_durability_def
      by (intro swp_with_lock) (auto simp: none simp del: split_paired_Ex
          intro!: swp_mono[OF append_to_none[OF assms(1) checkpoint_limits(1)]])
    then show ?thesis
      unfolding initialize_checkpoint_log_def
      by (rule swp_bind_step) (use cp in \<open>auto simp del: split_paired_Ex\<close>)
  qed
  have "swp (begin_scan E io_log io_legacy io_write options source) ?Q s0"
    unfolding begin_scan_def Let_def
  proof (rule swp_bind_step[OF load_leaves[OF assms(1,2)]], simp, goal_cases)
    case (1 x t)
    obtain cp resumed where x: "x = (cp, resumed)" by (cases x)
    show ?case
    proof (cases resumed)
      case True
      with 1 show ?thesis by (auto simp: x sbind_steps simp del: split_paired_Ex dest: keyed)
    next
      case False
      with 1 show ?thesis
        by (auto simp: x simp del: split_paired_Ex intro!: swp_bind_step[OF created] dest: keyed)
    qed
  qed
  from swpD[OF this assms(3)] show ?thesis by (simp del: split_paired_Ex)
qed

text \<open>
  Between two iterations of the loop: the paths visited so far, and the entries completed so far, which
  are in the checkpoint and the last records of their paths in the log.
\<close>

definition recorded :: "(manifest_entry \<times> source_fingerprint) set \<Rightarrow> entry_record list \<Rightarrow> bool" where
  "recorded C recs \<longleftrightarrow> (\<forall>(e, fp) \<in> C. latest recs (me_path e) = Some (e, fp))"

definition run_inv :: "backup_env \<Rightarrow> string \<Rightarrow> string \<Rightarrow> relative_path set
    \<Rightarrow> (manifest_entry \<times> source_fingerprint) set \<Rightarrow> backup_checkpoint \<Rightarrow> bytes option \<Rightarrow> bool" where
  "run_inv E source digest V C cp f \<longleftrightarrow> bc_source_canonical cp = source \<and> bc_options_digest cp = digest
     \<and> distinct (map me_path (bc_entries cp)) \<and> me_path ` set (bc_entries cp) \<subseteq> V
     \<and> (\<forall>(e, fp) \<in> C. e \<in> set (bc_entries cp) \<and> fmlookup (bc_fingerprints cp) (me_path e) = Some fp)
     \<and> (\<exists>recs. wal_file E source digest recs f \<and> recorded C recs)"

definition run_safe :: "backup_env \<Rightarrow> string \<Rightarrow> string
    \<Rightarrow> (manifest_entry \<times> source_fingerprint) set \<Rightarrow> bytes option \<Rightarrow> bool" where
  "run_safe E source digest C f \<longleftrightarrow> (\<exists>recs. wal_holds E source digest recs f \<and> recorded C recs)"

lemma run_inv_safe: "hash_width (bv_hash E) \<Longrightarrow> run_inv E source digest V C cp f \<Longrightarrow> run_safe E source digest C f"
  unfolding run_inv_def run_safe_def using wal_file_holds by blast

lemma run_inv_mono: "run_inv E source digest V C cp f \<Longrightarrow> V \<subseteq> V' \<Longrightarrow> C' \<subseteq> C \<Longrightarrow> run_inv E source digest V' C' cp f"
  unfolding run_inv_def recorded_def by (auto simp del: split_paired_Ex) blast+

lemma run_inv_irrelevant [simp]:
  "run_inv E source digest V C (cp\<lparr>bc_progress := p\<rparr>) f = run_inv E source digest V C cp f"
  "run_inv E source digest V C (cp\<lparr>bc_record_count := n\<rparr>) f = run_inv E source digest V C cp f"
  by (simp_all add: run_inv_def)

lemma recorded_snoc:
  assumes "recorded C recs" "\<And>x y. (x, y) \<in> C \<Longrightarrow> me_path x \<noteq> me_path e"
  shows "recorded (insert (e, fp) C) (recs @ [(e, fp, p)])"
  using assms by (auto simp: recorded_def)

lemma recorded_compacted:
  assumes "distinct (map me_path (map fst recs))" "\<forall>(x, y, z) \<in> set recs. F (me_path x) = Some y"
    "\<forall>(x, y) \<in> C. x \<in> set (map fst recs) \<and> F (me_path x) = Some y"
  shows "recorded C recs"
  unfolding recorded_def
proof clarify
  fix x y assume "(x, y) \<in> C"
  from bspec[OF assms(3) this] obtain y' z where "(x, y', z) \<in> set recs" "F (me_path x) = Some y" by auto
  with latest_distinct[OF assms(1) this(1)] assms(2) show "latest recs (me_path x) = Some (x, y)" by fastforce
qed

lemma run_inv_push:
  assumes "run_inv E source digest V C cp f" "me_path e \<notin> V"
    "wal_file E source digest recs f'" "recorded (insert (e, fp) C) recs"
  shows "run_inv E source digest (insert (me_path e) V) (insert (e, fp) C) (push_entry e fp cp) f'"
proof -
  have "x \<in> set (bc_entries cp)" "fmlookup (bc_fingerprints cp) (me_path x) = Some y" "me_path x \<noteq> me_path e"
    if "(x, y) \<in> C" for x y
    using that assms(1,2) by (fastforce simp: run_inv_def)+
  then have "\<forall>(x, y) \<in> insert (e, fp) C. x \<in> set (bc_entries (push_entry e fp cp))
      \<and> fmlookup (bc_fingerprints (push_entry e fp cp)) (me_path x) = Some y"
    by fastforce
  with assms show ?thesis by (auto simp: run_inv_def simp del: split_paired_Ex)
qed

text \<open>A compaction keeps every entry the checkpoint has, or leaves the log alone.\<close>

lemma compact_step:
  assumes "hash_width (bv_hash E)" "json_ok E" "run_inv E source digest V C cp (jf_log s)"
  shows "swp (compact_checkpoint_log E io options cp) (\<lambda>res t. run_inv E source digest V C cp (jf_log t)) s"
proof (rule swp_mono[OF compact_leaves[OF assms(1,2)]], goal_cases)
  case (1 res t)
  have "recorded C recs" if "map fst recs = bc_entries cp"
      "\<forall>(x, y, z) \<in> set recs. fmlookup (bc_fingerprints cp) (me_path x) = Some y" for recs
    using recorded_compacted[OF _ that(2)] assms(3) unfolding run_inv_def that(1) by blast
  with 1(2) assms(3) show ?case
    unfolding run_inv_def by (auto simp del: split_paired_Ex)
qed

lemma append_step:
  assumes "hash_width (bv_hash E)" "json_ok E" "run_inv E source digest V C cp (jf_log s)" "me_path e \<notin> V"
  shows "swp (append_checkpoint_record_with_durability E io job_id (bv_to_vec E (Entry e fp p)) durable)
    (\<lambda>res t. run_safe E source digest C (jf_log t) \<and> (res = Inr () \<longrightarrow>
      run_inv E source digest (insert (me_path e) V) (insert (e, fp) C) (push_entry e fp cp) (jf_log t))) s"
proof -
  obtain recs where recs: "wal_file E source digest recs (jf_log s)" "recorded C recs"
    using assms(3) by (auto simp: run_inv_def)
  have "me_path x \<noteq> me_path e" if "(x, y) \<in> C" for x y
    using that assms(3,4) by (fastforce simp: run_inv_def)
  with recorded_snoc[OF recs(2)] have new: "recorded (insert (e, fp) C) (recs @ [(e, fp, p)])" by blast
  then have old: "recorded C (recs @ [(e, fp, p)])" by (simp add: recorded_def)
  show ?thesis
  proof (rule swp_mono[OF append_logged[OF assms(1,2) recs(1)]], goal_cases)
    case (1 res t)
    then have "run_safe E source digest C (jf_log t)"
      using recs(2) old wal_file_holds[OF assms(1)] unfolding run_safe_def by blast
    with 1(2) run_inv_push[OF assms(3,4) _ new] show ?case by blast
  qed
qed

lemma complete_step:
  assumes "hash_width (bv_hash E)" "json_ok E" "run_inv E source digest V C cp (jf_log s)" "me_path e \<notin> V"
  shows "swp (complete_entry E io io_compact options e fp cp) (\<lambda>res t. run_safe E source digest C (jf_log t)
    \<and> (\<forall>cp'. res = Inr cp' \<longrightarrow> run_inv E source digest (insert (me_path e) V) (insert (e, fp) C) cp' (jf_log t))) s"
    (is "swp _ ?Q s")
proof -
  let ?cp = "push_entry e fp cp" and ?inv = "run_inv E source digest (insert (me_path e) V) (insert (e, fp) C)"
  have safe: "run_safe E source digest C f" if "?inv x f" for x f
    using run_inv_safe[OF assms(1) that] by (auto simp: run_safe_def recorded_def simp del: split_paired_Ex)
  have compacted: "swp (sbind (compact_checkpoint_log E io_compact options (?cp\<lparr>bc_record_count := j\<rparr>))
      (\<lambda>_. sret (?cp\<lparr>bc_record_count := j, bc_record_count := k\<rparr>))) ?Q t" if "?inv ?cp (jf_log t)" for j k t
    by (rule swp_bind_step[OF compact_step[OF assms(1,2)]]) (use that safe in auto)
  show ?thesis
    unfolding complete_entry_def append_checkpoint_entry_def Let_def
  proof (intro swp_bind_slift, goal_cases)
    case (3 x fp')
    then have fp: "fp' = fp" "last (bc_entries ?cp) = e" by simp_all
    show ?case unfolding fp
      by (rule swp_bind_step[OF append_step[OF assms]]) (use compacted in auto)
  qed (use run_inv_safe[OF assms(1,3)] in simp_all)
qed

lemma control_keeps:
  assumes "jf_log s \<noteq> None"
  shows "swp (check_control_with_durable_checkpoint E io control job_id) (\<lambda>res t. t = s) s"
proof -
  obtain bs where bs: "jf_log s = Some bs" using assms by auto
  have "swp (sync_record_log io) (\<lambda>res f. f = Some bs) (Some bs)"
    unfolding sync_record_log_def by (rule swp_open_Some) simp_all
  then have "swp (sync_checkpoint_records E io job_id) (\<lambda>res t. t = s) s"
    unfolding sync_checkpoint_records_def by (intro swp_with_lock) (auto simp: bs elim!: swp_mono)
  then show ?thesis
    by (auto simp: check_control_with_durable_checkpoint_def split: sum.split intro!: swp_bind_step)
qed

lemma reuse_step:
  assumes "run_inv E source digest V C cp f" "path \<notin> V"
    "reuse_entry reusable fps path current cp = Some cp'" "\<forall>path e. fmlookup reusable path = Some e \<longrightarrow> me_path e = path"
  shows "run_inv E source digest (insert path V) C cp' f"
proof -
  from assms(3,4) obtain e l p where cp': "cp' = cp\<lparr>bc_chunk_locators := l, bc_entries := bc_entries cp @ [e],
      bc_fingerprints := fmupd path current (bc_fingerprints cp), bc_progress := p\<rparr>" "me_path e = path"
    by (auto simp: reuse_entry_def split: option.splits if_splits)
  have "me_path x \<noteq> path" if "(x, y) \<in> C" for x y
    using that assms(1,2) by (fastforce simp: run_inv_def)
  then have "x \<in> set (bc_entries cp') \<and> fmlookup (bc_fingerprints cp') (me_path x) = Some y" if "(x, y) \<in> C" for x y
    using that assms(1) cp' unfolding run_inv_def by fastforce
  with assms(1,2) cp' show ?thesis
    unfolding run_inv_def by (auto simp del: split_paired_Ex)
qed

text \<open>The entry an iteration reads and records.\<close>

definition completed_at :: "(relative_path, manifest_entry) fmap \<Rightarrow> (relative_path, source_fingerprint) fmap
    \<Rightarrow> relative_path \<Rightarrow> source_fingerprint \<Rightarrow> core_error + manifest_entry \<times> source_fingerprint \<times> backup_progress
    \<Rightarrow> backup_checkpoint \<Rightarrow> (manifest_entry \<times> source_fingerprint) set" where
  "completed_at reusable fps path current delivered cp =
     (case delivered of
        Inr (e, fp, _) \<Rightarrow>
          if reuse_entry reusable fps path current cp = None then {(e\<lparr>me_path := path\<rparr>, fp)} else {}
      | Inl _ \<Rightarrow> {})"

definition completed_by :: "(relative_path, manifest_entry) fmap \<Rightarrow> (relative_path, source_fingerprint) fmap
    \<Rightarrow> backup_checkpoint \<Rightarrow> scan_item \<Rightarrow> (manifest_entry \<times> source_fingerprint) set" where
  "completed_by reusable fps cp item =
     (case si_walked item of
        Inr (Walked path current _ delivered _ _) \<Rightarrow> completed_at reusable fps path current delivered cp
      | _ \<Rightarrow> {})"

lemma completed_at_progress [simp]:
  "completed_at reusable fps path current delivered (cp\<lparr>bc_progress := p\<rparr>) =
     completed_at reusable fps path current delivered cp"
  by (auto simp: completed_at_def reuse_entry_def split: option.splits sum.splits)

lemma visit_step:
  assumes "hash_width (bv_hash E)" "json_ok E" "run_inv E source digest V C cp (jf_log s)" "path \<notin> V"
    "\<forall>path e. fmlookup reusable path = Some e \<longrightarrow> me_path e = path"
  shows "swp (visit_entry E options reusable fps path current sink delivered io io_compact cp)
    (\<lambda>res t. run_safe E source digest C (jf_log t)
      \<and> (\<forall>cp'. res = Inr cp' \<longrightarrow> run_inv E source digest (insert path V)
        (completed_at reusable fps path current delivered cp \<union> C) cp' (jf_log t))) s"
proof (cases "reuse_entry reusable fps path current cp")
  case (Some cp')
  then have "completed_at reusable fps path current delivered cp = {}"
    by (auto simp: completed_at_def split: sum.split)
  with reuse_step[OF assms(3,4) Some assms(5)] run_inv_safe[OF assms(1,3)] show ?thesis
    by (auto simp: visit_entry_def Some intro!: swp_intros)
next
  case None
  show ?thesis
    unfolding visit_entry_def None option.case
  proof (intro swp_bind_slift, goal_cases)
    case (2 x)
    obtain e fp p where x: "x = (e, fp, p)" by (cases x)
    have done_by: "completed_at reusable fps path current delivered cp = {(e\<lparr>me_path := path\<rparr>, fp)}"
      using None 2 by (simp add: completed_at_def x)
    show ?case
      unfolding x prod.case
      by (rule swp_mono[OF complete_step[OF assms(1,2)]]) (use assms(3,4) done_by in auto)
  qed (use run_inv_safe[OF assms(1,3)] in simp)
qed

lemma scan_entry_step:
  assumes "hash_width (bv_hash E)" "json_ok E" "run_inv E source digest V C cp (jf_log s)"
    "set (item_paths item) \<inter> V = {}" "\<forall>path e. fmlookup reusable path = Some e \<longrightarrow> me_path e = path"
  shows "swp (scan_entry E options reusable fps item cp) (\<lambda>res t. run_safe E source digest C (jf_log t)
    \<and> (\<forall>cp'. res = Inr cp' \<longrightarrow> run_inv E source digest (set (item_paths item) \<union> V)
        (completed_by reusable fps cp item \<union> C) cp' (jf_log t))) s"
    (is "swp _ ?Q s")
proof -
  note safe = run_inv_safe[OF assms(1,3)]
  have some: "jf_log s \<noteq> None" using assms(3) by (auto simp: run_inv_def wal_file_def)
  show ?thesis
    unfolding scan_entry_def
  proof (rule swp_bind_step[OF control_keeps[OF some]], goal_cases)
    case (2 x t)
    show ?case unfolding \<open>t = s\<close>
    proof (intro swp_bind_slift, goal_cases)
      case (2 entry)
      show ?case
      proof (cases entry)
        case (Walked path current sink delivered io io_compact)
        have "item_paths item = [path]" "path \<notin> V"
          "completed_by reusable fps cp item = completed_at reusable fps path current delivered cp"
          using assms(4) 2 by (simp_all add: item_paths_def completed_by_def Walked)
        with visit_step[OF assms(1,2) _ _ assms(5), of source digest V C "at_path path cp"] assms(3)
        show ?thesis by (simp add: Walked)
      qed (use 2 assms(3) safe in \<open>auto simp: completed_by_def item_paths_def Let_def split: symlink_policy.split\<close>)
    qed (use safe in simp)
  qed (use safe in simp)
qed

lemma scan_loop:
  assumes "hash_width (bv_hash E)" "json_ok E" "run_inv E source digest V C cp (jf_log s)"
    "distinct (walked_paths items)" "set (walked_paths items) \<inter> V = {}"
    "\<forall>path e. fmlookup reusable path = Some e \<longrightarrow> me_path e = path"
  shows "swp (scan_entries E options reusable fps items cp) (\<lambda>res t. run_safe E source digest C (jf_log t)
    \<and> (\<forall>cp'. res = Inr cp' \<longrightarrow> run_inv E source digest (set (walked_paths items) \<union> V) C cp' (jf_log t))) s"
  using assms(3-5)
proof (induction items arbitrary: V cp s)
  case Nil
  with run_inv_safe[OF assms(1)] show ?case by (simp add: scan_entries_def walked_paths_def)
next
  case (Cons item items)
  have paths: "walked_paths (item # items) = item_paths item @ walked_paths items" by (simp add: walked_paths_def)
  have parts: "set (item_paths item) \<inter> V = {}" "distinct (walked_paths items)"
      "set (walked_paths items) \<inter> (set (item_paths item) \<union> V) = {}"
    using Cons.prems(2,3) unfolding paths by auto
  have unfold: "scan_entries E options reusable fps (item # items) cp =
      sbind (scan_entry E options reusable fps item cp) (scan_entries E options reusable fps items)"
    by (simp add: scan_entries_def)
  show ?case
    unfolding unfold
  proof (rule swp_bind_step[OF scan_entry_step[OF assms(1,2) Cons.prems(1) parts(1) assms(6)]], simp, goal_cases)
    case (1 cp' t)
    then have "run_inv E source digest (set (item_paths item) \<union> V) C cp' (jf_log t)"
      by (auto elim: run_inv_mono)
    from Cons.IH[OF this parts(2,3)] show ?case
      unfolding paths set_append by (auto simp: Un_ac elim!: swp_mono)
  qed
qed

text \<open>
  C34. A completed entry is never lost. Let a scan of a job begin successfully, with a new log, a
  resumed one or a migrated one, and let the walk visit each path once. Once an iteration that reads an
  entry has returned, the log of the job holds a record with the entry and its fingerprint as the last
  one of its path, and it does so after any further iterations, reusing, recording or compacting,
  wherever one of them fails and whatever the failing write leaves behind.
\<close>

theorem completed_entries_survive:
  assumes "hash_width (bv_hash E)" "json_ok E"
    "begin_scan E io_log io_legacy io_write options source s0 = (Inr (cp0, reusable, fps), s)"
    "scan_entries E options reusable fps before cp0 s = (Inr cp1, s1)"
    "si_walked item = Inr (Walked path current sink (Inr (e, fp, p)) io io_compact)"
    "reuse_entry reusable fps path current cp1 = None"
    "scan_entry E options reusable fps item cp1 s1 = (Inr cp2, s2)"
    "scan_entries E options reusable fps rest cp2 s2 = (res, s3)"
    "distinct (walked_paths (before @ item # rest))"
  shows "\<exists>recs. wal_holds E source (bv_options_digest E options) recs (jf_log s3)
    \<and> latest recs path = Some (e\<lparr>me_path := path\<rparr>, fp)"
proof -
  let ?digest = "bv_options_digest E options"
  have item: "item_paths item = [path]" using assms(5) by (simp add: item_paths_def)
  from assms(9) have dist: "distinct (walked_paths before)" "path \<notin> set (walked_paths before)"
      "distinct (walked_paths rest)" "set (walked_paths rest) \<inter> ({path} \<union> set (walked_paths before)) = {}"
    by (auto simp: walked_paths_def item)
  from begin_leaves[OF assms(1-3)] have start: "run_inv E source ?digest {} {} cp0 (jf_log s)"
    and keyed: "\<forall>path e. fmlookup reusable path = Some e \<longrightarrow> me_path e = path"
    by (auto simp: run_inv_def recorded_def simp del: split_paired_Ex)
  from swpD[OF scan_loop[OF assms(1,2) start dist(1) _ keyed] assms(4)]
  have before: "run_inv E source ?digest (set (walked_paths before)) {} cp1 (jf_log s1)" by simp
  have "completed_by reusable fps cp1 item = {(e\<lparr>me_path := path\<rparr>, fp)}"
    using assms(5,6) by (simp add: completed_by_def completed_at_def)
  with swpD[OF scan_entry_step[OF assms(1,2) before _ keyed] assms(7)] dist(2)
  have "run_inv E source ?digest ({path} \<union> set (walked_paths before)) {(e\<lparr>me_path := path\<rparr>, fp)} cp2 (jf_log s2)"
    by (simp add: item)
  from swpD[OF scan_loop[OF assms(1,2) this dist(3,4) keyed] assms(8)]
  show ?thesis by (auto simp: run_safe_def recorded_def simp del: split_paired_Ex)
qed

section \<open>A small run\<close>

text \<open>
  An encoding of the records that reads back every one of them: the three records of the run below have
  short encodings, every other one is encoded by its number in an enumeration.
\<close>

instance entry_metadata_ext :: (countable) countable
  by (rule countable_classI[of "\<lambda>r. to_nat (em_modified_at_unix_ms r, em_unix_mode r, em_sparse r, entry_metadata.more r)"])
    (simp add: entry_metadata.equality)

instance chunk_reference_ext :: (countable) countable
  by (rule countable_classI[of "\<lambda>r. to_nat (cr_plaintext_digest r, cr_opaque_locator r, cr_plaintext_length r,
      cr_ciphertext_length r, chunk_reference.more r)"])
    (simp add: chunk_reference.equality)

instance sparse_extent_ext :: (countable) countable
  by (rule countable_classI[of "\<lambda>r. to_nat (se_offset r, se_length r, sparse_extent.more r)"])
    (simp add: sparse_extent.equality)

instance entry_kind :: countable
  by countable_datatype

instance manifest_entry_ext :: (countable) countable
  by (rule countable_classI[of "\<lambda>r. to_nat (me_path r, me_kind r, me_length r, me_chunks r, me_metadata r,
      me_sparse_extents r, manifest_entry.more r)"])
    (simp add: manifest_entry.equality)

instance source_fingerprint_ext :: (countable) countable
  by (rule countable_classI[of "\<lambda>r. to_nat (fp_kind r, fp_length r, fp_modified_at_unix_ms r, fp_unix_device r,
      fp_unix_inode r, fp_unix_change_time_seconds r, fp_unix_change_time_nanoseconds r, fp_unix_mode r,
      source_fingerprint.more r)"])
    (simp add: source_fingerprint.equality)

instance backup_progress_ext :: (countable) countable
  by (rule countable_classI[of "\<lambda>r. to_nat (bp_entries_completed r, bp_bytes_read r, bp_chunks_stored r,
      bp_chunks_deduplicated r, bp_symlinks_skipped r, bp_current_path r, backup_progress.more r)"])
    (simp add: backup_progress.equality)

instance wal_record :: countable
  by countable_datatype

definition demo_next_entry :: manifest_entry where
  "demo_next_entry = demo_entry\<lparr>me_path := ''b''\<rparr>"

definition demo_next_record :: wal_record where
  "demo_next_record = Entry demo_next_entry demo_fingerprint (default_progress\<lparr>bp_entries_completed := 1\<rparr>)"

definition demo_to_vec :: "wal_record \<Rightarrow> bytes" where
  "demo_to_vec r = (if r = Header 3 ''d'' ''/src'' then ''h'' else if r = demo_record then ''e''
     else if r = demo_next_record then ''f'' else ''xx'' @ replicate (to_nat r) (CHR ''x''))"

definition demo_from_slice :: "bytes \<Rightarrow> wal_record option" where
  "demo_from_slice bs = (if bs = ''h'' then Some (Header 3 ''d'' ''/src'') else if bs = ''e'' then Some demo_record
     else if bs = ''f'' then Some demo_next_record else Some (from_nat (length bs - 2)))"

definition demo_run_env :: backup_env where
  "demo_run_env = demo_backup_env\<lparr>bv_to_vec := demo_to_vec, bv_from_slice := demo_from_slice\<rparr>"

definition demo_item :: "manifest_entry \<Rightarrow> file_io \<Rightarrow> scan_item" where
  "demo_item e io = \<lparr>si_control = Inr (), si_control_io = healthy_io,
     si_walked = Inr (Walked (me_path e) demo_fingerprint (Inr ()) (Inr (e, demo_fingerprint, default_progress)) io healthy_io)\<rparr>"

lemma demo_run_laws:
  "hash_width (bv_hash demo_run_env)" "json_ok demo_run_env" "bv_lock demo_run_env"
  "validate_job_id (bo_job_id demo_backup_options) = Inr ()"
  subgoal using demo_hash_width by (simp add: demo_run_env_def)
  subgoal by (simp add: json_ok_def demo_run_env_def demo_to_vec_def demo_from_slice_def demo_record_def demo_next_record_def
    demo_next_entry_def demo_entry_def)
  subgoal by (simp add: demo_run_env_def demo_backup_env_def)
  subgoal by code_simp
  done

lemma demo_run: "case begin_scan demo_run_env healthy_io healthy_io healthy_io demo_backup_options ''/src''
      \<lparr>jf_legacy = None, jf_log = None\<rparr> of
    (Inr (cp0, reusable, fps), s) \<Rightarrow>
      reuse_entry reusable fps ''a'' demo_fingerprint cp0 = None
      \<and> (case scan_entry demo_run_env demo_backup_options reusable fps (demo_item demo_entry healthy_io) cp0 s of
        (Inr cp2, s2) \<Rightarrow>
          \<not> is_ok (fst (scan_entries demo_run_env demo_backup_options reusable fps
            [demo_item demo_next_entry (healthy_io\<lparr>fi_room := Some 85\<rparr>)] cp2 s2))
      | _ \<Rightarrow> False)
  | _ \<Rightarrow> False"
  by code_simp

theorem completed_entries_survive_witness:
  "\<exists>cp0 reusable fps s cp2 s2 err s3 recs.
     begin_scan demo_run_env healthy_io healthy_io healthy_io demo_backup_options ''/src''
       \<lparr>jf_legacy = None, jf_log = None\<rparr> = (Inr (cp0, reusable, fps), s)
     \<and> scan_entry demo_run_env demo_backup_options reusable fps (demo_item demo_entry healthy_io) cp0 s = (Inr cp2, s2)
     \<and> scan_entries demo_run_env demo_backup_options reusable fps
         [demo_item demo_next_entry (healthy_io\<lparr>fi_room := Some 85\<rparr>)] cp2 s2 = (Inl err, s3)
     \<and> wal_holds demo_run_env ''/src'' ''d'' recs (jf_log s3)
     \<and> latest recs ''a'' = Some (demo_entry, demo_fingerprint)"
proof -
  let ?first = "demo_item demo_entry healthy_io"
  let ?next = "demo_item demo_next_entry (healthy_io\<lparr>fi_room := Some 85\<rparr>)"
  obtain r s where "begin_scan demo_run_env healthy_io healthy_io healthy_io demo_backup_options ''/src''
       \<lparr>jf_legacy = None, jf_log = None\<rparr> = (r, s)"
    by (meson surj_pair)
  with demo_run obtain cp0 reusable fps where begun:
    "begin_scan demo_run_env healthy_io healthy_io healthy_io demo_backup_options ''/src''
       \<lparr>jf_legacy = None, jf_log = None\<rparr> = (Inr (cp0, reusable, fps), s)"
    by (cases r) auto
  obtain r2 s2 where "scan_entry demo_run_env demo_backup_options reusable fps ?first cp0 s = (r2, s2)"
    by (meson surj_pair)
  with demo_run begun obtain cp2 where visited:
    "reuse_entry reusable fps ''a'' demo_fingerprint cp0 = None"
    "scan_entry demo_run_env demo_backup_options reusable fps ?first cp0 s = (Inr cp2, s2)"
    by (cases r2) auto
  obtain r3 s3 where "scan_entries demo_run_env demo_backup_options reusable fps [?next] cp2 s2 = (r3, s3)"
    by (meson surj_pair)
  with demo_run begun visited obtain err where
    "scan_entries demo_run_env demo_backup_options reusable fps [?next] cp2 s2 = (Inl err, s3)"
    by (cases r3) auto
  note run = begun visited this
  have first: "scan_entries demo_run_env demo_backup_options reusable fps [] cp0 s = (Inr cp0, s)"
    by (simp add: scan_entries_def step_simps)
  have item: "si_walked ?first = Inr (Walked ''a'' demo_fingerprint (Inr ())
      (Inr (demo_entry, demo_fingerprint, default_progress)) healthy_io healthy_io)"
    by (simp add: demo_item_def demo_entry_def)
  have "distinct (walked_paths ([] @ ?first # [?next]))"
    by (simp add: walked_paths_def item_paths_def demo_item_def demo_entry_def demo_next_entry_def)
  from completed_entries_survive[OF demo_run_laws(1,2) run(1) first item run(2-4) this] run(1,3,4)
  have "\<exists>recs. wal_holds demo_run_env ''/src'' ''d'' recs (jf_log s3) \<and> latest recs ''a'' = Some (demo_entry, demo_fingerprint)"
    by (simp add: demo_run_env_def demo_backup_env_def demo_entry_def)
  with run show ?thesis by blast
qed

definition demo_torn_log :: bytes where
  "demo_torn_log = log_bytes (bv_hash demo_run_env) [''h'', ''e''] @ take 6 (record_frame (bv_hash demo_run_env) ''f'')"

lemma demo_torn_log_holds:
  "wal_holds demo_run_env ''/src'' ''d'' [(demo_entry, demo_fingerprint, default_progress\<lparr>bp_entries_completed := 1\<rparr>)]
     (Some demo_torn_log)"
proof -
  have "vec_len demo_torn_log \<le> MAX_CHECKPOINT_LOG_BYTES" "6 < length (record_frame (bv_hash demo_run_env) ''f'')"
    "record_fits MAX_CHECKPOINT_BYTES ''f''"
    "holds_records demo_run_env ''/src'' ''d'' [(demo_entry, demo_fingerprint, default_progress\<lparr>bp_entries_completed := 1\<rparr>)]
      [''h'', ''e'']"
    by code_simp+
  then show ?thesis
    unfolding wal_holds_def demo_torn_log_def
    by (intro exI[of _ "[''h'', ''e'']"] exI[of _ "''f''"] exI[of _ 6]) simp
qed

theorem resume_returns_completed_witness:
  "\<exists>cp s'. load_checkpoint demo_run_env healthy_io healthy_io healthy_io demo_backup_options ''/src'' ''d''
       \<lparr>jf_legacy = None, jf_log = Some demo_torn_log\<rparr> = (Inr (cp, True), s')
     \<and> demo_entry \<in> set (bc_entries cp) \<and> fmlookup (bc_fingerprints cp) ''a'' = Some demo_fingerprint
     \<and> fst (load_checkpoint demo_run_env healthy_io healthy_io healthy_io demo_backup_options ''/other'' ''d''
         \<lparr>jf_legacy = None, jf_log = Some demo_torn_log\<rparr>)
       = Inl (CoreInvalidState ''backup checkpoint does not match this job'')"
proof -
  let ?recs = "[(demo_entry, demo_fingerprint, default_progress\<lparr>bp_entries_completed := 1\<rparr>)]"
  have latest: "latest ?recs ''a'' = Some (demo_entry, demo_fingerprint)" "me_path demo_entry = ''a''"
    by (simp_all add: latest_def demo_entry_def)
  show ?thesis
    using resume_returns_completed[of demo_run_env "''/src''" "''d''" ?recs
        "\<lparr>jf_legacy = None, jf_log = Some demo_torn_log\<rparr>" demo_backup_options healthy_io healthy_io]
      demo_run_laws demo_torn_log_holds latest
    by auto
qed

end
