(* ===== verification/Backup_Crypto.thy ===== *)
theory Backup_Crypto
  imports Core_Error Byte_Codec
begin

text \<open>
  Encrypted chunks of \<open>covalent-core/src/crypto.rs\<close>: key derivation contexts, convergent encryption of one
  chunk under the key of a backup, the record a storage provider keeps, and its decoding and
  verification. BLAKE3 with its hex form, HKDF, XChaCha20-Poly1305 and the text of a UUID are fields of
  \<open>chunk_ext\<close>; what is relied on is \<open>chunk_ext_ok\<close>.
\<close>

record chunk_ext =
  cx_blake3 :: "bytes \<Rightarrow> bytes"
  cx_keyed_hash :: "bytes \<Rightarrow> bytes \<Rightarrow> bytes"
  cx_to_hex :: "bytes \<Rightarrow> string"
  cx_from_hex :: "string \<Rightarrow> bytes option"
  cx_hkdf :: "bytes \<Rightarrow> bytes \<Rightarrow> bytes \<Rightarrow> bytes option"
  cx_seal :: "bytes \<Rightarrow> bytes \<Rightarrow> bytes \<Rightarrow> bytes \<Rightarrow> bytes option"
  cx_open :: "bytes \<Rightarrow> bytes \<Rightarrow> bytes \<Rightarrow> bytes \<Rightarrow> bytes option"
  cx_uuid_string :: "uuid \<Rightarrow> string"

section \<open>Derivation and locators\<close>

definition CHUNK_RECORD_MAGIC :: bytes where
  "CHUNK_RECORD_MAGIC = ''CVCH''"

definition CHUNK_RECORD_VERSION :: char where
  "CHUNK_RECORD_VERSION = CHR 0x01"

definition CHUNK_HEADER_LENGTH :: int where
  "CHUNK_HEADER_LENGTH = 4 + 1 + 8 + 4 + 24"

definition AEAD_TAG_LENGTH :: int where
  "AEAD_TAG_LENGTH = 16"

definition derive :: "chunk_ext \<Rightarrow> bytes \<Rightarrow> bytes \<Rightarrow> bytes \<Rightarrow> core_error + bytes" where
  "derive X key salt label = ok_or (cx_hkdf X salt key label) InvalidKeyMaterial"

definition chunk_context :: "chunk_ext \<Rightarrow> uuid \<Rightarrow> u64 \<Rightarrow> bytes \<Rightarrow> u32 \<Rightarrow> bytes" where
  "chunk_context X backup_id key_epoch digest plaintext_length =
     ''covalent/chunk-record/v1'' @ [CHR 0x00] @ cx_uuid_string X backup_id
     @ be_bytes 8 (uint key_epoch) @ digest @ be_bytes 4 (uint plaintext_length)"

definition chunk_locator :: "chunk_ext \<Rightarrow> bytes \<Rightarrow> u64 \<Rightarrow> bytes \<Rightarrow> bytes" where
  "chunk_locator X locator_key key_epoch digest =
     cx_keyed_hash X locator_key (be_bytes 8 (uint key_epoch) @ digest)"

definition validate_hex_locator :: "string \<Rightarrow> core_error + unit" where
  "validate_hex_locator locator =
     fail_if (length locator \<noteq> 64
       \<or> \<not> list_all (\<lambda>b. is_ascii_hexdigit b \<and> \<not> is_ascii_uppercase b) locator) InvalidLocator"

definition expected_chunk_locator ::
    "chunk_ext \<Rightarrow> bytes \<Rightarrow> uuid \<Rightarrow> u64 \<Rightarrow> string \<Rightarrow> core_error + string" where
  "expected_chunk_locator X key backup_id key_epoch plaintext_digest =
     rbind (fail_if (key_epoch = 0) AuthenticationFailed) (\<lambda>_.
     rbind (ok_or (cx_from_hex X plaintext_digest) (CorruptChunk plaintext_digest)) (\<lambda>digest.
     rbind (derive X key (cx_uuid_string X backup_id) ''covalent/chunk-locator/v1'') (\<lambda>locator_key.
     Inr (cx_to_hex X (chunk_locator X locator_key key_epoch digest)))))"

section \<open>Chunks\<close>

record encrypted_chunk =
  ec_key_epoch :: u64
  ec_plaintext_digest :: string
  ec_opaque_locator :: string
  ec_plaintext_length :: u32
  ec_nonce :: bytes
  ec_ciphertext :: bytes

definition encrypt_chunk ::
    "chunk_ext \<Rightarrow> bytes \<Rightarrow> uuid \<Rightarrow> u64 \<Rightarrow> bytes \<Rightarrow> core_error + encrypted_chunk" where
  "encrypt_chunk X key backup_id key_epoch plaintext =
     rbind (fail_if (key_epoch = 0 \<or> plaintext = [] \<or> vec_len plaintext > 4294967295)
       (ResourceLimit ''chunk plaintext size'')) (\<lambda>_.
     let digest = cx_blake3 X plaintext;
         digest_hex = cx_to_hex X digest;
         len = word_of_int (vec_len plaintext);
         context = chunk_context X backup_id key_epoch digest len
     in
     rbind (derive X key context ''covalent/chunk-encryption/v1'') (\<lambda>chunk_key.
     rbind (derive X key context ''covalent/chunk-nonce/v1'') (\<lambda>nonce_material.
     rbind (derive X key (cx_uuid_string X backup_id) ''covalent/chunk-locator/v1'') (\<lambda>locator_key.
     let opaque_locator = cx_to_hex X (chunk_locator X locator_key key_epoch digest);
         nonce = take 24 nonce_material
     in
     rbind (ok_or (cx_seal X chunk_key nonce context plaintext) AuthenticationFailed) (\<lambda>ciphertext.
     Inr \<lparr>ec_key_epoch = key_epoch, ec_plaintext_digest = digest_hex, ec_opaque_locator = opaque_locator,
       ec_plaintext_length = len, ec_nonce = nonce, ec_ciphertext = ciphertext\<rparr>)))))"

definition decrypt_chunk ::
    "chunk_ext \<Rightarrow> bytes \<Rightarrow> uuid \<Rightarrow> string \<Rightarrow> encrypted_chunk \<Rightarrow> core_error + bytes" where
  "decrypt_chunk X key backup_id expected_digest encrypted =
     rbind (validate_hex_locator (ec_opaque_locator encrypted)) (\<lambda>_.
     rbind (ok_or (cx_from_hex X expected_digest) (CorruptChunk expected_digest)) (\<lambda>digest.
     rbind (fail_if (ec_plaintext_digest encrypted \<noteq> expected_digest) (CorruptChunk expected_digest)) (\<lambda>_.
     let context = chunk_context X backup_id (ec_key_epoch encrypted) digest (ec_plaintext_length encrypted) in
     rbind (derive X key context ''covalent/chunk-encryption/v1'') (\<lambda>chunk_key.
     rbind (derive X key (cx_uuid_string X backup_id) ''covalent/chunk-locator/v1'') (\<lambda>locator_key.
     rbind (fail_if (ec_key_epoch encrypted = 0) (CorruptChunk expected_digest)) (\<lambda>_.
     rbind (fail_if (ec_opaque_locator encrypted \<noteq>
       cx_to_hex X (chunk_locator X locator_key (ec_key_epoch encrypted) digest)) (CorruptChunk expected_digest)) (\<lambda>_.
     rbind (ok_or (cx_open X chunk_key (ec_nonce encrypted) context (ec_ciphertext encrypted))
       AuthenticationFailed) (\<lambda>plaintext.
     rbind (fail_if (vec_len plaintext \<noteq> uint (ec_plaintext_length encrypted)
       \<or> cx_to_hex X (cx_blake3 X plaintext) \<noteq> expected_digest) (CorruptChunk expected_digest)) (\<lambda>_.
     Inr plaintext)))))))))"

definition ciphertext_length :: "encrypted_chunk \<Rightarrow> u32" where
  "ciphertext_length encrypted =
     (if vec_len (ec_ciphertext encrypted) \<le> 4294967295 then word_of_int (vec_len (ec_ciphertext encrypted))
      else - 1)"

section \<open>Provider records\<close>

definition encode_provider_record :: "encrypted_chunk \<Rightarrow> bytes" where
  "encode_provider_record c =
     CHUNK_RECORD_MAGIC @ [CHUNK_RECORD_VERSION] @ be_bytes 8 (uint (ec_key_epoch c))
     @ be_bytes 4 (uint (ec_plaintext_length c)) @ ec_nonce c @ ec_ciphertext c"

definition decode_provider_record ::
    "string \<Rightarrow> string \<Rightarrow> bytes \<Rightarrow> int \<Rightarrow> core_error + encrypted_chunk" where
  "decode_provider_record opaque_locator plaintext_digest record maximum_chunk_size =
     rbind (validate_hex_locator opaque_locator) (\<lambda>_.
     rbind (fail_if (vec_len record < CHUNK_HEADER_LENGTH + AEAD_TAG_LENGTH
       \<or> vec_len record > CHUNK_HEADER_LENGTH + maximum_chunk_size + AEAD_TAG_LENGTH
       \<or> take 4 record \<noteq> CHUNK_RECORD_MAGIC
       \<or> record ! 4 \<noteq> CHUNK_RECORD_VERSION) (CorruptChunk opaque_locator)) (\<lambda>_.
     let key_epoch = word_of_int (be_value (take 8 (drop 5 record))) :: u64;
         plaintext_length = word_of_int (be_value (take 4 (drop 13 record))) :: u32
     in
     rbind (fail_if (key_epoch = 0 \<or> plaintext_length = 0
       \<or> uint plaintext_length > maximum_chunk_size
       \<or> vec_len record \<noteq> CHUNK_HEADER_LENGTH + uint plaintext_length + AEAD_TAG_LENGTH)
       (CorruptChunk opaque_locator)) (\<lambda>_.
     Inr \<lparr>ec_key_epoch = key_epoch, ec_plaintext_digest = plaintext_digest,
       ec_opaque_locator = opaque_locator, ec_plaintext_length = plaintext_length,
       ec_nonce = take 24 (drop 17 record), ec_ciphertext = drop 41 record\<rparr>)))"

section \<open>What is relied on\<close>

text \<open>
  The documented behaviour of the primitives: widths, that hex decoding inverts encoding and encodes in
  lower case, that HKDF gives 32 bytes, and that opening inverts sealing, which adds a tag of 16 bytes.
\<close>

definition chunk_ext_ok :: "chunk_ext \<Rightarrow> bool" where
  "chunk_ext_ok X \<longleftrightarrow>
     (\<forall>x. length (cx_blake3 X x) = 32) \<and> (\<forall>k x. length (cx_keyed_hash X k x) = 32)
     \<and> (\<forall>h. length h = 32 \<longrightarrow> cx_from_hex X (cx_to_hex X h) = Some h
          \<and> validate_hex_locator (cx_to_hex X h) = Inr ())
     \<and> (\<forall>salt k label. \<exists>out. cx_hkdf X salt k label = Some out \<and> length out = 32)
     \<and> (\<forall>k n a m. \<exists>c. cx_seal X k n a m = Some c \<and> length c = length m + 16 \<and> cx_open X k n a c = Some m)"

lemma u64_be_round_trip: "word_of_int (be_value (be_bytes 8 (uint w))) = (w :: u64)"
  using uint_bounded[of w] by (subst be_value_be_bytes) simp_all

lemma u32_be_round_trip: "word_of_int (be_value (be_bytes 4 (uint w))) = (w :: u32)"
  using uint_bounded[of w] by (subst be_value_be_bytes) simp_all

lemma be_u64_round_trip: "length bs = 8 \<Longrightarrow> be_bytes 8 (uint (word_of_int (be_value bs) :: u64)) = bs"
  using be_value_bounds[of bs] be_bytes_be_value[of bs] by (simp add: uint_word_of_int_eq take_bit_int_eq_self)

lemma be_u32_round_trip: "length bs = 4 \<Longrightarrow> be_bytes 4 (uint (word_of_int (be_value bs) :: u32)) = bs"
  using be_value_bounds[of bs] be_bytes_be_value[of bs] by (simp add: uint_word_of_int_eq take_bit_int_eq_self)

lemma decode_encode:
  assumes "validate_hex_locator (ec_opaque_locator c) = Inr ()" "ec_key_epoch c \<noteq> 0" "ec_plaintext_length c \<noteq> 0"
    "uint (ec_plaintext_length c) \<le> maximum" "length (ec_nonce c) = 24"
    "vec_len (ec_ciphertext c) = uint (ec_plaintext_length c) + 16"
  shows "decode_provider_record (ec_opaque_locator c) (ec_plaintext_digest c) (encode_provider_record c) maximum = Inr c"
proof -
  let ?r = "encode_provider_record c"
  have len: "vec_len ?r = CHUNK_HEADER_LENGTH + uint (ec_plaintext_length c) + AEAD_TAG_LENGTH"
    using assms(5,6) by (simp add: encode_provider_record_def vec_len_def CHUNK_HEADER_LENGTH_def
        AEAD_TAG_LENGTH_def CHUNK_RECORD_MAGIC_def)
  have "take 4 ?r = CHUNK_RECORD_MAGIC" "?r ! 4 = CHUNK_RECORD_VERSION"
    "take 8 (drop 5 ?r) = be_bytes 8 (uint (ec_key_epoch c))"
    "take 4 (drop 13 ?r) = be_bytes 4 (uint (ec_plaintext_length c))"
    "take 24 (drop 17 ?r) = ec_nonce c" "drop 41 ?r = ec_ciphertext c"
    using assms(5) by (simp_all add: encode_provider_record_def CHUNK_RECORD_MAGIC_def nth_append)
  with len assms show ?thesis
    by (simp add: decode_provider_record_def Let_def u64_be_round_trip u32_be_round_trip
        CHUNK_HEADER_LENGTH_def AEAD_TAG_LENGTH_def)
qed

lemma encode_decode:
  assumes "decode_provider_record locator digest record maximum = Inr c"
  shows "encode_provider_record c = record"
proof -
  from assms have r: "41 \<le> length record" "take 4 record = CHUNK_RECORD_MAGIC" "record ! 4 = CHUNK_RECORD_VERSION"
    and c: "c = \<lparr>ec_key_epoch = word_of_int (be_value (take 8 (drop 5 record))), ec_plaintext_digest = digest,
      ec_opaque_locator = locator, ec_plaintext_length = word_of_int (be_value (take 4 (drop 13 record))),
      ec_nonce = take 24 (drop 17 record), ec_ciphertext = drop 41 record\<rparr>"
    by (auto simp: decode_provider_record_def Let_def vec_len_def CHUNK_HEADER_LENGTH_def AEAD_TAG_LENGTH_def)
  have "encode_provider_record c = take 4 record @ [record ! 4] @ take 8 (drop 5 record)
      @ take 4 (drop 13 record) @ take 24 (drop 17 record) @ drop 41 record"
    using r by (simp add: c encode_provider_record_def be_u64_round_trip be_u32_round_trip)
  also have "\<dots> = record"
  proof -
    have "take 24 (drop 17 record) @ drop 41 record = drop 17 record"
      using append_take_drop_id[of 24 "drop 17 record"] by simp
    moreover have "take 4 (drop 13 record) @ drop 17 record = drop 13 record"
      using append_take_drop_id[of 4 "drop 13 record"] by simp
    moreover have "take 8 (drop 5 record) @ drop 13 record = drop 5 record"
      using append_take_drop_id[of 8 "drop 5 record"] by simp
    moreover have "record ! 4 # drop 5 record = drop 4 record"
      using r(1) Cons_nth_drop_Suc[of 4 "record"] by simp
    ultimately show ?thesis by simp
  qed
  finally show ?thesis .
qed

section \<open>A concrete instance\<close>

definition demo_hex_digits :: string where
  "demo_hex_digits = ''0123456789abcdef''"

definition demo_to_hex :: "bytes \<Rightarrow> string" where
  "demo_to_hex bs = concat (map (\<lambda>b. [demo_hex_digits ! (of_char b div 16), demo_hex_digits ! (of_char b mod 16)]) bs)"

fun demo_from_hex :: "string \<Rightarrow> bytes option" where
  "demo_from_hex [] = Some []"
| "demo_from_hex [a] = None"
| "demo_from_hex (a # b # s) =
     (case (position ((=) a) demo_hex_digits, position ((=) b) demo_hex_digits, demo_from_hex s) of
        (Some i, Some j, Some bs) \<Rightarrow> Some (char_of (16 * i + j) # bs)
      | _ \<Rightarrow> None)"

definition demo_chunk_ext :: chunk_ext where
  "demo_chunk_ext = \<lparr>cx_blake3 = \<lambda>x. take 32 (x @ replicate 32 (CHR 0x00)),
     cx_keyed_hash = \<lambda>k x. take 32 (x @ replicate 32 (CHR 0x00)),
     cx_to_hex = demo_to_hex, cx_from_hex = demo_from_hex,
     cx_hkdf = \<lambda>salt k label. Some (replicate 32 (CHR 0x00)),
     cx_seal = \<lambda>k n a m. Some (m @ replicate 16 (CHR 0x00)),
     cx_open = \<lambda>k n a c. Some (take (length c - 16) c),
     cx_uuid_string = \<lambda>u. replicate 36 (CHR ''0'')\<rparr>"

lemma demo_digit:
  assumes "i < 16"
  shows "position ((=) (demo_hex_digits ! i)) demo_hex_digits = Some i
    \<and> is_ascii_hexdigit (demo_hex_digits ! i) \<and> \<not> is_ascii_uppercase (demo_hex_digits ! i)"
proof -
  have "list_all (\<lambda>i. position ((=) (demo_hex_digits ! i)) demo_hex_digits = Some i
    \<and> is_ascii_hexdigit (demo_hex_digits ! i) \<and> \<not> is_ascii_uppercase (demo_hex_digits ! i)) [0..<16]"
    by code_simp
  with assms show ?thesis by (simp add: list_all_iff)
qed

lemma demo_hex_round_trip: "demo_from_hex (demo_to_hex bs) = Some bs"
proof (induction bs)
  case (Cons b bs)
  have "(of_char b :: nat) div 16 < 16" "(of_char b :: nat) mod 16 < 16"
    by (simp_all add: less_mult_imp_div_less)
  then show ?case
    using Cons demo_digit by (simp add: demo_to_hex_def)
qed (simp add: demo_to_hex_def)

lemma demo_hex_valid: "length bs = 32 \<Longrightarrow> validate_hex_locator (demo_to_hex bs) = Inr ()"
proof -
  have "list_all (\<lambda>b. is_ascii_hexdigit b \<and> \<not> is_ascii_uppercase b) (demo_to_hex bs)"
    by (induction bs) (auto simp: demo_to_hex_def less_mult_imp_div_less demo_digit)
  moreover have "length (demo_to_hex bs) = 2 * length bs"
    by (induction bs) (auto simp: demo_to_hex_def)
  ultimately show "length bs = 32 \<Longrightarrow> validate_hex_locator (demo_to_hex bs) = Inr ()"
    by (simp add: validate_hex_locator_def)
qed

lemma demo_chunk_ext_ok: "chunk_ext_ok demo_chunk_ext"
  using demo_hex_round_trip demo_hex_valid by (auto simp: chunk_ext_ok_def demo_chunk_ext_def min_def)

section \<open>Round trip and integrity\<close>

text \<open>
  C38. A chunk survives its trip to a provider. Every non-empty chunk within the size limit is encrypted,
  its provider record decodes to the same chunk under the same limit, decrypting that gives back the
  plaintext, and the chunk is stored under the locator the key predicts for it.
\<close>

theorem chunk_round_trip:
  assumes "chunk_ext_ok X" "key_epoch \<noteq> 0" "plaintext \<noteq> []" "vec_len plaintext \<le> maximum" "maximum < 4294967280"
  shows "\<exists>c. encrypt_chunk X key backup_id key_epoch plaintext = Inr c
    \<and> decode_provider_record (ec_opaque_locator c) (ec_plaintext_digest c) (encode_provider_record c) maximum = Inr c
    \<and> decrypt_chunk X key backup_id (ec_plaintext_digest c) c = Inr plaintext
    \<and> expected_chunk_locator X key backup_id key_epoch (ec_plaintext_digest c) = Inr (ec_opaque_locator c)
    \<and> uint (ciphertext_length c) = uint (ec_plaintext_length c) + 16"
proof -
  let ?len = "word_of_int (vec_len plaintext) :: u32"
  have len: "uint ?len = vec_len plaintext" "?len \<noteq> 0"
  proof -
    have "0 < vec_len plaintext" "vec_len plaintext < 2 ^ 32" using assms(3-5) by (auto simp: vec_len_def)
    then show "uint ?len = vec_len plaintext" by (simp add: uint_word_of_int_eq take_bit_int_eq_self)
    with \<open>0 < vec_len plaintext\<close> show "?len \<noteq> 0" by auto
  qed
  have total: "\<exists>out. cx_hkdf X salt k label = Some out \<and> length out = 32" for salt k label
    using assms(1) by (simp add: chunk_ext_ok_def)
  let ?digest = "cx_blake3 X plaintext"
  let ?aad = "chunk_context X backup_id key_epoch ?digest ?len"
  obtain k where k: "cx_hkdf X ?aad key ''covalent/chunk-encryption/v1'' = Some k"
    using total by blast
  obtain n where n: "cx_hkdf X ?aad key ''covalent/chunk-nonce/v1'' = Some n" "length n = 32"
    using total by blast
  obtain l where l: "cx_hkdf X (cx_uuid_string X backup_id) key ''covalent/chunk-locator/v1'' = Some l"
    using total by blast
  note d = k n l
  obtain ct where ct: "cx_seal X k (take 24 n) ?aad plaintext = Some ct" "length ct = length plaintext + 16"
      "cx_open X k (take 24 n) ?aad ct = Some plaintext"
    using assms(1) unfolding chunk_ext_ok_def by blast
  let ?c = "\<lparr>ec_key_epoch = key_epoch, ec_plaintext_digest = cx_to_hex X ?digest,
    ec_opaque_locator = cx_to_hex X (chunk_locator X l key_epoch ?digest), ec_plaintext_length = ?len,
    ec_nonce = take 24 n, ec_ciphertext = ct\<rparr>"
  have hex: "cx_from_hex X (cx_to_hex X ?digest) = Some ?digest"
      "validate_hex_locator (ec_opaque_locator ?c) = Inr ()"
    using assms(1) by (simp_all add: chunk_ext_ok_def chunk_locator_def)
  have "encrypt_chunk X key backup_id key_epoch plaintext = Inr ?c"
    using assms(2-5) d ct(1) by (simp add: encrypt_chunk_def derive_def Let_def)
  moreover have "decode_provider_record (ec_opaque_locator ?c) (ec_plaintext_digest ?c) (encode_provider_record ?c) maximum = Inr ?c"
    by (rule decode_encode) (use assms(2,4) hex(2) len d(3) ct(2) in \<open>simp_all add: vec_len_def\<close>)
  moreover have "decrypt_chunk X key backup_id (ec_plaintext_digest ?c) ?c = Inr plaintext"
    using hex d ct(3) len assms(2) by (simp add: decrypt_chunk_def derive_def Let_def)
  moreover have "expected_chunk_locator X key backup_id key_epoch (ec_plaintext_digest ?c) = Inr (ec_opaque_locator ?c)"
    using hex(1) d(4) assms(2) by (simp add: expected_chunk_locator_def derive_def)
  moreover have "uint (ciphertext_length ?c) = uint (ec_plaintext_length ?c) + 16"
  proof -
    have "0 \<le> vec_len plaintext + 16" "vec_len plaintext + 16 < 2 ^ 32"
      using assms(4,5) by (simp_all add: vec_len_def)
    then have "uint (word_of_int (vec_len plaintext + 16) :: u32) = vec_len plaintext + 16"
      unfolding uint_word_of_int_eq by (intro take_bit_int_eq_self) simp_all
    moreover have "vec_len ct = vec_len plaintext + 16" using ct(2) by (simp add: vec_len_def)
    ultimately show ?thesis
      using assms(4,5) unfolding ciphertext_length_def encrypted_chunk.select_convs len(1) by simp
  qed
  ultimately show ?thesis by blast
qed

theorem chunk_round_trip_witness:
  "\<exists>c. encrypt_chunk demo_chunk_ext (replicate 32 (CHR 0x07)) 7 1 ''data'' = Inr c
    \<and> decrypt_chunk demo_chunk_ext (replicate 32 (CHR 0x07)) 7 (ec_plaintext_digest c) c = Inr ''data''"
  using chunk_round_trip[OF demo_chunk_ext_ok, of 1 "''data''" 4 "replicate 32 (CHR 0x07)" 7]
  by (auto simp: vec_len_def)

text \<open>
  C39. A provider cannot substitute content. Whatever bytes a provider returns for a locator, if they
  decode and decrypt for a digest then they are exactly the encoding of the decoded chunk, the plaintext
  has that digest and the recorded length, within the limit, and the locator is the one the key predicts
  for the digest at the epoch of the record. This needs no assumption on the primitives.
\<close>

theorem provider_cannot_substitute:
  assumes "decode_provider_record locator digest record maximum = Inr c"
    "decrypt_chunk X key backup_id digest c = Inr plaintext"
  shows "record = encode_provider_record c \<and> cx_to_hex X (cx_blake3 X plaintext) = digest
    \<and> vec_len plaintext = uint (ec_plaintext_length c) \<and> vec_len plaintext \<le> maximum
    \<and> expected_chunk_locator X key backup_id (ec_key_epoch c) digest = Inr locator"
proof -
  from assms(1) have c: "ec_opaque_locator c = locator" "uint (ec_plaintext_length c) \<le> maximum"
    by (auto simp: decode_provider_record_def Let_def)
  from assms(2) obtain d l where d: "cx_from_hex X digest = Some d"
      "derive X key (cx_uuid_string X backup_id) ''covalent/chunk-locator/v1'' = Inr l" "ec_key_epoch c \<noteq> 0"
      "ec_opaque_locator c = cx_to_hex X (chunk_locator X l (ec_key_epoch c) d)"
      "vec_len plaintext = uint (ec_plaintext_length c)" "cx_to_hex X (cx_blake3 X plaintext) = digest"
    by (auto simp: decrypt_chunk_def Let_def)
  with c encode_decode[OF assms(1)] show ?thesis by (simp add: expected_chunk_locator_def)
qed

theorem provider_cannot_substitute_witness:
  "\<exists>c. encrypt_chunk demo_chunk_ext (replicate 32 (CHR 0x07)) 7 1 ''data'' = Inr c
    \<and> decode_provider_record (ec_opaque_locator c) (ec_plaintext_digest c) (encode_provider_record c) 4 = Inr c
    \<and> expected_chunk_locator demo_chunk_ext (replicate 32 (CHR 0x07)) 7 (ec_key_epoch c) (ec_plaintext_digest c) =
        Inr (ec_opaque_locator c)"
proof -
  let ?c = "\<lparr>ec_key_epoch = 1, ec_plaintext_digest = demo_to_hex (''data'' @ replicate 28 (CHR 0x00)),
    ec_opaque_locator = demo_to_hex (replicate 7 (CHR 0x00) @ [CHR 0x01] @ ''data'' @ replicate 20 (CHR 0x00)),
    ec_plaintext_length = 4, ec_nonce = replicate 24 (CHR 0x00), ec_ciphertext = ''data'' @ replicate 16 (CHR 0x00)\<rparr>"
  have e: "encrypt_chunk demo_chunk_ext (replicate 32 (CHR 0x07)) 7 1 ''data'' = Inr ?c"
    and d: "decode_provider_record (ec_opaque_locator ?c) (ec_plaintext_digest ?c) (encode_provider_record ?c) 4 = Inr ?c"
    and r: "decrypt_chunk demo_chunk_ext (replicate 32 (CHR 0x07)) 7 (ec_plaintext_digest ?c) ?c = Inr ''data''"
    by code_simp+
  from provider_cannot_substitute[OF d r] e d show ?thesis by (intro exI[of _ ?c]) simp
qed

end
