(* ===== verification/Pairing.thy ===== *)
theory Pairing
  imports Identity Record_Log Manifest_Contract
begin

text \<open>
  Pairing of two devices, \<open>covalent-core/src/pairing.rs\<close>: signed invitations, the exchange with its
  transcript and authentication string, the confirmations of both sides, and the manager of the
  inviter, whose pending and consumed invitations are kept in a file. Hashes and \<open>serde_json\<close> are fields
  of \<open>pairing_ext\<close>; random bytes and the clock are arguments.
\<close>

section \<open>Records\<close>

record pairing_invitation =
  pv_protocol_version :: u16
  pv_minimum_protocol_version :: u16
  pv_inviter_device_id :: device_id
  pv_inviter_public_key :: string
  pv_inviter_device_name :: string
  pv_invitation_id :: string
  pv_invitation_secret :: string
  pv_invitation_secret_commitment :: string
  pv_expires_at_unix_ms :: u64
  pv_endpoints :: "string list"
  pv_transport_binding :: "transport_binding option"
  pv_signature :: string

record pairing_session =
  ps_invitation :: pairing_invitation
  ps_responder_device_id :: device_id
  ps_responder_public_key :: string
  ps_responder_name :: string
  ps_responder_transport :: "transport_binding option"
  ps_responder_roles :: "peer_role list"
  ps_inviter_roles :: "peer_role list"
  ps_authentication_string :: string
  ps_responder_acceptance_signature :: string
  ps_responder_confirmation_signature :: "string option"
  ps_inviter_confirmation_signature :: "string option"

record acceptance_transcript_fields =
  at_invitation_id :: string
  at_invitation_commitment :: string
  at_inviter_device_id :: device_id
  at_inviter_public_key :: string
  at_inviter_device_name :: string
  at_responder_device_id :: device_id
  at_responder_public_key :: string
  at_responder_name :: string
  at_responder_transport :: "transport_binding option"
  at_responder_roles :: "peer_role list"
  at_inviter_roles :: "peer_role list"
  at_protocol_version :: u16

record pending_invitation =
  pn_expires_at_unix_ms :: u64
  pn_secret_commitment :: string

record pairing_state =
  pt_schema_version :: u16
  pt_pending :: "(string, pending_invitation) fmap"
  pt_consumed_until :: "(string, u64) fmap"

record pairing_confirmation =
  pc_inviter_grant :: peer_grant
  pc_responder_grant :: peer_grant
  pc_inviter_transport :: "transport_binding option"
  pc_responder_transport :: "transport_binding option"

datatype pairing_side = Inviter | Responder

text \<open>The signing fields of an invitation are all its fields but the signature.\<close>

record pairing_ext = ext +
  px_keyed_hash :: "bytes \<Rightarrow> bytes \<Rightarrow> bytes"
  px_sha256_hex :: "bytes \<Rightarrow> string"
  px_invitation_json :: "pairing_invitation \<Rightarrow> bytes option"
  px_transcript_json :: "acceptance_transcript_fields \<Rightarrow> bytes option"
  px_state_to_vec :: "pairing_state \<Rightarrow> bytes option"
  px_state_from_slice :: "bytes \<Rightarrow> pairing_state option"

abbreviation INVITATION_SIGNATURE_DOMAIN :: bytes where
  "INVITATION_SIGNATURE_DOMAIN \<equiv> ''covalent/pairing-invitation/v1''"

abbreviation PAIRING_ACCEPTANCE_DOMAIN :: bytes where
  "PAIRING_ACCEPTANCE_DOMAIN \<equiv> ''covalent/pairing-acceptance/v1''"

abbreviation RESPONDER_CONFIRMATION_DOMAIN :: bytes where
  "RESPONDER_CONFIRMATION_DOMAIN \<equiv> ''covalent/pairing-responder-confirmation/v1''"

abbreviation INVITER_CONFIRMATION_DOMAIN :: bytes where
  "INVITER_CONFIRMATION_DOMAIN \<equiv> ''covalent/pairing-inviter-confirmation/v1''"

abbreviation PAIRING_STATE_SCHEMA_VERSION :: u16 where
  "PAIRING_STATE_SCHEMA_VERSION \<equiv> 1"

abbreviation MAX_PAIRING_STATE_BYTES :: int where
  "MAX_PAIRING_STATE_BYTES \<equiv> 1048576"

abbreviation MAX_PENDING_INVITATIONS :: nat where
  "MAX_PENDING_INVITATIONS \<equiv> 32"

abbreviation MAX_INVITATION_LIFETIME_MS :: u64 where
  "MAX_INVITATION_LIFETIME_MS \<equiv> 15 * 60 * 1000"

section \<open>Checks\<close>

definition validate_display_name :: "string \<Rightarrow> core_error + unit" where
  "validate_display_name value =
     fail_if (str_blank value \<or> length value > 80 \<or> str_has_control value)
       (CoreInvalidState ''invalid pairing display name'')"

definition valid_invitation_id :: "pairing_ext \<Rightarrow> string \<Rightarrow> bool" where
  "valid_invitation_id X value \<longleftrightarrow>
     length value \<le> 128 \<and> opt_any (\<lambda>bytes. length bytes = 16) (b64url_decode X value)"

definition valid_lower_hex_digest :: "string \<Rightarrow> bool" where
  "valid_lower_hex_digest value \<longleftrightarrow>
     length value = 64 \<and> list_all (\<lambda>b. is_ascii_hexdigit b \<and> \<not> is_ascii_uppercase b) value"

definition decode_invitation_secret :: "pairing_ext \<Rightarrow> pairing_invitation \<Rightarrow> core_error + bytes" where
  "decode_invitation_secret X invitation =
     rbind (ok_or (b64url_decode X (pv_invitation_secret invitation)) InvitationUnavailable) (\<lambda>decoded.
     rbind (fail_if (length decoded \<noteq> 32) InvitationUnavailable) (\<lambda>_. Inr decoded))"

definition validate_invitation :: "pairing_ext \<Rightarrow> pairing_invitation \<Rightarrow> u64 \<Rightarrow> core_error + unit" where
  "validate_invitation X invitation now_unix_ms =
     rbind (fail_if (pv_protocol_version invitation \<noteq> PROTOCOL_VERSION
       \<or> pv_minimum_protocol_version invitation > PROTOCOL_VERSION
       \<or> pv_expires_at_unix_ms invitation \<le> now_unix_ms
       \<or> length (pv_invitation_id invitation) > 128
       \<or> \<not> opt_any (\<lambda>bytes. length bytes = 16) (b64url_decode X (pv_invitation_id invitation))
       \<or> length (pv_endpoints invitation) > 16
       \<or> list_ex (\<lambda>e. e = [] \<or> length e > 512) (pv_endpoints invitation)
       \<or> pv_signature invitation = []) InvitationUnavailable) (\<lambda>_.
     rbind (validate_display_name (pv_inviter_device_name invitation)) (\<lambda>_.
     rbind (decode_invitation_secret X invitation) (\<lambda>secret.
     fail_if (blake3_hex X secret \<noteq> pv_invitation_secret_commitment invitation) InvitationUnavailable)))"

definition invitation_identity :: "pairing_ext \<Rightarrow> pairing_invitation \<Rightarrow> core_error + public_identity" where
  "invitation_identity X invitation =
     identity_from_encoded X (pv_inviter_device_id invitation) (pv_inviter_public_key invitation)"

definition invitation_signing_bytes :: "pairing_ext \<Rightarrow> pairing_invitation \<Rightarrow> core_error + bytes" where
  "invitation_signing_bytes X invitation =
     ok_or (px_invitation_json X (invitation\<lparr>pv_signature := []\<rparr>)) CoreJson"

definition acceptance_transcript ::
    "pairing_ext \<Rightarrow> pairing_invitation \<Rightarrow> public_identity \<Rightarrow> string \<Rightarrow> transport_binding option
      \<Rightarrow> peer_role list \<Rightarrow> peer_role list \<Rightarrow> core_error + bytes" where
  "acceptance_transcript X invitation responder responder_name responder_transport responder_roles inviter_roles =
     ok_or (px_transcript_json X \<lparr>at_invitation_id = pv_invitation_id invitation,
       at_invitation_commitment = pv_invitation_secret_commitment invitation,
       at_inviter_device_id = pv_inviter_device_id invitation,
       at_inviter_public_key = pv_inviter_public_key invitation,
       at_inviter_device_name = pv_inviter_device_name invitation,
       at_responder_device_id = pi_device_id responder, at_responder_public_key = pi_public_key responder,
       at_responder_name = responder_name, at_responder_transport = responder_transport,
       at_responder_roles = responder_roles, at_inviter_roles = inviter_roles,
       at_protocol_version = PROTOCOL_VERSION\<rparr>) CoreJson"

definition validate_transport_binding ::
    "pairing_ext \<Rightarrow> transport_binding \<Rightarrow> public_identity \<Rightarrow> string \<Rightarrow> core_error + unit" where
  "validate_transport_binding X binding identity expected_name =
     rbind (fail_if (tb_peer_id binding \<noteq> pi_device_id identity
       \<or> tb_display_name binding \<noteq> expected_name
       \<or> length (tb_address binding) > 128
       \<or> vec_len (tb_certificate_der binding) > 128 * 1024
       \<or> length (tb_certificate_fingerprint binding) \<noteq> 64) IdentityMismatch) (\<lambda>_.
     rbind (ok_or (parse_socket (tb_address binding))
       (CoreInvalidState ''invalid paired transport address'')) (\<lambda>address.
     rbind (fail_if (sock_port address = 0 \<or> show_socket address \<noteq> tb_address binding)
       (CoreInvalidState ''paired transport address is not canonical'')) (\<lambda>_.
     rbind (ok_or (b64url_decode X (tb_certificate_der binding)) InvalidKeyMaterial) (\<lambda>certificate.
     rbind (fail_if (certificate = [] \<or> vec_len certificate > 64 * 1024) InvalidKeyMaterial) (\<lambda>_.
     fail_if (px_sha256_hex X certificate \<noteq> tb_certificate_fingerprint binding
       \<or> list_ex (\<lambda>b. \<not> is_ascii_hexdigit b \<or> is_ascii_uppercase b) (tb_certificate_fingerprint binding))
       IdentityMismatch)))))"

text \<open>Four groups of four decimal digits, from the first eight bytes of the keyed hash.\<close>

abbreviation pad4 :: "int \<Rightarrow> string" where
  "pad4 n \<equiv> map (\<lambda>d. digit_char (n div d mod 10)) [1000, 100, 10, 1]"

definition authentication_string :: "pairing_ext \<Rightarrow> bytes \<Rightarrow> bytes \<Rightarrow> string" where
  "authentication_string X secret transcript =
     join_with ''-'' (map (\<lambda>pair. pad4 (be_value pair mod 10000))
       (chunks_exact 2 (take 8 (px_keyed_hash X secret transcript))))"

section \<open>The exchange\<close>

abbreviation validate_optional_transport ::
    "pairing_ext \<Rightarrow> transport_binding option \<Rightarrow> public_identity \<Rightarrow> string \<Rightarrow> core_error + unit" where
  "validate_optional_transport X binding identity expected_name \<equiv>
     (case binding of None \<Rightarrow> Inr () | Some b \<Rightarrow> validate_transport_binding X b identity expected_name)"

definition accept_inner ::
    "pairing_ext \<Rightarrow> pairing_invitation \<Rightarrow> device_identity \<Rightarrow> string \<Rightarrow> transport_binding option
      \<Rightarrow> peer_role list \<Rightarrow> peer_role list \<Rightarrow> u64 \<Rightarrow> core_error + pairing_session" where
  "accept_inner X invitation responder responder_name responder_transport responder_roles inviter_roles now_unix_ms =
     rbind (validate_invitation X invitation now_unix_ms) (\<lambda>_.
     rbind (invitation_identity X invitation) (\<lambda>inviter.
     rbind (invitation_signing_bytes X invitation) (\<lambda>signing.
     rbind (identity_verify X inviter INVITATION_SIGNATURE_DOMAIN signing (pv_signature invitation)) (\<lambda>_.
     rbind (fail_if (pi_device_id inviter = di_device_id responder) IdentityMismatch) (\<lambda>_.
     rbind (validate_display_name responder_name) (\<lambda>_.
     let responder_public = device_public_identity X responder in
     rbind (validate_optional_transport X responder_transport responder_public responder_name) (\<lambda>_.
     rbind (acceptance_transcript X invitation responder_public responder_name responder_transport
       responder_roles inviter_roles) (\<lambda>transcript.
     rbind (decode_invitation_secret X invitation) (\<lambda>secret.
     Inr \<lparr>ps_invitation = invitation, ps_responder_device_id = pi_device_id responder_public,
       ps_responder_public_key = pi_public_key responder_public, ps_responder_name = responder_name,
       ps_responder_transport = responder_transport, ps_responder_roles = responder_roles,
       ps_inviter_roles = inviter_roles,
       ps_authentication_string = authentication_string X secret transcript,
       ps_responder_acceptance_signature = device_sign X responder PAIRING_ACCEPTANCE_DOMAIN transcript,
       ps_responder_confirmation_signature = None, ps_inviter_confirmation_signature = None\<rparr>)))))))))"

definition responder_identity :: "pairing_ext \<Rightarrow> pairing_session \<Rightarrow> core_error + public_identity" where
  "responder_identity X session =
     identity_from_encoded X (ps_responder_device_id session) (ps_responder_public_key session)"

definition session_transcript :: "pairing_ext \<Rightarrow> pairing_session \<Rightarrow> core_error + bytes" where
  "session_transcript X session =
     rbind (responder_identity X session) (\<lambda>responder.
     acceptance_transcript X (ps_invitation session) responder (ps_responder_name session)
       (ps_responder_transport session) (ps_responder_roles session) (ps_inviter_roles session))"

definition session_validate :: "pairing_ext \<Rightarrow> pairing_session \<Rightarrow> u64 \<Rightarrow> core_error + unit" where
  "session_validate X session now_unix_ms =
     rbind (validate_invitation X (ps_invitation session) now_unix_ms) (\<lambda>_.
     rbind (validate_display_name (ps_responder_name session)) (\<lambda>_.
     rbind (invitation_identity X (ps_invitation session)) (\<lambda>inviter.
     rbind (invitation_signing_bytes X (ps_invitation session)) (\<lambda>signing.
     rbind (identity_verify X inviter INVITATION_SIGNATURE_DOMAIN signing
       (pv_signature (ps_invitation session))) (\<lambda>_.
     rbind (responder_identity X session) (\<lambda>responder.
     rbind (validate_optional_transport X (pv_transport_binding (ps_invitation session)) inviter
       (pv_inviter_device_name (ps_invitation session))) (\<lambda>_.
     rbind (validate_optional_transport X (ps_responder_transport session) responder
       (ps_responder_name session)) (\<lambda>_.
     rbind (session_transcript X session) (\<lambda>transcript.
     rbind (identity_verify X responder PAIRING_ACCEPTANCE_DOMAIN transcript
       (ps_responder_acceptance_signature session)) (\<lambda>_.
     rbind (decode_invitation_secret X (ps_invitation session)) (\<lambda>secret.
     fail_if (authentication_string X secret transcript \<noteq> ps_authentication_string session)
       IdentityMismatch)))))))))))"

definition verify_confirmations :: "pairing_ext \<Rightarrow> pairing_session \<Rightarrow> u64 \<Rightarrow> core_error + unit" where
  "verify_confirmations X session now_unix_ms =
     rbind (session_validate X session now_unix_ms) (\<lambda>_.
     rbind (session_transcript X session) (\<lambda>transcript.
     rbind (responder_identity X session) (\<lambda>responder.
     rbind (ok_or (ps_responder_confirmation_signature session) PairingNotConfirmed) (\<lambda>signature.
     rbind (identity_verify X responder RESPONDER_CONFIRMATION_DOMAIN transcript signature) (\<lambda>_.
     rbind (invitation_identity X (ps_invitation session)) (\<lambda>inviter.
     rbind (ok_or (ps_inviter_confirmation_signature session) PairingNotConfirmed) (\<lambda>signature.
     identity_verify X inviter INVITER_CONFIRMATION_DOMAIN transcript signature)))))))"

definition session_confirmation :: "pairing_session \<Rightarrow> u64 \<Rightarrow> pairing_confirmation" where
  "session_confirmation session now_unix_ms =
     \<lparr>pc_inviter_grant = \<lparr>pg_peer_device_id = ps_responder_device_id session,
        pg_public_key = ps_responder_public_key session, pg_display_name = ps_responder_name session,
        pg_roles = ps_responder_roles session, pg_confirmed_at_unix_ms = now_unix_ms, pg_revoked = False\<rparr>,
      pc_responder_grant = \<lparr>pg_peer_device_id = pv_inviter_device_id (ps_invitation session),
        pg_public_key = pv_inviter_public_key (ps_invitation session),
        pg_display_name = pv_inviter_device_name (ps_invitation session),
        pg_roles = ps_inviter_roles session, pg_confirmed_at_unix_ms = now_unix_ms, pg_revoked = False\<rparr>,
      pc_inviter_transport = pv_transport_binding (ps_invitation session),
      pc_responder_transport = ps_responder_transport session\<rparr>"

definition merge_confirmation_signature ::
    "pairing_ext \<Rightarrow> string option \<Rightarrow> string option \<Rightarrow> public_identity \<Rightarrow> bytes \<Rightarrow> bytes
      \<Rightarrow> core_error + string option" where
  "merge_confirmation_signature X destination source signer domain transcript =
     (case source of
        None \<Rightarrow> Inr destination
      | Some signature \<Rightarrow>
          rbind (identity_verify X signer domain transcript signature) (\<lambda>_.
          rbind (fail_if (opt_any (\<lambda>incumbent. incumbent \<noteq> signature) destination) IdentityMismatch) (\<lambda>_.
          Inr (Some signature))))"

text \<open>A failure after the first merge leaves the responder's signature merged.\<close>

definition merge_confirmations_from ::
    "pairing_ext \<Rightarrow> pairing_session \<Rightarrow> u64 \<Rightarrow> (pairing_session, core_error, unit) step" where
  "merge_confirmations_from X peer now_unix_ms =
     sbind (sget id) (\<lambda>session.
     sbind (slift (session_validate X session now_unix_ms)) (\<lambda>_.
     sbind (slift (session_validate X peer now_unix_ms)) (\<lambda>_.
     sbind (slift (session_transcript X session)) (\<lambda>transcript.
     sbind (slift (session_transcript X peer)) (\<lambda>peer_transcript.
     sbind (slift (fail_if (transcript \<noteq> peer_transcript
       \<or> ps_authentication_string session \<noteq> ps_authentication_string peer
       \<or> pv_invitation_id (ps_invitation session) \<noteq> pv_invitation_id (ps_invitation peer)) IdentityMismatch)) (\<lambda>_.
     sbind (slift (responder_identity X session)) (\<lambda>responder.
     sbind (slift (invitation_identity X (ps_invitation session))) (\<lambda>inviter.
     sbind (slift (merge_confirmation_signature X (ps_responder_confirmation_signature session)
       (ps_responder_confirmation_signature peer) responder RESPONDER_CONFIRMATION_DOMAIN transcript)) (\<lambda>merged.
     sbind (smodify (\<lambda>s. s\<lparr>ps_responder_confirmation_signature := merged\<rparr>)) (\<lambda>_.
     sbind (slift (merge_confirmation_signature X (ps_inviter_confirmation_signature session)
       (ps_inviter_confirmation_signature peer) inviter INVITER_CONFIRMATION_DOMAIN transcript)) (\<lambda>merged.
     smodify (\<lambda>s. s\<lparr>ps_inviter_confirmation_signature := merged\<rparr>))))))))))))"

definition confirm_responder ::
    "pairing_ext \<Rightarrow> string \<Rightarrow> device_identity \<Rightarrow> u64 \<Rightarrow> pairing_session \<Rightarrow> core_error + pairing_session" where
  "confirm_responder X displayed responder now_unix_ms session =
     rbind (session_validate X session now_unix_ms) (\<lambda>_.
     rbind (fail_if (displayed \<noteq> ps_authentication_string session
       \<or> di_device_id responder \<noteq> ps_responder_device_id session) IdentityMismatch) (\<lambda>_.
     rbind (session_transcript X session) (\<lambda>transcript.
     Inr (session\<lparr>ps_responder_confirmation_signature :=
       Some (device_sign X responder RESPONDER_CONFIRMATION_DOMAIN transcript)\<rparr>))))"

definition finalize_for_responder ::
    "pairing_ext \<Rightarrow> pairing_session \<Rightarrow> device_identity \<Rightarrow> u64 \<Rightarrow> core_error + pairing_confirmation" where
  "finalize_for_responder X session responder now_unix_ms =
     rbind (fail_if (di_device_id responder \<noteq> ps_responder_device_id session) IdentityMismatch) (\<lambda>_.
     rbind (verify_confirmations X session now_unix_ms) (\<lambda>_.
     Inr (session_confirmation session now_unix_ms)))"

fun confirmation_peer_grant :: "pairing_confirmation \<Rightarrow> pairing_side \<Rightarrow> peer_grant" where
  "confirmation_peer_grant c Inviter = pc_inviter_grant c"
| "confirmation_peer_grant c Responder = pc_responder_grant c"

fun confirmation_peer_transport :: "pairing_confirmation \<Rightarrow> pairing_side \<Rightarrow> transport_binding option" where
  "confirmation_peer_transport c Inviter = pc_responder_transport c"
| "confirmation_peer_transport c Responder = pc_inviter_transport c"

section \<open>The manager of the inviter\<close>

text \<open>
  The manager with the content of its state file, \<open>None\<close> when there is none. No operation panics while it
  holds a lock of the manager, so the locks are left out. \<open>state_meta\<close> is what \<open>symlink_metadata\<close> reports
  of a file that exists.
\<close>

record pairing_manager =
  pm_identity :: device_identity
  pm_device_name :: string
  pm_state_path :: "path option"
  pm_state :: pairing_state
  pm_disk :: "bytes option"

record state_meta =
  sm_inspect :: bool
  sm_regular :: bool
  sm_mode :: u32

definition default_pairing_state :: pairing_state where
  "default_pairing_state = \<lparr>pt_schema_version = PAIRING_STATE_SCHEMA_VERSION, pt_pending = fmempty,
     pt_consumed_until = fmempty\<rparr>"

definition prune_state :: "u64 \<Rightarrow> pairing_state \<Rightarrow> pairing_state" where
  "prune_state now_unix_ms state = state\<lparr>
     pt_pending := bt_retain (\<lambda>_ pending. pn_expires_at_unix_ms pending > now_unix_ms) (pt_pending state),
     pt_consumed_until := bt_retain (\<lambda>_ expires_at. expires_at > now_unix_ms) (pt_consumed_until state)\<rparr>"

definition validate_pending :: "pairing_state \<Rightarrow> pairing_session \<Rightarrow> u64 \<Rightarrow> core_error + unit" where
  "validate_pending state session now_unix_ms =
     (let invitation = ps_invitation session in
     rbind (fail_if (fmlookup (pt_consumed_until state) (pv_invitation_id invitation) \<noteq> None)
       InvitationUnavailable) (\<lambda>_.
     rbind (ok_or (fmlookup (pt_pending state) (pv_invitation_id invitation)) InvitationUnavailable) (\<lambda>pending.
     fail_if (pn_expires_at_unix_ms pending \<le> now_unix_ms
       \<or> pn_expires_at_unix_ms pending \<noteq> pv_expires_at_unix_ms invitation
       \<or> pn_secret_commitment pending \<noteq> pv_invitation_secret_commitment invitation) InvitationUnavailable)))"

definition persist_state :: "pairing_ext \<Rightarrow> file_io \<Rightarrow> (pairing_manager, core_error, unit) step" where
  "persist_state X io =
     (\<lambda>m. case pm_state_path m of
        None \<Rightarrow> (Inr (), m)
      | Some path \<Rightarrow>
          (case px_state_to_vec X (pm_state m) of
             None \<Rightarrow> (Inl CoreJson, m)
           | Some bytes \<Rightarrow>
               (case write_atomic io path bytes True (pm_disk m) of (r, d) \<Rightarrow> (r, m\<lparr>pm_disk := d\<rparr>))))"

definition persisted_state_ok :: "pairing_ext \<Rightarrow> pairing_state \<Rightarrow> bool" where
  "persisted_state_ok X state \<longleftrightarrow>
     pt_schema_version state = PAIRING_STATE_SCHEMA_VERSION
     \<and> bt_len (pt_pending state) \<le> MAX_PENDING_INVITATIONS
     \<and> bt_len (pt_consumed_until state) \<le> 4096
     \<and> list_all (\<lambda>(id, pending). valid_invitation_id X id \<and> pn_expires_at_unix_ms pending \<noteq> 0
          \<and> valid_lower_hex_digest (pn_secret_commitment pending)
          \<and> fmlookup (pt_consumed_until state) id = None) (sorted_list_of_fmap (pt_pending state))
     \<and> list_all (\<lambda>(id, expiry). valid_invitation_id X id \<and> expiry \<noteq> 0)
          (sorted_list_of_fmap (pt_consumed_until state))"

definition pairing_open ::
    "pairing_ext \<Rightarrow> file_io \<Rightarrow> state_meta \<Rightarrow> device_identity \<Rightarrow> string \<Rightarrow> path \<Rightarrow> bytes option
      \<Rightarrow> core_error + pairing_manager" where
  "pairing_open X io meta identity device_name state_path disk =
     rbind (validate_display_name device_name) (\<lambda>_.
     rbind (if \<not> sm_inspect meta then Inl (CoreIo ''inspect pairing state'') else
       case disk of
         None \<Rightarrow> Inr default_pairing_state
       | Some _ \<Rightarrow>
           rbind (fail_if (\<not> sm_regular meta)
             (CoreInvalidState ''pairing state is not a regular file'')) (\<lambda>_.
           rbind (fail_if (sm_mode meta AND 63 \<noteq> 0)
             (CoreInvalidState ''pairing state permissions are too broad'')) (\<lambda>_.
           rbind (fst (read_bounded io MAX_PAIRING_STATE_BYTES disk)) (\<lambda>bytes.
           rbind (ok_or (px_state_from_slice X bytes) CoreJson) (\<lambda>state.
           rbind (fail_if (\<not> persisted_state_ok X state)
             (CoreInvalidState ''unsupported or excessive pairing state'')) (\<lambda>_. Inr state)))))) (\<lambda>state.
     Inr \<lparr>pm_identity = identity, pm_device_name = device_name, pm_state_path = Some state_path,
       pm_state = state, pm_disk = disk\<rparr>))"

text \<open>The identifier and the secret are the bytes the random generator returns.\<close>

definition create_invitation_inner ::
    "pairing_ext \<Rightarrow> file_io \<Rightarrow> bytes \<Rightarrow> bytes \<Rightarrow> u64 \<Rightarrow> u64 \<Rightarrow> string list \<Rightarrow> transport_binding option
      \<Rightarrow> (pairing_manager, core_error, pairing_invitation) step" where
  "create_invitation_inner X io id_bytes secret now_unix_ms lifetime_ms endpoints transport_binding =
     sbind (sget id) (\<lambda>m.
     let device_name = pm_device_name m; public = device_public_identity X (pm_identity m) in
     sbind (slift (validate_display_name device_name)) (\<lambda>_.
     sbind (slift (validate_optional_transport X transport_binding public device_name)) (\<lambda>_.
     sbind (slift (fail_if (lifetime_ms = 0 \<or> lifetime_ms > MAX_INVITATION_LIFETIME_MS
       \<or> length endpoints > 16 \<or> list_ex (\<lambda>e. e = [] \<or> length e > 512) endpoints)
       (ResourceLimit ''pairing invitation''))) (\<lambda>_.
     sbind (slift (ok_or (checked_add now_unix_ms lifetime_ms)
       (ResourceLimit ''pairing invitation expiry''))) (\<lambda>expires_at_unix_ms.
     sbind (smodify (pm_state_update (prune_state now_unix_ms))) (\<lambda>_.
     sbind (sget (bt_len \<circ> pt_pending \<circ> pm_state)) (\<lambda>pending.
     sbind (slift (fail_if (pending \<ge> MAX_PENDING_INVITATIONS)
       (ResourceLimit ''pending pairing invitations''))) (\<lambda>_.
     let invitation_id = b64url_encode X id_bytes; commitment = blake3_hex X secret;
         invitation = \<lparr>pv_protocol_version = PROTOCOL_VERSION, pv_minimum_protocol_version = PROTOCOL_VERSION,
           pv_inviter_device_id = pi_device_id public, pv_inviter_public_key = pi_public_key public,
           pv_inviter_device_name = device_name, pv_invitation_id = invitation_id,
           pv_invitation_secret = b64url_encode X secret, pv_invitation_secret_commitment = commitment,
           pv_expires_at_unix_ms = expires_at_unix_ms, pv_endpoints = endpoints,
           pv_transport_binding = transport_binding, pv_signature = []\<rparr> in
     sbind (slift (invitation_signing_bytes X invitation)) (\<lambda>signing.
     sbind (smodify (pm_state_update (pt_pending_update (fmupd invitation_id
       \<lparr>pn_expires_at_unix_ms = expires_at_unix_ms, pn_secret_commitment = commitment\<rparr>)))) (\<lambda>_.
     sbind (persist_state X io) (\<lambda>_.
     sret (invitation\<lparr>pv_signature :=
       device_sign X (pm_identity m) INVITATION_SIGNATURE_DOMAIN signing\<rparr>))))))))))))"

definition update_device_name :: "string \<Rightarrow> (pairing_manager, core_error, unit) step" where
  "update_device_name device_name =
     sbind (slift (validate_display_name device_name)) (\<lambda>_.
     smodify (\<lambda>m. m\<lparr>pm_device_name := device_name\<rparr>))"

text \<open>\<open>consume\<close>: the invitation leaves the pending ones and is refused until it expires.\<close>

definition consume :: "string \<Rightarrow> u64 \<Rightarrow> pairing_state \<Rightarrow> pairing_state" where
  "consume invitation_id expiry state = state\<lparr>pt_pending := fmdrop invitation_id (pt_pending state),
     pt_consumed_until := fmupd invitation_id expiry (pt_consumed_until state)\<rparr>"

definition cancel_invitation ::
    "pairing_ext \<Rightarrow> file_io \<Rightarrow> string \<Rightarrow> u64 \<Rightarrow> (pairing_manager, core_error, unit) step" where
  "cancel_invitation X io invitation_id now_unix_ms =
     sbind (slift (fail_if (\<not> valid_invitation_id X invitation_id) InvitationUnavailable)) (\<lambda>_.
     sbind (smodify (pm_state_update (prune_state now_unix_ms))) (\<lambda>_.
     sbind (sget (\<lambda>m. fmlookup (pt_pending (pm_state m)) invitation_id)) (\<lambda>found.
     sbind (slift (ok_or found InvitationUnavailable)) (\<lambda>pending.
     sbind (smodify (pm_state_update (consume invitation_id (pn_expires_at_unix_ms pending)))) (\<lambda>_.
     persist_state X io)))))"

text \<open>The session is signed before the state is written, so a failed write leaves it signed.\<close>

definition on_manager ::
    "(pairing_manager, core_error, 'a) step \<Rightarrow> (pairing_manager \<times> pairing_session, core_error, 'a) step" where
  "on_manager f = (\<lambda>(m, session). case f m of (r, m') \<Rightarrow> (r, (m', session)))"

definition confirm_inviter ::
    "pairing_ext \<Rightarrow> file_io \<Rightarrow> string \<Rightarrow> u64 \<Rightarrow> (pairing_manager \<times> pairing_session, core_error, unit) step" where
  "confirm_inviter X io displayed now_unix_ms =
     sbind (sget id) (\<lambda>(m, session).
     sbind (slift (session_validate X session now_unix_ms)) (\<lambda>_.
     sbind (slift (fail_if (displayed \<noteq> ps_authentication_string session
       \<or> pv_inviter_device_id (ps_invitation session) \<noteq> di_device_id (pm_identity m)) IdentityMismatch)) (\<lambda>_.
     sbind (smodify (apfst (pm_state_update (prune_state now_unix_ms)))) (\<lambda>_.
     sbind (sget (pm_state \<circ> fst)) (\<lambda>state.
     sbind (slift (validate_pending state session now_unix_ms)) (\<lambda>_.
     sbind (slift (responder_identity X session)) (\<lambda>responder.
     sbind (slift (session_transcript X session)) (\<lambda>transcript.
     sbind (slift (ok_or (ps_responder_confirmation_signature session) PairingNotConfirmed)) (\<lambda>signature.
     sbind (slift (identity_verify X responder RESPONDER_CONFIRMATION_DOMAIN transcript signature)) (\<lambda>_.
     sbind (smodify (apsnd (ps_inviter_confirmation_signature_update (\<lambda>_.
       Some (device_sign X (pm_identity m) INVITER_CONFIRMATION_DOMAIN transcript))))) (\<lambda>_.
     on_manager (persist_state X io))))))))))))"

definition pairing_finalize ::
    "pairing_ext \<Rightarrow> file_io \<Rightarrow> pairing_session \<Rightarrow> u64
      \<Rightarrow> (pairing_manager, core_error, pairing_confirmation) step" where
  "pairing_finalize X io session now_unix_ms =
     (let invitation = ps_invitation session in
     sbind (slift (verify_confirmations X session now_unix_ms)) (\<lambda>_.
     sbind (sget id) (\<lambda>m.
     sbind (slift (fail_if (pv_inviter_device_id invitation \<noteq> di_device_id (pm_identity m))
       IdentityMismatch)) (\<lambda>_.
     sbind (smodify (pm_state_update (prune_state now_unix_ms))) (\<lambda>_.
     sbind (sget pm_state) (\<lambda>state.
     sbind (slift (validate_pending state session now_unix_ms)) (\<lambda>_.
     sbind (smodify (pm_state_update
       (consume (pv_invitation_id invitation) (pv_expires_at_unix_ms invitation)))) (\<lambda>_.
     sbind (persist_state X io) (\<lambda>_.
     sret (session_confirmation session now_unix_ms))))))))))"

section \<open>Runs of the manager\<close>

text \<open>
  The calls of a manager, each with the outcome of the system calls it makes, and what they return. A
  process that stops keeps only the file, as it was last renamed; losing a rename that was not synced, when
  the machine itself goes down, is not modelled. Only this process writes the file, so nothing is appended
  while it is read.
\<close>

datatype pairing_call =
    CreateInvitation bytes bytes u64 u64 "string list" "transport_binding option"
  | UpdateDeviceName string
  | CancelInvitation string u64
  | ConfirmInviter pairing_session string u64
  | Finalize pairing_session u64

fun pairing_call_result :: "pairing_ext \<Rightarrow> file_io \<Rightarrow> pairing_call \<Rightarrow> (pairing_manager, core_error, unit) step" where
  "pairing_call_result X io (CreateInvitation i k now life es tb) =
     sbind (create_invitation_inner X io i k now life es tb) (\<lambda>_. sret ())"
| "pairing_call_result X io (UpdateDeviceName name) = update_device_name name"
| "pairing_call_result X io (CancelInvitation i now) = cancel_invitation X io i now"
| "pairing_call_result X io (ConfirmInviter session displayed now) =
     (\<lambda>m. case confirm_inviter X io displayed now (m, session) of (r, (m', _)) \<Rightarrow> (r, m'))"
| "pairing_call_result X io (Finalize session now) =
     sbind (pairing_finalize X io session now) (\<lambda>_. sret ())"

text \<open>The invitation a call uses up or approves, and the one it may issue.\<close>

fun call_uses :: "pairing_call \<Rightarrow> string option" where
  "call_uses (CancelInvitation i now) = Some i"
| "call_uses (ConfirmInviter session displayed now) = Some (pv_invitation_id (ps_invitation session))"
| "call_uses (Finalize session now) = Some (pv_invitation_id (ps_invitation session))"
| "call_uses _ = None"

fun call_issues :: "pairing_ext \<Rightarrow> pairing_call \<Rightarrow> string option" where
  "call_issues X (CreateInvitation i k now life es tb) = Some (b64url_encode X i)"
| "call_issues X _ = None"

datatype pairing_system = Running pairing_manager | Stopped "bytes option"

datatype pairing_event = Called pairing_call "core_error + unit" | Crashed | Reopened

inductive pairing_run :: "pairing_ext \<Rightarrow> pairing_system \<Rightarrow> pairing_event list \<Rightarrow> pairing_system \<Rightarrow> bool"
  for X :: pairing_ext where
  run_done: "pairing_run X s [] s"
| run_call: "pairing_call_result X io call m = (r, m') \<Longrightarrow> pairing_run X (Running m') es s
    \<Longrightarrow> pairing_run X (Running m) (Called call r # es) s"
| run_crash: "pairing_run X (Stopped (pm_disk m)) es s \<Longrightarrow> pairing_run X (Running m) (Crashed # es) s"
| run_reopen: "pairing_open X io meta identity name path disk = Inr m \<Longrightarrow> fi_grown io = []
    \<Longrightarrow> pairing_run X (Running m) es s \<Longrightarrow> pairing_run X (Stopped disk) (Reopened # es) s"

text \<open>\<open>serde_json\<close> reads back the state it wrote.\<close>

definition state_codec_ok :: "pairing_ext \<Rightarrow> bool" where
  "state_codec_ok X \<longleftrightarrow>
     (\<forall>state bytes. px_state_to_vec X state = Some bytes \<longrightarrow> px_state_from_slice X bytes = Some state)"

text \<open>The invitation is not pending, in memory or in the file.\<close>

definition not_pending :: "string \<Rightarrow> pairing_state \<Rightarrow> bool" where
  "not_pending i state \<longleftrightarrow> fmlookup (pt_pending state) i = None"

definition disk_spent :: "pairing_ext \<Rightarrow> string \<Rightarrow> bytes option \<Rightarrow> bool" where
  "disk_spent X i disk \<longleftrightarrow>
     (\<forall>bs state. disk = Some bs \<longrightarrow> px_state_from_slice X bs = Some state \<longrightarrow> not_pending i state)"

definition spent :: "pairing_ext \<Rightarrow> string \<Rightarrow> pairing_manager \<Rightarrow> bool" where
  "spent X i m \<longleftrightarrow> not_pending i (pm_state m) \<and> disk_spent X i (pm_disk m)"

fun system_spent :: "pairing_ext \<Rightarrow> string \<Rightarrow> pairing_system \<Rightarrow> bool" where
  "system_spent X i (Running m) = spent X i m"
| "system_spent X i (Stopped disk) = disk_spent X i disk"

lemma not_pending_updates [simp]:
  "not_pending i state \<Longrightarrow> not_pending i (prune_state now state)"
  "not_pending i (consume i expiry state)"
  "not_pending i state \<Longrightarrow> not_pending i (consume j expiry state)"
  "not_pending i state \<Longrightarrow> j \<noteq> i \<Longrightarrow> not_pending i (pt_pending_update (fmupd j p) state)"
  by (auto simp: not_pending_def prune_state_def consume_def)

lemma validate_pending_refuses:
  "not_pending (pv_invitation_id (ps_invitation session)) state
    \<Longrightarrow> validate_pending state session now = Inl InvitationUnavailable"
  by (auto simp: validate_pending_def not_pending_def Let_def fail_if_def ok_or_def rbind_def)

lemma validate_pending_accepts:
  "validate_pending (prune_state now state) session now' = Inr ()
    \<Longrightarrow> \<not> not_pending (pv_invitation_id (ps_invitation session)) state"
  using validate_pending_refuses[OF not_pending_updates(1)] by fastforce

lemma write_atomic_cases:
  assumes "write_atomic io path bytes private d = (r, d')"
  shows "d' = d \<and> (\<exists>e. r = Inl e) \<or> d' = Some bytes"
  using assms
  by (auto simp: write_atomic_def stage_atomic_def write_all_def rbind_def log_steps sfail_def io_check_def
      fail_if_def sync_directory_def split: if_splits sum.splits prod.splits)

lemma disk_spent_written:
  "state_codec_ok X \<Longrightarrow> px_state_to_vec X state = Some bs \<Longrightarrow> not_pending i state \<Longrightarrow> disk_spent X i (Some bs)"
  by (auto simp: disk_spent_def state_codec_ok_def)

lemma spent_simps [simp]:
  "spent X i (pm_state_update f m) \<longleftrightarrow> not_pending i (f (pm_state m)) \<and> disk_spent X i (pm_disk m)"
  "spent X i (m\<lparr>pm_device_name := name\<rparr>) \<longleftrightarrow> spent X i m"
  by (simp_all add: spent_def)

lemma spentD:
  assumes "spent X i m"
  shows "not_pending i (pm_state m)" "disk_spent X i (pm_disk m)"
  using assms by (simp_all add: spent_def)

text \<open>A write keeps the invitation spent whether it succeeds or not; one that succeeds makes it so.\<close>

lemma persist_state_spent:
  assumes "state_codec_ok X" "spent X i m"
  shows "swp (persist_state X io) (\<lambda>r m'. spent X i m') m"
  using assms
  by (auto simp: swp_def persist_state_def spent_def disk_spent_written
      dest!: write_atomic_cases split: option.splits prod.splits)

lemma persist_state_durable:
  assumes "state_codec_ok X" "not_pending i (pm_state m)" "pm_state_path m \<noteq> None"
  shows "swp (persist_state X io) (\<lambda>r m'. r = Inr () \<longrightarrow> spent X i m') m"
  using assms
  by (auto simp: swp_def persist_state_def spent_def disk_spent_written
      dest!: write_atomic_cases split: option.splits prod.splits)

lemma create_keeps_spent:
  assumes "state_codec_ok X" "spent X i m" "b64url_encode X id_bytes \<noteq> i"
  shows "swp (create_invitation_inner X io id_bytes secret now life es tb) (\<lambda>r m'. spent X i m') m"
  unfolding create_invitation_inner_def Let_def
  by (intro swp_intros swp_bind_step[OF persist_state_spent[OF assms(1)]])
    (use assms spentD[OF assms(2)] in \<open>auto simp: o_def\<close>)

lemma cancel_keeps_spent:
  assumes "state_codec_ok X" "spent X i m"
  shows "swp (cancel_invitation X io j now) (\<lambda>r m'. spent X i m' \<and> (j = i \<longrightarrow> r \<noteq> Inr ())) m"
proof (cases "j = i")
  case True
  then show ?thesis unfolding cancel_invitation_def
    by (intro swp_intros) (use spentD[OF assms(2)] in
      \<open>auto simp: assms(2) not_pending_def prune_state_def ok_or_def split: option.splits\<close>)
next
  case False
  then show ?thesis unfolding cancel_invitation_def
    by (intro swp_intros swp_mono[OF persist_state_spent[OF assms(1)]])
      (use assms spentD[OF assms(2)] in auto)
qed

lemma finalize_keeps_spent:
  assumes "state_codec_ok X" "spent X i m"
  shows "swp (pairing_finalize X io session now)
    (\<lambda>r m'. spent X i m' \<and> (pv_invitation_id (ps_invitation session) = i \<longrightarrow> (\<exists>e. r = Inl e))) m"
  unfolding pairing_finalize_def Let_def
  by (intro swp_intros swp_bind_step[OF persist_state_spent[OF assms(1)]])
    (use assms spentD[OF assms(2)] in \<open>auto dest!: validate_pending_accepts\<close>)

lemma swp_on_manager:
  "swp f (\<lambda>r m'. Q r (m', session)) m \<Longrightarrow> swp (on_manager f) Q (m, session)"
  by (simp add: swp_def on_manager_def split: prod.splits)

lemma confirm_keeps_spent:
  assumes "state_codec_ok X" "spent X i m"
  shows "swp (confirm_inviter X io displayed now)
    (\<lambda>r (m', _). spent X i m' \<and> (pv_invitation_id (ps_invitation session) = i \<longrightarrow> r \<noteq> Inr ())) (m, session)"
  unfolding confirm_inviter_def
  apply (rule swp_bind_sget)
  apply (simp only: id_apply prod.case)
  by (intro swp_intros; (simp only: apfst_conv apsnd_conv)?;
     (intro swp_on_manager swp_mono[OF persist_state_spent[OF assms(1)]])?)
    (use assms spentD[OF assms(2)] in \<open>auto dest!: validate_pending_accepts\<close>)

lemma call_keeps_spent:
  assumes "state_codec_ok X" "spent X i m" "call_issues X call \<noteq> Some i"
    "pairing_call_result X io call m = (r, m')"
  shows "spent X i m' \<and> (call_uses call = Some i \<longrightarrow> r \<noteq> Inr ())"
proof (cases call)
  case (CreateInvitation a b c d e f)
  then show ?thesis using assms swpD[OF create_keeps_spent[OF assms(1,2)]]
    by (auto simp: sbind_def sret_def split: prod.splits sum.splits)
next
  case (UpdateDeviceName name)
  then show ?thesis using assms
    by (auto simp: update_device_name_def sbind_def slift_def smodify_def split: sum.splits)
next
  case (CancelInvitation j now)
  then show ?thesis using assms(4) swpD[OF cancel_keeps_spent[OF assms(1,2)]] by auto
next
  case (ConfirmInviter session displayed now)
  then show ?thesis using assms(4) swpD[OF confirm_keeps_spent[OF assms(1,2)]]
    by (fastforce split: prod.splits)
next
  case (Finalize session now)
  then show ?thesis using assms(4) swpD[OF finalize_keeps_spent[OF assms(1,2)]]
    by (fastforce simp: sbind_def sret_def split: prod.splits sum.splits)
qed

lemma open_keeps_spent:
  assumes "pairing_open X io meta identity name path disk = Inr m" "fi_grown io = []" "disk_spent X i disk"
  shows "spent X i m"
proof (cases disk)
  case None
  then show ?thesis using assms
    by (auto simp: pairing_open_def spent_def not_pending_def default_pairing_state_def split: if_splits)
next
  case (Some bs)
  have read: "bytes = bs" if "fst (read_bounded io MAX_PAIRING_STATE_BYTES (Some bs)) = Inr bytes" for bytes
    using that assms(2)
    by (auto simp: read_bounded_def log_steps sfail_def sret_def vec_len_def fail_if_def io_check_def Let_def
        split: if_splits)
  from assms Some show ?thesis
    by (auto simp: pairing_open_def spent_def disk_spent_def ok_or_def dest!: read split: if_splits option.splits)
qed

lemma run_keeps_spent:
  assumes "pairing_run X s es t" "state_codec_ok X" "system_spent X i s"
    "\<And>call r. Called call r \<in> set es \<Longrightarrow> call_issues X call \<noteq> Some i"
  shows "Called call r \<in> set es \<Longrightarrow> call_uses call = Some i \<Longrightarrow> r \<noteq> Inr ()"
  using assms
proof (induction arbitrary: call r rule: pairing_run.induct)
  case (run_call io call' m r' m' es s)
  from run_call.prems(4) run_call.hyps(1) run_call.prems(3,5) have
    "spent X i m' \<and> (call_uses call' = Some i \<longrightarrow> r' \<noteq> Inr ())"
    by (intro call_keeps_spent[of X i m call' io]) auto
  with run_call show ?case by auto
next
  case (run_crash m es s)
  then show ?case by (auto simp: spent_def)
next
  case (run_reopen io meta identity name path disk m es s)
  then show ?case using open_keeps_spent[OF run_reopen.hyps(1,2)] by auto
qed simp

lemma finalize_spends:
  assumes "state_codec_ok X" "pm_state_path m \<noteq> None"
    "pairing_finalize X io session now m = (Inr c, m')"
  shows "spent X (pv_invitation_id (ps_invitation session)) m'"
proof -
  have "swp (pairing_finalize X io session now)
    (\<lambda>r m'. \<forall>c. r = Inr c \<longrightarrow> spent X (pv_invitation_id (ps_invitation session)) m') m"
    unfolding pairing_finalize_def Let_def
    by (intro swp_intros swp_bind_step[OF persist_state_durable[OF assms(1)]]) (use assms(2) in auto)
  from swpD[OF this assms(3)] show ?thesis by simp
qed

section \<open>An exchange\<close>

text \<open>Total functions in place of the primitives, and the exchange of two devices up to \<open>finalize\<close>.\<close>

definition demo_pending_state :: pairing_state where
  "demo_pending_state = default_pairing_state\<lparr>pt_pending := fmap_of_list [(replicate 16 (CHR ''i''),
     \<lparr>pn_expires_at_unix_ms = 2000, pn_secret_commitment = replicate 64 (CHR ''a'')\<rparr>)]\<rparr>"

definition demo_consumed_state :: pairing_state where
  "demo_consumed_state = default_pairing_state\<lparr>pt_consumed_until :=
     fmap_of_list [(replicate 16 (CHR ''i''), 2000)]\<rparr>"

definition demo_pairing_ext :: pairing_ext where
  "demo_pairing_ext = \<lparr>
     b64url_encode = (\<lambda>bs. bs), b64url_decode = Some,
     b64std_encode = (\<lambda>bs. bs), b64std_decode = Some,
     blake3_hex = (\<lambda>bs. replicate 64 (CHR ''a'')),
     ed_public = (\<lambda>key. take 32 (key @ replicate 32 (CHR 0x00))), ed_key_ok = (\<lambda>key. length key = 32),
     ed_sign = (\<lambda>key m. take 32 (key @ replicate 32 (CHR 0x00)) @ take 32 (rev m @ replicate 32 (CHR 0x00))),
     ed_verify = (\<lambda>key m sig. sig = key @ take 32 (rev m @ replicate 32 (CHR 0x00))),
     px_keyed_hash = (\<lambda>key m. take 32 (rev m @ key)),
     px_sha256_hex = (\<lambda>bs. replicate 64 (CHR ''b'')),
     px_invitation_json = (\<lambda>v. Some (pv_invitation_secret v @ pv_invitation_id v)),
     px_transcript_json = (\<lambda>f. Some (at_invitation_id f @ at_responder_name f)),
     px_state_to_vec = (\<lambda>state. if state = demo_pending_state then Some ''pending''
       else if state = demo_consumed_state then Some ''consumed'' else None),
     px_state_from_slice = (\<lambda>bs. if bs = ''pending'' then Some demo_pending_state
       else if bs = ''consumed'' then Some demo_consumed_state else None)\<rparr>"

definition demo_inviter :: device_identity where
  "demo_inviter = \<lparr>di_device_id = DeviceId 1, di_signing_key = ''alice''\<rparr>"

definition demo_responder :: device_identity where
  "demo_responder = \<lparr>di_device_id = DeviceId 2, di_signing_key = ''bob''\<rparr>"

definition demo_pairing_manager :: pairing_manager where
  "demo_pairing_manager = \<lparr>pm_identity = demo_inviter, pm_device_name = ''Alice'',
     pm_state_path = Some ''/var/pairing.json'', pm_state = default_pairing_state, pm_disk = None\<rparr>"

definition demo_exchange :: "(pairing_manager \<times> pairing_session) option" where
  "demo_exchange =
     (case create_invitation_inner demo_pairing_ext healthy_io (replicate 16 (CHR ''i'')) (replicate 32 (CHR ''s''))
        1000 1000 [] None demo_pairing_manager of
        (Inr invitation, m) \<Rightarrow>
          (case accept_inner demo_pairing_ext invitation demo_responder ''Bob'' None [] [] 1100 of
             Inr session \<Rightarrow>
               (case confirm_responder demo_pairing_ext (ps_authentication_string session) demo_responder 1200 session of
                  Inr session \<Rightarrow>
                    (case confirm_inviter demo_pairing_ext healthy_io (ps_authentication_string session) 1300
                       (m, session) of
                       (Inr _, done) \<Rightarrow> Some done
                     | _ \<Rightarrow> None)
                | _ \<Rightarrow> None)
           | _ \<Rightarrow> None)
      | _ \<Rightarrow> None)"

definition demo_meta :: state_meta where
  "demo_meta = \<lparr>sm_inspect = True, sm_regular = True, sm_mode = 384\<rparr>"

lemma demo_state_codec_ok: "state_codec_ok demo_pairing_ext"
  by (auto simp: state_codec_ok_def demo_pairing_ext_def)

lemma demo_exchange_finalizes:
  "case demo_exchange of None \<Rightarrow> False | Some (m, session) \<Rightarrow>
     pm_state_path m \<noteq> None
     \<and> (case pairing_finalize demo_pairing_ext healthy_io session 1400 m of
          (Inl _, _) \<Rightarrow> False | (Inr _, m') \<Rightarrow> pm_disk m' = Some ''consumed'')"
  by code_simp

lemma demo_reopens:
  "\<exists>m. pairing_open demo_pairing_ext healthy_io demo_meta demo_inviter ''Alice'' ''/var/pairing.json''
     (Some ''consumed'') = Inr m"
proof -
  have "read_bounded healthy_io MAX_PAIRING_STATE_BYTES (Some ''consumed'') = (Inr ''consumed'', Some ''consumed'')"
    by (simp add: read_bounded_def log_steps sret_def vec_len_def fail_if_def)
  moreover have "validate_display_name ''Alice'' = Inr ()" "sm_mode demo_meta AND 63 = 0" "sm_inspect demo_meta"
    "sm_regular demo_meta" "px_state_from_slice demo_pairing_ext ''consumed'' = Some demo_consumed_state"
    by code_simp+
  moreover have "persisted_state_ok demo_pairing_ext demo_consumed_state"
    by code_simp
  ultimately show ?thesis by (simp add: pairing_open_def fail_if_def ok_or_def)
qed

text \<open>
  C40. An invitation pairs at most once. Once \<open>finalize\<close> has returned grants for an invitation on a manager
  with a state file, no later call that finalizes, confirms or cancels the same invitation identifier
  succeeds: for any sequence of calls with any clock readings, any failing or partly failing writes, and any
  crashes of the process and restarts from the file in between, unless a new invitation draws the same random identifier.
\<close>

theorem invitation_single_use:
  assumes "state_codec_ok X" "pm_state_path m \<noteq> None"
    "pairing_finalize X io session now m = (Inr c, m')"
    "pairing_run X (Running m') es s"
    "\<forall>call r. Called call r \<in> set es \<longrightarrow> call_issues X call \<noteq> Some (pv_invitation_id (ps_invitation session))"
    "Called call r \<in> set es" "call_uses call = Some (pv_invitation_id (ps_invitation session))"
  shows "r \<noteq> Inr ()"
  using run_keeps_spent[OF assms(4,1), of "pv_invitation_id (ps_invitation session)" call r]
    finalize_spends[OF assms(1-3)] assms(5-7) by auto

theorem invitation_single_use_witness:
  "\<exists>m session c m' r s. demo_exchange = Some (m, session)
     \<and> pairing_finalize demo_pairing_ext healthy_io session 1400 m = (Inr c, m')
     \<and> pairing_run demo_pairing_ext (Running m') [Crashed, Reopened, Called (Finalize session 1500) r] s
     \<and> r \<noteq> Inr ()"
proof -
  obtain m session c m' where d: "demo_exchange = Some (m, session)" "pm_state_path m \<noteq> None"
      "pairing_finalize demo_pairing_ext healthy_io session 1400 m = (Inr c, m')" "pm_disk m' = Some ''consumed''"
    using demo_exchange_finalizes by (auto split: option.splits prod.splits sum.splits)
  obtain n where n: "pairing_open demo_pairing_ext healthy_io demo_meta demo_inviter ''Alice''
      ''/var/pairing.json'' (pm_disk m') = Inr n"
    using demo_reopens d(4) by auto
  obtain r n' where r: "pairing_call_result demo_pairing_ext healthy_io (Finalize session 1500) n = (r, n')"
    by (cases "pairing_call_result demo_pairing_ext healthy_io (Finalize session 1500) n")
  have run: "pairing_run demo_pairing_ext (Running m')
      [Crashed, Reopened, Called (Finalize session 1500) r] (Running n')"
    by (rule run_crash run_reopen[OF n] run_call[OF r] run_done healthy_io_simps)+
  have "r \<noteq> Inr ()"
    using invitation_single_use[OF demo_state_codec_ok d(2,3) run, of "Finalize session 1500" r] by auto
  with d run show ?thesis by blast
qed

end
