(* ===== verification/Spec2Isabelle.thy ===== *)
theory Spec2Isabelle
  imports Handshake Journal_Replicas Journal_Guards Backup_Run Backup_Crypto Pairing
begin

text \<open>
  A verification library for Covalent, a private device-to-device folder sharing and backup
  program written in Rust.

  \<^bold>\<open>The program.\<close> \<open>covalent-protocol\<close> holds the wire records, \<open>covalent-core\<close> the device identity,
  the signed records and the backup engine, \<open>covalent-node\<close> the sync engine with its durable
  folder-sharing journal, the transport and the HTTP surface. The core of the product is the
  journal (\<open>covalent-node/src/sync_engine/sharing.rs\<close>): two devices exchange a signed offer,
  acceptance and commit, and only a share with all three becomes eligible for transfer.

  \<^bold>\<open>The theories.\<close>
  \<^item> \<open>Prelude\<close>: machine integers, UUIDs, strings and paths, \<open>Result\<close>, state-and-error steps,
    \<open>BTreeMap\<close>.
  \<^item> \<open>Net\<close>: \<open>SocketAddr\<close> with its parser and printer.
  \<^item> \<open>Protocol\<close>: \<open>covalent-protocol/src/lib.rs\<close>, the engine binding and the sharing records.
  \<^item> \<open>Identity\<close>: \<open>covalent-core/src/identity.rs\<close>, public and signing identities.
  \<^item> \<open>Folder_Sharing\<close>: \<open>covalent-core/src/folder_sharing.rs\<close>, creation and verification of the
    three signed records.
  \<^item> \<open>Demo\<close>: concrete devices on which witnesses evaluate.
  \<^item> \<open>Handshake\<close>: what holds of the exchange.
  \<^item> \<open>State_Store\<close>: \<open>sync_engine/state.rs\<close>, the authenticated record on disk and its replacement.
  \<^item> \<open>Sharing_Types\<close>: the data of the journal and the environment its methods consult.
  \<^item> \<open>Endpoint_Roster\<close>, \<open>Link_Settings\<close>, \<open>Link_Runs\<close>: the functions of \<open>sharing/*.rs\<close> on a
    snapshot.
  \<^item> \<open>Engine_Config\<close>: \<open>sync_engine/config.rs\<close>, checked settings of an engine session, and the
    grant tokens of \<open>android_saf.rs\<close>.
  \<^item> \<open>Snapshot_Checks\<close>: trust, roots, retained offers and \<open>validate_snapshot\<close>.
  \<^item> \<open>Journal\<close>: \<open>persist\<close> and \<open>reconcile_trust\<close>.
  \<^item> \<open>Journal_Settings\<close>, \<open>Journal_Runs\<close>, \<open>Journal_Sharing\<close>, \<open>Address_Refresh\<close>, \<open>Journal_Views\<close>:
    the methods of \<open>FolderSharingJournal\<close>.
  \<^item> \<open>Journal_Moves\<close>: the journal as a state machine; every method moves along it.
  \<^item> \<open>Journal_Demo\<close>: two concrete installations on which witnesses run the journal.
  \<^item> \<open>Journal_Consent\<close>: identifiers of invitations over the life of a journal.
  \<^item> \<open>Journal_Order\<close>: settings, rosters and runs only move forward, whatever methods are called.
  \<^item> \<open>Journal_Replicas\<close>: the change of settings as a compare-and-set, and what a destination that
    hears of the source's states late, twice or out of order ends up with.
  \<^item> \<open>Journal_Durable\<close>: memory and disk agree, and an uncertain write stops the journal.
  \<^item> \<open>Journal_Release\<close>: what the journal hands to the transfer engine.
  \<^item> \<open>Journal_Guards\<close>: revoked trust, linked folders apart on disk, overdue and early runs, and
    what a run commit shows a destination.
  \<^item> \<open>Chunker\<close>: \<open>covalent-core/src/chunker.rs\<close>, the streaming chunker of the backup engine against a
    declarative reference, when it returns for a reader that may never end, and the sizes of its chunks.
  \<^item> \<open>Core_Error\<close>: the error types of the shared crates. \<open>Byte_Codec\<close>: big-endian integers.
  \<^item> \<open>Record_Log\<close>: \<open>covalent-core/src/atomic.rs\<close>, atomic files and the append-only record log: an
    append is atomic under faults, a read returns a valid prefix, a rewrite equals fresh appends.
  \<^item> \<open>Manifest_Contract\<close>: relative paths and \<open>Manifest::validate\<close> of \<open>covalent-protocol/src/lib.rs\<close>:
    accepted paths stay below their root, the layout of a valid manifest is sound.
  \<^item> \<open>Backup_Checkpoint\<close>: the write-ahead log of a backup job (\<open>covalent-core/src/backup.rs\<close> and the
    checkpoint methods of \<open>storage.rs\<close>): what a compaction keeps; what an interrupted creation does.
  \<^item> \<open>Backup_Run\<close>: the loop of \<open>scan_source_with_chunk_sink\<close> over what the walk of the source delivers:
    completed entries survive faults, compaction and reuse, and are returned on resume.
  \<^item> \<open>Backup_Crypto\<close>: \<open>covalent-core/src/crypto.rs\<close>, encryption of a chunk and its provider record: the
    round trip through a provider, and that a provider cannot substitute content.
  \<^item> \<open>Pairing\<close>: \<open>covalent-core/src/pairing.rs\<close>, invitations, the exchange of two devices and the manager
    of the inviter with its state file: an invitation pairs at most once, across failures and restarts.

  \<^bold>\<open>Conventions.\<close> \<open>u16\<close>, \<open>u32\<close> and \<open>u64\<close> are words. A \<open>Result\<close> is a sum, \<open>Inl\<close> the error. The
  order of checks is the order of the source, so the model returns the same error. Code
  outside the repository (base64, BLAKE3, Ed25519, \<open>serde_json\<close>) is a field of the records
  \<open>ext\<close> and \<open>sharing_ext\<close>; what is relied on is stated in \<open>ext_ok\<close> and \<open>share_ext_ok\<close>, which the
  demo instance satisfies; the file system of the backup engine is a record of system calls that
  may fail (\<open>file_io\<close>), its hash and JSON codec are fields of \<open>backup_env\<close> (\<open>hash_width\<close>, \<open>json_ok\<close>), and the primitives of
  chunk encryption fields of \<open>chunk_ext\<close> (\<open>chunk_ext_ok\<close>); \<open>pairing_ext\<close> adds those of pairing (\<open>state_codec_ok\<close>). A loop of the chunker
  that may run forever is a partial function whose \<open>None\<close> is not returning. No definition of the model
  needs fuel for termination except the number printer of \<open>Net\<close>, whose bound is the number of digits of
  the type. Statements about what the journal releases, keeps or starts are spelled out on the fields of
  its records and of the node configuration, and statements about a log on its bytes.

  \<^bold>\<open>Not modelled.\<close> Process supervision, network transport, HTTP, the command line, the native
  apps, and of the backup engine the walk of the source and the reading of its files (what they
  deliver is an argument), the object store, restore,
  replication and recovery. A crash stops the process, not the machine: a rename is never lost.
\<close>

end
